(* ===== verification/Prelude.thy ===== *)
theory Prelude
  imports Main "HOL-Library.AList"
begin

text \<open>
  Shared vocabulary of the development: Rust's \<open>Result\<close> as a sum type with the error on the
  left, the combinators of \<open>Option\<close> and \<open>Result\<close> the sources use, the \<open>HashSet\<close>-backed
  "keep the first of each key" filter that several listings share, decimal printing of
  \<open>usize\<close> values, and generic facts about association lists.  Strings are Rust's UTF-8
  byte strings: a \<^typ>\<open>string\<close> is the list of bytes.
\<close>

named_theorems topology_defs "definitions of the topology operations"
named_theorems handler_defs "definitions of the request handlers"

subsection \<open>Results\<close>

text \<open>Rust's \<open>Result<A, E>\<close>; \<open>Inl\<close> is \<open>Err\<close> and \<open>Inr\<close> is \<open>Ok\<close>.\<close>

type_synonym ('e, 'a) result = "'e + 'a"

definition ok_or :: "'e \<Rightarrow> 'a option \<Rightarrow> ('e, 'a) result" where
  "ok_or e x = (case x of None \<Rightarrow> Inl e | Some a \<Rightarrow> Inr a)"

definition map_err :: "('e \<Rightarrow> 'f) \<Rightarrow> ('e, 'a) result \<Rightarrow> ('f, 'a) result" where
  "map_err f r = (case r of Inl e \<Rightarrow> Inl (f e) | Inr a \<Rightarrow> Inr a)"

definition map_ok :: "('a \<Rightarrow> 'b) \<Rightarrow> ('e, 'a) result \<Rightarrow> ('e, 'b) result" where
  "map_ok f r = (case r of Inl e \<Rightarrow> Inl e | Inr a \<Rightarrow> Inr (f a))"

definition and_then :: "('e, 'a) result \<Rightarrow> ('a \<Rightarrow> ('e, 'b) result) \<Rightarrow> ('e, 'b) result" where
  "and_then r f = (case r of Inl e \<Rightarrow> Inl e | Inr a \<Rightarrow> f a)"

lemma ok_or_simps [simp]:
  "ok_or e None = Inl e" "ok_or e (Some a) = Inr a"
  by (simp_all add: ok_or_def)

lemma map_err_simps [simp]:
  "map_err f (Inl e) = Inl (f e)" "map_err f (Inr a) = Inr a"
  by (simp_all add: map_err_def)

lemma map_ok_simps [simp]:
  "map_ok f (Inl e) = Inl e" "map_ok f (Inr a) = Inr (f a)"
  by (simp_all add: map_ok_def)

lemma and_then_simps [simp]:
  "and_then (Inl e) f = Inl e" "and_then (Inr a) f = f a"
  by (simp_all add: and_then_def)

lemma ok_or_Inr_iff [simp]: "ok_or e x = Inr a \<longleftrightarrow> x = Some a"
  by (cases x) simp_all

lemma ok_or_Inl_iff [simp]: "ok_or e x = Inl e' \<longleftrightarrow> x = None \<and> e' = e"
  by (cases x) auto

lemma map_err_Inr_iff [simp]: "map_err f r = Inr a \<longleftrightarrow> r = Inr a"
  by (cases r) simp_all

lemma map_err_Inl_iff: "map_err f r = Inl e \<longleftrightarrow> (\<exists>e'. r = Inl e' \<and> e = f e')"
  by (cases r) auto

lemma map_ok_Inl_iff [simp]: "map_ok f r = Inl e \<longleftrightarrow> r = Inl e"
  by (cases r) simp_all

lemma map_ok_ident: "map_ok (\<lambda>x. x) r = r"
  by (cases r) simp_all

lemma map_ok_Inr_iff: "map_ok f r = Inr b \<longleftrightarrow> (\<exists>a. r = Inr a \<and> b = f a)"
  by (cases r) auto

lemma and_then_Inr_iff:
  "and_then r f = Inr b \<longleftrightarrow> (\<exists>a. r = Inr a \<and> f a = Inr b)"
  by (cases r) simp_all

lemma and_then_Inl_iff:
  "and_then r f = Inl e \<longleftrightarrow> r = Inl e \<or> (\<exists>a. r = Inr a \<and> f a = Inl e)"
  by (cases r) simp_all

text \<open>\<open>bool::then_some\<close> and the slice method \<open>contains\<close>.\<close>

definition then_some :: "bool \<Rightarrow> 'a \<Rightarrow> 'a option" where
  "then_some b x = (if b then Some x else None)"

lemma then_some_simps [simp]:
  "then_some True x = Some x" "then_some False x = None"
  by (simp_all add: then_some_def)

subsection \<open>Collecting fallible results\<close>

text \<open>\<open>iter().map(f).collect::<Result<Vec<_>, _>>()\<close>: all values, or the first error.\<close>

fun collect_results :: "('a \<Rightarrow> ('e, 'b) result) \<Rightarrow> 'a list \<Rightarrow> ('e, 'b list) result" where
  "collect_results f [] = Inr []"
| "collect_results f (x # xs) =
     (case f x of Inl e \<Rightarrow> Inl e | Inr y \<Rightarrow> map_ok ((#) y) (collect_results f xs))"

lemma collect_results_Inr_iff:
  "collect_results f xs = Inr ys \<longleftrightarrow> list_all2 (\<lambda>x y. f x = Inr y) xs ys"
proof (induction xs arbitrary: ys)
  case Nil
  then show ?case by auto
next
  case (Cons x xs)
  show ?case
  proof (cases "f x")
    case (Inl e)
    then show ?thesis by (auto simp: list_all2_Cons1)
  next
    case (Inr y)
    then show ?thesis
      using Cons.IH by (cases "collect_results f xs") (auto simp: list_all2_Cons1)
  qed
qed

lemma collect_results_Inl_iff:
  "(\<exists>e. collect_results f xs = Inl e) \<longleftrightarrow> (\<exists>x \<in> set xs. \<exists>e. f x = Inl e)"
proof (induction xs)
  case Nil
  then show ?case by simp
next
  case (Cons x xs)
  then show ?case
    by (cases "f x"; cases "collect_results f xs") auto
qed

subsection \<open>Keeping the first element of each key\<close>

text \<open>
  \<open>iter.filter(|m| seen.insert(key(m)))\<close> with a \<open>HashSet\<close>: \<open>insert\<close> answers whether the
  key was new, so an element is kept exactly when its key has not been seen.
\<close>

fun keep_unseen :: "('a \<Rightarrow> 'k) \<Rightarrow> 'k set \<Rightarrow> 'a list \<Rightarrow> 'a list" where
  "keep_unseen key seen [] = []"
| "keep_unseen key seen (x # xs) =
     (if key x \<in> seen then keep_unseen key seen xs
      else x # keep_unseen key (insert (key x) seen) xs)"

lemma keep_unseen_subset: "set (keep_unseen key seen xs) \<subseteq> set xs"
  by (induction xs arbitrary: seen) auto

lemma keep_unseen_keys: "key ` set (keep_unseen key seen xs) = key ` set xs - seen"
  by (induction xs arbitrary: seen) auto

lemma keep_unseen_distinct: "distinct (map key (keep_unseen key seen xs))"
proof (induction xs arbitrary: seen)
  case Nil
  then show ?case by simp
next
  case (Cons x xs)
  have "key x \<notin> key ` set (keep_unseen key (insert (key x) seen) xs)"
    by (simp add: keep_unseen_keys)
  then show ?case using Cons.IH by auto
qed

lemma keep_unseen_map:
  "keep_unseen key seen (map f xs) = map f (keep_unseen (key \<circ> f) seen xs)"
  by (induction xs arbitrary: seen) auto

text \<open>The element that is kept for a key is the first one in the list.\<close>

lemma keep_unseen_first:
  assumes "x \<in> set (keep_unseen key seen xs)"
  shows "\<exists>ys zs. xs = ys @ x # zs \<and> key x \<notin> key ` set ys"
  using assms
proof (induction xs arbitrary: seen)
  case Nil
  then show ?case by simp
next
  case (Cons a xs)
  show ?case
  proof (cases "x = a \<and> key a \<notin> seen")
    case True
    then have "a # xs = [] @ x # xs \<and> key x \<notin> key ` set []" by simp
    then show ?thesis by blast
  next
    case False
    define seen' where "seen' = (if key a \<in> seen then seen else insert (key a) seen)"
    have x: "x \<in> set (keep_unseen key seen' xs)"
      using Cons.prems False by (auto simp: seen'_def split: if_splits)
    then obtain ys zs where split: "xs = ys @ x # zs" "key x \<notin> key ` set ys"
      using Cons.IH by blast
    have "key x \<notin> seen'"
      using x keep_unseen_keys [of key seen' xs] by blast
    then have "key x \<noteq> key a"
      by (auto simp: seen'_def split: if_splits)
    with split have "a # xs = (a # ys) @ x # zs \<and> key x \<notin> key ` set (a # ys)" by simp
    then show ?thesis by blast
  qed
qed

lemma find_by_key:
  "distinct (map key xs) \<Longrightarrow> x \<in> set xs \<Longrightarrow> find (\<lambda>y. key y = key x) xs = Some x"
  by (induction xs) auto

subsection \<open>Association lists\<close>

lemma map_of_None_fst: "map_of xs k = None \<longleftrightarrow> k \<notin> set (map fst xs)"
  by (simp add: map_of_eq_None_iff)

lemma update_fresh:
  "k \<notin> set (map fst xs) \<Longrightarrow> AList.update k v xs = xs @ [(k, v)]"
  by (induction xs) auto

lemma map_fst_update_present:
  "k \<in> set (map fst xs) \<Longrightarrow> map fst (AList.update k v xs) = map fst xs"
  by (induction xs) auto

lemma set_map_fst_update:
  "set (map fst (AList.update k v xs)) = insert k (set (map fst xs))"
  by (induction xs) auto

lemma map_fst_delete: "map fst (AList.delete k xs) = filter (\<lambda>x. x \<noteq> k) (map fst xs)"
  by (induction xs) auto

lemma delete_filter_comm:
  "AList.delete k (filter P xs) = filter P (AList.delete k xs)"
  by (induction xs) auto

lemma set_update_subset: "set (AList.update k v xs) \<subseteq> insert (k, v) (set xs)"
  by (induction xs) auto

lemma set_delete_subset: "set (AList.delete k xs) \<subseteq> set xs"
  by (induction xs) auto

text \<open>Looking every key of a filtered association list up in the whole list gives its values.\<close>

lemma filter_map_lookup_self:
  assumes "distinct (map fst xs)"
  shows "List.map_filter (map_of xs) (map fst (filter P xs)) = map snd (filter P xs)"
proof -
  have aux: "List.map_filter (map_of xs) (map fst ys) = map snd ys" if "set ys \<subseteq> set xs" for ys
    using that
  proof (induction ys)
    case Nil
    then show ?case by (simp add: List.map_filter_simps)
  next
    case (Cons y ys)
    obtain k v where y: "y = (k, v)" by (cases y)
    with Cons.prems have "map_of xs k = Some v" using assms by (auto intro: map_of_is_SomeI)
    with Cons y show ?case by (simp add: List.map_filter_simps)
  qed
  show ?thesis by (rule aux) auto
qed

lemma map_filter_Some_map: "List.map_filter (\<lambda>x. Some (f x)) xs = map f xs"
  by (induction xs) (simp_all add: List.map_filter_simps)

subsection \<open>Decimal text of unsigned integers\<close>

text \<open>\<open>Display\<close> of \<open>usize\<close>.\<close>

definition digit_char :: "nat \<Rightarrow> char" where
  "digit_char d = ''0123456789'' ! d"

fun show_nat :: "nat \<Rightarrow> string" where
  "show_nat n = (if n < 10 then [digit_char n] else show_nat (n div 10) @ [digit_char (n mod 10)])"

declare show_nat.simps [simp del]

lemma show_nat_nonempty [simp]: "show_nat n \<noteq> []"
  by (subst show_nat.simps) simp

subsection \<open>Joining and stripping text\<close>

text \<open>\<open>[&str]::join\<close> and \<open>str::strip_prefix\<close>.\<close>

fun join_with :: "string \<Rightarrow> string list \<Rightarrow> string" where
  "join_with sep [] = []"
| "join_with sep [x] = x"
| "join_with sep (x # y # ys) = x @ sep @ join_with sep (y # ys)"

fun strip_prefix :: "string \<Rightarrow> string \<Rightarrow> string option" where
  "strip_prefix [] s = Some s"
| "strip_prefix (c # cs) [] = None"
| "strip_prefix (c # cs) (x # xs) = (if c = x then strip_prefix cs xs else None)"

lemma strip_prefix_Some_iff: "strip_prefix p s = Some r \<longleftrightarrow> s = p @ r"
  by (induction p s rule: strip_prefix.induct) auto

end
