(* ===== verification/Index_Containers.thy ===== *)
theory Index_Containers
  imports Prelude
begin

text \<open>
  The insertion-ordered containers \<open>IndexMap\<close> and \<open>IndexSet\<close> of the \<open>indexmap\<close> crate are not
  part of the repository.  They are parameters of the model: a record of the operations the
  sources call, with the crate's documented behaviour as the laws of the locales
  \<open>ordered_map\<close> and \<open>ordered_set\<close>, all stated through the iteration order that the crate
  documents.  The repository's own secondary indexes, a \<open>HashMap\<close> from a key to an
  \<open>IndexSet\<close> of ids, are modelled on top of them, with the exactness property that their
  clients rely on.
\<close>

subsection \<open>The operations\<close>

record ('k, 'v, 'm) index_map =
  im_new :: 'm
  im_with_capacity :: "nat \<Rightarrow> 'm"
  im_insert :: "'k \<Rightarrow> 'v \<Rightarrow> 'm \<Rightarrow> 'm \<times> 'v option"
  im_shift_remove :: "'k \<Rightarrow> 'm \<Rightarrow> 'm \<times> 'v option"
  im_get :: "'m \<Rightarrow> 'k \<Rightarrow> 'v option"
  im_values :: "'m \<Rightarrow> 'v list"
  im_iter :: "'m \<Rightarrow> ('k \<times> 'v) list"

record ('a, 's) index_set =
  is_new :: 's
  is_insert :: "'a \<Rightarrow> 's \<Rightarrow> 's"
  is_shift_remove :: "'a \<Rightarrow> 's \<Rightarrow> 's"
  is_empty :: "'s \<Rightarrow> bool"
  is_iter :: "'s \<Rightarrow> 'a list"

subsection \<open>The documented laws\<close>

text \<open>
  \<open>insert\<close> keeps the position of a present key and appends a new one, and returns the value
  it replaced; \<open>shift_remove\<close> keeps the order of the others and returns the removed value;
  \<open>get\<close> and \<open>values\<close> agree with the iteration.
\<close>

locale ordered_map =
  fixes M :: "('k, 'v, 'm) index_map"
  assumes iter_new: "im_iter M (im_new M) = []"
    and iter_with_capacity: "im_iter M (im_with_capacity M n) = []"
    and iter_insert: "im_iter M (fst (im_insert M k v m)) = AList.update k v (im_iter M m)"
    and insert_replaced: "snd (im_insert M k v m) = map_of (im_iter M m) k"
    and iter_shift_remove: "im_iter M (fst (im_shift_remove M k m)) = AList.delete k (im_iter M m)"
    and shift_removed: "snd (im_shift_remove M k m) = map_of (im_iter M m) k"
    and get_iter: "im_get M m k = map_of (im_iter M m) k"
    and values_iter: "im_values M m = map snd (im_iter M m)"
begin

lemmas map_laws = iter_new iter_with_capacity iter_insert insert_replaced iter_shift_remove
  shift_removed get_iter values_iter

lemma get_after_insert:
  "im_get M (fst (im_insert M k v m)) k' = (if k' = k then Some v else im_get M m k')"
  by (simp add: map_laws update_conv)

lemma get_after_remove:
  "im_get M (fst (im_shift_remove M k m)) k' = (if k' = k then None else im_get M m k')"
  by (simp add: map_laws delete_conv)

lemma insert_distinct:
  "distinct (map fst (im_iter M m)) \<Longrightarrow> distinct (map fst (im_iter M (fst (im_insert M k v m))))"
  by (simp add: map_laws distinct_update)

lemma remove_distinct:
  "distinct (map fst (im_iter M m)) \<Longrightarrow> distinct (map fst (im_iter M (fst (im_shift_remove M k m))))"
  by (simp add: map_laws map_fst_delete)

end

locale ordered_set =
  fixes S :: "('a, 's) index_set"
  assumes iter_set_new: "is_iter S (is_new S) = []"
    and iter_set_insert: "is_iter S (is_insert S x s) =
          (if x \<in> set (is_iter S s) then is_iter S s else is_iter S s @ [x])"
    and iter_set_remove: "is_iter S (is_shift_remove S x s) = filter (\<lambda>y. y \<noteq> x) (is_iter S s)"
    and set_empty_iter: "is_empty S s \<longleftrightarrow> is_iter S s = []"
begin

lemmas set_laws = iter_set_new iter_set_insert iter_set_remove set_empty_iter

end

subsection \<open>Secondary indexes\<close>

text \<open>
  \<open>entry(key).or_default().insert(id)\<close>, and the removal that drops an entry whose set has
  become empty.
\<close>

definition index_add ::
  "('a, 's) index_set \<Rightarrow> string \<Rightarrow> 'a \<Rightarrow> (string \<rightharpoonup> 's) \<Rightarrow> (string \<rightharpoonup> 's)" where
  "index_add S key x idx =
     idx(key \<mapsto> is_insert S x (case idx key of None \<Rightarrow> is_new S | Some s \<Rightarrow> s))"

definition index_drop ::
  "('a, 's) index_set \<Rightarrow> string \<Rightarrow> 'a \<Rightarrow> (string \<rightharpoonup> 's) \<Rightarrow> (string \<rightharpoonup> 's)" where
  "index_drop S key x idx =
     (case idx key of
        None \<Rightarrow> idx
      | Some s \<Rightarrow>
          let s' = is_shift_remove S x s
          in if is_empty S s' then idx(key := None) else idx(key \<mapsto> s'))"

text \<open>\<open>index.get(key).into_iter().flatten()\<close>.\<close>

definition index_members :: "('a, 's) index_set \<Rightarrow> (string \<rightharpoonup> 's) \<Rightarrow> string \<Rightarrow> 'a list" where
  "index_members S idx key = (case idx key of None \<Rightarrow> [] | Some s \<Rightarrow> is_iter S s)"

text \<open>Structural health of an index: no empty sets, no repeated ids.\<close>

definition index_wf :: "('a, 's) index_set \<Rightarrow> (string \<rightharpoonup> 's) \<Rightarrow> bool" where
  "index_wf S idx \<longleftrightarrow>
     (\<forall>key s. idx key = Some s \<longrightarrow> is_iter S s \<noteq> [] \<and> distinct (is_iter S s))"

text \<open>
  The index answers as a scan of the indexed entries would: the members of a key are the ids
  of the entries carrying that key, in the order of the entries.
\<close>

definition index_scan :: "('v \<Rightarrow> string option) \<Rightarrow> ('k \<times> 'v) list \<Rightarrow> string \<Rightarrow> 'k list" where
  "index_scan tag entries key = map fst (filter (\<lambda>p. tag (snd p) = Some key) entries)"

definition index_exact ::
  "('a, 's) index_set \<Rightarrow> ('v \<Rightarrow> string option) \<Rightarrow> ('a \<times> 'v) list \<Rightarrow> (string \<rightharpoonup> 's) \<Rightarrow> bool" where
  "index_exact S tag entries idx \<longleftrightarrow>
     (\<forall>key. index_members S idx key = index_scan tag entries key)"

lemma index_scan_append:
  "index_scan tag (xs @ ys) key = index_scan tag xs key @ index_scan tag ys key"
  by (simp add: index_scan_def)

lemma index_scan_single:
  "index_scan tag [(k, v)] key = (if tag v = Some key then [k] else [])"
  by (simp add: index_scan_def)

lemma set_index_scan: "set (index_scan tag xs key) \<subseteq> set (map fst xs)"
  by (auto simp: index_scan_def)

text \<open>Overwriting an entry by one with the same tag does not change any scan.\<close>

lemma index_scan_update_same:
  assumes "map_of xs k = Some v0" and "tag v = tag v0"
  shows "index_scan tag (AList.update k v xs) key = index_scan tag xs key"
  using assms(1)
proof (induction xs)
  case Nil
  then show ?case by simp
next
  case (Cons p xs)
  show ?case
  proof (cases "fst p = k")
    case True
    with Cons.prems have "snd p = v0" by (cases p) auto
    with True assms(2) show ?thesis by (cases p) (auto simp: index_scan_def)
  next
    case False
    with Cons.prems have "map_of xs k = Some v0" by (cases p) auto
    then have "index_scan tag (AList.update k v xs) key = index_scan tag xs key"
      by (rule Cons.IH)
    with False show ?thesis by (cases p) (auto simp: index_scan_def)
  qed
qed

lemma index_scan_delete:
  "index_scan tag (AList.delete k xs) key = filter (\<lambda>x. x \<noteq> k) (index_scan tag xs key)"
  by (induction xs) (auto simp: index_scan_def)

lemma index_scan_distinct:
  "distinct (map fst xs) \<Longrightarrow> distinct (index_scan tag xs key)"
  by (simp add: index_scan_def distinct_map_filter)

lemma index_scan_mem:
  "distinct (map fst xs) \<Longrightarrow>
     k \<in> set (index_scan tag xs key) \<longleftrightarrow> (\<exists>v. map_of xs k = Some v \<and> tag v = Some key)"
proof -
  assume dist: "distinct (map fst xs)"
  have "k \<in> set (index_scan tag xs key) \<longleftrightarrow> (\<exists>v. (k, v) \<in> set xs \<and> tag v = Some key)"
    by (force simp: index_scan_def)
  with dist show ?thesis by (simp add: map_of_eq_Some_iff)
qed

context ordered_set
begin

lemma members_add:
  "index_members S (index_add S key x idx) key' =
     (if key' = key
      then (if x \<in> set (index_members S idx key) then index_members S idx key
            else index_members S idx key @ [x])
      else index_members S idx key')"
  by (auto simp: index_members_def index_add_def set_laws split: option.splits)

lemma members_drop:
  "index_members S (index_drop S key x idx) key' =
     (if key' = key then filter (\<lambda>y. y \<noteq> x) (index_members S idx key)
      else index_members S idx key')"
  by (auto simp: index_members_def index_drop_def set_laws Let_def split: option.splits)

lemma index_wf_empty: "index_wf S Map.empty"
  by (simp add: index_wf_def)

lemma index_wf_add: "index_wf S idx \<Longrightarrow> index_wf S (index_add S key x idx)"
  by (auto simp: index_wf_def index_add_def set_laws split: option.splits if_splits)

lemma index_wf_drop: "index_wf S idx \<Longrightarrow> index_wf S (index_drop S key x idx)"
  by (auto simp: index_wf_def index_drop_def set_laws Let_def split: option.splits if_splits)

lemma index_wf_forget: "index_wf S idx \<Longrightarrow> index_wf S (idx(key := None))"
  by (auto simp: index_wf_def split: if_splits)

lemma index_exact_empty: "index_exact S tag [] Map.empty"
  by (simp add: index_exact_def index_members_def index_scan_def)

text \<open>
  An insertion keeps the index exact when the id is new, or when it replaces an entry with
  the same tag.
\<close>

lemma index_exact_insert:
  assumes exact: "index_exact S tag xs idx" and dist: "distinct (map fst xs)"
    and stable: "\<And>v0. map_of xs k = Some v0 \<Longrightarrow> tag v0 = tag v"
  shows "index_exact S tag (AList.update k v xs)
           (case tag v of None \<Rightarrow> idx | Some key \<Rightarrow> index_add S key k idx)"
proof (cases "map_of xs k")
  case None
  then have fresh: "k \<notin> set (map fst xs)" by (simp add: map_of_eq_None_iff)
  then have notin: "k \<notin> set (index_scan tag xs key)" for key
    using set_index_scan [of tag xs key] by blast
  from fresh have "AList.update k v xs = xs @ [(k, v)]" by (rule update_fresh)
  with exact notin show ?thesis
    by (cases "tag v")
      (auto simp: index_exact_def members_add index_scan_append index_scan_single)
next
  case (Some v0)
  then have same: "tag v = tag v0" using stable by simp
  have scan: "index_scan tag (AList.update k v xs) key = index_scan tag xs key" for key
    using Some same by (rule index_scan_update_same)
  have "k \<in> set (index_scan tag xs key)" if "tag v = Some key" for key
    using that Some same dist by (auto simp: index_scan_mem)
  with exact scan show ?thesis
    by (cases "tag v") (auto simp: index_exact_def members_add)
qed

text \<open>Removing an entry together with its id in the index keeps the index exact.\<close>

lemma index_exact_remove:
  assumes exact: "index_exact S tag xs idx" and dist: "distinct (map fst xs)"
    and old: "map_of xs k = Some v"
  shows "index_exact S tag (AList.delete k xs)
           (case tag v of None \<Rightarrow> idx | Some key \<Rightarrow> index_drop S key k idx)"
proof -
  have notin: "k \<notin> set (index_scan tag xs key)" if "tag v \<noteq> Some key" for key
    using that old dist by (auto simp: index_scan_mem)
  have keep: "filter (\<lambda>x. x \<noteq> k) (index_scan tag xs key) = index_scan tag xs key"
    if "tag v \<noteq> Some key" for key
    using notin [OF that] by (induction "index_scan tag xs key") (auto simp: filter_id_conv)
  show ?thesis
  proof (cases "tag v")
    case None
    with exact keep show ?thesis by (auto simp: index_exact_def index_scan_delete)
  next
    case (Some key)
    with exact keep show ?thesis
      by (auto simp: index_exact_def index_scan_delete members_drop)
  qed
qed

text \<open>Dropping the whole entry of a key that tags nothing keeps the index exact.\<close>

lemma index_exact_forget:
  assumes "index_exact S tag xs idx" and "\<And>p. p \<in> set xs \<Longrightarrow> tag (snd p) \<noteq> Some key"
  shows "index_exact S tag xs (idx(key := None))"
  using assms by (auto simp: index_exact_def index_members_def index_scan_def filter_empty_conv)

end

subsection \<open>Lists as ordered containers\<close>

text \<open>
  The laws are met by association lists and lists without repetitions; these are the
  instances the concrete runs of the development use.
\<close>

definition alist_map :: "('k, 'v, ('k \<times> 'v) list) index_map" where
  "alist_map = \<lparr> im_new = [], im_with_capacity = (\<lambda>_. []),
     im_insert = (\<lambda>k v m. (AList.update k v m, map_of m k)),
     im_shift_remove = (\<lambda>k m. (AList.delete k m, map_of m k)),
     im_get = map_of, im_values = map snd, im_iter = (\<lambda>m. m) \<rparr>"

definition list_set :: "('a, 'a list) index_set" where
  "list_set = \<lparr> is_new = [], is_insert = (\<lambda>x s. if x \<in> set s then s else s @ [x]),
     is_shift_remove = (\<lambda>x s. filter (\<lambda>y. y \<noteq> x) s), is_empty = (\<lambda>s. s = []),
     is_iter = (\<lambda>s. s) \<rparr>"

interpretation alist: ordered_map alist_map
  by unfold_locales (simp_all add: alist_map_def)

interpretation dset: ordered_set list_set
  by unfold_locales (simp_all add: list_set_def)

end
