(* ===== verification/Models.thy ===== *)
theory Models
  imports Prelude
begin

text \<open>
  The wire types of \<open>opensovd-models\<close> (\<open>src/opensovd-models/src\<close>): error codes and errors,
  data categories and the data-resource payloads, discovery payloads and the version
  document.  A Rust struct is a record whose fields carry a short prefix for the struct, an
  enum is a datatype.  JSON values are \<open>serde_json::Value\<close>'s documented data model, with
  numbers kept as their literal text.  \<open>to_json\<close> functions spell out what the serde
  attributes on each struct ask for (renaming, omission of absent options).
\<close>

subsection \<open>JSON values\<close>

datatype json =
    JNull
  | JBool bool
  | JNumber string
  | JString string
  | JArray "json list"
  | JObject "(string \<times> json) list"

text \<open>\<open>skip_serializing_if = "Option::is_none"\<close>.\<close>

definition skip_none :: "string \<Rightarrow> ('a \<Rightarrow> json) \<Rightarrow> 'a option \<Rightarrow> (string \<times> json) list" where
  "skip_none field enc x = (case x of None \<Rightarrow> [] | Some a \<Rightarrow> [(field, enc a)])"

text \<open>
  Reading fields back: a required field, and an optional one (absent or null is \<open>None\<close>).  A
  field that occurs twice is refused, other fields are ignored.
\<close>

definition entries_of :: "(string \<times> json) list \<Rightarrow> string \<Rightarrow> json list" where
  "entries_of fields field = map snd (filter (\<lambda>(k, _). k = field) fields)"

definition present :: "(json \<Rightarrow> 'a option) \<Rightarrow> json list \<Rightarrow> 'a option" where
  "present dec js = (case js of [j] \<Rightarrow> dec j | _ \<Rightarrow> None)"

definition maybe_present :: "(json \<Rightarrow> 'a option) \<Rightarrow> json list \<Rightarrow> 'a option option" where
  "maybe_present dec js =
     (case js of
        [] \<Rightarrow> Some None
      | [j] \<Rightarrow> if j = JNull then Some None else map_option Some (dec j)
      | _ \<Rightarrow> None)"

definition required :: "(string \<times> json) list \<Rightarrow> string \<Rightarrow> (json \<Rightarrow> 'a option) \<Rightarrow> 'a option" where
  "required fields field dec = present dec (entries_of fields field)"

definition optional ::
  "(string \<times> json) list \<Rightarrow> string \<Rightarrow> (json \<Rightarrow> 'a option) \<Rightarrow> 'a option option" where
  "optional fields field dec = maybe_present dec (entries_of fields field)"

definition json_string :: "json \<Rightarrow> string option" where
  "json_string j = (case j of JString s \<Rightarrow> Some s | _ \<Rightarrow> None)"

fun json_strings :: "json list \<Rightarrow> string list option" where
  "json_strings [] = Some []"
| "json_strings (JString s # js) = map_option ((#) s) (json_strings js)"
| "json_strings (_ # js) = None"

definition json_string_list :: "json \<Rightarrow> string list option" where
  "json_string_list j = (case j of JArray js \<Rightarrow> json_strings js | _ \<Rightarrow> None)"

lemma entries_of_simps [simp]:
  "entries_of [] k = []"
  "entries_of ((k', j) # fields) k = (if k' = k then j # entries_of fields k else entries_of fields k)"
  "entries_of (fields @ fields') k = entries_of fields k @ entries_of fields' k"
  by (simp_all add: entries_of_def)

lemma entries_of_skip_none [simp]:
  "entries_of (skip_none f enc x) k =
     (if f = k then (case x of None \<Rightarrow> [] | Some a \<Rightarrow> [enc a]) else [])"
  by (simp add: skip_none_def split: option.split)

lemma present_single [simp]: "present dec [j] = dec j"
  by (simp add: present_def)

lemma maybe_present_simps [simp]:
  "maybe_present dec [] = Some None" "maybe_present dec [JNull] = Some None"
  "j \<noteq> JNull \<Longrightarrow> maybe_present dec [j] = map_option Some (dec j)"
  by (simp_all add: maybe_present_def)

lemma maybe_present_case [simp]:
  "(\<And>a. x = Some a \<Longrightarrow> enc a \<noteq> JNull \<and> dec (enc a) = Some a) \<Longrightarrow>
     maybe_present dec (case x of None \<Rightarrow> [] | Some a \<Rightarrow> [enc a]) = Some x"
  by (cases x) (simp_all add: maybe_present_def)

lemma maybe_present_value [simp]:
  "x \<noteq> Some JNull \<Longrightarrow> maybe_present Some (case x of None \<Rightarrow> [] | Some a \<Rightarrow> [id a]) = Some x"
  by (cases x) (simp_all add: maybe_present_def)

lemma json_string_simp [simp]: "json_string (JString s) = Some s"
  by (simp add: json_string_def)

lemma json_strings_map [simp]: "json_strings (map JString ss) = Some ss"
  by (induction ss) simp_all

subsection \<open>References\<close>

datatype uri_reference = UriReference string

datatype json_pointer = JsonPointer string

fun uri_text :: "uri_reference \<Rightarrow> string" where
  "uri_text (UriReference s) = s"

subsection \<open>Errors\<close>

datatype error_code =
    ErrorResponse
  | IncompleteRequest
  | InsufficientAccessRights
  | InvalidResponseContent
  | InvalidSignature
  | LockBroken
  | NotResponding
  | PreconditionNotFulfilled
  | SovdServerFailure
  | SovdServerMisconfigured
  | UpdateAutomatedNotSupported
  | UpdateExecutionInProgress
  | UpdatePreparationInProgress
  | UpdateProcessInProgress
  | VendorSpecific

text \<open>The names of \<open>#[serde(rename_all = "kebab-case")]\<close>.\<close>

fun error_code_str :: "error_code \<Rightarrow> string" where
  "error_code_str ErrorResponse = ''error-response''"
| "error_code_str IncompleteRequest = ''incomplete-request''"
| "error_code_str InsufficientAccessRights = ''insufficient-access-rights''"
| "error_code_str InvalidResponseContent = ''invalid-response-content''"
| "error_code_str InvalidSignature = ''invalid-signature''"
| "error_code_str LockBroken = ''lock-broken''"
| "error_code_str NotResponding = ''not-responding''"
| "error_code_str PreconditionNotFulfilled = ''precondition-not-fulfilled''"
| "error_code_str SovdServerFailure = ''sovd-server-failure''"
| "error_code_str SovdServerMisconfigured = ''sovd-server-misconfigured''"
| "error_code_str UpdateAutomatedNotSupported = ''update-automated-not-supported''"
| "error_code_str UpdateExecutionInProgress = ''update-execution-in-progress''"
| "error_code_str UpdatePreparationInProgress = ''update-preparation-in-progress''"
| "error_code_str UpdateProcessInProgress = ''update-process-in-progress''"
| "error_code_str VendorSpecific = ''vendor-specific''"

definition error_code_list :: "error_code list" where
  "error_code_list = [ErrorResponse, IncompleteRequest, InsufficientAccessRights,
     InvalidResponseContent, InvalidSignature, LockBroken, NotResponding,
     PreconditionNotFulfilled, SovdServerFailure, SovdServerMisconfigured,
     UpdateAutomatedNotSupported, UpdateExecutionInProgress, UpdatePreparationInProgress,
     UpdateProcessInProgress, VendorSpecific]"

text \<open>Deserialization picks the variant whose name is the given text.\<close>

definition error_code_of_str :: "string \<Rightarrow> error_code option" where
  "error_code_of_str s = find (\<lambda>c. error_code_str c = s) error_code_list"

lemma error_code_of_str_roundtrip [simp]: "error_code_of_str (error_code_str c) = Some c"
  by (cases c) (simp_all add: error_code_of_str_def error_code_list_def)

record generic_error =
  ge_error_code :: error_code
  ge_vendor_code :: "string option"
  ge_message :: string
  ge_translation_id :: "string option"
  ge_parameters :: "json option"

definition generic_error_new :: "error_code \<Rightarrow> string \<Rightarrow> generic_error" where
  "generic_error_new code message =
     \<lparr> ge_error_code = code, ge_vendor_code = None, ge_message = message,
       ge_translation_id = None, ge_parameters = None \<rparr>"

definition generic_error_with_vendor_code :: "string \<Rightarrow> string \<Rightarrow> generic_error" where
  "generic_error_with_vendor_code vendor_code message =
     \<lparr> ge_error_code = VendorSpecific, ge_vendor_code = Some vendor_code, ge_message = message,
       ge_translation_id = None, ge_parameters = None \<rparr>"

definition generic_error_to_json :: "generic_error \<Rightarrow> json" where
  "generic_error_to_json e = JObject
     ([(''error_code'', JString (error_code_str (ge_error_code e)))]
      @ skip_none ''vendor_code'' JString (ge_vendor_code e)
      @ [(''message'', JString (ge_message e))]
      @ skip_none ''translation_id'' JString (ge_translation_id e)
      @ skip_none ''parameters'' id (ge_parameters e))"

definition generic_error_of_json :: "json \<Rightarrow> generic_error option" where
  "generic_error_of_json j = (case j of
     JObject f \<Rightarrow>
       (case (required f ''error_code'' (\<lambda>x. Option.bind (json_string x) error_code_of_str),
              optional f ''vendor_code'' json_string, required f ''message'' json_string,
              optional f ''translation_id'' json_string, optional f ''parameters'' Some) of
          (Some c, Some v, Some m, Some t, Some p) \<Rightarrow>
            Some \<lparr> ge_error_code = c, ge_vendor_code = v, ge_message = m,
                   ge_translation_id = t, ge_parameters = p \<rparr>
        | _ \<Rightarrow> None)
   | _ \<Rightarrow> None)"

subsection \<open>Data resources\<close>

datatype data_category =
    IdentData
  | CurrentData
  | StoredData
  | SysInfo
  | Custom string

definition data_category_from :: "string \<Rightarrow> data_category" where
  "data_category_from s =
     (if s = ''identData'' then IdentData
      else if s = ''currentData'' then CurrentData
      else if s = ''storedData'' then StoredData
      else if s = ''sysInfo'' then SysInfo
      else Custom s)"

fun data_category_as_str :: "data_category \<Rightarrow> string" where
  "data_category_as_str IdentData = ''identData''"
| "data_category_as_str CurrentData = ''currentData''"
| "data_category_as_str StoredData = ''storedData''"
| "data_category_as_str SysInfo = ''sysInfo''"
| "data_category_as_str (Custom s) = s"

record metadata_dto =
  md_id :: string
  md_name :: string
  md_category :: data_category
  md_translation_id :: "string option"
  md_groups :: "string list option"
  md_tags :: "string list option"

record 'a items =
  items :: "'a list"

record 'a response =
  rs_data :: 'a
  rs_schema :: "json option"

record data_error_entry =
  de_path :: json_pointer
  de_error :: generic_error

record read_response =
  rr_id :: string
  rr_data :: json
  rr_errors :: "data_error_entry list option"
  rr_schema :: "json option"

record write_request =
  wr_data :: json
  wr_signature :: "string option"

record data_error_dto =
  dd_error_code :: string
  dd_message :: "string option"

definition data_error_dto_not_found :: "string \<Rightarrow> data_error_dto" where
  "data_error_dto_not_found ident =
     \<lparr> dd_error_code = ''not-found'', dd_message = Some (''Data resource not found: '' @ ident) \<rparr>"

definition data_error_dto_read_only :: data_error_dto where
  "data_error_dto_read_only =
     \<lparr> dd_error_code = ''read-only'', dd_message = Some ''Data resource is read-only'' \<rparr>"

definition data_error_dto_display :: "data_error_dto \<Rightarrow> string" where
  "data_error_dto_display e = dd_error_code e"

record data_filter_dto =
  fd_groups :: "string list option"
  fd_categories :: "data_category list option"
  fd_tags :: "string list option"

record data_query =
  dq_groups :: "string list option"
  dq_categories :: "string list option"
  dq_tags :: "string list option"
  dq_include_schema :: bool

definition data_filter_from_query :: "data_query \<Rightarrow> data_filter_dto" where
  "data_filter_from_query q =
     \<lparr> fd_groups = dq_groups q,
       fd_categories = map_option (map data_category_from) (dq_categories q),
       fd_tags = dq_tags q \<rparr>"

record read_data_query =
  rq_include_schema :: bool

record data_category_information =
  ci_item :: data_category
  ci_category_translation_id :: "string option"

record data_group =
  gr_id :: string
  gr_category :: data_category
  gr_category_translation_id :: "string option"
  gr_group :: "string option"
  gr_group_translation_id :: "string option"

record data_groups_query =
  gq_category :: "data_category option"

subsection \<open>Discovery\<close>

record entity_reference =
  er_id :: string
  er_name :: string
  er_translation_id :: "string option"
  er_href :: uri_reference
  er_tags :: "string list option"

record entities_query =
  eq_include_schema :: bool
  eq_tags :: "string list"

record capabilities_query =
  cq_include_schema :: bool

record entity_capabilities =
  ec_id :: string
  ec_name :: string
  ec_translation_id :: "string option"
  ec_variant :: "(string \<times> string) list option"
  ec_configurations :: "uri_reference option"
  ec_bulk_data :: "uri_reference option"
  ec_data :: "uri_reference option"
  ec_data_lists :: "uri_reference option"
  ec_faults :: "uri_reference option"
  ec_operations :: "uri_reference option"
  ec_updates :: "uri_reference option"
  ec_modes :: "uri_reference option"
  ec_areas :: "uri_reference option"
  ec_components :: "uri_reference option"
  ec_apps :: "uri_reference option"
  ec_functions :: "uri_reference option"
  ec_subcomponents :: "uri_reference option"
  ec_subareas :: "uri_reference option"
  ec_locks :: "uri_reference option"
  ec_logs :: "uri_reference option"
  ec_belongs_to :: "uri_reference option"
  ec_contains :: "uri_reference option"
  ec_communication_logs :: "uri_reference option"
  ec_cyclic_subscriptions :: "uri_reference option"
  ec_depends_on :: "uri_reference option"
  ec_hosts :: "uri_reference option"
  ec_is_located_on :: "uri_reference option"
  ec_scripts :: "uri_reference option"
  ec_triggers :: "uri_reference option"

text \<open>\<open>#[derive(Default)]\<close>.\<close>

definition entity_capabilities_default :: entity_capabilities where
  "entity_capabilities_default =
     \<lparr> ec_id = [], ec_name = [], ec_translation_id = None, ec_variant = None,
       ec_configurations = None, ec_bulk_data = None, ec_data = None, ec_data_lists = None,
       ec_faults = None, ec_operations = None, ec_updates = None, ec_modes = None,
       ec_areas = None, ec_components = None, ec_apps = None, ec_functions = None,
       ec_subcomponents = None, ec_subareas = None, ec_locks = None, ec_logs = None,
       ec_belongs_to = None, ec_contains = None, ec_communication_logs = None,
       ec_cyclic_subscriptions = None, ec_depends_on = None, ec_hosts = None,
       ec_is_located_on = None, ec_scripts = None, ec_triggers = None \<rparr>"

definition entity_reference_to_json :: "entity_reference \<Rightarrow> json" where
  "entity_reference_to_json e = JObject
     ([(''id'', JString (er_id e)), (''name'', JString (er_name e))]
      @ skip_none ''translation_id'' JString (er_translation_id e)
      @ [(''href'', JString (uri_text (er_href e)))]
      @ skip_none ''tags'' (\<lambda>ts. JArray (map JString ts)) (er_tags e))"

definition entity_reference_of_json :: "json \<Rightarrow> entity_reference option" where
  "entity_reference_of_json j = (case j of
     JObject f \<Rightarrow>
       (case (required f ''id'' json_string, required f ''name'' json_string,
              optional f ''translation_id'' json_string, required f ''href'' json_string,
              optional f ''tags'' json_string_list) of
          (Some i, Some n, Some t, Some h, Some ts) \<Rightarrow>
            Some \<lparr> er_id = i, er_name = n, er_translation_id = t, er_href = UriReference h,
                   er_tags = ts \<rparr>
        | _ \<Rightarrow> None)
   | _ \<Rightarrow> None)"

subsection \<open>Version document\<close>

record 'v sovd_info =
  si_version :: string
  si_base_uri :: uri_reference
  si_vendor_info :: "'v option"

record 'v version_info =
  vi_sovd_info :: "'v sovd_info list"

record vendor_info =
  ve_version :: string
  ve_name :: string

record version_info_query =
  vq_include_schema :: bool

subsection \<open>Lemmas\<close>

lemma data_category_from_as_str:
  "data_category_from (data_category_as_str c) = c \<longleftrightarrow>
     (\<forall>s. c = Custom s \<longrightarrow> s \<notin> {''identData'', ''currentData'', ''storedData'', ''sysInfo''})"
  by (cases c) (auto simp: data_category_from_def)

lemma data_category_as_str_from [simp]: "data_category_as_str (data_category_from s) = s"
  by (simp add: data_category_from_def)

lemma json_string_list_map [simp]: "json_string_list (JArray (map JString ss)) = Some ss"
  by (simp add: json_string_list_def)

lemma generic_error_json_roundtrip:
  assumes "ge_parameters e \<noteq> Some JNull"
  shows "generic_error_of_json (generic_error_to_json e) = Some e"
  using assms
  by (cases e) (auto simp: generic_error_to_json_def generic_error_of_json_def required_def
      optional_def)

lemma entity_reference_json_roundtrip:
  "entity_reference_of_json (entity_reference_to_json e) = Some e"
  by (cases e; cases "er_href e") (simp add: entity_reference_to_json_def
      entity_reference_of_json_def required_def optional_def)

end
