(* ===== verification/Data_Core.thy ===== *)
theory Data_Core
  imports Models
begin

text \<open>
  The data-access vocabulary of \<open>src/opensovd-core/src/data.rs\<close>: filters, metadata, values,
  errors, and the \<open>DataProvider\<close> trait.  A trait object is a record of its methods; a method
  may observe and change the world \<open>'w\<close> (the vehicle, a mutex, a file), so it is a function
  from the world before to the result and the world after.  An \<open>async\<close> method is modelled by
  the result it completes with.
\<close>

type_synonym ('w, 'a) action = "'w \<Rightarrow> 'a \<times> 'w"

record data_filter =
  df_groups :: "string list"
  df_categories :: "string list"
  df_tags :: "string list"

definition data_filter_default :: data_filter where
  "data_filter_default = \<lparr> df_groups = [], df_categories = [], df_tags = [] \<rparr>"

record metadata =
  m_id :: string
  m_name :: string
  m_category :: string
  m_translation_id :: "string option"
  m_groups :: "string list"
  m_tags :: "string list"
  m_schema :: "json option"
  m_is_readable :: bool
  m_is_writable :: bool

record data =
  d_data :: json
  d_schema :: "json option"

datatype data_error = DataNotFound string | ReadOnly | Internal string

text \<open>The \<open>#[error(...)]\<close> texts.\<close>

fun data_error_display :: "data_error \<Rightarrow> string" where
  "data_error_display (DataNotFound s) = ''not found: '' @ s"
| "data_error_display ReadOnly = ''read only''"
| "data_error_display (Internal s) = ''internal error: '' @ s"

record category_info =
  cat_category :: string
  cat_translation_id :: "string option"

record group_info =
  g_id :: string
  g_category :: string
  g_category_translation_id :: "string option"
  g_group :: "string option"
  g_group_translation_id :: "string option"

record tag_info =
  t_id :: string
  t_description :: "string option"
  t_translation_id :: "string option"

subsection \<open>The provider trait\<close>

type_synonym ('w, 'a) data_action = "('w, (data_error, 'a) result) action"

record 'w data_provider =
  dp_list :: "data_filter \<Rightarrow> ('w, metadata list) data_action"
  dp_read :: "string \<Rightarrow> bool \<Rightarrow> ('w, data) data_action"
  dp_write :: "string \<Rightarrow> json \<Rightarrow> ('w, unit) data_action"
  dp_categories :: "('w, category_info list) data_action"
  dp_groups :: "string option \<Rightarrow> ('w, group_info list) data_action"
  dp_tags :: "('w, tag_info list) data_action"

text \<open>
  The default methods of the trait, over the \<open>list\<close> method of the implementing type.  \<open>?\<close>
  returns the error of \<open>list\<close>.
\<close>

definition category_info_of :: "metadata \<Rightarrow> category_info" where
  "category_info_of m =
     \<lparr> cat_category = m_category m, cat_translation_id = m_translation_id m \<rparr>"

definition group_info_of :: "string \<times> string \<Rightarrow> group_info" where
  "group_info_of p = \<lparr> g_id = fst p, g_category = snd p, g_category_translation_id = None,
     g_group = None, g_group_translation_id = None \<rparr>"

definition tag_info_of :: "string \<Rightarrow> tag_info" where
  "tag_info_of t = \<lparr> t_id = t, t_description = None, t_translation_id = None \<rparr>"

definition default_categories ::
  "(data_filter \<Rightarrow> ('w, metadata list) data_action) \<Rightarrow> ('w, category_info list) data_action" where
  "default_categories list_op w =
     (case list_op data_filter_default w of
        (Inl e, w') \<Rightarrow> (Inl e, w')
      | (Inr all, w') \<Rightarrow>
          (Inr (map category_info_of (keep_unseen m_category {} all)), w'))"

definition default_groups ::
  "(data_filter \<Rightarrow> ('w, metadata list) data_action) \<Rightarrow> string option \<Rightarrow>
     ('w, group_info list) data_action" where
  "default_groups list_op category_filter w =
     (case list_op data_filter_default w of
        (Inl e, w') \<Rightarrow> (Inl e, w')
      | (Inr all, w') \<Rightarrow>
          (Inr (map group_info_of
             (keep_unseen fst {}
               (concat (map (\<lambda>m. map (\<lambda>g. (g, m_category m)) (m_groups m))
                 (filter (\<lambda>m. case category_filter of None \<Rightarrow> True | Some c \<Rightarrow> m_category m = c)
                   all))))), w'))"

definition default_tags ::
  "(data_filter \<Rightarrow> ('w, metadata list) data_action) \<Rightarrow> ('w, tag_info list) data_action" where
  "default_tags list_op w =
     (case list_op data_filter_default w of
        (Inl e, w') \<Rightarrow> (Inl e, w')
      | (Inr all, w') \<Rightarrow>
          (Inr (map tag_info_of (keep_unseen (\<lambda>t. t) {} (concat (map m_tags all)))), w'))"

end
