(* ===== verification/Entities.thy ===== *)
theory Entities
  imports Data_Core
begin

text \<open>
  The entity types of \<open>src/opensovd-core/src/entity\<close>: kinds, references, components, apps,
  areas and collections of them, with their constructors, builder methods and accessors.  A
  \<open>HashMap<String, String>\<close> is the association list of its entries.
\<close>

type_synonym string_map = "(string \<times> string) list"

text \<open>\<open>HashMap::from\<close> of an array: later entries replace earlier ones with the same key.\<close>

definition hash_map_from :: "(string \<times> string) list \<Rightarrow> string_map" where
  "hash_map_from xs = fold (\<lambda>(k, v) m. AList.update k v m) xs []"

subsection \<open>Kinds and references\<close>

datatype entity_kind = KComponent | KApp | KArea

fun entity_kind_display :: "entity_kind \<Rightarrow> string" where
  "entity_kind_display KComponent = ''component''"
| "entity_kind_display KApp = ''app''"
| "entity_kind_display KArea = ''area''"

record entity_ref =
  ref_kind :: entity_kind
  ref_id :: string

definition entity_ref_component :: "string \<Rightarrow> entity_ref" where
  "entity_ref_component ident = \<lparr> ref_kind = KComponent, ref_id = ident \<rparr>"

definition entity_ref_app :: "string \<Rightarrow> entity_ref" where
  "entity_ref_app ident = \<lparr> ref_kind = KApp, ref_id = ident \<rparr>"

definition entity_ref_area :: "string \<Rightarrow> entity_ref" where
  "entity_ref_area ident = \<lparr> ref_kind = KArea, ref_id = ident \<rparr>"

definition entity_ref_display :: "entity_ref \<Rightarrow> string" where
  "entity_ref_display r = entity_kind_display (ref_kind r) @ '' '' @ [CHR 0x27] @ ref_id r @ [CHR 0x27]"

lemmas entity_ref_defs = entity_ref_component_def entity_ref_app_def entity_ref_area_def

lemma entity_ref_inject [simp]:
  "entity_ref_component a = entity_ref_component b \<longleftrightarrow> a = b"
  "entity_ref_app a = entity_ref_app b \<longleftrightarrow> a = b"
  "entity_ref_area a = entity_ref_area b \<longleftrightarrow> a = b"
  by (simp_all add: entity_ref_defs)

lemma entity_ref_kinds [simp]:
  "entity_ref_component a \<noteq> entity_ref_app b" "entity_ref_component a \<noteq> entity_ref_area b"
  "entity_ref_app a \<noteq> entity_ref_component b" "entity_ref_app a \<noteq> entity_ref_area b"
  "entity_ref_area a \<noteq> entity_ref_component b" "entity_ref_area a \<noteq> entity_ref_app b"
  by (simp_all add: entity_ref_defs)

lemma entity_ref_sel [simp]:
  "ref_kind (entity_ref_component a) = KComponent" "ref_id (entity_ref_component a) = a"
  "ref_kind (entity_ref_app a) = KApp" "ref_id (entity_ref_app a) = a"
  "ref_kind (entity_ref_area a) = KArea" "ref_id (entity_ref_area a) = a"
  by (simp_all add: entity_ref_defs)

subsection \<open>Components\<close>

record 'w component =
  component_entity_ref :: entity_ref
  component_name :: string
  component_area_id :: "string option"
  component_metadata :: string_map
  component_tags :: "string list"
  component_translation_id :: "string option"
  component_data_provider :: "'w data_provider option"

definition component_new :: "string \<Rightarrow> string \<Rightarrow> 'w component" where
  "component_new ident name =
     \<lparr> component_entity_ref = entity_ref_component ident, component_name = name,
       component_area_id = None, component_metadata = [], component_tags = [],
       component_translation_id = None, component_data_provider = None \<rparr>"

definition component_with_metadata :: "string_map \<Rightarrow> 'w component \<Rightarrow> 'w component" where
  "component_with_metadata metadata c = c\<lparr>component_metadata := metadata\<rparr>"

definition component_with_tags :: "string list \<Rightarrow> 'w component \<Rightarrow> 'w component" where
  "component_with_tags tags c = c\<lparr>component_tags := tags\<rparr>"

definition component_with_translation_id :: "string \<Rightarrow> 'w component \<Rightarrow> 'w component" where
  "component_with_translation_id t c = c\<lparr>component_translation_id := Some t\<rparr>"

definition component_with_data_provider :: "'w data_provider \<Rightarrow> 'w component \<Rightarrow> 'w component" where
  "component_with_data_provider p c = c\<lparr>component_data_provider := Some p\<rparr>"

definition component_with_area_id :: "string \<Rightarrow> 'w component \<Rightarrow> 'w component" where
  "component_with_area_id a c = c\<lparr>component_area_id := Some a\<rparr>"

definition component_id :: "'w component \<Rightarrow> string" where
  "component_id c = ref_id (component_entity_ref c)"

subsection \<open>Apps\<close>

record 'w app =
  app_entity_ref :: entity_ref
  app_name :: string
  app_is_located_on :: string
  app_area_id :: "string option"
  app_metadata :: string_map
  app_tags :: "string list"
  app_translation_id :: "string option"
  app_data_provider :: "'w data_provider option"

definition app_new :: "string \<Rightarrow> string \<Rightarrow> string \<Rightarrow> 'w app" where
  "app_new ident name located_on =
     \<lparr> app_entity_ref = entity_ref_app ident, app_name = name,
       app_is_located_on = located_on, app_area_id = None, app_metadata = [], app_tags = [],
       app_translation_id = None, app_data_provider = None \<rparr>"

definition app_with_metadata :: "string_map \<Rightarrow> 'w app \<Rightarrow> 'w app" where
  "app_with_metadata metadata a = a\<lparr>app_metadata := metadata\<rparr>"

definition app_with_tags :: "string list \<Rightarrow> 'w app \<Rightarrow> 'w app" where
  "app_with_tags tags a = a\<lparr>app_tags := tags\<rparr>"

definition app_with_translation_id :: "string \<Rightarrow> 'w app \<Rightarrow> 'w app" where
  "app_with_translation_id t a = a\<lparr>app_translation_id := Some t\<rparr>"

definition app_with_data_provider :: "'w data_provider \<Rightarrow> 'w app \<Rightarrow> 'w app" where
  "app_with_data_provider p a = a\<lparr>app_data_provider := Some p\<rparr>"

definition app_with_area_id :: "string \<Rightarrow> 'w app \<Rightarrow> 'w app" where
  "app_with_area_id ar a = a\<lparr>app_area_id := Some ar\<rparr>"

definition app_id :: "'w app \<Rightarrow> string" where
  "app_id a = ref_id (app_entity_ref a)"

text \<open>The accessor answers an option, although every app has a host.\<close>

definition app_component_id :: "'w app \<Rightarrow> string option" where
  "app_component_id a = Some (app_is_located_on a)"

subsection \<open>Areas\<close>

record 'w area =
  area_entity_ref :: entity_ref
  area_name :: string
  area_metadata :: string_map
  area_tags :: "string list"
  area_translation_id :: "string option"
  area_data_provider :: "'w data_provider option"

definition area_new :: "string \<Rightarrow> string \<Rightarrow> 'w area" where
  "area_new ident name =
     \<lparr> area_entity_ref = entity_ref_area ident, area_name = name, area_metadata = [],
       area_tags = [], area_translation_id = None, area_data_provider = None \<rparr>"

definition area_with_metadata :: "string_map \<Rightarrow> 'w area \<Rightarrow> 'w area" where
  "area_with_metadata metadata a = a\<lparr>area_metadata := metadata\<rparr>"

definition area_with_tags :: "string list \<Rightarrow> 'w area \<Rightarrow> 'w area" where
  "area_with_tags tags a = a\<lparr>area_tags := tags\<rparr>"

definition area_with_translation_id :: "string \<Rightarrow> 'w area \<Rightarrow> 'w area" where
  "area_with_translation_id t a = a\<lparr>area_translation_id := Some t\<rparr>"

definition area_with_data_provider :: "'w data_provider \<Rightarrow> 'w area \<Rightarrow> 'w area" where
  "area_with_data_provider p a = a\<lparr>area_data_provider := Some p\<rparr>"

definition area_id :: "'w area \<Rightarrow> string" where
  "area_id a = ref_id (area_entity_ref a)"

subsection \<open>Collections\<close>

record 'w entity_collection =
  ecoll_components :: "'w component list"
  ecoll_apps :: "'w app list"
  ecoll_areas :: "'w area list"

definition entity_collection_new ::
  "'w component list \<Rightarrow> 'w app list \<Rightarrow> 'w area list \<Rightarrow> 'w entity_collection" where
  "entity_collection_new cs aps ars =
     \<lparr> ecoll_components = cs, ecoll_apps = aps, ecoll_areas = ars \<rparr>"

definition entity_collection_add_component ::
  "'w component \<Rightarrow> 'w entity_collection \<Rightarrow> 'w entity_collection" where
  "entity_collection_add_component c ec = ec\<lparr>ecoll_components := ecoll_components ec @ [c]\<rparr>"

definition entity_collection_add_app ::
  "'w app \<Rightarrow> 'w entity_collection \<Rightarrow> 'w entity_collection" where
  "entity_collection_add_app a ec = ec\<lparr>ecoll_apps := ecoll_apps ec @ [a]\<rparr>"

definition entity_collection_add_area ::
  "'w area \<Rightarrow> 'w entity_collection \<Rightarrow> 'w entity_collection" where
  "entity_collection_add_area a ec = ec\<lparr>ecoll_areas := ecoll_areas ec @ [a]\<rparr>"

definition entity_refs :: "'w entity_collection \<Rightarrow> entity_ref list" where
  "entity_refs ec =
     map component_entity_ref (ecoll_components ec)
     @ map app_entity_ref (ecoll_apps ec)
     @ map area_entity_ref (ecoll_areas ec)"

subsection \<open>Well-kinded entities\<close>

text \<open>
  The fields are private and every entity is built by \<open>new\<close> and the \<open>with_\<close> methods, so its
  reference has the kind of its type; the builder methods keep the reference.
\<close>

definition component_ok :: "'w component \<Rightarrow> bool" where
  "component_ok c \<longleftrightarrow> component_entity_ref c = entity_ref_component (component_id c)"

definition app_ok :: "'w app \<Rightarrow> bool" where
  "app_ok a \<longleftrightarrow> app_entity_ref a = entity_ref_app (app_id a)"

definition area_ok :: "'w area \<Rightarrow> bool" where
  "area_ok a \<longleftrightarrow> area_entity_ref a = entity_ref_area (area_id a)"

lemmas component_builder_defs = component_new_def component_with_metadata_def
  component_with_tags_def component_with_translation_id_def component_with_data_provider_def
  component_with_area_id_def component_id_def

lemmas app_builder_defs = app_new_def app_with_metadata_def app_with_tags_def
  app_with_translation_id_def app_with_data_provider_def app_with_area_id_def app_id_def
  app_component_id_def

lemmas area_builder_defs = area_new_def area_with_metadata_def area_with_tags_def
  area_with_translation_id_def area_with_data_provider_def area_id_def

lemma component_builders_ok [simp]:
  "component_ok (component_new i n)"
  "component_ok c \<Longrightarrow> component_ok (component_with_metadata md c)"
  "component_ok c \<Longrightarrow> component_ok (component_with_tags ts c)"
  "component_ok c \<Longrightarrow> component_ok (component_with_translation_id t c)"
  "component_ok c \<Longrightarrow> component_ok (component_with_data_provider p c)"
  "component_ok c \<Longrightarrow> component_ok (component_with_area_id a c)"
  by (simp_all add: component_ok_def component_builder_defs)

lemma app_builders_ok [simp]:
  "app_ok (app_new i n l)"
  "app_ok a \<Longrightarrow> app_ok (app_with_metadata md a)"
  "app_ok a \<Longrightarrow> app_ok (app_with_tags ts a)"
  "app_ok a \<Longrightarrow> app_ok (app_with_translation_id t a)"
  "app_ok a \<Longrightarrow> app_ok (app_with_data_provider p a)"
  "app_ok a \<Longrightarrow> app_ok (app_with_area_id ar a)"
  by (simp_all add: app_ok_def app_builder_defs)

lemma area_builders_ok [simp]:
  "area_ok (area_new i n)"
  "area_ok a \<Longrightarrow> area_ok (area_with_metadata md a)"
  "area_ok a \<Longrightarrow> area_ok (area_with_tags ts a)"
  "area_ok a \<Longrightarrow> area_ok (area_with_translation_id t a)"
  "area_ok a \<Longrightarrow> area_ok (area_with_data_provider p a)"
  by (simp_all add: area_ok_def area_builder_defs)

end
