(* ===== verification/Topology.thy ===== *)
theory Topology
  imports Index_Containers Entities
begin

text \<open>
  The topology state of \<open>src/opensovd-core/src/topology.rs\<close>: three ordered maps of entities
  and three secondary indexes, its insertions, removals and queries.  The ordered containers
  are a parameter \<open>L\<close> of every operation.  The lemmas give the structural invariant that
  every operation keeps, the exactness of the secondary indexes and the operations that keep
  it, and the agreement of the indexed queries with a scan of the entities.
\<close>

subsection \<open>State\<close>

record ('mc, 'ma, 'mr, 's, 'w) containers =
  component_map :: "(string, 'w component, 'mc) index_map"
  app_map :: "(string, 'w app, 'ma) index_map"
  area_map :: "(string, 'w area, 'mr) index_map"
  id_set :: "(string, 's) index_set"

record ('mc, 'ma, 'mr, 's) topology_state =
  ts_components :: 'mc
  ts_apps :: 'ma
  ts_areas :: 'mr
  ts_apps_by_component :: "string \<rightharpoonup> 's"
  ts_components_by_area :: "string \<rightharpoonup> 's"
  ts_apps_by_area :: "string \<rightharpoonup> 's"

datatype topology_error = TopologyNotFound entity_ref

fun topology_error_display :: "topology_error \<Rightarrow> string" where
  "topology_error_display (TopologyNotFound r) = entity_ref_display r @ '' not found''"

definition topology_state_new ::
  "('mc, 'ma, 'mr, 's, 'w) containers \<Rightarrow> ('mc, 'ma, 'mr, 's) topology_state" where
  "topology_state_new L =
     \<lparr> ts_components = im_new (component_map L), ts_apps = im_new (app_map L),
       ts_areas = im_new (area_map L), ts_apps_by_component = Map.empty,
       ts_components_by_area = Map.empty, ts_apps_by_area = Map.empty \<rparr>"

subsection \<open>Insertions and removals\<close>

definition insert_component ::
  "('mc, 'ma, 'mr, 's, 'w) containers \<Rightarrow> string \<Rightarrow> 'w component \<Rightarrow>
     ('mc, 'ma, 'mr, 's) topology_state \<Rightarrow> ('mc, 'ma, 'mr, 's) topology_state" where
  "insert_component L ident c st =
     (let st1 = (case component_area_id c of
                   None \<Rightarrow> st
                 | Some ar \<Rightarrow> st\<lparr>ts_components_by_area :=
                     index_add (id_set L) ar ident (ts_components_by_area st)\<rparr>)
      in st1\<lparr>ts_components := fst (im_insert (component_map L) ident c (ts_components st1))\<rparr>)"

definition remove_component ::
  "('mc, 'ma, 'mr, 's, 'w) containers \<Rightarrow> string \<Rightarrow> ('mc, 'ma, 'mr, 's) topology_state \<Rightarrow>
     ('mc, 'ma, 'mr, 's) topology_state \<times> 'w component option" where
  "remove_component L ident st =
     (let (m, removed) = im_shift_remove (component_map L) ident (ts_components st);
          st1 = st\<lparr>ts_components := m\<rparr>
      in case removed of
           None \<Rightarrow> (st1, None)
         | Some c \<Rightarrow>
             ((case component_area_id c of
                 None \<Rightarrow> st1
               | Some ar \<Rightarrow> st1\<lparr>ts_components_by_area :=
                   index_drop (id_set L) ar ident (ts_components_by_area st1)\<rparr>), Some c))"

definition insert_app ::
  "('mc, 'ma, 'mr, 's, 'w) containers \<Rightarrow> string \<Rightarrow> 'w app \<Rightarrow>
     ('mc, 'ma, 'mr, 's) topology_state \<Rightarrow> ('mc, 'ma, 'mr, 's) topology_state" where
  "insert_app L ident a st =
     (let st1 = (case app_component_id a of
                   None \<Rightarrow> st
                 | Some host \<Rightarrow> st\<lparr>ts_apps_by_component :=
                     index_add (id_set L) host ident (ts_apps_by_component st)\<rparr>);
          st2 = (case app_area_id a of
                   None \<Rightarrow> st1
                 | Some ar \<Rightarrow> st1\<lparr>ts_apps_by_area :=
                     index_add (id_set L) ar ident (ts_apps_by_area st1)\<rparr>)
      in st2\<lparr>ts_apps := fst (im_insert (app_map L) ident a (ts_apps st2))\<rparr>)"

definition remove_app ::
  "('mc, 'ma, 'mr, 's, 'w) containers \<Rightarrow> string \<Rightarrow> ('mc, 'ma, 'mr, 's) topology_state \<Rightarrow>
     ('mc, 'ma, 'mr, 's) topology_state \<times> 'w app option" where
  "remove_app L ident st =
     (let (m, removed) = im_shift_remove (app_map L) ident (ts_apps st);
          st1 = st\<lparr>ts_apps := m\<rparr>
      in case removed of
           None \<Rightarrow> (st1, None)
         | Some a \<Rightarrow>
             (let st2 = (case app_component_id a of
                           None \<Rightarrow> st1
                         | Some host \<Rightarrow> st1\<lparr>ts_apps_by_component :=
                             index_drop (id_set L) host ident (ts_apps_by_component st1)\<rparr>);
                  st3 = (case app_area_id a of
                           None \<Rightarrow> st2
                         | Some ar \<Rightarrow> st2\<lparr>ts_apps_by_area :=
                             index_drop (id_set L) ar ident (ts_apps_by_area st2)\<rparr>)
              in (st3, Some a)))"

definition insert_area ::
  "('mc, 'ma, 'mr, 's, 'w) containers \<Rightarrow> string \<Rightarrow> 'w area \<Rightarrow>
     ('mc, 'ma, 'mr, 's) topology_state \<Rightarrow> ('mc, 'ma, 'mr, 's) topology_state" where
  "insert_area L ident a st =
     st\<lparr>ts_areas := fst (im_insert (area_map L) ident a (ts_areas st))\<rparr>"

definition remove_area ::
  "('mc, 'ma, 'mr, 's, 'w) containers \<Rightarrow> string \<Rightarrow> ('mc, 'ma, 'mr, 's) topology_state \<Rightarrow>
     ('mc, 'ma, 'mr, 's) topology_state \<times> 'w area option" where
  "remove_area L ident st =
     (let (m, removed) = im_shift_remove (area_map L) ident (ts_areas st);
          st1 = st\<lparr>ts_areas := m\<rparr>
      in case removed of
           None \<Rightarrow> (st1, None)
         | Some a \<Rightarrow>
             (st1\<lparr>ts_components_by_area := (ts_components_by_area st1)(ident := None),
                  ts_apps_by_area := (ts_apps_by_area st1)(ident := None)\<rparr>, Some a))"

subsection \<open>Queries\<close>

definition get_component ::
  "('mc, 'ma, 'mr, 's, 'w) containers \<Rightarrow> ('mc, 'ma, 'mr, 's) topology_state \<Rightarrow> string \<Rightarrow>
     (topology_error, 'w component) result" where
  "get_component L st ident =
     ok_or (TopologyNotFound (entity_ref_component ident))
       (im_get (component_map L) (ts_components st) ident)"

definition components ::
  "('mc, 'ma, 'mr, 's, 'w) containers \<Rightarrow> ('mc, 'ma, 'mr, 's) topology_state \<Rightarrow>
     'w component list" where
  "components L st = im_values (component_map L) (ts_components st)"

definition get_app ::
  "('mc, 'ma, 'mr, 's, 'w) containers \<Rightarrow> ('mc, 'ma, 'mr, 's) topology_state \<Rightarrow> string \<Rightarrow>
     (topology_error, 'w app) result" where
  "get_app L st ident =
     ok_or (TopologyNotFound (entity_ref_app ident)) (im_get (app_map L) (ts_apps st) ident)"

definition apps ::
  "('mc, 'ma, 'mr, 's, 'w) containers \<Rightarrow> ('mc, 'ma, 'mr, 's) topology_state \<Rightarrow> 'w app list" where
  "apps L st = im_values (app_map L) (ts_apps st)"

definition apps_of_component ::
  "('mc, 'ma, 'mr, 's, 'w) containers \<Rightarrow> ('mc, 'ma, 'mr, 's) topology_state \<Rightarrow> string \<Rightarrow>
     'w app list" where
  "apps_of_component L st host =
     List.map_filter (im_get (app_map L) (ts_apps st))
       (index_members (id_set L) (ts_apps_by_component st) host)"

definition get_area ::
  "('mc, 'ma, 'mr, 's, 'w) containers \<Rightarrow> ('mc, 'ma, 'mr, 's) topology_state \<Rightarrow> string \<Rightarrow>
     (topology_error, 'w area) result" where
  "get_area L st ident =
     ok_or (TopologyNotFound (entity_ref_area ident)) (im_get (area_map L) (ts_areas st) ident)"

definition areas ::
  "('mc, 'ma, 'mr, 's, 'w) containers \<Rightarrow> ('mc, 'ma, 'mr, 's) topology_state \<Rightarrow> 'w area list" where
  "areas L st = im_values (area_map L) (ts_areas st)"

definition components_of_area ::
  "('mc, 'ma, 'mr, 's, 'w) containers \<Rightarrow> ('mc, 'ma, 'mr, 's) topology_state \<Rightarrow> string \<Rightarrow>
     'w component list" where
  "components_of_area L st ar =
     List.map_filter (im_get (component_map L) (ts_components st))
       (index_members (id_set L) (ts_components_by_area st) ar)"

definition apps_of_area ::
  "('mc, 'ma, 'mr, 's, 'w) containers \<Rightarrow> ('mc, 'ma, 'mr, 's) topology_state \<Rightarrow> string \<Rightarrow>
     'w app list" where
  "apps_of_area L st ar =
     List.map_filter (im_get (app_map L) (ts_apps st))
       (index_members (id_set L) (ts_apps_by_area st) ar)"

definition component_of_app ::
  "('mc, 'ma, 'mr, 's, 'w) containers \<Rightarrow> ('mc, 'ma, 'mr, 's) topology_state \<Rightarrow> string \<Rightarrow>
     (topology_error, 'w component option) result" where
  "component_of_app L st ident =
     and_then (ok_or (TopologyNotFound (entity_ref_app ident))
                 (im_get (app_map L) (ts_apps st) ident))
       (\<lambda>a. case app_component_id a of
              None \<Rightarrow> Inr None
            | Some host \<Rightarrow> Inr (im_get (component_map L) (ts_components st) host))"

definition area_of_component ::
  "('mc, 'ma, 'mr, 's, 'w) containers \<Rightarrow> ('mc, 'ma, 'mr, 's) topology_state \<Rightarrow> string \<Rightarrow>
     (topology_error, 'w area option) result" where
  "area_of_component L st ident =
     and_then (ok_or (TopologyNotFound (entity_ref_component ident))
                 (im_get (component_map L) (ts_components st) ident))
       (\<lambda>c. case component_area_id c of
              None \<Rightarrow> Inr None
            | Some ar \<Rightarrow> Inr (im_get (area_map L) (ts_areas st) ar))"

definition area_of_app ::
  "('mc, 'ma, 'mr, 's, 'w) containers \<Rightarrow> ('mc, 'ma, 'mr, 's) topology_state \<Rightarrow> string \<Rightarrow>
     (topology_error, 'w area option) result" where
  "area_of_app L st ident =
     and_then (ok_or (TopologyNotFound (entity_ref_app ident))
                 (im_get (app_map L) (ts_apps st) ident))
       (\<lambda>a. case app_area_id a of
              None \<Rightarrow> Inr None
            | Some ar \<Rightarrow> Inr (im_get (area_map L) (ts_areas st) ar))"

lemmas mutation_defs [topology_defs] = insert_component_def remove_component_def insert_app_def
  remove_app_def insert_area_def remove_area_def

lemmas query_defs [topology_defs] = get_component_def components_def get_app_def apps_def
  apps_of_component_def get_area_def areas_def components_of_area_def apps_of_area_def
  component_of_app_def area_of_component_def area_of_app_def

subsection \<open>Views, invariant and exactness\<close>

definition component_entries ::
  "('mc, 'ma, 'mr, 's, 'w) containers \<Rightarrow> ('mc, 'ma, 'mr, 's) topology_state \<Rightarrow>
     (string \<times> 'w component) list" where
  "component_entries L st = im_iter (component_map L) (ts_components st)"

definition app_entries ::
  "('mc, 'ma, 'mr, 's, 'w) containers \<Rightarrow> ('mc, 'ma, 'mr, 's) topology_state \<Rightarrow>
     (string \<times> 'w app) list" where
  "app_entries L st = im_iter (app_map L) (ts_apps st)"

definition area_entries ::
  "('mc, 'ma, 'mr, 's, 'w) containers \<Rightarrow> ('mc, 'ma, 'mr, 's) topology_state \<Rightarrow>
     (string \<times> 'w area) list" where
  "area_entries L st = im_iter (area_map L) (ts_areas st)"

lemmas entries_defs = component_entries_def app_entries_def area_entries_def

text \<open>Every map is keyed by its entities' ids, without repetition; every index is healthy.\<close>

definition keyed :: "('v \<Rightarrow> string) \<Rightarrow> ('v \<Rightarrow> bool) \<Rightarrow> (string \<times> 'v) list \<Rightarrow> bool" where
  "keyed key ok xs \<longleftrightarrow> distinct (map fst xs) \<and> (\<forall>(k, v) \<in> set xs. key v = k \<and> ok v)"

definition topology_wf ::
  "('mc, 'ma, 'mr, 's, 'w) containers \<Rightarrow> ('mc, 'ma, 'mr, 's) topology_state \<Rightarrow> bool" where
  "topology_wf L st \<longleftrightarrow>
     keyed component_id component_ok (component_entries L st) \<and>
     keyed app_id app_ok (app_entries L st) \<and>
     keyed area_id area_ok (area_entries L st) \<and>
     index_wf (id_set L) (ts_apps_by_component st) \<and>
     index_wf (id_set L) (ts_components_by_area st) \<and>
     index_wf (id_set L) (ts_apps_by_area st)"

definition topology_exact ::
  "('mc, 'ma, 'mr, 's, 'w) containers \<Rightarrow> ('mc, 'ma, 'mr, 's) topology_state \<Rightarrow> bool" where
  "topology_exact L st \<longleftrightarrow>
     index_exact (id_set L) app_component_id (app_entries L st) (ts_apps_by_component st) \<and>
     index_exact (id_set L) component_area_id (component_entries L st)
       (ts_components_by_area st) \<and>
     index_exact (id_set L) app_area_id (app_entries L st) (ts_apps_by_area st)"

lemma keyed_empty [simp]: "keyed key ok []"
  by (simp add: keyed_def)

lemma keyed_update:
  "keyed key ok xs \<Longrightarrow> key v = k \<Longrightarrow> ok v \<Longrightarrow> keyed key ok (AList.update k v xs)"
  using set_update_subset [of k v xs] by (auto simp: keyed_def distinct_update)

lemma keyed_delete: "keyed key ok xs \<Longrightarrow> keyed key ok (AList.delete k xs)"
  using set_delete_subset [of k xs] by (auto simp: keyed_def map_fst_delete)

lemma keyed_distinct: "keyed key ok xs \<Longrightarrow> distinct (map fst xs)"
  by (simp add: keyed_def)

lemma keyed_lookup: "keyed key ok xs \<Longrightarrow> map_of xs k = Some v \<Longrightarrow> key v = k \<and> ok v"
  by (auto simp: keyed_def dest: map_of_SomeD)

subsection \<open>The lemmas about the operations\<close>

locale topology_containers =
  fixes L :: "('mc, 'ma, 'mr, 's, 'w) containers"
  assumes component_map_laws: "ordered_map (component_map L)"
    and app_map_laws: "ordered_map (app_map L)"
    and area_map_laws: "ordered_map (area_map L)"
    and id_set_laws: "ordered_set (id_set L)"

sublocale topology_containers \<subseteq> cm: ordered_map "component_map L"
  by (rule component_map_laws)

sublocale topology_containers \<subseteq> am: ordered_map "app_map L"
  by (rule app_map_laws)

sublocale topology_containers \<subseteq> rm: ordered_map "area_map L"
  by (rule area_map_laws)

sublocale topology_containers \<subseteq> ids: ordered_set "id_set L"
  by (rule id_set_laws)


context topology_containers
begin

lemmas container_laws = cm.map_laws am.map_laws rm.map_laws ids.set_laws

text \<open>What each operation does to the entries and to the indexes.\<close>

lemma entries_new [simp]:
  "component_entries L (topology_state_new L) = []"
  "app_entries L (topology_state_new L) = []"
  "area_entries L (topology_state_new L) = []"
  by (simp_all add: entries_defs topology_state_new_def container_laws)

lemma insert_component_entries [simp]:
  "component_entries L (insert_component L i c st) =
     AList.update i c (component_entries L st)"
  "app_entries L (insert_component L i c st) = app_entries L st"
  "area_entries L (insert_component L i c st) = area_entries L st"
  by (simp_all add: entries_defs insert_component_def container_laws Let_def split: option.splits)

lemma insert_component_indexes [simp]:
  "ts_components_by_area (insert_component L i c st) =
     (case component_area_id c of None \<Rightarrow> ts_components_by_area st
      | Some ar \<Rightarrow> index_add (id_set L) ar i (ts_components_by_area st))"
  "ts_apps_by_component (insert_component L i c st) = ts_apps_by_component st"
  "ts_apps_by_area (insert_component L i c st) = ts_apps_by_area st"
  by (simp_all add: insert_component_def Let_def split: option.splits)

lemma insert_app_entries [simp]:
  "component_entries L (insert_app L i a st) = component_entries L st"
  "app_entries L (insert_app L i a st) = AList.update i a (app_entries L st)"
  "area_entries L (insert_app L i a st) = area_entries L st"
  by (simp_all add: entries_defs insert_app_def container_laws Let_def split: option.splits)

lemma insert_app_indexes [simp]:
  "ts_components_by_area (insert_app L i a st) = ts_components_by_area st"
  "ts_apps_by_component (insert_app L i a st) =
     (case app_component_id a of None \<Rightarrow> ts_apps_by_component st
      | Some host \<Rightarrow> index_add (id_set L) host i (ts_apps_by_component st))"
  "ts_apps_by_area (insert_app L i a st) =
     (case app_area_id a of None \<Rightarrow> ts_apps_by_area st
      | Some ar \<Rightarrow> index_add (id_set L) ar i (ts_apps_by_area st))"
  by (simp_all add: insert_app_def Let_def split: option.splits)

lemma insert_area_entries [simp]:
  "component_entries L (insert_area L i a st) = component_entries L st"
  "app_entries L (insert_area L i a st) = app_entries L st"
  "area_entries L (insert_area L i a st) = AList.update i a (area_entries L st)"
  "ts_components_by_area (insert_area L i a st) = ts_components_by_area st"
  "ts_apps_by_component (insert_area L i a st) = ts_apps_by_component st"
  "ts_apps_by_area (insert_area L i a st) = ts_apps_by_area st"
  by (simp_all add: entries_defs insert_area_def container_laws)

lemma remove_component_result [simp]:
  "snd (remove_component L i st) = map_of (component_entries L st) i"
  by (auto simp: remove_component_def entries_defs container_laws Let_def
      split: prod.splits option.splits dest: arg_cong [of _ _ snd])

lemma remove_component_entries [simp]:
  "component_entries L (fst (remove_component L i st)) = AList.delete i (component_entries L st)"
  "app_entries L (fst (remove_component L i st)) = app_entries L st"
  "area_entries L (fst (remove_component L i st)) = area_entries L st"
  using cm.iter_shift_remove [of i "ts_components st"]
  by (auto simp: remove_component_def entries_defs Let_def split: prod.splits option.splits)

lemma remove_component_indexes [simp]:
  "ts_components_by_area (fst (remove_component L i st)) =
     (case map_of (component_entries L st) i of
        None \<Rightarrow> ts_components_by_area st
      | Some c \<Rightarrow> (case component_area_id c of None \<Rightarrow> ts_components_by_area st
          | Some ar \<Rightarrow> index_drop (id_set L) ar i (ts_components_by_area st)))"
  "ts_apps_by_component (fst (remove_component L i st)) = ts_apps_by_component st"
  "ts_apps_by_area (fst (remove_component L i st)) = ts_apps_by_area st"
  using cm.shift_removed [of i "ts_components st"]
  by (auto simp: remove_component_def entries_defs Let_def split: prod.splits option.splits)

lemma remove_app_result [simp]:
  "snd (remove_app L i st) = map_of (app_entries L st) i"
  using am.shift_removed [of i "ts_apps st"]
  by (auto simp: remove_app_def entries_defs Let_def split: prod.splits option.splits)

lemma remove_app_entries [simp]:
  "component_entries L (fst (remove_app L i st)) = component_entries L st"
  "app_entries L (fst (remove_app L i st)) = AList.delete i (app_entries L st)"
  "area_entries L (fst (remove_app L i st)) = area_entries L st"
  using am.iter_shift_remove [of i "ts_apps st"]
  by (auto simp: remove_app_def entries_defs Let_def split: prod.splits option.splits)

lemma remove_app_indexes [simp]:
  "ts_components_by_area (fst (remove_app L i st)) = ts_components_by_area st"
  "ts_apps_by_component (fst (remove_app L i st)) =
     (case map_of (app_entries L st) i of
        None \<Rightarrow> ts_apps_by_component st
      | Some a \<Rightarrow> (case app_component_id a of None \<Rightarrow> ts_apps_by_component st
          | Some host \<Rightarrow> index_drop (id_set L) host i (ts_apps_by_component st)))"
  "ts_apps_by_area (fst (remove_app L i st)) =
     (case map_of (app_entries L st) i of
        None \<Rightarrow> ts_apps_by_area st
      | Some a \<Rightarrow> (case app_area_id a of None \<Rightarrow> ts_apps_by_area st
          | Some ar \<Rightarrow> index_drop (id_set L) ar i (ts_apps_by_area st)))"
  using am.shift_removed [of i "ts_apps st"]
  by (auto simp: remove_app_def entries_defs Let_def split: prod.splits option.splits)

lemma remove_area_result [simp]:
  "snd (remove_area L i st) = map_of (area_entries L st) i"
  using rm.shift_removed [of i "ts_areas st"]
  by (auto simp: remove_area_def entries_defs Let_def split: prod.splits option.splits)

lemma remove_area_entries [simp]:
  "component_entries L (fst (remove_area L i st)) = component_entries L st"
  "app_entries L (fst (remove_area L i st)) = app_entries L st"
  "area_entries L (fst (remove_area L i st)) = AList.delete i (area_entries L st)"
  using rm.iter_shift_remove [of i "ts_areas st"]
  by (auto simp: remove_area_def entries_defs Let_def split: prod.splits option.splits)

lemma remove_area_indexes [simp]:
  "ts_apps_by_component (fst (remove_area L i st)) = ts_apps_by_component st"
  "ts_components_by_area (fst (remove_area L i st)) =
     (case map_of (area_entries L st) i of None \<Rightarrow> ts_components_by_area st
      | Some a \<Rightarrow> (ts_components_by_area st)(i := None))"
  "ts_apps_by_area (fst (remove_area L i st)) =
     (case map_of (area_entries L st) i of None \<Rightarrow> ts_apps_by_area st
      | Some a \<Rightarrow> (ts_apps_by_area st)(i := None))"
  using rm.shift_removed [of i "ts_areas st"]
  by (auto simp: remove_area_def entries_defs Let_def split: prod.splits option.splits)

text \<open>The queries in terms of the entries.\<close>

lemma get_component_entries:
  "get_component L st i =
     ok_or (TopologyNotFound (entity_ref_component i)) (map_of (component_entries L st) i)"
  by (simp add: get_component_def entries_defs container_laws)

lemma get_app_entries:
  "get_app L st i = ok_or (TopologyNotFound (entity_ref_app i)) (map_of (app_entries L st) i)"
  by (simp add: get_app_def entries_defs container_laws)

lemma get_area_entries:
  "get_area L st i = ok_or (TopologyNotFound (entity_ref_area i)) (map_of (area_entries L st) i)"
  by (simp add: get_area_def entries_defs container_laws)

lemma listings_entries:
  "components L st = map snd (component_entries L st)"
  "apps L st = map snd (app_entries L st)"
  "areas L st = map snd (area_entries L st)"
  by (simp_all add: components_def apps_def areas_def entries_defs container_laws)

lemma relations_entries:
  "component_of_app L st i =
     (case map_of (app_entries L st) i of None \<Rightarrow> Inl (TopologyNotFound (entity_ref_app i))
      | Some a \<Rightarrow> Inr (map_of (component_entries L st) (app_is_located_on a)))"
  "area_of_component L st i =
     (case map_of (component_entries L st) i of
        None \<Rightarrow> Inl (TopologyNotFound (entity_ref_component i))
      | Some c \<Rightarrow> Inr (Option.bind (component_area_id c) (map_of (area_entries L st))))"
  "area_of_app L st i =
     (case map_of (app_entries L st) i of None \<Rightarrow> Inl (TopologyNotFound (entity_ref_app i))
      | Some a \<Rightarrow> Inr (Option.bind (app_area_id a) (map_of (area_entries L st))))"
  by (simp_all add: component_of_app_def area_of_component_def area_of_app_def
      app_component_id_def entries_defs container_laws split: option.splits)

subsection \<open>The structural invariant\<close>

lemma topology_wf_new: "topology_wf L (topology_state_new L)"
  by (simp add: topology_wf_def) (simp add: topology_state_new_def ids.index_wf_empty)

lemma topology_wf_insert_component:
  "topology_wf L st \<Longrightarrow> component_ok c \<Longrightarrow> topology_wf L (insert_component L (component_id c) c st)"
  by (auto simp: topology_wf_def keyed_update ids.index_wf_add split: option.splits)

lemma topology_wf_insert_app:
  "topology_wf L st \<Longrightarrow> app_ok a \<Longrightarrow> topology_wf L (insert_app L (app_id a) a st)"
  by (auto simp: topology_wf_def keyed_update ids.index_wf_add split: option.splits)

lemma topology_wf_insert_area:
  "topology_wf L st \<Longrightarrow> area_ok a \<Longrightarrow> topology_wf L (insert_area L (area_id a) a st)"
  by (auto simp: topology_wf_def keyed_update)

lemma topology_wf_remove_component:
  "topology_wf L st \<Longrightarrow> topology_wf L (fst (remove_component L i st))"
  by (auto simp: topology_wf_def keyed_delete ids.index_wf_drop split: option.splits)

lemma topology_wf_remove_app:
  "topology_wf L st \<Longrightarrow> topology_wf L (fst (remove_app L i st))"
  by (auto simp: topology_wf_def keyed_delete ids.index_wf_drop split: option.splits)

lemma topology_wf_remove_area:
  "topology_wf L st \<Longrightarrow> topology_wf L (fst (remove_area L i st))"
  by (auto simp: topology_wf_def keyed_delete ids.index_wf_forget split: option.splits)

lemmas topology_wf_operations = topology_wf_insert_component topology_wf_insert_app
  topology_wf_insert_area topology_wf_remove_component topology_wf_remove_app
  topology_wf_remove_area

lemma topology_wf_keys:
  assumes "topology_wf L st"
  shows "distinct (map fst (component_entries L st))"
    and "distinct (map fst (app_entries L st))"
    and "distinct (map fst (area_entries L st))"
  using assms by (auto simp: topology_wf_def dest: keyed_distinct)

subsection \<open>Exactness of the secondary indexes\<close>

lemma topology_exact_new: "topology_exact L (topology_state_new L)"
  by (simp add: topology_exact_def) (simp add: topology_state_new_def ids.index_exact_empty)

lemma topology_exact_insert_component:
  assumes wf: "topology_wf L st" and exact: "topology_exact L st"
    and stable: "\<And>c0. map_of (component_entries L st) i = Some c0 \<Longrightarrow>
      component_area_id c0 = component_area_id c"
  shows "topology_exact L (insert_component L i c st)"
  using exact
    ids.index_exact_insert [OF _ topology_wf_keys(1) [OF wf], of component_area_id _ i c] stable
  by (simp add: topology_exact_def)

lemma topology_exact_insert_app:
  assumes wf: "topology_wf L st" and exact: "topology_exact L st"
    and stable: "\<And>a0. map_of (app_entries L st) i = Some a0 \<Longrightarrow>
      app_area_id a0 = app_area_id a \<and> app_component_id a0 = app_component_id a"
  shows "topology_exact L (insert_app L i a st)"
  using exact
    ids.index_exact_insert [OF _ topology_wf_keys(2) [OF wf], of app_area_id _ i a] stable
    ids.index_exact_insert [OF _ topology_wf_keys(2) [OF wf], of app_component_id _ i a]
  by (simp add: topology_exact_def)

lemma topology_exact_insert_area:
  "topology_exact L st \<Longrightarrow> topology_exact L (insert_area L i a st)"
  by (simp add: topology_exact_def)

lemma delete_absent: "map_of xs k = None \<Longrightarrow> AList.delete k xs = xs"
  by (simp add: map_of_eq_None_iff delete_idem)

lemma topology_exact_remove_component:
  assumes wf: "topology_wf L st" and exact: "topology_exact L st"
  shows "topology_exact L (fst (remove_component L i st))"
proof (cases "map_of (component_entries L st) i")
  case None
  with exact show ?thesis by (simp add: topology_exact_def delete_absent)
next
  case (Some c)
  with exact show ?thesis
    using ids.index_exact_remove [OF _ topology_wf_keys(1) [OF wf] Some]
    by (simp add: topology_exact_def)
qed

lemma topology_exact_remove_app:
  assumes wf: "topology_wf L st" and exact: "topology_exact L st"
  shows "topology_exact L (fst (remove_app L i st))"
proof (cases "map_of (app_entries L st) i")
  case None
  with exact show ?thesis by (simp add: topology_exact_def delete_absent)
next
  case (Some a)
  with exact show ?thesis
    using ids.index_exact_remove [OF _ topology_wf_keys(2) [OF wf] Some]
    by (simp add: topology_exact_def)
qed

lemma topology_exact_remove_area:
  assumes exact: "topology_exact L st"
    and unused: "\<And>p. p \<in> set (component_entries L st) \<Longrightarrow> component_area_id (snd p) \<noteq> Some i"
      "\<And>p. p \<in> set (app_entries L st) \<Longrightarrow> app_area_id (snd p) \<noteq> Some i"
  shows "topology_exact L (fst (remove_area L i st))"
proof -
  have "index_exact (id_set L) component_area_id (component_entries L st)
      ((ts_components_by_area st)(i := None))"
    using exact unused(1) by (intro ids.index_exact_forget) (simp_all add: topology_exact_def)
  moreover have "index_exact (id_set L) app_area_id (app_entries L st)
      ((ts_apps_by_area st)(i := None))"
    using exact unused(2) by (intro ids.index_exact_forget) (simp_all add: topology_exact_def)
  ultimately show ?thesis
    using exact by (simp add: topology_exact_def split: option.splits)
qed

text \<open>With exact indexes a relationship query is a scan of the listing.\<close>

lemma exact_lookup:
  assumes "distinct (map fst xs)"
  shows "List.map_filter (map_of xs) (index_scan tag xs key) =
    filter (\<lambda>v. tag v = Some key) (map snd xs)"
  using filter_map_lookup_self [OF assms, of "\<lambda>p. tag (snd p) = Some key"]
  by (simp add: index_scan_def filter_map comp_def)

lemma exact_queries:
  assumes wf: "topology_wf L st" and exact: "topology_exact L st"
  shows "components_of_area L st ar =
           filter (\<lambda>c. component_area_id c = Some ar) (components L st)"
    and "apps_of_area L st ar = filter (\<lambda>a. app_area_id a = Some ar) (apps L st)"
    and "apps_of_component L st host =
           filter (\<lambda>a. app_component_id a = Some host) (apps L st)"
proof -
  have get: "im_get (component_map L) (ts_components st) = map_of (component_entries L st)"
    "im_get (app_map L) (ts_apps st) = map_of (app_entries L st)"
    by (auto simp: entries_defs container_laws)
  note e = exact [unfolded topology_exact_def index_exact_def]
  show "components_of_area L st ar =
      filter (\<lambda>c. component_area_id c = Some ar) (components L st)"
    using e by (simp add: components_of_area_def get listings_entries
        exact_lookup [OF topology_wf_keys(1) [OF wf]])
  show "apps_of_area L st ar = filter (\<lambda>a. app_area_id a = Some ar) (apps L st)"
    using e by (simp add: apps_of_area_def get listings_entries
        exact_lookup [OF topology_wf_keys(2) [OF wf]])
  show "apps_of_component L st host =
      filter (\<lambda>a. app_component_id a = Some host) (apps L st)"
    using e by (simp add: apps_of_component_def get listings_entries
        exact_lookup [OF topology_wf_keys(2) [OF wf]])
qed

end

end
