(* ===== verification/Topology_Sessions.thy ===== *)
theory Topology_Sessions
  imports Topology
begin

text \<open>
  The guarded topology of \<open>src/opensovd-core/src/topology.rs\<close>: the write guard that applies
  mutations at once and batches their events, its \<open>Drop\<close>, and \<open>Topology\<close> itself, a state
  behind an asynchronous read-write lock with a broadcast sender.  The lock is tokio's: it is
  a parameter with its documented laws (locale \<open>read_write_lock\<close>); the broadcast channel is
  represented by the sequence of events handed to its sender.  Guards are steps of a
  transition relation, so that every interleaving of readers and writers is covered.
\<close>

subsection \<open>Events and the write guard\<close>

datatype topology_event = Added entity_ref | Removed entity_ref

record 't write_guard =
  wg_state :: 't
  wg_pending :: "topology_event list"

type_synonym ('mc, 'ma, 'mr, 's) guard = "('mc, 'ma, 'mr, 's) topology_state write_guard"

definition topology_write :: "'t \<Rightarrow> 't write_guard" where
  "topology_write st = \<lparr> wg_state = st, wg_pending = [] \<rparr>"

definition add_component ::
  "('mc, 'ma, 'mr, 's, 'w) containers \<Rightarrow> 'w component \<Rightarrow> ('mc, 'ma, 'mr, 's) guard \<Rightarrow>
     ('mc, 'ma, 'mr, 's) guard" where
  "add_component L c g =
     (let r = entity_ref_component (component_id c)
      in g\<lparr>wg_state := insert_component L (component_id c) c (wg_state g),
           wg_pending := wg_pending g @ [Added r]\<rparr>)"

definition add_app ::
  "('mc, 'ma, 'mr, 's, 'w) containers \<Rightarrow> 'w app \<Rightarrow> ('mc, 'ma, 'mr, 's) guard \<Rightarrow>
     ('mc, 'ma, 'mr, 's) guard" where
  "add_app L a g =
     (let r = entity_ref_app (app_id a)
      in g\<lparr>wg_state := insert_app L (app_id a) a (wg_state g),
           wg_pending := wg_pending g @ [Added r]\<rparr>)"

definition add_area ::
  "('mc, 'ma, 'mr, 's, 'w) containers \<Rightarrow> 'w area \<Rightarrow> ('mc, 'ma, 'mr, 's) guard \<Rightarrow>
     ('mc, 'ma, 'mr, 's) guard" where
  "add_area L a g =
     (let r = entity_ref_area (area_id a)
      in g\<lparr>wg_state := insert_area L (area_id a) a (wg_state g),
           wg_pending := wg_pending g @ [Added r]\<rparr>)"

definition guard_remove_component ::
  "('mc, 'ma, 'mr, 's, 'w) containers \<Rightarrow> string \<Rightarrow> ('mc, 'ma, 'mr, 's) guard \<Rightarrow>
     ('mc, 'ma, 'mr, 's) guard" where
  "guard_remove_component L i g =
     (let (st, removed) = remove_component L i (wg_state g);
          g1 = g\<lparr>wg_state := st\<rparr>
      in case removed of
           None \<Rightarrow> g1
         | Some _ \<Rightarrow> g1\<lparr>wg_pending := wg_pending g1 @ [Removed (entity_ref_component i)]\<rparr>)"

definition guard_remove_app ::
  "('mc, 'ma, 'mr, 's, 'w) containers \<Rightarrow> string \<Rightarrow> ('mc, 'ma, 'mr, 's) guard \<Rightarrow>
     ('mc, 'ma, 'mr, 's) guard" where
  "guard_remove_app L i g =
     (let (st, removed) = remove_app L i (wg_state g);
          g1 = g\<lparr>wg_state := st\<rparr>
      in case removed of
           None \<Rightarrow> g1
         | Some _ \<Rightarrow> g1\<lparr>wg_pending := wg_pending g1 @ [Removed (entity_ref_app i)]\<rparr>)"

definition guard_remove_area ::
  "('mc, 'ma, 'mr, 's, 'w) containers \<Rightarrow> string \<Rightarrow> ('mc, 'ma, 'mr, 's) guard \<Rightarrow>
     ('mc, 'ma, 'mr, 's) guard" where
  "guard_remove_area L i g =
     (let (st, removed) = remove_area L i (wg_state g);
          g1 = g\<lparr>wg_state := st\<rparr>
      in case removed of
           None \<Rightarrow> g1
         | Some _ \<Rightarrow> g1\<lparr>wg_pending := wg_pending g1 @ [Removed (entity_ref_area i)]\<rparr>)"

text \<open>The calls a writer makes while it holds the guard.\<close>

datatype 'w topology_op =
    AddComponent "'w component"
  | AddApp "'w app"
  | AddArea "'w area"
  | RemoveComponent string
  | RemoveApp string
  | RemoveArea string

fun apply_op ::
  "('mc, 'ma, 'mr, 's, 'w) containers \<Rightarrow> 'w topology_op \<Rightarrow> ('mc, 'ma, 'mr, 's) guard \<Rightarrow>
     ('mc, 'ma, 'mr, 's) guard" where
  "apply_op L (AddComponent c) g = add_component L c g"
| "apply_op L (AddApp a) g = add_app L a g"
| "apply_op L (AddArea a) g = add_area L a g"
| "apply_op L (RemoveComponent i) g = guard_remove_component L i g"
| "apply_op L (RemoveApp i) g = guard_remove_app L i g"
| "apply_op L (RemoveArea i) g = guard_remove_area L i g"

fun run_ops ::
  "('mc, 'ma, 'mr, 's, 'w) containers \<Rightarrow> 'w topology_op list \<Rightarrow> ('mc, 'ma, 'mr, 's) guard \<Rightarrow>
     ('mc, 'ma, 'mr, 's) guard" where
  "run_ops L [] g = g"
| "run_ops L (p # ps) g = run_ops L ps (apply_op L p g)"

lemma run_ops_append: "run_ops L (ps @ qs) g = run_ops L qs (run_ops L ps g)"
  by (induction ps arbitrary: g) simp_all

lemmas guard_defs = add_component_def add_app_def add_area_def guard_remove_component_def
  guard_remove_app_def guard_remove_area_def

text \<open>
  Entities come from their constructors (\<open>op_ok\<close>).  An operation is \<open>stable\<close> when it does
  not replace an entity by one with another area or host, and removes an area only after
  everything in it.
\<close>

fun op_ok :: "'w topology_op \<Rightarrow> bool" where
  "op_ok (AddComponent c) = component_ok c"
| "op_ok (AddApp a) = app_ok a"
| "op_ok (AddArea a) = area_ok a"
| "op_ok _ = True"

fun op_stable ::
  "('mc, 'ma, 'mr, 's, 'w) containers \<Rightarrow> ('mc, 'ma, 'mr, 's) topology_state \<Rightarrow>
     'w topology_op \<Rightarrow> bool" where
  "op_stable L st (AddComponent c) =
     (case get_component L st (component_id c) of Inl _ \<Rightarrow> True
      | Inr c0 \<Rightarrow> component_area_id c0 = component_area_id c)"
| "op_stable L st (AddApp a) =
     (case get_app L st (app_id a) of Inl _ \<Rightarrow> True
      | Inr a0 \<Rightarrow> app_area_id a0 = app_area_id a \<and> app_is_located_on a0 = app_is_located_on a)"
| "op_stable L st (RemoveArea i) =
     (list_all (\<lambda>c. component_area_id c \<noteq> Some i) (components L st) \<and>
      list_all (\<lambda>a. app_area_id a \<noteq> Some i) (apps L st))"
| "op_stable L st _ = True"

fun ops_stable ::
  "('mc, 'ma, 'mr, 's, 'w) containers \<Rightarrow> 'w topology_op list \<Rightarrow> ('mc, 'ma, 'mr, 's) guard \<Rightarrow>
     bool" where
  "ops_stable L [] g = True"
| "ops_stable L (p # ps) g =
     (op_stable L (wg_state g) p \<and> ops_stable L ps (apply_op L p g))"

subsection \<open>Following the topology through its events\<close>

text \<open>The set a subscriber maintains, and the set of references the topology holds.\<close>

fun replay_event :: "topology_event \<Rightarrow> entity_ref set \<Rightarrow> entity_ref set" where
  "replay_event (Added r) R = insert r R"
| "replay_event (Removed r) R = R - {r}"

definition replay :: "topology_event list \<Rightarrow> entity_ref set \<Rightarrow> entity_ref set" where
  "replay es R = fold replay_event es R"

lemma replay_simps [simp]:
  "replay [] R = R" "replay (e # es) R = replay es (replay_event e R)"
  "replay (es @ es') R = replay es' (replay es R)"
  by (simp_all add: replay_def)

definition topology_refs ::
  "('mc, 'ma, 'mr, 's, 'w) containers \<Rightarrow> ('mc, 'ma, 'mr, 's) topology_state \<Rightarrow> entity_ref set" where
  "topology_refs L st =
     set (map component_entity_ref (components L st) @ map app_entity_ref (apps L st)
          @ map area_entity_ref (areas L st))"

text \<open>The events one call adds to the pending list, in terms of the entries before the call.\<close>

definition op_events ::
  "('mc, 'ma, 'mr, 's, 'w) containers \<Rightarrow> 'w topology_op \<Rightarrow>
     ('mc, 'ma, 'mr, 's) topology_state \<Rightarrow> topology_event list" where
  "op_events L p st = (case p of
     AddComponent c \<Rightarrow> [Added (entity_ref_component (component_id c))]
   | AddApp a \<Rightarrow> [Added (entity_ref_app (app_id a))]
   | AddArea a \<Rightarrow> [Added (entity_ref_area (area_id a))]
   | RemoveComponent i \<Rightarrow> (if map_of (component_entries L st) i = None then []
       else [Removed (entity_ref_component i)])
   | RemoveApp i \<Rightarrow> (if map_of (app_entries L st) i = None then []
       else [Removed (entity_ref_app i)])
   | RemoveArea i \<Rightarrow> (if map_of (area_entries L st) i = None then []
       else [Removed (entity_ref_area i)]))"

context topology_containers
begin

lemma topology_refs_new: "topology_refs L (topology_state_new L) = {}"
  by (simp add: topology_refs_def listings_entries)

lemma topology_refs_entries:
  assumes "topology_wf L st"
  shows "topology_refs L st =
    entity_ref_component ` set (map fst (component_entries L st)) \<union>
    entity_ref_app ` set (map fst (app_entries L st)) \<union>
    entity_ref_area ` set (map fst (area_entries L st))"
proof -
  have "component_entity_ref ` snd ` set (component_entries L st) =
      entity_ref_component ` fst ` set (component_entries L st)"
    using assms unfolding topology_wf_def keyed_def image_image
    by (intro image_cong) (auto simp: component_ok_def)
  moreover have "app_entity_ref ` snd ` set (app_entries L st) =
      entity_ref_app ` fst ` set (app_entries L st)"
    using assms unfolding topology_wf_def keyed_def image_image
    by (intro image_cong) (auto simp: app_ok_def)
  moreover have "area_entity_ref ` snd ` set (area_entries L st) =
      entity_ref_area ` fst ` set (area_entries L st)"
    using assms unfolding topology_wf_def keyed_def image_image
    by (intro image_cong) (auto simp: area_ok_def)
  ultimately show ?thesis
    by (simp add: topology_refs_def listings_entries image_image Un_assoc)
qed

text \<open>The state and the events of one operation.\<close>

lemma apply_op_state:
  "wg_state (apply_op L p g) = (case p of
     AddComponent c \<Rightarrow> insert_component L (component_id c) c (wg_state g)
   | AddApp a \<Rightarrow> insert_app L (app_id a) a (wg_state g)
   | AddArea a \<Rightarrow> insert_area L (area_id a) a (wg_state g)
   | RemoveComponent i \<Rightarrow> fst (remove_component L i (wg_state g))
   | RemoveApp i \<Rightarrow> fst (remove_app L i (wg_state g))
   | RemoveArea i \<Rightarrow> fst (remove_area L i (wg_state g)))"
  by (cases p) (auto simp: guard_defs Let_def split: prod.splits option.splits)

lemma apply_op_pending:
  "wg_pending (apply_op L p g) = wg_pending g @ op_events L p (wg_state g)"
  using remove_component_result remove_app_result remove_area_result
  by (cases p) (auto simp: guard_defs op_events_def Let_def split_beta split: option.splits)

lemma apply_op_wf:
  "topology_wf L (wg_state g) \<Longrightarrow> op_ok p \<Longrightarrow> topology_wf L (wg_state (apply_op L p g))"
  unfolding apply_op_state by (cases p) (simp_all add: topology_wf_operations)

lemma run_ops_wf:
  "topology_wf L (wg_state g) \<Longrightarrow> list_all op_ok ps \<Longrightarrow> topology_wf L (wg_state (run_ops L ps g))"
  by (induction ps arbitrary: g) (simp_all add: apply_op_wf)

lemma op_events_refs:
  assumes wf: "topology_wf L (wg_state g)" and ok: "op_ok p"
  shows "replay (op_events L p (wg_state g)) (topology_refs L (wg_state g)) =
    topology_refs L (wg_state (apply_op L p g))"
proof -
  have wf': "topology_wf L (wg_state (apply_op L p g))" using assms by (rule apply_op_wf)
  have keys: "fst ` set (AList.update k v xs) = insert k (fst ` set xs)"
      "fst ` set (AList.delete k xs) = fst ` set xs - {k}"
    for k :: string and v :: 'v and xs :: "(string \<times> 'v) list"
    using set_map_fst_update [of k v xs] arg_cong [OF map_fst_delete [of k xs], of set] by auto
  show ?thesis
    unfolding topology_refs_entries [OF wf] topology_refs_entries [OF wf']
    by (cases p) (auto simp del: apply_op.simps simp: op_events_def apply_op_state keys
        delete_absent map_of_eq_None_iff)
qed

lemma run_ops_replay:
  assumes "topology_wf L (wg_state g)" and "list_all op_ok ps"
    and "replay (wg_pending g) R = topology_refs L (wg_state g)"
  shows "replay (wg_pending (run_ops L ps g)) R = topology_refs L (wg_state (run_ops L ps g))"
  using assms
  by (induction ps arbitrary: g) (simp_all add: apply_op_wf apply_op_pending op_events_refs)

lemma apply_op_exact:
  assumes "topology_wf L (wg_state g)" and "topology_exact L (wg_state g)"
    and "op_stable L (wg_state g) p"
  shows "topology_exact L (wg_state (apply_op L p g))"
  using assms unfolding apply_op_state
  by (cases p)
    (auto simp: get_component_entries get_app_entries listings_entries list_all_iff
      app_component_id_def
      intro!: topology_exact_insert_component topology_exact_insert_app topology_exact_insert_area
        topology_exact_remove_component topology_exact_remove_app topology_exact_remove_area
      split: sum.splits)

lemma run_ops_exact:
  assumes "topology_wf L (wg_state g)" and "topology_exact L (wg_state g)"
    and "list_all op_ok ps" and "ops_stable L ps g"
  shows "topology_exact L (wg_state (run_ops L ps g))"
  using assms by (induction ps arbitrary: g) (simp_all add: apply_op_wf apply_op_exact)

end

subsection \<open>The shared topology\<close>

text \<open>
  tokio's read-write lock and broadcast sender: the operations the source uses, and what their
  documentation promises in terms of the guards that are held and the values that were sent.
  \<open>rw_try_read\<close> and \<open>rw_try_write\<close> are the moments at which a waiting \<open>read().await\<close> or
  \<open>write().await\<close> is granted.
\<close>

record ('l, 'tx) sync_primitives =
  rw_new :: 'l
  rw_try_read :: "'l \<Rightarrow> 'l option"
  rw_try_write :: "'l \<Rightarrow> 'l option"
  rw_drop_read :: "'l \<Rightarrow> 'l"
  rw_drop_write :: "'l \<Rightarrow> 'l"
  rw_readers :: "'l \<Rightarrow> nat"
  rw_writing :: "'l \<Rightarrow> bool"
  bc_channel :: "nat \<Rightarrow> 'tx"
  bc_send :: "topology_event \<Rightarrow> 'tx \<Rightarrow> 'tx"
  bc_sent :: "'tx \<Rightarrow> topology_event list"

locale topology_sync =
  fixes Y :: "('l, 'tx) sync_primitives"
  assumes lock_new: "rw_readers Y (rw_new Y) = 0" "\<not> rw_writing Y (rw_new Y)"
    and read_granted: "rw_try_read Y l = Some l' \<Longrightarrow>
          \<not> rw_writing Y l \<and> \<not> rw_writing Y l' \<and> rw_readers Y l' = Suc (rw_readers Y l)"
    and write_granted: "rw_try_write Y l = Some l' \<Longrightarrow>
          \<not> rw_writing Y l \<and> rw_readers Y l = 0 \<and> rw_writing Y l' \<and> rw_readers Y l' = 0"
    and read_dropped: "rw_readers Y l = Suc n \<Longrightarrow>
          rw_readers Y (rw_drop_read Y l) = n \<and>
          rw_writing Y (rw_drop_read Y l) = rw_writing Y l"
    and write_dropped: "rw_writing Y l \<Longrightarrow>
          \<not> rw_writing Y (rw_drop_write Y l) \<and>
          rw_readers Y (rw_drop_write Y l) = rw_readers Y l"
    and sent_new: "bc_sent Y (bc_channel Y n) = []"
    and sent_send: "bc_sent Y (bc_send Y e tx) = bc_sent Y tx @ [e]"

text \<open>\<open>TopologyInner\<close>, and its construction by \<open>Topology::new\<close> and \<open>with_event_capacity\<close>.\<close>

record ('t, 'l, 'tx) topology_inner =
  ti_lock :: 'l
  ti_state :: 't
  ti_events :: 'tx

definition DEFAULT_EVENT_CHANNEL_CAPACITY :: nat where
  "DEFAULT_EVENT_CHANNEL_CAPACITY = 64"

definition with_event_capacity ::
  "('mc, 'ma, 'mr, 's, 'w) containers \<Rightarrow> ('l, 'tx) sync_primitives \<Rightarrow> nat \<Rightarrow>
     (('mc, 'ma, 'mr, 's) topology_state, 'l, 'tx) topology_inner" where
  "with_event_capacity L Y capacity =
     \<lparr> ti_lock = rw_new Y, ti_state = topology_state_new L, ti_events = bc_channel Y capacity \<rparr>"

definition topology_new ::
  "('mc, 'ma, 'mr, 's, 'w) containers \<Rightarrow> ('l, 'tx) sync_primitives \<Rightarrow>
     (('mc, 'ma, 'mr, 's) topology_state, 'l, 'tx) topology_inner" where
  "topology_new L Y = with_event_capacity L Y DEFAULT_EVENT_CHANNEL_CAPACITY"

text \<open>\<open>Drop\<close> of the write guard sends the pending events in order.\<close>

fun guard_drop ::
  "('l, 'tx) sync_primitives \<Rightarrow> topology_event list \<Rightarrow> 'tx \<Rightarrow> 'tx" where
  "guard_drop Y [] tx = tx"
| "guard_drop Y (e # pending) tx = guard_drop Y pending (bc_send Y e tx)"

subsection \<open>Interleavings\<close>

text \<open>
  The guards that are alive: each reader with the state it saw when it was granted, each
  writer with its pending events and whether its \<open>Drop\<close> has begun.  The relation does not
  itself keep guards apart; that is left to the lock.
\<close>

record write_session =
  ws_pending :: "topology_event list"
  ws_dropping :: bool

record ('t, 'l, 'tx) topology_system =
  sy_inner :: "('t, 'l, 'tx) topology_inner"
  sy_readers :: "'t list"
  sy_writers :: "write_session list"

type_synonym ('mc, 'ma, 'mr, 's, 'l, 'tx) shared_topology =
  "(('mc, 'ma, 'mr, 's) topology_state, 'l, 'tx) topology_system"

definition drop_nth :: "nat \<Rightarrow> 'a list \<Rightarrow> 'a list" where
  "drop_nth i xs = take i xs @ drop (Suc i) xs"

lemma drop_nth_simps [simp]:
  "drop_nth 0 (x # xs) = xs" "drop_nth (Suc i) (x # xs) = x # drop_nth i xs"
  by (simp_all add: drop_nth_def)

lemma drop_nth_length [simp]: "i < length xs \<Longrightarrow> length (drop_nth i xs) = length xs - 1"
  by (simp add: drop_nth_def)

lemma drop_nth_subset: "set (drop_nth i xs) \<subseteq> set xs"
  using set_take_subset [of i xs] set_drop_subset [of "Suc i" xs] by (auto simp: drop_nth_def)

inductive topology_step ::
  "('mc, 'ma, 'mr, 's, 'w) containers \<Rightarrow> ('l, 'tx) sync_primitives \<Rightarrow>
     ('mc, 'ma, 'mr, 's, 'l, 'tx) shared_topology \<Rightarrow>
     ('mc, 'ma, 'mr, 's, 'l, 'tx) shared_topology \<Rightarrow> bool"
  for L :: "('mc, 'ma, 'mr, 's, 'w) containers" and Y :: "('l, 'tx) sync_primitives"
where
  start_read:
    "rw_try_read Y (ti_lock inner) = Some l \<Longrightarrow>
     topology_step L Y \<lparr> sy_inner = inner, sy_readers = rs, sy_writers = ws \<rparr>
       \<lparr> sy_inner = inner\<lparr>ti_lock := l\<rparr>, sy_readers = rs @ [ti_state inner], sy_writers = ws \<rparr>"
| end_read:
    "i < length rs \<Longrightarrow>
     topology_step L Y \<lparr> sy_inner = inner, sy_readers = rs, sy_writers = ws \<rparr>
       \<lparr> sy_inner = inner\<lparr>ti_lock := rw_drop_read Y (ti_lock inner)\<rparr>,
         sy_readers = drop_nth i rs, sy_writers = ws \<rparr>"
| start_write:
    "rw_try_write Y (ti_lock inner) = Some l \<Longrightarrow>
     topology_step L Y \<lparr> sy_inner = inner, sy_readers = rs, sy_writers = ws \<rparr>
       \<lparr> sy_inner = inner\<lparr>ti_lock := l\<rparr>, sy_readers = rs,
         sy_writers = ws @
           [\<lparr> ws_pending = wg_pending (topology_write (ti_state inner)), ws_dropping = False \<rparr>] \<rparr>"
| write_op:
    "i < length ws \<Longrightarrow> \<not> ws_dropping (ws ! i) \<Longrightarrow> op_ok p \<Longrightarrow>
     g = apply_op L p \<lparr> wg_state = ti_state inner, wg_pending = ws_pending (ws ! i) \<rparr> \<Longrightarrow>
     topology_step L Y \<lparr> sy_inner = inner, sy_readers = rs, sy_writers = ws \<rparr>
       \<lparr> sy_inner = inner\<lparr>ti_state := wg_state g\<rparr>, sy_readers = rs,
         sy_writers = ws[i := \<lparr> ws_pending = wg_pending g, ws_dropping = False \<rparr>] \<rparr>"
| begin_drop:
    "i < length ws \<Longrightarrow> \<not> ws_dropping (ws ! i) \<Longrightarrow>
     topology_step L Y \<lparr> sy_inner = inner, sy_readers = rs, sy_writers = ws \<rparr>
       \<lparr> sy_inner = inner, sy_readers = rs,
         sy_writers = ws[i := \<lparr> ws_pending = ws_pending (ws ! i), ws_dropping = True \<rparr>] \<rparr>"
| send_event:
    "i < length ws \<Longrightarrow> ws ! i = \<lparr> ws_pending = e # es, ws_dropping = True \<rparr> \<Longrightarrow>
     topology_step L Y \<lparr> sy_inner = inner, sy_readers = rs, sy_writers = ws \<rparr>
       \<lparr> sy_inner = inner\<lparr>ti_events := bc_send Y e (ti_events inner)\<rparr>, sy_readers = rs,
         sy_writers = ws[i := \<lparr> ws_pending = es, ws_dropping = True \<rparr>] \<rparr>"
| release:
    "i < length ws \<Longrightarrow> ws ! i = \<lparr> ws_pending = [], ws_dropping = True \<rparr> \<Longrightarrow>
     topology_step L Y \<lparr> sy_inner = inner, sy_readers = rs, sy_writers = ws \<rparr>
       \<lparr> sy_inner = inner\<lparr>ti_lock := rw_drop_write Y (ti_lock inner)\<rparr>, sy_readers = rs,
         sy_writers = drop_nth i ws \<rparr>"

inductive_cases topology_stepE [consumes 1, case_names start_read end_read start_write write_op
    begin_drop send_event release]: "topology_step L Y s s'"

definition system_new ::
  "('mc, 'ma, 'mr, 's, 'w) containers \<Rightarrow> ('l, 'tx) sync_primitives \<Rightarrow> nat \<Rightarrow>
     ('mc, 'ma, 'mr, 's, 'l, 'tx) shared_topology" where
  "system_new L Y capacity =
     \<lparr> sy_inner = with_event_capacity L Y capacity, sy_readers = [], sy_writers = [] \<rparr>"

inductive topology_reachable ::
  "('mc, 'ma, 'mr, 's, 'w) containers \<Rightarrow> ('l, 'tx) sync_primitives \<Rightarrow> nat \<Rightarrow>
     ('mc, 'ma, 'mr, 's, 'l, 'tx) shared_topology \<Rightarrow> bool"
  for L :: "('mc, 'ma, 'mr, 's, 'w) containers" and Y :: "('l, 'tx) sync_primitives"
    and capacity :: nat
where
  reach_new: "topology_reachable L Y capacity (system_new L Y capacity)"
| reach_step: "topology_reachable L Y capacity s \<Longrightarrow> topology_step L Y s s' \<Longrightarrow>
    topology_reachable L Y capacity s'"

subsection \<open>The invariant of the shared topology\<close>

definition all_pending :: "write_session list \<Rightarrow> topology_event list" where
  "all_pending ws = concat (map ws_pending ws)"

text \<open>
  The lock's account of the guards is right; a writer is alone; readers still see the state
  they were granted on; the events sent, followed by those still pending, lead a subscriber
  from the empty set to the references the topology holds.
\<close>

definition system_invariant ::
  "('mc, 'ma, 'mr, 's, 'w) containers \<Rightarrow> ('l, 'tx) sync_primitives \<Rightarrow>
     ('mc, 'ma, 'mr, 's, 'l, 'tx) shared_topology \<Rightarrow> bool" where
  "system_invariant L Y s \<longleftrightarrow>
     rw_readers Y (ti_lock (sy_inner s)) = length (sy_readers s) \<and>
     (rw_writing Y (ti_lock (sy_inner s)) \<longleftrightarrow> sy_writers s \<noteq> []) \<and>
     length (sy_writers s) \<le> 1 \<and> (sy_writers s \<noteq> [] \<longrightarrow> sy_readers s = []) \<and>
     (\<forall>snapshot \<in> set (sy_readers s). snapshot = ti_state (sy_inner s)) \<and>
     topology_wf L (ti_state (sy_inner s)) \<and>
     replay (bc_sent Y (ti_events (sy_inner s)) @ all_pending (sy_writers s)) {} =
       topology_refs L (ti_state (sy_inner s))"

lemma single_writer:
  assumes "length ws \<le> 1" and "i < length ws"
  shows "i = 0 \<and> (\<exists>w. ws = [w])"
  using assms by (cases ws) auto

locale shared_topology_laws = topology_containers L + topology_sync Y
  for L :: "('mc, 'ma, 'mr, 's, 'w) containers" and Y :: "('l, 'tx) sync_primitives"
begin

lemma guard_drop_sent: "bc_sent Y (guard_drop Y es tx) = bc_sent Y tx @ es"
  by (induction es arbitrary: tx) (simp_all add: sent_send)

lemma invariant_new: "system_invariant L Y (system_new L Y capacity)"
  by (simp add: system_invariant_def system_new_def with_event_capacity_def lock_new sent_new
      topology_wf_new topology_refs_new all_pending_def)

lemma invariant_step:
  assumes "topology_step L Y s s'" and inv: "system_invariant L Y s"
  shows "system_invariant L Y s'"
  using assms(1)
proof (cases rule: topology_stepE)
  case (start_read inner l rs ws)
  with inv read_granted [OF start_read(3)] show ?thesis
    by (auto simp: system_invariant_def all_pending_def)
next
  case (end_read i rs inner ws)
  then obtain n where "length rs = Suc n" by (cases rs) auto
  with end_read inv read_dropped [of "ti_lock inner" n] drop_nth_subset [of i rs] show ?thesis
    by (auto simp: system_invariant_def)
next
  case (start_write inner l rs ws)
  with inv write_granted [OF start_write(3)] show ?thesis
    by (auto simp: system_invariant_def all_pending_def topology_write_def)
next
  case (write_op i ws p inner rs)
  with inv obtain w where w: "i = 0" "ws = [w]"
    using single_writer [of ws i] by (auto simp: system_invariant_def)
  let ?g = "\<lparr> wg_state = ti_state inner, wg_pending = ws_pending w \<rparr>"
  have wf: "topology_wf L (wg_state ?g)" using inv write_op by (simp add: system_invariant_def)
  have "wg_pending (apply_op L p ?g) = ws_pending w @ op_events L p (ti_state inner)"
    by (simp add: apply_op_pending)
  then show ?thesis
    using inv write_op w apply_op_wf [OF wf] op_events_refs [OF wf]
    by (simp add: system_invariant_def all_pending_def)
next
  case (begin_drop i ws inner rs)
  with inv single_writer [of ws i] show ?thesis
    by (auto simp: system_invariant_def all_pending_def)
next
  case (send_event i ws e es inner rs)
  with inv single_writer [of ws i] show ?thesis
    by (auto simp: system_invariant_def all_pending_def sent_send)
next
  case (release i ws inner rs)
  with inv single_writer [of ws i] write_dropped [of "ti_lock inner"] show ?thesis
    by (auto simp: system_invariant_def all_pending_def)
qed

lemma invariant_reachable: "topology_reachable L Y capacity s \<Longrightarrow> system_invariant L Y s"
  by (induction rule: topology_reachable.induct) (auto intro: invariant_new invariant_step)

text \<open>
  Dropping a guard, stepwise or at once, sends the same events; and every guard can be
  dropped from every state, after which no event is outstanding.
\<close>

lemma drain_steps:
  "rtranclp (topology_step L Y)
     \<lparr> sy_inner = inner, sy_readers = rs, sy_writers = [\<lparr> ws_pending = es, ws_dropping = True \<rparr>] \<rparr>
     \<lparr> sy_inner = inner\<lparr>ti_events := guard_drop Y es (ti_events inner),
         ti_lock := rw_drop_write Y (ti_lock inner)\<rparr>, sy_readers = rs, sy_writers = [] \<rparr>"
proof (induction es arbitrary: inner)
  case Nil
  have "topology_step L Y
     \<lparr> sy_inner = inner, sy_readers = rs, sy_writers = [\<lparr> ws_pending = [], ws_dropping = True \<rparr>] \<rparr>
     \<lparr> sy_inner = inner\<lparr>ti_lock := rw_drop_write Y (ti_lock inner)\<rparr>, sy_readers = rs,
       sy_writers = drop_nth 0 [\<lparr> ws_pending = [], ws_dropping = True \<rparr>] \<rparr>"
    by (rule release) simp_all
  then show ?case by (simp add: r_into_rtranclp)
next
  case (Cons e es)
  have "topology_step L Y
     \<lparr> sy_inner = inner, sy_readers = rs,
       sy_writers = [\<lparr> ws_pending = e # es, ws_dropping = True \<rparr>] \<rparr>
     \<lparr> sy_inner = inner\<lparr>ti_events := bc_send Y e (ti_events inner)\<rparr>, sy_readers = rs,
       sy_writers = [\<lparr> ws_pending = e # es, ws_dropping = True \<rparr>]
         [0 := \<lparr> ws_pending = es, ws_dropping = True \<rparr>] \<rparr>"
    by (rule send_event) simp_all
  then show ?case
    using Cons.IH [of "inner\<lparr>ti_events := bc_send Y e (ti_events inner)\<rparr>"]
    by (simp add: converse_rtranclp_into_rtranclp)
qed

lemma release_readers:
  "\<exists>l. rtranclp (topology_step L Y) \<lparr> sy_inner = inner, sy_readers = rs, sy_writers = ws \<rparr>
         \<lparr> sy_inner = inner\<lparr>ti_lock := l\<rparr>, sy_readers = [], sy_writers = ws \<rparr>"
proof (induction rs arbitrary: inner)
  case Nil
  have "inner\<lparr>ti_lock := ti_lock inner\<rparr> = inner" by simp
  then show ?case by (metis rtranclp.rtrancl_refl)
next
  case (Cons r rs)
  have "topology_step L Y \<lparr> sy_inner = inner, sy_readers = r # rs, sy_writers = ws \<rparr>
     \<lparr> sy_inner = inner\<lparr>ti_lock := rw_drop_read Y (ti_lock inner)\<rparr>,
       sy_readers = drop_nth 0 (r # rs), sy_writers = ws \<rparr>"
    by (rule end_read) simp
  moreover obtain l where "rtranclp (topology_step L Y)
     \<lparr> sy_inner = inner\<lparr>ti_lock := rw_drop_read Y (ti_lock inner)\<rparr>, sy_readers = rs, sy_writers = ws \<rparr>
     \<lparr> sy_inner = inner\<lparr>ti_lock := l\<rparr>, sy_readers = [], sy_writers = ws \<rparr>"
    using Cons.IH [of "inner\<lparr>ti_lock := rw_drop_read Y (ti_lock inner)\<rparr>"] by auto
  ultimately show ?case by (auto intro: converse_rtranclp_into_rtranclp)
qed

lemma quiescence:
  assumes "system_invariant L Y s"
  shows "\<exists>s'. rtranclp (topology_step L Y) s s' \<and> sy_readers s' = [] \<and> sy_writers s' = [] \<and>
    ti_state (sy_inner s') = ti_state (sy_inner s) \<and>
    bc_sent Y (ti_events (sy_inner s')) =
      bc_sent Y (ti_events (sy_inner s)) @ all_pending (sy_writers s)"
proof (cases s)
  case (fields inner rs ws)
  show ?thesis
  proof (cases ws)
    case Nil
    with fields release_readers [of inner rs ws] show ?thesis by (fastforce simp: all_pending_def)
  next
    case (Cons w ws')
    with assms fields have ws: "ws = [w]" "rs = []" by (auto simp: system_invariant_def)
    let ?s1 = "\<lparr> sy_inner = inner, sy_readers = [],
      sy_writers = [\<lparr> ws_pending = ws_pending w, ws_dropping = True \<rparr>] \<rparr>"
    have "rtranclp (topology_step L Y) s ?s1"
    proof (cases "ws_dropping w")
      case True
      with fields ws have "s = ?s1" by (cases w) simp
      then show ?thesis by simp
    next
      case False
      then show ?thesis
        using begin_drop [of 0 "[w]" L Y inner "[]"] fields ws by (simp add: r_into_rtranclp)
    qed
    from rtranclp_trans [OF this drain_steps [of inner "[]" "ws_pending w"]] show ?thesis
      using fields ws by (auto simp: all_pending_def guard_drop_sent intro!: exI)
  qed
qed

end

subsection \<open>Concrete containers and primitives\<close>

text \<open>
  Association lists, duplicate-free lists, a reader count with a writer flag, and the list of
  the sent events meet the documented laws.
\<close>

type_synonym 'w list_topology =
  "((string \<times> 'w component) list, (string \<times> 'w app) list, (string \<times> 'w area) list, string list)
     topology_state"

definition list_containers ::
  "((string \<times> 'w component) list, (string \<times> 'w app) list, (string \<times> 'w area) list, string list, 'w)
     containers" where
  "list_containers = \<lparr> component_map = alist_map, app_map = alist_map, area_map = alist_map,
     id_set = list_set \<rparr>"

definition counting_sync :: "(nat \<times> bool, topology_event list) sync_primitives" where
  "counting_sync = \<lparr> rw_new = (0, False),
     rw_try_read = (\<lambda>(n, w). if w then None else Some (Suc n, False)),
     rw_try_write = (\<lambda>(n, w). if w \<or> n \<noteq> 0 then None else Some (0, True)),
     rw_drop_read = (\<lambda>(n, w). (n - 1, w)), rw_drop_write = (\<lambda>(n, w). (n, False)),
     rw_readers = fst, rw_writing = snd,
     bc_channel = (\<lambda>_. []), bc_send = (\<lambda>e es. es @ [e]), bc_sent = (\<lambda>es. es) \<rparr>"

interpretation lists: topology_containers list_containers
  by unfold_locales
    (simp_all add: list_containers_def alist.map_laws dset.set_laws alist_map_def list_set_def)

interpretation counting: topology_sync counting_sync
  by unfold_locales (auto simp: counting_sync_def split: if_splits)

interpretation shared: shared_topology_laws list_containers counting_sync
  by unfold_locales

end
