(* ===== verification/Topology_Properties.thy ===== *)
theory Topology_Properties
  imports Topology_Sessions
begin

text \<open>
  The properties of the topology: what its lookups, listings and relationship queries promise
  after any sequence of calls on a write guard, which sequences keep the secondary indexes
  exact and which do not, and what the lock and the event channel promise to concurrent
  readers, writers and subscribers.
\<close>

subsection \<open>A small vehicle for the concrete runs\<close>

definition sample_ops :: "unit topology_op list" where
  "sample_ops =
     [AddArea (area_new ''front'' ''Front''),
      AddComponent (component_with_area_id ''front'' (component_new ''ecu'' ''ECU'')),
      AddComponent (component_new ''hpc'' ''HPC''),
      AddApp (app_with_area_id ''front'' (app_new ''nav'' ''Navigation'' ''ecu'')),
      AddApp (app_new ''log'' ''Logger'' ''hpc''),
      RemoveComponent ''hpc'', RemoveArea ''rear'']"

definition sample_state :: "unit list_topology" where
  "sample_state = wg_state (run_ops list_containers sample_ops
     (topology_write (topology_state_new list_containers)))"

lemmas sample_defs = sample_ops_def sample_state_def list_containers_def alist_map_def list_set_def
  topology_write_def topology_state_new_def guard_defs mutation_defs component_builder_defs
  app_builder_defs area_builder_defs component_ok_def app_ok_def area_ok_def index_add_def
  index_drop_def Let_def entity_ref_defs

lemma sample_state_eval:
  "sample_state = \<lparr> ts_components =
       [(''ecu'', component_with_area_id ''front'' (component_new ''ecu'' ''ECU''))],
     ts_apps = [(''nav'', app_with_area_id ''front'' (app_new ''nav'' ''Navigation'' ''ecu'')),
       (''log'', app_new ''log'' ''Logger'' ''hpc'')],
     ts_areas = [(''front'', area_new ''front'' ''Front'')],
     ts_apps_by_component = [''ecu'' \<mapsto> [''nav''], ''hpc'' \<mapsto> [''log'']],
     ts_components_by_area = [''front'' \<mapsto> [''ecu'']], ts_apps_by_area = [''front'' \<mapsto> [''nav'']] \<rparr>"
  by (simp add: sample_defs)

lemma sample_ops_ok: "list_all op_ok sample_ops"
  by (simp add: sample_ops_def)

lemma sample_ops_stable:
  "ops_stable list_containers sample_ops (topology_write (topology_state_new list_containers))"
  by (simp add: sample_defs get_component_def get_app_def components_def apps_def)

lemma sample_reached:
  "wg_state (run_ops list_containers sample_ops
     (topology_write (topology_state_new list_containers))) = sample_state"
  by (simp add: sample_state_def)

lemma keyed_mem_iff:
  "keyed key ok xs \<Longrightarrow> v \<in> snd ` set xs \<longleftrightarrow> map_of xs (key v) = Some v"
  by (force simp: keyed_def map_of_eq_Some_iff)

lemma keyed_keys: "keyed key ok xs \<Longrightarrow> map (key \<circ> snd) xs = map fst xs"
  by (auto simp: keyed_def)

context topology_containers
begin

lemma topology_wf_keyed:
  assumes "topology_wf L st"
  shows "keyed component_id component_ok (component_entries L st)"
    and "keyed app_id app_ok (app_entries L st)"
    and "keyed area_id area_ok (area_entries L st)"
  using assms by (simp_all add: topology_wf_def)

lemma run_new_wf:
  "list_all op_ok ps \<Longrightarrow>
     topology_wf L (wg_state (run_ops L ps (topology_write (topology_state_new L))))"
  by (rule run_ops_wf) (simp_all add: topology_write_def topology_wf_new)

lemma run_new_exact:
  "list_all op_ok ps \<Longrightarrow> ops_stable L ps (topology_write (topology_state_new L)) \<Longrightarrow>
     topology_exact L (wg_state (run_ops L ps (topology_write (topology_state_new L))))"
  by (rule run_ops_exact) (simp_all add: topology_write_def topology_wf_new topology_exact_new)

text \<open>An entity that is listed is found by its id, and the other way round.\<close>

lemma listed_iff_found:
  assumes "topology_wf L st"
  shows "c \<in> set (components L st) \<longleftrightarrow> get_component L st (component_id c) = Inr c"
    and "a \<in> set (apps L st) \<longleftrightarrow> get_app L st (app_id a) = Inr a"
    and "r \<in> set (areas L st) \<longleftrightarrow> get_area L st (area_id r) = Inr r"
  using keyed_mem_iff [OF topology_wf_keyed(1) [OF assms]]
    keyed_mem_iff [OF topology_wf_keyed(2) [OF assms]]
    keyed_mem_iff [OF topology_wf_keyed(3) [OF assms]]
  by (simp_all add: listings_entries get_component_entries get_app_entries get_area_entries)

lemma listed_ids_distinct:
  assumes "topology_wf L st"
  shows "distinct (map component_id (components L st))" and "distinct (map app_id (apps L st))"
    and "distinct (map area_id (areas L st))"
  using topology_wf_keys [OF assms] keyed_keys [OF topology_wf_keyed(1) [OF assms]]
    keyed_keys [OF topology_wf_keyed(2) [OF assms]] keyed_keys [OF topology_wf_keyed(3) [OF assms]]
  by (simp_all add: listings_entries del: map_eq_conv)

text \<open>A component that replaces one of another area is still listed under the old area.\<close>

lemma moved_component_stays:
  assumes wf: "topology_wf L st" and exact: "topology_exact L st"
    and old: "get_component L st i = Inr c0" and area: "component_area_id c0 = Some ar"
  shows "c \<in> set (components_of_area L (insert_component L i c st) ar)"
proof -
  let ?st = "insert_component L i c st"
  from old have "map_of (component_entries L st) i = Some c0"
    by (simp add: get_component_entries)
  then have "i \<in> set (index_scan component_area_id (component_entries L st) ar)"
    using area topology_wf_keys(1) [OF wf] by (auto simp: index_scan_mem)
  then have "i \<in> set (index_members (id_set L) (ts_components_by_area st) ar)"
    using exact by (simp add: topology_exact_def index_exact_def)
  then have "i \<in> set (index_members (id_set L) (ts_components_by_area ?st) ar)"
    by (auto simp: ids.members_add split: option.splits)
  moreover have "im_get (component_map L) (ts_components ?st) i = Some c"
    using insert_component_entries(1) [of i c st]
    by (simp add: cm.get_iter component_entries_def update_conv)
  ultimately show ?thesis
    by (force simp: components_of_area_def List.map_filter_def)
qed

lemma moved_app_stays:
  assumes wf: "topology_wf L st" and exact: "topology_exact L st"
    and old: "get_app L st i = Inr a0"
  shows "a \<in> set (apps_of_component L (insert_app L i a st) (app_is_located_on a0))"
proof -
  let ?st = "insert_app L i a st" and ?host = "app_is_located_on a0"
  from old have "map_of (app_entries L st) i = Some a0"
    by (simp add: get_app_entries)
  then have "i \<in> set (index_scan app_component_id (app_entries L st) ?host)"
    using topology_wf_keys(2) [OF wf] by (auto simp: index_scan_mem app_component_id_def)
  then have "i \<in> set (index_members (id_set L) (ts_apps_by_component st) ?host)"
    using exact by (simp add: topology_exact_def index_exact_def)
  then have "i \<in> set (index_members (id_set L) (ts_apps_by_component ?st) ?host)"
    by (auto simp: ids.members_add split: option.splits)
  moreover have "im_get (app_map L) (ts_apps ?st) i = Some a"
    using insert_app_entries(2) [of i a st]
    by (simp add: am.get_iter app_entries_def update_conv)
  ultimately show ?thesis
    by (force simp: apps_of_component_def List.map_filter_def)
qed

end

subsection \<open>Properties\<close>

text \<open>
  C27: After any sequence of calls on a write guard of a new topology, the listings hold each
  id once and agree with the lookups: a component, app or area is listed exactly when the
  lookup of its id returns it.
\<close>

theorem topology_listings_agree_with_lookups:
  assumes "topology_containers L" and "list_all op_ok ps"
    and "st = wg_state (run_ops L ps (topology_write (topology_state_new L)))"
  shows "distinct (map component_id (components L st)) \<and> distinct (map app_id (apps L st)) \<and>
    distinct (map area_id (areas L st)) \<and>
    (c \<in> set (components L st) \<longleftrightarrow> get_component L st (component_id c) = Inr c) \<and>
    (a \<in> set (apps L st) \<longleftrightarrow> get_app L st (app_id a) = Inr a) \<and>
    (r \<in> set (areas L st) \<longleftrightarrow> get_area L st (area_id r) = Inr r)"
proof -
  have wf: "topology_wf L st"
    using topology_containers.run_new_wf [OF assms(1,2)] assms(3) by simp
  show ?thesis
    using topology_containers.listed_ids_distinct [OF assms(1) wf]
      topology_containers.listed_iff_found [OF assms(1) wf] by blast
qed

theorem topology_listings_agree_with_lookups_witness:
  "get_component list_containers sample_state ''ecu'' =
     Inr (component_with_area_id ''front'' (component_new ''ecu'' ''ECU'')) \<and>
   distinct (map component_id (components list_containers sample_state))"
  using topology_listings_agree_with_lookups [OF lists.topology_containers_axioms sample_ops_ok
      sample_reached [symmetric],
      of "component_with_area_id ''front'' (component_new ''ecu'' ''ECU'')"]
  by (simp add: sample_state_eval components_def list_containers_def alist_map_def
      component_builder_defs entity_ref_defs)

text \<open>
  C2: As long as no call replaces an entity by one with another area or host and no area is
  removed before everything in it (\<open>ops_stable\<close>), the relationship queries, which read the
  secondary indexes, return what scanning the listings would, in the order of the listings.
\<close>

theorem topology_relations_agree_with_scan:
  assumes "topology_containers L" and "list_all op_ok ps"
    and "ops_stable L ps (topology_write (topology_state_new L))"
    and "st = wg_state (run_ops L ps (topology_write (topology_state_new L)))"
  shows "components_of_area L st ar =
           filter (\<lambda>c. component_area_id c = Some ar) (components L st) \<and>
    apps_of_area L st ar = filter (\<lambda>a. app_area_id a = Some ar) (apps L st) \<and>
    apps_of_component L st host = filter (\<lambda>a. app_component_id a = Some host) (apps L st)"
  unfolding assms(4)
  by (intro conjI topology_containers.exact_queries [OF assms(1)]
      topology_containers.run_new_wf [OF assms(1,2)]
      topology_containers.run_new_exact [OF assms(1-3)])

theorem topology_relations_agree_with_scan_witness:
  "map app_id (apps_of_component list_containers sample_state ''ecu'') = [''nav''] \<and>
   map component_id (components_of_area list_containers sample_state ''front'') = [''ecu'']"
  using topology_relations_agree_with_scan [OF lists.topology_containers_axioms sample_ops_ok
      sample_ops_stable sample_reached [symmetric], of "''front''" "''ecu''"]
  by (simp add: sample_state_eval components_def apps_def list_containers_def alist_map_def
      component_builder_defs app_builder_defs entity_ref_defs)

text \<open>
  Outside that discipline the indexes go stale: replacing a component by one of another
  area leaves it listed under the old area as well, whatever its new area, and replacing an
  app by one on another host leaves it listed as hosted by the old one.
\<close>

theorem topology_replacement_keeps_stale_relation:
  assumes "topology_containers L" and "list_all op_ok ps"
    and "ops_stable L ps (topology_write (topology_state_new L))"
    and "st = wg_state (run_ops L ps (topology_write (topology_state_new L)))"
    and "get_component L st (component_id c) = Inr c0" and "component_area_id c0 = Some ar"
    and "get_app L st (app_id a) = Inr a0"
  shows "c \<in> set (components_of_area L (insert_component L (component_id c) c st) ar) \<and>
    a \<in> set (apps_of_component L (insert_app L (app_id a) a st) (app_is_located_on a0))"
  using topology_containers.moved_component_stays [OF assms(1) _ _ assms(5,6)]
    topology_containers.moved_app_stays [OF assms(1) _ _ assms(7)]
    topology_containers.run_new_wf [OF assms(1,2)]
    topology_containers.run_new_exact [OF assms(1-3)] assms(4) by simp

theorem topology_replacement_keeps_stale_relation_witness:
  "component_with_area_id ''rear'' (component_new ''ecu'' ''ECU'') \<in>
     set (components_of_area list_containers
       (insert_component list_containers ''ecu''
         (component_with_area_id ''rear'' (component_new ''ecu'' ''ECU'')) sample_state) ''front'')"
  using topology_replacement_keeps_stale_relation [OF lists.topology_containers_axioms
      sample_ops_ok sample_ops_stable sample_reached [symmetric],
      of "component_with_area_id ''rear'' (component_new ''ecu'' ''ECU'')"
         "component_with_area_id ''front'' (component_new ''ecu'' ''ECU'')" "''front''"
         "app_new ''nav'' ''Navigation'' ''hpc''"
         "app_with_area_id ''front'' (app_new ''nav'' ''Navigation'' ''ecu'')"]
  by (simp add: sample_state_eval get_component_def get_app_def list_containers_def alist_map_def
      component_builder_defs app_builder_defs entity_ref_defs)



text \<open>
  C8: In every interleaving of readers and writers of a shared topology, guards exclude each
  other as the read and write methods promise: there is at most one writer, no reader while
  there is one, and every live reader still sees the state it was granted on.
\<close>

theorem topology_guards_are_isolated:
  assumes "shared_topology_laws L Y" and "topology_reachable L Y capacity s"
  shows "length (sy_writers s) \<le> 1 \<and> (sy_writers s \<noteq> [] \<longrightarrow> sy_readers s = []) \<and>
    (\<forall>snapshot \<in> set (sy_readers s). snapshot = ti_state (sy_inner s)) \<and>
    topology_wf L (ti_state (sy_inner s))"
  using shared_topology_laws.invariant_reachable [OF assms] by (simp add: system_invariant_def)

definition sample_reader_system ::
  "((string \<times> unit component) list, (string \<times> unit app) list, (string \<times> unit area) list,
    string list, nat \<times> bool, topology_event list) shared_topology" where
  "sample_reader_system =
     (let inner = with_event_capacity list_containers counting_sync 64
      in \<lparr> sy_inner = inner\<lparr>ti_lock := (1, False)\<rparr>, sy_readers = [ti_state inner],
           sy_writers = [] \<rparr>)"

lemma sample_reader_reachable:
  "topology_reachable list_containers counting_sync 64 sample_reader_system"
proof (rule reach_step [OF reach_new])
  show "topology_step list_containers counting_sync (system_new list_containers counting_sync 64)
    sample_reader_system"
    using start_read [of counting_sync "with_event_capacity list_containers counting_sync 64"
        "(1, False)" list_containers "[]" "[]"]
    by (simp add: system_new_def sample_reader_system_def with_event_capacity_def
        counting_sync_def Let_def)
qed

theorem topology_guards_are_isolated_witness:
  "sy_readers sample_reader_system \<noteq> [] \<and> length (sy_writers sample_reader_system) \<le> 1 \<and>
   topology_wf list_containers (ti_state (sy_inner sample_reader_system))"
  using topology_guards_are_isolated [OF shared.shared_topology_laws_axioms
      sample_reader_reachable]
  by (simp add: sample_reader_system_def Let_def)

definition sample_writer_system ::
  "((string \<times> unit component) list, (string \<times> unit app) list, (string \<times> unit area) list,
    string list, nat \<times> bool, topology_event list) shared_topology" where
  "sample_writer_system =
     (let inner = with_event_capacity list_containers counting_sync 64;
          g = apply_op list_containers (AddArea (area_new ''front'' ''Front''))
                \<lparr> wg_state = ti_state inner, wg_pending = [] \<rparr>
      in \<lparr> sy_inner = inner\<lparr>ti_lock := (0, True), ti_state := wg_state g\<rparr>, sy_readers = [],
           sy_writers = [\<lparr> ws_pending = wg_pending g, ws_dropping = False \<rparr>] \<rparr>)"

lemma sample_writer_reachable:
  "topology_reachable list_containers counting_sync 64 sample_writer_system"
proof -
  let ?inner = "with_event_capacity list_containers counting_sync 64"
  let ?s = "\<lparr> sy_inner = ?inner\<lparr>ti_lock := (0, True)\<rparr>, sy_readers = [],
    sy_writers = [\<lparr> ws_pending = [], ws_dropping = False \<rparr>] \<rparr>"
  have "topology_step list_containers counting_sync
      (system_new list_containers counting_sync 64) ?s"
    using start_write [of counting_sync ?inner "(0, True)" list_containers "[]" "[]"]
    by (simp add: system_new_def with_event_capacity_def counting_sync_def topology_write_def)
  then have "topology_reachable list_containers counting_sync 64 ?s"
    by (rule reach_step [OF reach_new])
  moreover have "topology_step list_containers counting_sync ?s sample_writer_system"
    using write_op [of 0 "[\<lparr> ws_pending = [], ws_dropping = False \<rparr>]"
        "AddArea (area_new ''front'' ''Front'')" _ list_containers "?inner\<lparr>ti_lock := (0, True)\<rparr>"
        counting_sync "[]"]
    by (simp add: sample_writer_system_def Let_def)
  ultimately show ?thesis by (rule reach_step)
qed

text \<open>
  C1: At every moment, the events sent so far followed by the ones still pending in a live
  write guard lead a subscriber who starts from the empty set to exactly the references the
  topology holds; with no writer alive, the sent events alone do.
\<close>

theorem topology_events_describe_topology:
  assumes "shared_topology_laws L Y" and "topology_reachable L Y capacity s"
  shows "replay (bc_sent Y (ti_events (sy_inner s)) @ all_pending (sy_writers s)) {} =
      topology_refs L (ti_state (sy_inner s)) \<and>
    (sy_writers s = [] \<longrightarrow>
       replay (bc_sent Y (ti_events (sy_inner s))) {} = topology_refs L (ti_state (sy_inner s)))"
  using shared_topology_laws.invariant_reachable [OF assms]
  by (auto simp: system_invariant_def all_pending_def)

theorem topology_events_describe_topology_witness:
  "topology_refs list_containers (ti_state (sy_inner sample_writer_system)) =
     {entity_ref_area ''front''}"
  using topology_events_describe_topology [OF shared.shared_topology_laws_axioms
      sample_writer_reachable]
  by (simp add: sample_writer_system_def Let_def all_pending_def with_event_capacity_def
      counting_sync_def add_area_def area_id_def area_new_def)

text \<open>
  From every reachable moment the live guards can be dropped: the system can reach a
  moment with no guard, the topology unchanged, and the subscribers' view complete: the
  events of a dropped write guard are all sent, in order, before the lock is released.
\<close>

theorem topology_guards_can_be_dropped:
  assumes "shared_topology_laws L Y" and "topology_reachable L Y capacity s"
  shows "\<exists>s'. rtranclp (topology_step L Y) s s' \<and> sy_readers s' = [] \<and> sy_writers s' = [] \<and>
    ti_state (sy_inner s') = ti_state (sy_inner s) \<and>
    bc_sent Y (ti_events (sy_inner s')) =
      bc_sent Y (ti_events (sy_inner s)) @ all_pending (sy_writers s)"
  by (rule shared_topology_laws.quiescence [OF assms(1)
        shared_topology_laws.invariant_reachable [OF assms]])

theorem topology_guards_can_be_dropped_witness:
  "\<exists>s'. rtranclp (topology_step list_containers counting_sync) sample_writer_system s' \<and>
     sy_writers s' = [] \<and>
     bc_sent counting_sync (ti_events (sy_inner s')) = [Added (entity_ref_area ''front'')]"
  using topology_guards_can_be_dropped [OF shared.shared_topology_laws_axioms
      sample_writer_reachable]
  by (fastforce simp: sample_writer_system_def Let_def all_pending_def with_event_capacity_def
      counting_sync_def add_area_def area_id_def area_new_def)

text \<open>
  Removing an area forgets its members in the indexes but not in the members themselves:
  when an area of the same id is added again, a component of the old area is answered to be
  in the new one, although the new area lists no component.
\<close>

theorem topology_readded_area_is_asymmetric:
  assumes "topology_containers L"
    and "get_component L (wg_state g) i = Inr c" and "component_area_id c = Some (area_id r)"
    and "get_area L (wg_state g) (area_id r) = Inr r0"
    and "g' = add_area L r (guard_remove_area L (area_id r) g)"
  shows "area_of_component L (wg_state g') i = Inr (Some r) \<and>
    components_of_area L (wg_state g') (area_id r) = [] \<and>
    apps_of_area L (wg_state g') (area_id r) = []"
proof -
  note tc = assms(1)
  let ?st = "fst (remove_area L (area_id r) (wg_state g))"
  have st: "wg_state g' = insert_area L (area_id r) r ?st"
    using topology_containers.apply_op_state [OF tc, of "AddArea r"]
      topology_containers.apply_op_state [OF tc, of "RemoveArea (area_id r)" g] assms(5) by simp
  have "map_of (area_entries L (wg_state g)) (area_id r) = Some r0"
    using assms(4) by (simp add: topology_containers.get_area_entries [OF tc])
  then show ?thesis
    using assms(2,3) unfolding st
    by (simp add: topology_containers.relations_entries [OF tc] update_conv
        topology_containers.insert_area_entries [OF tc]
        topology_containers.remove_area_entries [OF tc]
        topology_containers.remove_area_indexes [OF tc]
        topology_containers.get_component_entries [OF tc]
        components_of_area_def apps_of_area_def index_members_def)
qed

theorem topology_readded_area_is_asymmetric_witness:
  "components_of_area list_containers (wg_state (add_area list_containers
       (area_new ''front'' ''New front'') (guard_remove_area list_containers ''front''
         (topology_write sample_state)))) ''front'' = []"
  using topology_readded_area_is_asymmetric [OF lists.topology_containers_axioms, of
      "topology_write sample_state" "''ecu''"
      "component_with_area_id ''front'' (component_new ''ecu'' ''ECU'')"
      "area_new ''front'' ''New front''" "area_new ''front'' ''Front''"]
  by (simp add: topology_write_def sample_state_eval get_component_def get_area_def
      list_containers_def alist_map_def component_builder_defs area_builder_defs entity_ref_defs)

end
