(* ===== verification/Providers.thy ===== *)
theory Providers
  imports Index_Containers Data_Core
begin

text \<open>
  The provider building blocks of \<open>src/opensovd-providers/src/data\<close>: typed resources and the
  adapters that make them untyped, the constant resource with its value envelope, the builder
  that collects resources, and the provider it builds.  Serialization of a Rust type and its
  derived schema are parameters (\<open>ser\<close>, \<open>de\<close>, the schema value), as is the \<open>IndexMap\<close> that
  holds the resources.  The lemmas relate the built provider to the list of registered
  resources.
\<close>

subsection \<open>Resources\<close>

record ('w, 'v) readable_resource =
  rd_schema :: "json option"
  rd_read :: "('w, 'v) data_action"

record ('w, 'v) writeable_resource =
  wt_schema :: "json option"
  wt_write :: "'v \<Rightarrow> ('w, unit) data_action"

text \<open>
  The schema fields are what \<open>serde_json::to_value(resource.schema())\<close> answers, \<open>None\<close> when it
  fails; \<open>ser\<close> and \<open>de\<close> carry the text of serde's error.
\<close>

record 'w data_resource_dyn =
  dr_read :: "('w, json) data_action"
  dr_write :: "json \<Rightarrow> ('w, unit) data_action"

definition serialized_read ::
  "('v \<Rightarrow> (string, json) result) \<Rightarrow> ('w, 'v) readable_resource \<Rightarrow> ('w, json) data_action" where
  "serialized_read ser r w =
     (case rd_read r w of
        (Inl e, w') \<Rightarrow> (Inl e, w')
      | (Inr v, w') \<Rightarrow> (map_err Internal (ser v), w'))"

definition deserialized_write ::
  "(json \<Rightarrow> (string, 'v) result) \<Rightarrow> ('w, 'v) writeable_resource \<Rightarrow> json \<Rightarrow>
     ('w, unit) data_action" where
  "deserialized_write de r value w =
     (case map_err Internal (de value) of
        Inl e \<Rightarrow> (Inl e, w)
      | Inr typed \<Rightarrow> wt_write r typed w)"

definition read_only_adapter ::
  "('v \<Rightarrow> (string, json) result) \<Rightarrow> ('w, 'v) readable_resource \<Rightarrow> 'w data_resource_dyn" where
  "read_only_adapter ser r =
     \<lparr> dr_read = serialized_read ser r, dr_write = (\<lambda>value w. (Inl ReadOnly, w)) \<rparr>"

definition write_only_adapter ::
  "(json \<Rightarrow> (string, 'v) result) \<Rightarrow> ('w, 'v) writeable_resource \<Rightarrow> 'w data_resource_dyn" where
  "write_only_adapter de r =
     \<lparr> dr_read = (\<lambda>w. (Inl (Internal ''resource is write-only''), w)),
       dr_write = deserialized_write de r \<rparr>"

definition read_write_adapter ::
  "('v \<Rightarrow> (string, json) result) \<Rightarrow> ('w, 'v) readable_resource \<Rightarrow>
     (json \<Rightarrow> (string, 'u) result) \<Rightarrow> ('w, 'u) writeable_resource \<Rightarrow> 'w data_resource_dyn" where
  "read_write_adapter ser r de wr =
     \<lparr> dr_read = serialized_read ser r, dr_write = deserialized_write de wr \<rparr>"

lemmas adapter_defs = read_only_adapter_def write_only_adapter_def read_write_adapter_def

subsection \<open>Constants and the value envelope\<close>

record 'a sovd_value =
  sv_value :: 'a

definition sovd_value_new :: "'a \<Rightarrow> 'a sovd_value" where
  "sovd_value_new v = \<lparr> sv_value = v \<rparr>"

definition sovd_value_to_json ::
  "('a \<Rightarrow> (string, json) result) \<Rightarrow> 'a sovd_value \<Rightarrow> (string, json) result" where
  "sovd_value_to_json ser v = map_ok (\<lambda>j. JObject [(''value'', j)]) (ser (sv_value v))"

definition sovd_value_of_json ::
  "(json \<Rightarrow> 'a option) \<Rightarrow> json \<Rightarrow> 'a sovd_value option" where
  "sovd_value_of_json de j =
     (case j of JObject f \<Rightarrow> map_option sovd_value_new (required f ''value'' de) | _ \<Rightarrow> None)"

datatype constant_error = ConstantError string

fun constant_error_display :: "constant_error \<Rightarrow> string" where
  "constant_error_display (ConstantError s) = ''failed to serialize constant value: '' @ s"

record constant_resource =
  const_value :: json
  const_stored_schema :: "json option"

definition constant_new ::
  "('a \<Rightarrow> (string, json) result) \<Rightarrow> json option \<Rightarrow> 'a \<Rightarrow>
     (constant_error, constant_resource) result" where
  "constant_new ser schema_for value =
     (let wrapped = sovd_value_new value
      in map_ok (\<lambda>j. \<lparr> const_value = j, const_stored_schema = schema_for \<rparr>)
           (map_err ConstantError (sovd_value_to_json ser wrapped)))"

definition constant_readable :: "constant_resource \<Rightarrow> ('w, json) readable_resource" where
  "constant_readable c =
     \<lparr> rd_schema = const_stored_schema c, rd_read = (\<lambda>w. (Inr (const_value c), w)) \<rparr>"

subsection \<open>The builder\<close>

datatype build_error = DuplicateResourceId string

fun build_error_display :: "build_error \<Rightarrow> string" where
  "build_error_display (DuplicateResourceId i) = ''duplicate data ID: '' @ i"

record 'w resource_entry =
  re_metadata :: metadata
  re_resource :: "'w data_resource_dyn"

type_synonym 'w data_provider_builder = "'w resource_entry list"

definition builder_new :: "'w data_provider_builder" where
  "builder_new = []"

definition schema_or_null :: "json option \<Rightarrow> json" where
  "schema_or_null s = (case s of None \<Rightarrow> JNull | Some j \<Rightarrow> j)"

definition builder_read_data ::
  "('v \<Rightarrow> (string, json) result) \<Rightarrow> string \<Rightarrow> string \<Rightarrow> data_category \<Rightarrow>
     ('w, 'v) readable_resource \<Rightarrow> 'w data_provider_builder \<Rightarrow> 'w data_provider_builder" where
  "builder_read_data ser ident name category r b =
     b @ [\<lparr> re_metadata = \<lparr> m_id = ident, m_name = name,
              m_category = data_category_as_str category, m_translation_id = None, m_groups = [],
              m_tags = [], m_schema = Some (schema_or_null (rd_schema r)), m_is_readable = True,
              m_is_writable = False \<rparr>,
            re_resource = read_only_adapter ser r \<rparr>]"

definition builder_write_data ::
  "(json \<Rightarrow> (string, 'v) result) \<Rightarrow> string \<Rightarrow> string \<Rightarrow> data_category \<Rightarrow>
     ('w, 'v) writeable_resource \<Rightarrow> 'w data_provider_builder \<Rightarrow> 'w data_provider_builder" where
  "builder_write_data de ident name category r b =
     b @ [\<lparr> re_metadata = \<lparr> m_id = ident, m_name = name,
              m_category = data_category_as_str category, m_translation_id = None, m_groups = [],
              m_tags = [], m_schema = Some (schema_or_null (wt_schema r)), m_is_readable = False,
              m_is_writable = True \<rparr>,
            re_resource = write_only_adapter de r \<rparr>]"

definition builder_data ::
  "('v \<Rightarrow> (string, json) result) \<Rightarrow> (json \<Rightarrow> (string, 'u) result) \<Rightarrow> string \<Rightarrow> string \<Rightarrow>
     data_category \<Rightarrow> ('w, 'v) readable_resource \<Rightarrow> ('w, 'u) writeable_resource \<Rightarrow>
     'w data_provider_builder \<Rightarrow> 'w data_provider_builder" where
  "builder_data ser de ident name category r wr b =
     b @ [\<lparr> re_metadata = \<lparr> m_id = ident, m_name = name,
              m_category = data_category_as_str category, m_translation_id = None, m_groups = [],
              m_tags = [], m_schema = Some (schema_or_null (rd_schema r)), m_is_readable = True,
              m_is_writable = True \<rparr>,
            re_resource = read_write_adapter ser r de wr \<rparr>]"

text \<open>\<open>if let Some(last) = self.resources.last_mut()\<close>.\<close>

definition update_last :: "('a \<Rightarrow> 'a) \<Rightarrow> 'a list \<Rightarrow> 'a list" where
  "update_last f xs = (if xs = [] then [] else butlast xs @ [f (last xs)])"

definition builder_groups :: "string list \<Rightarrow> 'w data_provider_builder \<Rightarrow> 'w data_provider_builder" where
  "builder_groups gs =
     update_last (\<lambda>e. e\<lparr>re_metadata := (re_metadata e)\<lparr>m_groups := gs\<rparr>\<rparr>)"

definition builder_tags :: "string list \<Rightarrow> 'w data_provider_builder \<Rightarrow> 'w data_provider_builder" where
  "builder_tags ts =
     update_last (\<lambda>e. e\<lparr>re_metadata := (re_metadata e)\<lparr>m_tags := ts\<rparr>\<rparr>)"

definition builder_translation_id ::
  "string \<Rightarrow> 'w data_provider_builder \<Rightarrow> 'w data_provider_builder" where
  "builder_translation_id t =
     update_last (\<lambda>e. e\<lparr>re_metadata := (re_metadata e)\<lparr>m_translation_id := Some t\<rparr>\<rparr>)"

definition builder_schema :: "json \<Rightarrow> 'w data_provider_builder \<Rightarrow> 'w data_provider_builder" where
  "builder_schema s =
     update_last (\<lambda>e. e\<lparr>re_metadata := (re_metadata e)\<lparr>m_schema := Some s\<rparr>\<rparr>)"

text \<open>The loop of \<open>build\<close>, over the map built so far.\<close>

fun build_loop ::
  "(string, 'w resource_entry, 'm) index_map \<Rightarrow> 'w resource_entry list \<Rightarrow> 'm \<Rightarrow>
     (build_error, 'm) result" where
  "build_loop M [] resources = Inr resources"
| "build_loop M (entry # rest) resources =
     (let ident = m_id (re_metadata entry)
      in case im_insert M ident entry resources of
           (resources', Some _) \<Rightarrow> Inl (DuplicateResourceId ident)
         | (resources', None) \<Rightarrow> build_loop M rest resources')"

definition builder_build ::
  "(string, 'w resource_entry, 'm) index_map \<Rightarrow> 'w data_provider_builder \<Rightarrow>
     (build_error, 'm) result" where
  "builder_build M b = build_loop M b (im_with_capacity M (length b))"

subsection \<open>The built provider\<close>

definition find_resource ::
  "(string, 'w resource_entry, 'm) index_map \<Rightarrow> 'm \<Rightarrow> string \<Rightarrow> 'w resource_entry option" where
  "find_resource M resources data_id = im_get M resources data_id"

definition matches_filter :: "metadata \<Rightarrow> data_filter \<Rightarrow> bool" where
  "matches_filter md f =
     (if df_categories f \<noteq> [] \<and> \<not> list_ex (\<lambda>c. c = m_category md) (df_categories f) then False
      else if df_groups f \<noteq> [] \<and>
              \<not> list_ex (\<lambda>g. list_ex (\<lambda>mg. mg = g) (m_groups md)) (df_groups f) then False
      else if df_tags f \<noteq> [] \<and>
              \<not> list_ex (\<lambda>t. list_ex (\<lambda>mt. mt = t) (m_tags md)) (df_tags f) then False
      else True)"

definition built_list ::
  "(string, 'w resource_entry, 'm) index_map \<Rightarrow> 'm \<Rightarrow> data_filter \<Rightarrow>
     ('w, metadata list) data_action" where
  "built_list M resources f w =
     (Inr (map re_metadata
        (filter (\<lambda>r. matches_filter (re_metadata r) f) (im_values M resources))), w)"

definition built_read ::
  "(string, 'w resource_entry, 'm) index_map \<Rightarrow> 'm \<Rightarrow> string \<Rightarrow> bool \<Rightarrow> ('w, data) data_action" where
  "built_read M resources data_id include_schema w =
     (case ok_or (DataNotFound data_id) (find_resource M resources data_id) of
        Inl e \<Rightarrow> (Inl e, w)
      | Inr r \<Rightarrow>
          (case dr_read (re_resource r) w of
             (Inl e, w') \<Rightarrow> (Inl e, w')
           | (Inr j, w') \<Rightarrow>
               (Inr \<lparr> d_data = j,
                      d_schema = (if include_schema then m_schema (re_metadata r) else None) \<rparr>, w')))"

definition built_write ::
  "(string, 'w resource_entry, 'm) index_map \<Rightarrow> 'm \<Rightarrow> string \<Rightarrow> json \<Rightarrow> ('w, unit) data_action" where
  "built_write M resources data_id value w =
     (case ok_or (DataNotFound data_id) (find_resource M resources data_id) of
        Inl e \<Rightarrow> (Inl e, w)
      | Inr r \<Rightarrow> dr_write (re_resource r) value w)"

definition built_categories ::
  "(string, 'w resource_entry, 'm) index_map \<Rightarrow> 'm \<Rightarrow> ('w, category_info list) data_action" where
  "built_categories M resources w =
     (Inr (map (\<lambda>r. \<lparr> cat_category = m_category (re_metadata r),
                      cat_translation_id = m_translation_id (re_metadata r) \<rparr>)
        (keep_unseen (\<lambda>r. m_category (re_metadata r)) {} (im_values M resources))), w)"

definition built_groups ::
  "(string, 'w resource_entry, 'm) index_map \<Rightarrow> 'm \<Rightarrow> string option \<Rightarrow>
     ('w, group_info list) data_action" where
  "built_groups M resources category_filter w =
     (Inr (map (\<lambda>(ident, category). \<lparr> g_id = ident, g_category = category,
                  g_category_translation_id = None, g_group = None,
                  g_group_translation_id = None \<rparr>)
        (keep_unseen (\<lambda>(g, _). g) {}
          (concat (map (\<lambda>r. map (\<lambda>g. (g, m_category (re_metadata r))) (m_groups (re_metadata r)))
            (filter (\<lambda>r. case category_filter of None \<Rightarrow> True
                         | Some c \<Rightarrow> m_category (re_metadata r) = c)
              (im_values M resources)))))), w)"

definition built_tags ::
  "(string, 'w resource_entry, 'm) index_map \<Rightarrow> 'm \<Rightarrow> ('w, tag_info list) data_action" where
  "built_tags M resources w =
     (Inr (map (\<lambda>ident. \<lparr> t_id = ident, t_description = None, t_translation_id = None \<rparr>)
        (keep_unseen (\<lambda>t. t) {}
          (concat (map (\<lambda>r. m_tags (re_metadata r)) (im_values M resources))))), w)"

text \<open>\<open>impl DataProvider for BuiltDataProvider\<close>.\<close>

definition built_data_provider ::
  "(string, 'w resource_entry, 'm) index_map \<Rightarrow> 'm \<Rightarrow> 'w data_provider" where
  "built_data_provider M resources =
     \<lparr> dp_list = built_list M resources, dp_read = built_read M resources,
       dp_write = built_write M resources, dp_categories = built_categories M resources,
       dp_groups = built_groups M resources, dp_tags = built_tags M resources \<rparr>"

lemmas builder_defs = builder_new_def builder_read_data_def builder_write_data_def builder_data_def
  builder_groups_def builder_tags_def builder_translation_id_def builder_schema_def

lemmas built_defs = built_list_def built_read_def built_write_def built_categories_def
  built_groups_def built_tags_def find_resource_def

lemma update_last_snoc [simp]: "update_last f (xs @ [x]) = xs @ [f x]" "update_last f [] = []"
  by (simp_all add: update_last_def)

lemma update_last_all:
  "(\<And>x. P x \<Longrightarrow> P (f x)) \<Longrightarrow> list_all P xs \<Longrightarrow> list_all P (update_last f xs)"
  by (cases xs rule: rev_cases) simp_all

lemma update_last_key: "(\<And>x. key (f x) = key x) \<Longrightarrow> map key (update_last f xs) = map key xs"
  by (cases xs rule: rev_cases) simp_all

subsection \<open>Building\<close>

abbreviation entry_id :: "'w resource_entry \<Rightarrow> string" where
  "entry_id e \<equiv> m_id (re_metadata e)"

abbreviation entries :: "'w data_provider_builder \<Rightarrow> (string \<times> 'w resource_entry) list" where
  "entries b \<equiv> map (\<lambda>e. (entry_id e, e)) b"

context ordered_map
begin

text \<open>
  The loop keeps what it has inserted as the entries of the map, and stops at the first id it
  meets again.
\<close>

lemma insert_step:
  assumes "im_iter M m = xs"
  shows "im_insert M k v m = (fst (im_insert M k v m), map_of xs k) \<and>
    im_iter M (fst (im_insert M k v m)) = AList.update k v xs"
  using insert_replaced [of k v m] assms by (auto simp: iter_insert intro: prod_eqI)

end

lemma map_of_entries_None: "map_of (entries b) i = None \<longleftrightarrow> i \<notin> entry_id ` set b"
  by (simp add: map_of_eq_None_iff image_image)

lemma build_loop_spec:
  assumes "ordered_map M" and "im_iter M m = entries seen" and "distinct (map entry_id seen)"
  shows "(case build_loop M b m of
      Inr m' \<Rightarrow> distinct (map entry_id (seen @ b)) \<and> im_iter M m' = entries (seen @ b)
    | Inl err \<Rightarrow> \<exists>xs e ys. b = xs @ e # ys \<and> err = DuplicateResourceId (entry_id e) \<and>
        distinct (map entry_id (seen @ xs)) \<and> entry_id e \<in> entry_id ` set (seen @ xs))"
  using assms(2,3)
proof (induction b arbitrary: m seen)
  case Nil
  then show ?case by simp
next
  case (Cons e b)
  let ?m = "fst (im_insert M (entry_id e) e m)"
  note step = ordered_map.insert_step [OF assms(1) Cons.prems(1), of "entry_id e" e]
  show ?case
  proof (cases "map_of (entries seen) (entry_id e)")
    case None
    then have new: "entry_id e \<notin> entry_id ` set seen" by (simp only: map_of_entries_None not_False_eq_True)
    then have iter: "im_iter M ?m = entries (seen @ [e])"
      using step by (simp add: update_fresh image_image)
    have loop: "build_loop M (e # b) m = build_loop M b ?m"
      using step None by (cases "im_insert M (entry_id e) e m") simp
    note IH = Cons.IH [OF iter]
    show ?thesis
    proof (cases "build_loop M b ?m")
      case (Inl err)
      with IH Cons.prems(2) new obtain xs e' ys where "b = xs @ e' # ys"
        "err = DuplicateResourceId (entry_id e')" "distinct (map entry_id (seen @ [e] @ xs))"
        "entry_id e' \<in> entry_id ` set (seen @ [e] @ xs)" by auto
      with Inl loop show ?thesis
        by (auto intro!: exI [of _ "e # xs"])
    next
      case (Inr m')
      with IH Cons.prems(2) new loop show ?thesis by simp
    qed
  next
    case (Some e0)
    then have old: "entry_id e \<in> entry_id ` set seen"
      using map_of_entries_None [of seen "entry_id e"] by (metis option.distinct(1))
    have "build_loop M (e # b) m = Inl (DuplicateResourceId (entry_id e))"
      using step Some by (cases "im_insert M (entry_id e) e m") simp
    with old Cons.prems(2) show ?thesis
      by (auto intro!: exI [of _ "[]"])
  qed
qed

lemma build_spec:
  assumes "ordered_map M"
  shows "(case builder_build M b of
      Inr m \<Rightarrow> distinct (map entry_id b) \<and> im_iter M m = entries b
    | Inl err \<Rightarrow> \<exists>xs e ys. b = xs @ e # ys \<and> err = DuplicateResourceId (entry_id e) \<and>
        distinct (map entry_id xs) \<and> entry_id e \<in> entry_id ` set xs)"
  using build_loop_spec [OF assms, of "im_with_capacity M (length b)" "[]" b]
    ordered_map.iter_with_capacity [OF assms]
  by (auto simp: builder_build_def split: sum.splits)

lemma build_Inr_iff:
  assumes "ordered_map M"
  shows "(\<exists>m. builder_build M b = Inr m) \<longleftrightarrow> distinct (map entry_id b)"
  using build_spec [OF assms, of b] by (auto split: sum.splits)

lemma build_iter:
  assumes "ordered_map M" and "builder_build M b = Inr m"
  shows "im_values M m = b" and "distinct (map entry_id b)"
    and "find_resource M m i = find (\<lambda>e. entry_id e = i) b"
proof -
  have iter: "im_iter M m = entries b" and dist: "distinct (map entry_id b)"
    using build_spec [OF assms(1), of b] assms(2) by simp_all
  show "im_values M m = b" by (simp add: ordered_map.values_iter [OF assms(1)] iter comp_def)
  show "distinct (map entry_id b)" by (rule dist)
  have "map_of (entries b) i = find (\<lambda>e. entry_id e = i) b"
    by (induction b) auto
  then show "find_resource M m i = find (\<lambda>e. entry_id e = i) b"
    by (simp add: find_resource_def ordered_map.get_iter [OF assms(1)] iter)
qed

text \<open>The filter is the conjunction of its three criteria, an empty criterion admitting all.\<close>

lemma matches_filter_iff:
  "matches_filter md f \<longleftrightarrow>
     (df_categories f = [] \<or> m_category md \<in> set (df_categories f)) \<and>
     (df_groups f = [] \<or> set (df_groups f) \<inter> set (m_groups md) \<noteq> {}) \<and>
     (df_tags f = [] \<or> set (df_tags f) \<inter> set (m_tags md) \<noteq> {})"
  by (auto simp: matches_filter_def list_ex_iff)

lemma matches_filter_default [simp]: "matches_filter md data_filter_default"
  by (simp add: matches_filter_iff data_filter_default_def)

subsection \<open>Providers whose catalogues follow their listing\<close>

text \<open>
  What the default methods of the trait promise, as a contract between a provider and its
  clients.
\<close>

locale catalogue_provider =
  fixes P :: "'w data_provider"
  assumes categories_from_list: "dp_categories P w = default_categories (dp_list P) w"
    and groups_from_list: "dp_groups P c w = default_groups (dp_list P) c w"
    and tags_from_list: "dp_tags P w = default_tags (dp_list P) w"
begin

lemma categories_catalogue:
  assumes "dp_list P data_filter_default w = (Inr all, w')"
  shows "\<exists>cs. dp_categories P w = (Inr cs, w') \<and> distinct (map cat_category cs) \<and>
    set (map cat_category cs) = m_category ` set all"
proof -
  let ?cs = "map category_info_of (keep_unseen m_category {} all)"
  have cats: "map cat_category ?cs = map m_category (keep_unseen m_category {} all)"
    by (simp add: category_info_of_def)
  then have "distinct (map cat_category ?cs)" by (simp only: keep_unseen_distinct)
  moreover have "set (map cat_category ?cs) = m_category ` set all"
    using keep_unseen_keys [of m_category "{}" all] by (simp only: cats) simp
  ultimately show ?thesis
    using assms by (auto simp: categories_from_list default_categories_def simp del: map_map)
qed

lemma tags_catalogue:
  assumes "dp_list P data_filter_default w = (Inr all, w')"
  shows "\<exists>ts. dp_tags P w = (Inr ts, w') \<and> distinct (map t_id ts) \<and>
    set (map t_id ts) = \<Union> (set ` m_tags ` set all)"
proof -
  let ?ts = "map tag_info_of (keep_unseen (\<lambda>t. t) {} (concat (map m_tags all)))"
  have ids: "map t_id ?ts = map (\<lambda>t. t) (keep_unseen (\<lambda>t. t) {} (concat (map m_tags all)))"
    by (simp add: tag_info_of_def comp_def)
  then have "distinct (map t_id ?ts)" by (simp only: keep_unseen_distinct)
  moreover have "set (map t_id ?ts) = \<Union> (set ` m_tags ` set all)"
    using keep_unseen_keys [of "\<lambda>t. t" "{}" "concat (map m_tags all)"] by (simp only: ids) simp
  ultimately show ?thesis
    using assms by (auto simp: tags_from_list default_tags_def simp del: map_map)
qed

lemma groups_catalogue:
  assumes "dp_list P data_filter_default w = (Inr all, w')"
  shows "\<exists>gs. dp_groups P c w = (Inr gs, w') \<and> distinct (map g_id gs) \<and>
    set (map g_id gs) = \<Union> (set ` m_groups ` {md \<in> set all. \<forall>x. c = Some x \<longrightarrow> m_category md = x})"
proof -
  let ?sel = "filter (\<lambda>m. case c of None \<Rightarrow> True | Some c \<Rightarrow> m_category m = c) all"
  let ?pairs = "concat (map (\<lambda>m. map (\<lambda>g. (g, m_category m)) (m_groups m)) ?sel)"
  let ?gs = "map group_info_of (keep_unseen fst {} ?pairs)"
  have ids: "map g_id ?gs = map fst (keep_unseen fst {} ?pairs)"
    by (simp add: group_info_of_def)
  then have "distinct (map g_id ?gs)" by (simp only: keep_unseen_distinct)
  moreover have "set (map g_id ?gs) =
      \<Union> (set ` m_groups ` {md \<in> set all. \<forall>x. c = Some x \<longrightarrow> m_category md = x})"
  proof -
    have "fst ` set ?pairs = \<Union> (set ` m_groups ` set ?sel)"
      by (simp add: image_UN image_image)
    moreover have "set ?sel = {md \<in> set all. \<forall>x. c = Some x \<longrightarrow> m_category md = x}"
      by (cases c) auto
    ultimately show ?thesis
      using keep_unseen_keys [of fst "{}" ?pairs] by (simp only: ids set_map) simp
  qed
  ultimately show ?thesis
    using assms by (auto simp: groups_from_list default_groups_def simp del: map_map)
qed

end

interpretation built: catalogue_provider "built_data_provider M resources"
proof
  fix w c
  show "dp_categories (built_data_provider M resources) w =
      default_categories (dp_list (built_data_provider M resources)) w"
    by (simp add: built_data_provider_def built_defs default_categories_def category_info_of_def
        keep_unseen_map comp_def)
  show "dp_groups (built_data_provider M resources) c w =
      default_groups (dp_list (built_data_provider M resources)) c w"
    by (cases c) (simp_all add: built_data_provider_def built_defs default_groups_def
        group_info_of_def filter_map comp_def case_prod_unfold cong: map_cong)
  show "dp_tags (built_data_provider M resources) w =
      default_tags (dp_list (built_data_provider M resources)) w"
    by (simp add: built_data_provider_def built_defs default_tags_def tag_info_of_def comp_def)
qed

end
