(* ===== verification/Provider_Properties.thy ===== *)
theory Provider_Properties
  imports Providers
begin

text \<open>
  The properties of built data providers: which builders build, what the built provider lists,
  reads and writes, and that the capabilities it advertises are the ones it has.
\<close>

subsection \<open>A small provider for the concrete runs\<close>

definition sample_constant :: constant_resource where
  "sample_constant = \<lparr> const_value = JObject [(''value'', JString ''1.0'')],
     const_stored_schema = Some (JBool True) \<rparr>"

text \<open>A register whose content is the world.\<close>

definition register_read :: "(json, json) readable_resource" where
  "register_read = \<lparr> rd_schema = None, rd_read = (\<lambda>w. (Inr w, w)) \<rparr>"

definition register_write :: "(json, json) writeable_resource" where
  "register_write = \<lparr> wt_schema = None, wt_write = (\<lambda>v w. (Inr (), v)) \<rparr>"

definition sample_builder :: "json data_provider_builder" where
  "sample_builder =
     builder_data Inr Inr ''reg'' ''Register'' CurrentData register_read register_write
       (builder_tags [''fixed''] (builder_groups [''sw'']
         (builder_read_data Inr ''ver'' ''Version'' IdentData (constant_readable sample_constant)
           builder_new)))"

lemma sample_builder_eval:
  "sample_builder =
     [\<lparr> re_metadata = \<lparr> m_id = ''ver'', m_name = ''Version'', m_category = ''identData'',
          m_translation_id = None, m_groups = [''sw''], m_tags = [''fixed''],
          m_schema = Some (JBool True), m_is_readable = True, m_is_writable = False \<rparr>,
        re_resource = read_only_adapter Inr (constant_readable sample_constant) \<rparr>,
      \<lparr> re_metadata = \<lparr> m_id = ''reg'', m_name = ''Register'', m_category = ''currentData'',
          m_translation_id = None, m_groups = [], m_tags = [],
          m_schema = Some JNull, m_is_readable = True, m_is_writable = True \<rparr>,
        re_resource = read_write_adapter Inr register_read Inr register_write \<rparr>]"
  by (simp add: sample_builder_def builder_defs schema_or_null_def update_last_def
      constant_readable_def sample_constant_def register_read_def)

definition sample_resources :: "(string \<times> json resource_entry) list" where
  "sample_resources = entries sample_builder"

lemma sample_build: "builder_build alist_map sample_builder = Inr sample_resources"
  by (simp add: builder_build_def sample_resources_def sample_builder_eval alist_map_def Let_def)

subsection \<open>Properties\<close>

text \<open>
  C18: \<open>build\<close> succeeds exactly when the registered ids are distinct, and then holds the
  resources in the order of registration; otherwise it reports the first id that was
  registered before.
\<close>

theorem provider_build_rejects_duplicates:
  assumes "ordered_map M"
  shows "((\<exists>m. builder_build M b = Inr m) \<longleftrightarrow> distinct (map entry_id b)) \<and>
    (\<forall>m. builder_build M b = Inr m \<longrightarrow> im_iter M m = entries b) \<and>
    (\<forall>i. builder_build M b = Inl (DuplicateResourceId i) \<longrightarrow>
       (\<exists>xs e ys. b = xs @ e # ys \<and> entry_id e = i \<and> distinct (map entry_id xs) \<and>
          i \<in> entry_id ` set xs))"
  using build_Inr_iff [OF assms, of b] build_spec [OF assms, of b] by (auto split: sum.splits)

theorem provider_build_rejects_duplicates_witness:
  "\<nexists>m. builder_build alist_map
     (builder_read_data Inr ''ver'' ''Again'' IdentData (constant_readable sample_constant)
        sample_builder) = Inr m"
  using provider_build_rejects_duplicates [OF alist.ordered_map_axioms,
      of "builder_read_data Inr ''ver'' ''Again'' IdentData (constant_readable sample_constant)
        sample_builder"]
  by (simp add: sample_builder_eval builder_read_data_def)

text \<open>
  C29: The built provider lists, in the order of registration, exactly the resources that meet
  every criterion of the filter: its category is named or none is, one of its groups is named
  or none is, and one of its tags is named or none is.  Listing changes nothing.
\<close>

theorem provider_list_applies_filter:
  assumes "ordered_map M" and "builder_build M b = Inr m"
  shows "dp_list (built_data_provider M m) f w =
    (Inr (filter (\<lambda>md. (df_categories f = [] \<or> m_category md \<in> set (df_categories f)) \<and>
         (df_groups f = [] \<or> set (df_groups f) \<inter> set (m_groups md) \<noteq> {}) \<and>
         (df_tags f = [] \<or> set (df_tags f) \<inter> set (m_tags md) \<noteq> {})) (map re_metadata b)), w)"
  using build_iter [OF assms]
  by (simp add: built_data_provider_def built_list_def filter_map comp_def matches_filter_iff)

theorem provider_list_applies_filter_witness:
  "map_sum id (map m_id) (fst (dp_list (built_data_provider alist_map sample_resources)
     \<lparr> df_groups = [''sw'', ''hw''], df_categories = [''identData''], df_tags = [] \<rparr> JNull)) =
   Inr [''ver'']"
  using provider_list_applies_filter [OF alist.ordered_map_axioms sample_build,
      of "\<lparr> df_groups = [''sw'', ''hw''], df_categories = [''identData''], df_tags = [] \<rparr>" JNull]
  by (simp add: sample_builder_eval)

text \<open>
  C19: Reads and writes go to the registered resource of that id: the resource's own result and
  effect, with the schema exactly on request; an id that was not registered is
  \<open>NotFound\<close> and has no effect.
\<close>

theorem provider_access_by_id:
  assumes "ordered_map M" and "builder_build M b = Inr m"
  shows "(\<forall>e \<in> set b.
      dp_write (built_data_provider M m) (entry_id e) v w = dr_write (re_resource e) v w \<and>
      dp_read (built_data_provider M m) (entry_id e) s w =
        (map_ok (\<lambda>j. \<lparr> d_data = j, d_schema = if s then m_schema (re_metadata e) else None \<rparr>)
           (fst (dr_read (re_resource e) w)), snd (dr_read (re_resource e) w))) \<and>
    (i \<notin> entry_id ` set b \<longrightarrow>
      dp_read (built_data_provider M m) i s w = (Inl (DataNotFound i), w) \<and>
      dp_write (built_data_provider M m) i v w = (Inl (DataNotFound i), w))"
proof -
  have found: "find_resource M m (entry_id e) = Some e" if "e \<in> set b" for e
    using find_by_key [OF build_iter(2) [OF assms] that] by (simp add: build_iter(3) [OF assms])
  have missing: "find_resource M m i = None" if "i \<notin> entry_id ` set b"
    using that by (auto simp: build_iter(3) [OF assms] find_None_iff)
  have read: "dp_read (built_data_provider M m) (entry_id e) s w =
      (map_ok (\<lambda>j. \<lparr> d_data = j, d_schema = if s then m_schema (re_metadata e) else None \<rparr>)
         (fst (dr_read (re_resource e) w)), snd (dr_read (re_resource e) w))" if "e \<in> set b" for e
    using found [OF that]
    by (simp add: built_data_provider_def built_read_def map_ok_def split: sum.splits prod.splits)
  have "dp_write (built_data_provider M m) (entry_id e) v w = dr_write (re_resource e) v w"
    if "e \<in> set b" for e
    using found [OF that] by (simp add: built_data_provider_def built_write_def)
  with read missing show ?thesis
    by (simp add: built_data_provider_def built_read_def built_write_def)
qed

theorem provider_access_by_id_witness:
  "snd (dp_write (built_data_provider alist_map sample_resources) ''reg'' (JBool True) JNull) =
     JBool True \<and>
   dp_read (built_data_provider alist_map sample_resources) ''nope'' True JNull =
     (Inl (DataNotFound ''nope''), JNull)"
  using provider_access_by_id [OF alist.ordered_map_axioms sample_build,
      of "JBool True" JNull True "''nope''"]
  by (simp add: sample_builder_eval read_write_adapter_def deserialized_write_def
      register_write_def)

text \<open>The advertised capabilities of a resource are the ones it has.\<close>

definition flag_truthful :: "'w resource_entry \<Rightarrow> bool" where
  "flag_truthful e \<longleftrightarrow>
     (\<not> m_is_writable (re_metadata e) \<longrightarrow>
        (\<forall>v w. dr_write (re_resource e) v w = (Inl ReadOnly, w))) \<and>
     (\<not> m_is_readable (re_metadata e) \<longrightarrow>
        (\<forall>w. dr_read (re_resource e) w = (Inl (Internal ''resource is write-only''), w)))"

lemma flag_truthful_update_last:
  "list_all flag_truthful b \<Longrightarrow>
     list_all flag_truthful (builder_groups gs b) \<and> list_all flag_truthful (builder_tags ts b) \<and>
     list_all flag_truthful (builder_translation_id t b) \<and>
     list_all flag_truthful (builder_schema sch b)"
  unfolding builder_groups_def builder_tags_def builder_translation_id_def builder_schema_def
  by (intro conjI; rule update_last_all) (simp_all add: flag_truthful_def)

text \<open>
  The advertised capabilities of registered resources are true: every builder method keeps
  it so that a resource not marked writable answers every write with \<open>ReadOnly\<close> and one not
  marked readable answers every read with the write-only error, both without effect.
\<close>

theorem provider_flags_are_truthful:
  assumes "list_all flag_truthful b"
  shows "list_all flag_truthful builder_new \<and>
    list_all flag_truthful (builder_read_data ser i n c r b) \<and>
    list_all flag_truthful (builder_write_data de i n c wr b) \<and>
    list_all flag_truthful (builder_data ser de i n c r wr b) \<and>
    list_all flag_truthful (builder_groups gs b) \<and> list_all flag_truthful (builder_tags ts b) \<and>
    list_all flag_truthful (builder_translation_id t b) \<and>
    list_all flag_truthful (builder_schema sch b)"
  using assms flag_truthful_update_last [OF assms]
  by (simp add: builder_new_def builder_read_data_def builder_write_data_def builder_data_def
      flag_truthful_def adapter_defs)

theorem provider_flags_are_truthful_witness:
  "list_all flag_truthful (builder_write_data Inr ''w'' ''W'' CurrentData register_write builder_new)"
  using provider_flags_are_truthful [of builder_new Inr "''w''" "''W''" CurrentData register_read
      Inr register_write "[]" "[]" "[]" JNull] by (simp add: builder_new_def)



text \<open>
  A constant answers every read with its value in the SOVD envelope, whatever the world,
  with its schema on request; and the envelope can be read back.
\<close>

theorem constant_resource_reads_envelope:
  assumes "ordered_map M" and "constant_new ser sch v = Inr k" and "ser v = Inr j"
    and "de j = Some v"
    and "builder_build M (builder_read_data Inr i n c (constant_readable k) builder_new) = Inr m"
  shows "dp_read (built_data_provider M m) i s w =
      (Inr \<lparr> d_data = JObject [(''value'', j)],
             d_schema = (if s then Some (schema_or_null sch) else None) \<rparr>, w) \<and>
    sovd_value_of_json de (JObject [(''value'', j)]) = Some (sovd_value_new v)"
proof -
  have k: "k = \<lparr> const_value = JObject [(''value'', j)], const_stored_schema = sch \<rparr>"
    using assms(2,3) by (simp add: constant_new_def sovd_value_to_json_def sovd_value_new_def)
  show ?thesis
    using assms(4) build_iter(3) [OF assms(1,5), of i]
    by (simp add: built_data_provider_def built_read_def builder_read_data_def builder_new_def
        read_only_adapter_def serialized_read_def constant_readable_def k sovd_value_of_json_def
        required_def)
qed

theorem constant_resource_reads_envelope_witness:
  "dp_read (built_data_provider alist_map
      (entries (builder_read_data Inr ''k'' ''K'' SysInfo (constant_readable
         \<lparr> const_value = JObject [(''value'', JString ''x'')], const_stored_schema = None \<rparr>)
         builder_new))) ''k'' False JNull =
    (Inr \<lparr> d_data = JObject [(''value'', JString ''x'')], d_schema = None \<rparr>, JNull)"
  using constant_resource_reads_envelope [OF alist.ordered_map_axioms,
      of "\<lambda>s. Inr (JString s)" None "''x''"
         "\<lparr> const_value = JObject [(''value'', JString ''x'')], const_stored_schema = None \<rparr>"
         "JString ''x''" json_string "''k''" "''K''" SysInfo
         "entries (builder_read_data Inr ''k'' ''K'' SysInfo (constant_readable
         \<lparr> const_value = JObject [(''value'', JString ''x'')], const_stored_schema = None \<rparr>)
         builder_new)" False JNull]
  by (simp add: constant_new_def sovd_value_to_json_def sovd_value_new_def json_string_def
      builder_build_def builder_read_data_def builder_new_def alist_map_def Let_def)

end
