(* ===== verification/Http.thy ===== *)
theory Http
  imports Topology
begin

text \<open>
  What the route handlers of \<open>src/opensovd-server/src\<close> share: the parts of a request they read,
  the URIs they build (\<open>routes/mod.rs\<close>), the percent-encoding of path segments
  (\<open>routes/entities/mod.rs\<close>), JSON schemas (\<open>schema.rs\<close>), and the error type with its
  conversion into a response (\<open>routes/error.rs\<close>).  The \<open>percent-encoding\<close> crate is a
  parameter with its documented laws (locale \<open>percent_encoder\<close>).
\<close>

subsection \<open>Requests and URIs\<close>

text \<open>
  \<open>rp_header_text h\<close> is \<open>headers.get(h).and_then(|v| v.to_str().ok())\<close>; header names are in
  lower case.  \<open>rp_identity\<close> is the identity stored in the request's extensions.
\<close>

record 'i request_parts =
  rp_method :: string
  rp_path :: string
  rp_header_text :: "string \<Rightarrow> string option"
  rp_identity :: "'i option"

definition API_VERSION :: string where
  "API_VERSION = ''v1''"

definition SOVD_VERSION :: string where
  "SOVD_VERSION = ''1.1''"

definition base_uri :: "'i request_parts \<Rightarrow> string" where
  "base_uri parts =
     (let host = (case rp_header_text parts ''host'' of None \<Rightarrow> ''localhost'' | Some h \<Rightarrow> h)
      in ''http://'' @ host @ ''/sovd'')"

definition versioned_uri :: "'i request_parts \<Rightarrow> string" where
  "versioned_uri parts = base_uri parts @ ''/'' @ API_VERSION"

subsection \<open>Percent-encoding\<close>

record 'set percent_encoding =
  pe_controls :: 'set
  pe_non_alphanumeric :: 'set
  pe_add :: "'set \<Rightarrow> char \<Rightarrow> 'set"
  pe_contains :: "'set \<Rightarrow> char \<Rightarrow> bool"
  pe_encode :: "'set \<Rightarrow> string \<Rightarrow> string"

definition hex_digit :: "nat \<Rightarrow> char" where
  "hex_digit d = ''0123456789ABCDEF'' ! d"

definition percent_byte :: "char \<Rightarrow> string" where
  "percent_byte c =
     [CHR ''%'', hex_digit (of_char c div 16), hex_digit (of_char c mod 16)]"

locale percent_encoder =
  fixes P :: "'set percent_encoding"
  assumes contains_controls:
      "pe_contains P (pe_controls P) c \<longleftrightarrow> (of_char c :: nat) < 32 \<or> (of_char c :: nat) = 127"
    and contains_non_alphanumeric:
      "pe_contains P (pe_non_alphanumeric P) c \<longleftrightarrow>
         (of_char c :: nat) < 128 \<and>
         \<not> ((48 \<le> (of_char c :: nat) \<and> of_char c \<le> (57 :: nat)) \<or>
            (65 \<le> (of_char c :: nat) \<and> of_char c \<le> (90 :: nat)) \<or>
            (97 \<le> (of_char c :: nat) \<and> of_char c \<le> (122 :: nat)))"
    and contains_add: "pe_contains P (pe_add P S x) c \<longleftrightarrow> c = x \<or> pe_contains P S c"
    and encode_bytes: "pe_encode P S s =
      concat (map (\<lambda>c. if (of_char c :: nat) \<ge> 128 \<or> pe_contains P S c then percent_byte c else [c]) s)"

definition PATH_SEGMENT_ENCODE_SET :: "'set percent_encoding \<Rightarrow> 'set" where
  "PATH_SEGMENT_ENCODE_SET P = fold (\<lambda>x S. pe_add P S x)
     [CHR '' '', CHR 0x22, CHR ''#'', CHR ''<'', CHR ''>'', CHR ''?'', CHR 0x60, CHR ''{'',
      CHR ''}'', CHR ''/'', CHR ''%'', CHR ''['', CHR '']'', CHR ''@'', CHR '':'']
     (pe_controls P)"

definition encode_path_segment :: "'set percent_encoding \<Rightarrow> string \<Rightarrow> string" where
  "encode_path_segment P s = pe_encode P (PATH_SEGMENT_ENCODE_SET P) s"

text \<open>Percent-decoding of a path segment, as RFC 3986 defines it, to state what encoding keeps.\<close>

definition hex_value :: "char \<Rightarrow> nat option" where
  "hex_value c = (let n = of_char c in
     if 48 \<le> n \<and> n \<le> 57 then Some (n - 48)
     else if 65 \<le> n \<and> n \<le> 70 then Some (n - 55)
     else if 97 \<le> n \<and> n \<le> 102 then Some (n - 87) else None)"

fun percent_decode :: "string \<Rightarrow> string" where
  "percent_decode (c # h # l # rest) =
     (if c = CHR ''%'' then
        (case (hex_value h, hex_value l) of
           (Some a, Some b) \<Rightarrow> char_of (16 * a + b) # percent_decode rest
         | _ \<Rightarrow> c # percent_decode (h # l # rest))
      else c # percent_decode (h # l # rest))"
| "percent_decode s = s"

lemma hex_value_digit: "d < 16 \<Longrightarrow> hex_value (hex_digit d) = Some d"
  by (auto simp: hex_digit_def hex_value_def numeral_eq_Suc less_Suc_eq Let_def)

lemma percent_decode_byte:
  "percent_decode (percent_byte c @ rest) = c # percent_decode rest"
proof -
  have "(of_char c :: nat) < 256" by simp
  then have "(of_char c :: nat) div 16 < 16" by linarith
  moreover have "char_of (16 * ((of_char c :: nat) div 16) + of_char c mod 16) = c" by simp
  ultimately show ?thesis by (simp add: percent_byte_def hex_value_digit)
qed

lemma percent_decode_plain:
  "c \<noteq> CHR ''%'' \<Longrightarrow> percent_decode (c # rest) = c # percent_decode rest"
  by (cases rest; cases "tl rest") auto

context percent_encoder
begin

text \<open>Encoding with a set that escapes the percent sign can be undone.\<close>

lemma decode_encode:
  assumes "pe_contains P S (CHR ''%'')"
  shows "percent_decode (pe_encode P S s) = s"
proof (induction s)
  case Nil
  then show ?case by (simp add: encode_bytes)
next
  case (Cons c s)
  then have IH: "percent_decode (concat (map (\<lambda>c. if (of_char c :: nat) \<ge> 128 \<or> pe_contains P S c
      then percent_byte c else [c]) s)) = s"
    by (simp add: encode_bytes)
  have "c \<noteq> CHR ''%''" if "\<not> pe_contains P S c" using that assms by auto
  then show ?case
    using IH by (simp add: encode_bytes percent_decode_byte percent_decode_plain)
qed

lemma encode_injective:
  "pe_contains P S (CHR ''%'') \<Longrightarrow> pe_encode P S s = pe_encode P S t \<longleftrightarrow> s = t"
  by (metis decode_encode)

text \<open>An escaped character, other than those of the escapes themselves, does not appear.\<close>

lemma hex_digit_range: "d < 16 \<Longrightarrow> hex_digit d \<in> set ''0123456789ABCDEF''"
  unfolding hex_digit_def by (rule nth_mem) simp

lemma encode_avoids:
  assumes "pe_contains P S x" and "x \<notin> set ''%0123456789ABCDEF''"
  shows "x \<notin> set (pe_encode P S s)"
proof -
  have "x \<notin> set (percent_byte c)" for c
  proof -
    have "(of_char c :: nat) < 256" by simp
    then have "(of_char c :: nat) div 16 < 16" by linarith
    then have "set (percent_byte c) \<subseteq> set ''%0123456789ABCDEF''"
      using hex_digit_range [of "of_char c div 16"] hex_digit_range [of "of_char c mod 16"]
      by (auto simp: percent_byte_def)
    with assms(2) show ?thesis by blast
  qed
  with assms(1) show ?thesis by (auto simp: encode_bytes)
qed

lemma path_segment_set:
  "pe_contains P (PATH_SEGMENT_ENCODE_SET P) c \<longleftrightarrow>
     c \<in> {CHR '' '', CHR 0x22, CHR ''#'', CHR ''<'', CHR ''>'', CHR ''?'', CHR 0x60, CHR ''{'',
      CHR ''}'', CHR ''/'', CHR ''%'', CHR ''['', CHR '']'', CHR ''@'', CHR '':''} \<or>
     (of_char c :: nat) < 32 \<or> (of_char c :: nat) = 127"
  by (auto simp: PATH_SEGMENT_ENCODE_SET_def contains_add contains_controls)

lemma path_segment_injective [simp]:
  "encode_path_segment P s = encode_path_segment P t \<longleftrightarrow> s = t"
  unfolding encode_path_segment_def by (rule encode_injective) (simp add: path_segment_set)

lemma path_segment_decode: "percent_decode (encode_path_segment P s) = s"
  unfolding encode_path_segment_def by (rule decode_encode) (simp add: path_segment_set)

lemma path_segment_clean:
  "x \<in> {CHR ''/'', CHR ''?'', CHR ''#'', CHR '' ''} \<Longrightarrow> x \<notin> set (encode_path_segment P s)"
  unfolding encode_path_segment_def by (rule encode_avoids) (auto simp: path_segment_set)

end

text \<open>Sets of bytes as predicates meet the laws.\<close>

definition plain_encoding :: "(char \<Rightarrow> bool) percent_encoding" where
  "plain_encoding = \<lparr> pe_controls = (\<lambda>c. (of_char c :: nat) < 32 \<or> (of_char c :: nat) = 127),
     pe_non_alphanumeric = (\<lambda>c. (of_char c :: nat) < 128 \<and>
         \<not> ((48 \<le> (of_char c :: nat) \<and> of_char c \<le> (57 :: nat)) \<or>
            (65 \<le> (of_char c :: nat) \<and> of_char c \<le> (90 :: nat)) \<or>
            (97 \<le> (of_char c :: nat) \<and> of_char c \<le> (122 :: nat)))),
     pe_add = (\<lambda>S x c. c = x \<or> S c), pe_contains = (\<lambda>S c. S c),
     pe_encode = (\<lambda>S s. concat (map (\<lambda>c. if (of_char c :: nat) \<ge> 128 \<or> S c
        then percent_byte c else [c]) s)) \<rparr>"

interpretation plain: percent_encoder plain_encoding
  by unfold_locales (auto simp: plain_encoding_def)

subsection \<open>Schemas\<close>

text \<open>
  \<open>JsonSchema::schema()\<close> with the \<open>jsonschema\<close> feature, where the generated schema is
  serialized (\<open>None\<close> when that fails), and without it.
\<close>

definition schema_generated :: "json option \<Rightarrow> json" where
  "schema_generated generated = (case generated of None \<Rightarrow> JNull | Some j \<Rightarrow> j)"

definition schema_fallback :: json where
  "schema_fallback = JObject [(''type'', JString ''object'')]"

subsection \<open>Errors\<close>

datatype route_error =
    EntityNotFound string
  | ProviderNotAvailable string
  | DataFailure data_error
  | BadQuery string
  | TopologyFailure topology_error

fun route_error_display :: "route_error \<Rightarrow> string" where
  "route_error_display (EntityNotFound s) = ''entity not found: '' @ s"
| "route_error_display (ProviderNotAvailable s) = ''provider not available: '' @ s"
| "route_error_display (DataFailure e) = data_error_display e"
| "route_error_display (BadQuery rejection) = rejection"
| "route_error_display (TopologyFailure e) = topology_error_display e"

fun into_response :: "route_error \<Rightarrow> nat \<times> generic_error" where
  "into_response (EntityNotFound i) =
     (404, generic_error_with_vendor_code ''entity-not-found'' (''Entity not found: '' @ i))"
| "into_response (ProviderNotAvailable provider) =
     (404, generic_error_with_vendor_code ''provider-not-available'' (''Component has no '' @ provider))"
| "into_response (DataFailure e) =
     (let status = (case e of DataNotFound _ \<Rightarrow> 404 | ReadOnly \<Rightarrow> 400 | Internal _ \<Rightarrow> 500);
          message = (case e of Internal msg \<Rightarrow> ''An internal error occurred''
                     | _ \<Rightarrow> data_error_display e)
      in (status, generic_error_new ErrorResponse message))"
| "into_response (BadQuery _) = (400, generic_error_new IncompleteRequest ''Bad request'')"
| "into_response (TopologyFailure e) =
     (let status = (case e of TopologyNotFound _ \<Rightarrow> 404)
      in (status, generic_error_new ErrorResponse (topology_error_display e)))"

text \<open>
  The response of a handler: the status of a success and its body, or the error's status and
  JSON body.
\<close>

definition respond :: "nat \<Rightarrow> ('a \<Rightarrow> json) \<Rightarrow> (route_error, 'a) result \<Rightarrow> nat \<times> json" where
  "respond ok_status body r =
     (case r of
        Inr a \<Rightarrow> (ok_status, body a)
      | Inl e \<Rightarrow> (fst (into_response e), generic_error_to_json (snd (into_response e))))"

text \<open>\<open>WithRejection<Query<T>, Error>\<close>: a query that cannot be parsed is a \<open>BadQuery\<close>.\<close>

definition with_rejection ::
  "(string, 'q) result \<Rightarrow> ('q \<Rightarrow> (route_error, 'a) result) \<Rightarrow> (route_error, 'a) result" where
  "with_rejection query handler = and_then (map_err BadQuery query) handler"

lemmas uri_defs = base_uri_def versioned_uri_def API_VERSION_def Let_def

end
