(* ===== verification/Entity_Routes.thy ===== *)
theory Entity_Routes
  imports Http
begin

text \<open>
  The discovery handlers of \<open>src/opensovd-server/src/routes/entities\<close> and the version handler of
  \<open>routes/version.rs\<close>.  A handler is a function of its environment (the ordered containers, the
  percent-encoding, the schemas), the topology state its read guard shows, and the extracted
  arguments; each reads the topology once, so one state is all it sees.
\<close>

record ('mc, 'ma, 'mr, 's, 'w, 'set) route_env =
  env_containers :: "('mc, 'ma, 'mr, 's, 'w) containers"
  env_percent :: "'set percent_encoding"
  env_schema :: "string \<Rightarrow> json"

type_synonym entities_response = "entity_reference items response"
type_synonym capabilities_response = "entity_capabilities response"

subsection \<open>Parts of the responses\<close>

definition tags_match :: "string list \<Rightarrow> string list \<Rightarrow> bool" where
  "tags_match wanted tags \<longleftrightarrow> wanted = [] \<or> list_ex (\<lambda>t. t \<in> set tags) wanted"

definition nonempty_tags :: "string list \<Rightarrow> string list option" where
  "nonempty_tags tags = then_some (tags \<noteq> []) tags"

definition component_reference ::
  "'set percent_encoding \<Rightarrow> string \<Rightarrow> 'w component \<Rightarrow> entity_reference" where
  "component_reference P base e =
     (let tags = component_tags e
      in \<lparr> er_id = component_id e, er_name = component_name e,
           er_translation_id = component_translation_id e,
           er_href = UriReference (base @ ''/components/'' @ encode_path_segment P (component_id e)),
           er_tags = nonempty_tags tags \<rparr>)"

definition app_reference ::
  "'set percent_encoding \<Rightarrow> string \<Rightarrow> 'w app \<Rightarrow> entity_reference" where
  "app_reference P base e =
     (let tags = app_tags e
      in \<lparr> er_id = app_id e, er_name = app_name e, er_translation_id = app_translation_id e,
           er_href = UriReference (base @ ''/apps/'' @ encode_path_segment P (app_id e)),
           er_tags = nonempty_tags tags \<rparr>)"

definition area_reference ::
  "'set percent_encoding \<Rightarrow> string \<Rightarrow> 'w area \<Rightarrow> entity_reference" where
  "area_reference P base e =
     (let tags = area_tags e
      in \<lparr> er_id = area_id e, er_name = area_name e, er_translation_id = area_translation_id e,
           er_href = UriReference (base @ ''/areas/'' @ encode_path_segment P (area_id e)),
           er_tags = nonempty_tags tags \<rparr>)"

definition entities_response_of ::
  "('mc, 'ma, 'mr, 's, 'w, 'set) route_env \<Rightarrow> entities_query \<Rightarrow> entity_reference list \<Rightarrow>
     entities_response" where
  "entities_response_of E query references =
     \<lparr> rs_data = \<lparr> items = references \<rparr>,
       rs_schema = then_some (eq_include_schema query) (env_schema E ''Entities'') \<rparr>"

definition capabilities_response_of ::
  "('mc, 'ma, 'mr, 's, 'w, 'set) route_env \<Rightarrow> capabilities_query \<Rightarrow> entity_capabilities \<Rightarrow>
     capabilities_response" where
  "capabilities_response_of E query caps =
     \<lparr> rs_data = caps,
       rs_schema = then_some (cq_include_schema query) (env_schema E ''EntityCapabilities'') \<rparr>"

subsection \<open>The root entity and the version\<close>

definition root_capabilities ::
  "('mc, 'ma, 'mr, 's, 'w, 'set) route_env \<Rightarrow> ('mc, 'ma, 'mr, 's) topology_state \<Rightarrow>
     'i request_parts \<Rightarrow> (string, capabilities_query) result \<Rightarrow>
     (route_error, capabilities_response) result" where
  "root_capabilities E topo parts query =
     with_rejection query (\<lambda>query.
       let base = versioned_uri parts; L = env_containers E;
           cs = then_some (length (components L topo) > 0) (UriReference (base @ ''/components''));
           aps = then_some (length (apps L topo) > 0) (UriReference (base @ ''/apps''));
           ars = then_some (length (areas L topo) > 0) (UriReference (base @ ''/areas''))
       in Inr (capabilities_response_of E query
            (entity_capabilities_default\<lparr>ec_id := [], ec_name := [], ec_components := cs,
               ec_apps := aps, ec_areas := ars\<rparr>)))"

definition version_info ::
  "('mc, 'ma, 'mr, 's, 'w, 'set) route_env \<Rightarrow> 'v option \<Rightarrow> 'i request_parts \<Rightarrow>
     (string, version_info_query) result \<Rightarrow> (route_error, 'v version_info response) result" where
  "version_info E vendor_info parts query =
     with_rejection query (\<lambda>query.
       let base_uri = versioned_uri parts
       in Inr \<lparr> rs_data = \<lparr> vi_sovd_info =
                [\<lparr> si_version = SOVD_VERSION, si_base_uri = UriReference base_uri,
                   si_vendor_info = vendor_info \<rparr>] \<rparr>,
                rs_schema = then_some (vq_include_schema query) (env_schema E ''VersionInfo'') \<rparr>)"

subsection \<open>Components\<close>

definition component_list ::
  "('mc, 'ma, 'mr, 's, 'w, 'set) route_env \<Rightarrow> ('mc, 'ma, 'mr, 's) topology_state \<Rightarrow>
     'i request_parts \<Rightarrow> entities_query \<Rightarrow> (route_error, entities_response) result" where
  "component_list E topo parts query =
     (let base = versioned_uri parts
      in Inr (entities_response_of E query
           (map (component_reference (env_percent E) base)
             (filter (\<lambda>e. tags_match (eq_tags query) (component_tags e))
               (components (env_containers E) topo)))))"

definition component_capabilities ::
  "('mc, 'ma, 'mr, 's, 'w, 'set) route_env \<Rightarrow> ('mc, 'ma, 'mr, 's) topology_state \<Rightarrow> string \<Rightarrow>
     'i request_parts \<Rightarrow> (string, capabilities_query) result \<Rightarrow>
     (route_error, capabilities_response) result" where
  "component_capabilities E topo ident parts query =
     with_rejection query (\<lambda>query.
       and_then (map_err (\<lambda>_. EntityNotFound ident)
           (get_component (env_containers E) topo ident)) (\<lambda>entity.
         let base = versioned_uri parts; segment = encode_path_segment (env_percent E) ident
         in Inr (capabilities_response_of E query
              (entity_capabilities_default\<lparr>ec_id := ident, ec_name := component_name entity,
                 ec_translation_id := component_translation_id entity,
                 ec_variant := then_some (component_metadata entity \<noteq> []) (component_metadata entity),
                 ec_hosts := Some (UriReference (base @ ''/components/'' @ segment @ ''/hosts'')),
                 ec_belongs_to := map_option (\<lambda>_.
                   UriReference (base @ ''/components/'' @ segment @ ''/belongs-to''))
                   (component_area_id entity),
                 ec_data := map_option (\<lambda>_.
                   UriReference (base @ ''/components/'' @ segment @ ''/data''))
                   (component_data_provider entity)\<rparr>))))"

definition component_hosts ::
  "('mc, 'ma, 'mr, 's, 'w, 'set) route_env \<Rightarrow> ('mc, 'ma, 'mr, 's) topology_state \<Rightarrow> string \<Rightarrow>
     'i request_parts \<Rightarrow> entities_query \<Rightarrow> (route_error, entities_response) result" where
  "component_hosts E topo ident parts query =
     and_then (map_err (\<lambda>_. EntityNotFound ident)
         (get_component (env_containers E) topo ident)) (\<lambda>_.
       let hosted = apps_of_component (env_containers E) topo ident; base = versioned_uri parts
       in Inr (entities_response_of E query
            (map (app_reference (env_percent E) base)
              (filter (\<lambda>e. tags_match (eq_tags query) (app_tags e)) hosted))))"

text \<open>
  The area of a component or an app, as a list of at most one reference; an area without tags
  does not match a tag filter.
\<close>

definition matching_area ::
  "'set percent_encoding \<Rightarrow> 'i request_parts \<Rightarrow> string list \<Rightarrow> 'w area option \<Rightarrow>
     entity_reference list" where
  "matching_area P parts wanted found =
     (case found of
        None \<Rightarrow> []
      | Some ar \<Rightarrow>
          let tags = area_tags ar;
              matches_tags = (wanted = [] \<or>
                (tags \<noteq> [] \<and> list_ex (\<lambda>t. t \<in> set tags) wanted))
          in if matches_tags then [area_reference P (versioned_uri parts) ar] else [])"

definition component_belongs_to ::
  "('mc, 'ma, 'mr, 's, 'w, 'set) route_env \<Rightarrow> ('mc, 'ma, 'mr, 's) topology_state \<Rightarrow> string \<Rightarrow>
     'i request_parts \<Rightarrow> entities_query \<Rightarrow> (route_error, entities_response) result" where
  "component_belongs_to E topo ident parts query =
     and_then (map_err (\<lambda>_. EntityNotFound ident)
         (area_of_component (env_containers E) topo ident)) (\<lambda>found.
       Inr (entities_response_of E query
         (matching_area (env_percent E) parts (eq_tags query) found)))"

subsection \<open>Apps\<close>

definition app_list ::
  "('mc, 'ma, 'mr, 's, 'w, 'set) route_env \<Rightarrow> ('mc, 'ma, 'mr, 's) topology_state \<Rightarrow>
     'i request_parts \<Rightarrow> entities_query \<Rightarrow> (route_error, entities_response) result" where
  "app_list E topo parts query =
     (let base = versioned_uri parts
      in Inr (entities_response_of E query
           (map (app_reference (env_percent E) base)
             (filter (\<lambda>e. tags_match (eq_tags query) (app_tags e))
               (apps (env_containers E) topo)))))"

definition app_capabilities ::
  "('mc, 'ma, 'mr, 's, 'w, 'set) route_env \<Rightarrow> ('mc, 'ma, 'mr, 's) topology_state \<Rightarrow> string \<Rightarrow>
     'i request_parts \<Rightarrow> (string, capabilities_query) result \<Rightarrow>
     (route_error, capabilities_response) result" where
  "app_capabilities E topo ident parts query =
     with_rejection query (\<lambda>query.
       and_then (map_err (\<lambda>_. EntityNotFound ident)
           (get_app (env_containers E) topo ident)) (\<lambda>entity.
         let base = versioned_uri parts; P = env_percent E; segment = encode_path_segment P ident
         in Inr (capabilities_response_of E query
              (entity_capabilities_default\<lparr>ec_id := ident, ec_name := app_name entity,
                 ec_translation_id := app_translation_id entity,
                 ec_variant := then_some (app_metadata entity \<noteq> []) (app_metadata entity),
                 ec_is_located_on := map_option (\<lambda>cid.
                   UriReference (base @ ''/components/'' @ encode_path_segment P cid))
                   (app_component_id entity),
                 ec_belongs_to := map_option (\<lambda>_.
                   UriReference (base @ ''/apps/'' @ segment @ ''/belongs-to''))
                   (app_area_id entity),
                 ec_data := map_option (\<lambda>_.
                   UriReference (base @ ''/apps/'' @ segment @ ''/data''))
                   (app_data_provider entity)\<rparr>))))"

definition app_is_located_on_handler ::
  "('mc, 'ma, 'mr, 's, 'w, 'set) route_env \<Rightarrow> ('mc, 'ma, 'mr, 's) topology_state \<Rightarrow> string \<Rightarrow>
     'i request_parts \<Rightarrow> entities_query \<Rightarrow> (route_error, entities_response) result" where
  "app_is_located_on_handler E topo ident parts query =
     and_then (map_err (\<lambda>_. EntityNotFound ident)
         (component_of_app (env_containers E) topo ident)) (\<lambda>found.
     and_then (ok_or (EntityNotFound ident) found) (\<lambda>c.
       let base = versioned_uri parts
       in Inr (entities_response_of E query [component_reference (env_percent E) base c])))"

definition app_belongs_to ::
  "('mc, 'ma, 'mr, 's, 'w, 'set) route_env \<Rightarrow> ('mc, 'ma, 'mr, 's) topology_state \<Rightarrow> string \<Rightarrow>
     'i request_parts \<Rightarrow> entities_query \<Rightarrow> (route_error, entities_response) result" where
  "app_belongs_to E topo ident parts query =
     and_then (map_err (\<lambda>_. EntityNotFound ident)
         (area_of_app (env_containers E) topo ident)) (\<lambda>found.
       Inr (entities_response_of E query
         (matching_area (env_percent E) parts (eq_tags query) found)))"

subsection \<open>Areas\<close>

definition area_list ::
  "('mc, 'ma, 'mr, 's, 'w, 'set) route_env \<Rightarrow> ('mc, 'ma, 'mr, 's) topology_state \<Rightarrow>
     'i request_parts \<Rightarrow> entities_query \<Rightarrow> (route_error, entities_response) result" where
  "area_list E topo parts query =
     (let base = versioned_uri parts
      in Inr (entities_response_of E query
           (map (area_reference (env_percent E) base)
             (filter (\<lambda>e. tags_match (eq_tags query) (area_tags e))
               (areas (env_containers E) topo)))))"

definition area_capabilities ::
  "('mc, 'ma, 'mr, 's, 'w, 'set) route_env \<Rightarrow> ('mc, 'ma, 'mr, 's) topology_state \<Rightarrow> string \<Rightarrow>
     'i request_parts \<Rightarrow> (string, capabilities_query) result \<Rightarrow>
     (route_error, capabilities_response) result" where
  "area_capabilities E topo ident parts query =
     with_rejection query (\<lambda>query.
       and_then (map_err (\<lambda>_. EntityNotFound ident)
           (get_area (env_containers E) topo ident)) (\<lambda>entity.
         let base = versioned_uri parts; segment = encode_path_segment (env_percent E) ident
         in Inr (capabilities_response_of E query
              (entity_capabilities_default\<lparr>ec_id := ident, ec_name := area_name entity,
                 ec_translation_id := area_translation_id entity,
                 ec_variant := then_some (area_metadata entity \<noteq> []) (area_metadata entity),
                 ec_contains :=
                   Some (UriReference (base @ ''/areas/'' @ segment @ ''/contains''))\<rparr>))))"

definition area_contains ::
  "('mc, 'ma, 'mr, 's, 'w, 'set) route_env \<Rightarrow> ('mc, 'ma, 'mr, 's) topology_state \<Rightarrow> string \<Rightarrow>
     'i request_parts \<Rightarrow> entities_query \<Rightarrow> (route_error, entities_response) result" where
  "area_contains E topo ident parts query =
     and_then (map_err (\<lambda>_. EntityNotFound ident)
         (get_area (env_containers E) topo ident)) (\<lambda>_.
       let base = versioned_uri parts; P = env_percent E; L = env_containers E
       in Inr (entities_response_of E query
            (map (component_reference P base)
               (filter (\<lambda>e. tags_match (eq_tags query) (component_tags e))
                 (components_of_area L topo ident)) @
             map (app_reference P base)
               (filter (\<lambda>e. tags_match (eq_tags query) (app_tags e))
                 (apps_of_area L topo ident)))))"

lemmas entity_handlers [handler_defs] = root_capabilities_def version_info_def component_list_def
  component_capabilities_def component_hosts_def component_belongs_to_def app_list_def
  app_capabilities_def app_is_located_on_handler_def app_belongs_to_def area_list_def
  area_capabilities_def area_contains_def

lemmas response_defs [handler_defs] = entities_response_of_def capabilities_response_of_def
  with_rejection_def

lemmas reference_defs = component_reference_def app_reference_def area_reference_def
  nonempty_tags_def

end
