(* ===== verification/Data_Routes.thy ===== *)
theory Data_Routes
  imports Entity_Routes
begin

text \<open>
  The data handlers of \<open>src/opensovd-server/src/routes/data.rs\<close> for components and apps, and the
  server's route table.  A handler finds the entity and its provider in the topology state its
  guard shows, calls the provider once, and maps its result; it is an action on the world.
  Both families of handlers repeat the same steps in the source; the steps are definitions
  here and the handlers are kept apart as the source has them.
\<close>

type_synonym ('w, 'a) handler_action = "('w, (route_error, 'a) result) action"

subsection \<open>Steps of a data handler\<close>

definition component_provider ::
  "('mc, 'ma, 'mr, 's, 'w) containers \<Rightarrow> ('mc, 'ma, 'mr, 's) topology_state \<Rightarrow> string \<Rightarrow>
     (route_error, 'w data_provider) result" where
  "component_provider L topo ident =
     and_then (map_err (\<lambda>_. EntityNotFound ident) (get_component L topo ident))
       (\<lambda>entity. ok_or (ProviderNotAvailable ''data'') (component_data_provider entity))"

definition app_provider ::
  "('mc, 'ma, 'mr, 's, 'w) containers \<Rightarrow> ('mc, 'ma, 'mr, 's) topology_state \<Rightarrow> string \<Rightarrow>
     (route_error, 'w data_provider) result" where
  "app_provider L topo ident =
     and_then (map_err (\<lambda>_. EntityNotFound ident) (get_app L topo ident))
       (\<lambda>entity. ok_or (ProviderNotAvailable ''data'') (app_data_provider entity))"

text \<open>
  Calling the provider, if there is one, with \<open>.await?\<close>: a data error becomes a route error,
  and what the call did to the world stays done.
\<close>

definition with_provider ::
  "(route_error, 'w data_provider) result \<Rightarrow> ('w data_provider \<Rightarrow> ('w, 'a) data_action) \<Rightarrow>
     ('a \<Rightarrow> 'b) \<Rightarrow> ('w, 'b) handler_action" where
  "with_provider found call build w =
     (case found of
        Inl e \<Rightarrow> (Inl e, w)
      | Inr provider \<Rightarrow>
          (case call provider w of
             (Inl e, w') \<Rightarrow> (Inl (DataFailure e), w')
           | (Inr a, w') \<Rightarrow> (Inr (build a), w')))"

definition with_query ::
  "(string, 'q) result \<Rightarrow> ('q \<Rightarrow> ('w, 'b) handler_action) \<Rightarrow> ('w, 'b) handler_action" where
  "with_query query handler w =
     (case query of Inl rejection \<Rightarrow> (Inl (BadQuery rejection), w) | Inr q \<Rightarrow> handler q w)"

definition category_item :: "category_info \<Rightarrow> data_category_information" where
  "category_item c =
     \<lparr> ci_item = data_category_from (cat_category c),
       ci_category_translation_id = cat_translation_id c \<rparr>"

definition group_item :: "group_info \<Rightarrow> data_group" where
  "group_item g =
     \<lparr> gr_id = g_id g, gr_category = data_category_from (g_category g),
       gr_category_translation_id = g_category_translation_id g, gr_group = g_group g,
       gr_group_translation_id = g_group_translation_id g \<rparr>"

definition metadata_item :: "metadata \<Rightarrow> metadata_dto" where
  "metadata_item m =
     \<lparr> md_id = m_id m, md_name = m_name m, md_category = data_category_from (m_category m),
       md_translation_id = m_translation_id m,
       md_groups = then_some (m_groups m \<noteq> []) (m_groups m),
       md_tags = then_some (m_tags m \<noteq> []) (m_tags m) \<rparr>"

definition unwrap_or_default :: "'a list option \<Rightarrow> 'a list" where
  "unwrap_or_default x = (case x of None \<Rightarrow> [] | Some xs \<Rightarrow> xs)"

definition query_filter :: "data_query \<Rightarrow> data_filter" where
  "query_filter q =
     \<lparr> df_groups = unwrap_or_default (dq_groups q),
       df_categories = unwrap_or_default (dq_categories q),
       df_tags = unwrap_or_default (dq_tags q) \<rparr>"

definition read_response_of :: "string \<Rightarrow> data \<Rightarrow> read_response" where
  "read_response_of data_id value =
     \<lparr> rr_id = data_id, rr_data = d_data value, rr_errors = None, rr_schema = d_schema value \<rparr>"

definition NO_CONTENT :: nat where
  "NO_CONTENT = 204"

subsection \<open>Components\<close>

definition component_data_categories ::
  "('mc, 'ma, 'mr, 's, 'w, 'set) route_env \<Rightarrow> ('mc, 'ma, 'mr, 's) topology_state \<Rightarrow> string \<Rightarrow>
     ('w, data_category_information items response) handler_action" where
  "component_data_categories E topo ident =
     with_provider (component_provider (env_containers E) topo ident) dp_categories
       (\<lambda>cs. \<lparr> rs_data = \<lparr> items = map category_item cs \<rparr>, rs_schema = None \<rparr>)"

definition component_data_groups ::
  "('mc, 'ma, 'mr, 's, 'w, 'set) route_env \<Rightarrow> ('mc, 'ma, 'mr, 's) topology_state \<Rightarrow> string \<Rightarrow>
     (string, data_groups_query) result \<Rightarrow> ('w, data_group items response) handler_action" where
  "component_data_groups E topo ident query =
     with_query query (\<lambda>query.
       let category_filter = map_option data_category_as_str (gq_category query)
       in with_provider (component_provider (env_containers E) topo ident)
            (\<lambda>provider. dp_groups provider category_filter)
            (\<lambda>gs. \<lparr> rs_data = \<lparr> items = map group_item gs \<rparr>, rs_schema = None \<rparr>))"

definition component_data_list ::
  "('mc, 'ma, 'mr, 's, 'w, 'set) route_env \<Rightarrow> ('mc, 'ma, 'mr, 's) topology_state \<Rightarrow> string \<Rightarrow>
     (string, data_query) result \<Rightarrow> ('w, metadata_dto items response) handler_action" where
  "component_data_list E topo ident query =
     with_query query (\<lambda>query.
       with_provider (component_provider (env_containers E) topo ident)
         (\<lambda>provider. dp_list provider (query_filter query))
         (\<lambda>ms. \<lparr> rs_data = \<lparr> items = map metadata_item ms \<rparr>,
                 rs_schema = then_some (dq_include_schema query) (env_schema E ''DataList'') \<rparr>))"

definition component_data_read ::
  "('mc, 'ma, 'mr, 's, 'w, 'set) route_env \<Rightarrow> ('mc, 'ma, 'mr, 's) topology_state \<Rightarrow> string \<Rightarrow>
     string \<Rightarrow> (string, read_data_query) result \<Rightarrow> ('w, read_response) handler_action" where
  "component_data_read E topo ident data_id query =
     with_query query (\<lambda>query.
       with_provider (component_provider (env_containers E) topo ident)
         (\<lambda>provider. dp_read provider data_id (rq_include_schema query))
         (read_response_of data_id))"

definition component_data_write ::
  "('mc, 'ma, 'mr, 's, 'w, 'set) route_env \<Rightarrow> ('mc, 'ma, 'mr, 's) topology_state \<Rightarrow> string \<Rightarrow>
     string \<Rightarrow> write_request \<Rightarrow> ('w, nat) handler_action" where
  "component_data_write E topo ident data_id body =
     with_provider (component_provider (env_containers E) topo ident)
       (\<lambda>provider. dp_write provider data_id (wr_data body)) (\<lambda>_. NO_CONTENT)"

subsection \<open>Apps\<close>

definition app_data_categories ::
  "('mc, 'ma, 'mr, 's, 'w, 'set) route_env \<Rightarrow> ('mc, 'ma, 'mr, 's) topology_state \<Rightarrow> string \<Rightarrow>
     ('w, data_category_information items response) handler_action" where
  "app_data_categories E topo ident =
     with_provider (app_provider (env_containers E) topo ident) dp_categories
       (\<lambda>cs. \<lparr> rs_data = \<lparr> items = map category_item cs \<rparr>, rs_schema = None \<rparr>)"

definition app_data_groups ::
  "('mc, 'ma, 'mr, 's, 'w, 'set) route_env \<Rightarrow> ('mc, 'ma, 'mr, 's) topology_state \<Rightarrow> string \<Rightarrow>
     (string, data_groups_query) result \<Rightarrow> ('w, data_group items response) handler_action" where
  "app_data_groups E topo ident query =
     with_query query (\<lambda>query.
       let category_filter = map_option data_category_as_str (gq_category query)
       in with_provider (app_provider (env_containers E) topo ident)
            (\<lambda>provider. dp_groups provider category_filter)
            (\<lambda>gs. \<lparr> rs_data = \<lparr> items = map group_item gs \<rparr>, rs_schema = None \<rparr>))"

definition app_data_list ::
  "('mc, 'ma, 'mr, 's, 'w, 'set) route_env \<Rightarrow> ('mc, 'ma, 'mr, 's) topology_state \<Rightarrow> string \<Rightarrow>
     (string, data_query) result \<Rightarrow> ('w, metadata_dto items response) handler_action" where
  "app_data_list E topo ident query =
     with_query query (\<lambda>query.
       with_provider (app_provider (env_containers E) topo ident)
         (\<lambda>provider. dp_list provider (query_filter query))
         (\<lambda>ms. \<lparr> rs_data = \<lparr> items = map metadata_item ms \<rparr>,
                 rs_schema = then_some (dq_include_schema query) (env_schema E ''DataList'') \<rparr>))"

definition app_data_read ::
  "('mc, 'ma, 'mr, 's, 'w, 'set) route_env \<Rightarrow> ('mc, 'ma, 'mr, 's) topology_state \<Rightarrow> string \<Rightarrow>
     string \<Rightarrow> (string, read_data_query) result \<Rightarrow> ('w, read_response) handler_action" where
  "app_data_read E topo ident data_id query =
     with_query query (\<lambda>query.
       with_provider (app_provider (env_containers E) topo ident)
         (\<lambda>provider. dp_read provider data_id (rq_include_schema query))
         (read_response_of data_id))"

definition app_data_write ::
  "('mc, 'ma, 'mr, 's, 'w, 'set) route_env \<Rightarrow> ('mc, 'ma, 'mr, 's) topology_state \<Rightarrow> string \<Rightarrow>
     string \<Rightarrow> write_request \<Rightarrow> ('w, nat) handler_action" where
  "app_data_write E topo ident data_id body =
     with_provider (app_provider (env_containers E) topo ident)
       (\<lambda>provider. dp_write provider data_id (wr_data body)) (\<lambda>_. NO_CONTENT)"

lemmas data_handlers [handler_defs] = component_data_categories_def component_data_groups_def
  component_data_list_def component_data_read_def component_data_write_def
  app_data_categories_def app_data_groups_def app_data_list_def app_data_read_def
  app_data_write_def

lemmas data_steps = component_provider_def app_provider_def with_provider_def with_query_def

subsection \<open>The route table\<close>

text \<open>
  The paths of \<open>Router::route\<close> with the methods they answer, as nested and merged by \<open>router\<close>.
  A path is its list of segments, a parameter segment standing for any text.
\<close>

datatype segment = Literal string | Param string

datatype http_method = GET | PUT

datatype endpoint =
    RootCapabilities | ComponentList | ComponentCapabilities | ComponentHosts
  | ComponentBelongsTo | AppList | AppCapabilities | AppIsLocatedOn | AppBelongsTo | AreaList
  | AreaCapabilities | AreaContains | ComponentDataCategories | ComponentDataGroups
  | ComponentDataList | ComponentDataRead | ComponentDataWrite | AppDataCategories
  | AppDataGroups | AppDataList | AppDataRead | AppDataWrite | VersionDocument

type_synonym route = "http_method \<times> segment list \<times> endpoint"

definition component_routes :: "route list" where
  "component_routes =
     [(GET, [Literal ''components''], ComponentList),
      (GET, [Literal ''components'', Param ''component_id''], ComponentCapabilities),
      (GET, [Literal ''components'', Param ''component_id'', Literal ''hosts''], ComponentHosts),
      (GET, [Literal ''components'', Param ''component_id'', Literal ''belongs-to''],
        ComponentBelongsTo)]"

definition app_routes :: "route list" where
  "app_routes =
     [(GET, [Literal ''apps''], AppList),
      (GET, [Literal ''apps'', Param ''app_id''], AppCapabilities),
      (GET, [Literal ''apps'', Param ''app_id'', Literal ''is-located-on''], AppIsLocatedOn),
      (GET, [Literal ''apps'', Param ''app_id'', Literal ''belongs-to''], AppBelongsTo)]"

definition area_routes :: "route list" where
  "area_routes =
     [(GET, [Literal ''areas''], AreaList),
      (GET, [Literal ''areas'', Param ''area_id''], AreaCapabilities),
      (GET, [Literal ''areas'', Param ''area_id'', Literal ''contains''], AreaContains)]"

definition entity_routes :: "route list" where
  "entity_routes = [(GET, [], RootCapabilities)] @ component_routes @ app_routes @ area_routes"

definition data_routes :: "route list" where
  "data_routes =
     [(GET, [Literal ''components'', Param ''component_id'', Literal ''data-categories''],
        ComponentDataCategories),
      (GET, [Literal ''components'', Param ''component_id'', Literal ''data-groups''],
        ComponentDataGroups),
      (GET, [Literal ''components'', Param ''component_id'', Literal ''data''], ComponentDataList),
      (GET, [Literal ''components'', Param ''component_id'', Literal ''data'', Param ''data_id''],
        ComponentDataRead),
      (PUT, [Literal ''components'', Param ''component_id'', Literal ''data'', Param ''data_id''],
        ComponentDataWrite),
      (GET, [Literal ''apps'', Param ''app_id'', Literal ''data-categories''], AppDataCategories),
      (GET, [Literal ''apps'', Param ''app_id'', Literal ''data-groups''], AppDataGroups),
      (GET, [Literal ''apps'', Param ''app_id'', Literal ''data''], AppDataList),
      (GET, [Literal ''apps'', Param ''app_id'', Literal ''data'', Param ''data_id''], AppDataRead),
      (PUT, [Literal ''apps'', Param ''app_id'', Literal ''data'', Param ''data_id''], AppDataWrite)]"

definition version_routes :: "route list" where
  "version_routes = [(GET, [Literal ''version-info''], VersionDocument)]"

definition nest :: "string \<Rightarrow> route list \<Rightarrow> route list" where
  "nest prefix = map (\<lambda>(meth, path, h). (meth, Literal prefix # path, h))"

definition router :: "route list" where
  "router = nest API_VERSION (entity_routes @ data_routes) @ version_routes"

fun path_matches :: "segment list \<Rightarrow> string list \<Rightarrow> bool" where
  "path_matches [] [] = True"
| "path_matches (Literal l # ps) (s # ss) = (l = s \<and> path_matches ps ss)"
| "path_matches (Param _ # ps) (s # ss) = (s \<noteq> [] \<and> path_matches ps ss)"
| "path_matches _ _ = False"

text \<open>The endpoints the table admits for a request.\<close>

definition dispatch :: "route list \<Rightarrow> http_method \<Rightarrow> string list \<Rightarrow> endpoint list" where
  "dispatch table meth path =
     map (\<lambda>(_, _, h). h) (filter (\<lambda>(me, ps, _). me = meth \<and> path_matches ps path) table)"

lemmas router_defs = router_def nest_def entity_routes_def component_routes_def app_routes_def
  area_routes_def data_routes_def version_routes_def API_VERSION_def

end
