(* ===== verification/Route_Properties.thy ===== *)
theory Route_Properties
  imports Data_Routes Topology_Properties Provider_Properties
begin

text \<open>
  The properties of the HTTP interface: the route table is unambiguous, listings refer to
  entities that can be fetched, relations agree with the entities' own fields, unknown
  entities and missing providers are answered alike by every handler without touching the
  world, internal errors do not leak, and advertised links lead to handlers that accept them.
\<close>

subsection \<open>Helper lemmas\<close>

lemma tags_match_iff: "tags_match wanted tags \<longleftrightarrow> wanted = [] \<or> set wanted \<inter> set tags \<noteq> {}"
  by (auto simp: tags_match_def list_ex_iff)

lemma matching_area_eq:
  "matching_area P parts wanted found =
     (case found of None \<Rightarrow> []
      | Some ar \<Rightarrow> if tags_match wanted (area_tags ar)
          then [area_reference P (versioned_uri parts) ar] else [])"
  by (auto simp: matching_area_def tags_match_def Let_def list_ex_iff split: option.splits)

lemma reference_ids [simp]:
  "er_id (component_reference P base c) = component_id c"
  "er_id (app_reference P base a) = app_id a"
  "er_id (area_reference P base r) = area_id r"
  "er_name (component_reference P base c) = component_name c"
  "er_name (app_reference P base a) = app_name a"
  "er_name (area_reference P base r) = area_name r"
  by (simp_all add: reference_defs Let_def)

text \<open>The reference to an entity determines the route of its capabilities.\<close>

lemma reference_hrefs:
  "er_href (component_reference P (versioned_uri parts) c) =
     UriReference (base_uri parts @ ''/'' @
       join_with ''/'' [''v1'', ''components'', encode_path_segment P (component_id c)])"
  "er_href (app_reference P (versioned_uri parts) a) =
     UriReference (base_uri parts @ ''/'' @
       join_with ''/'' [''v1'', ''apps'', encode_path_segment P (app_id a)])"
  "er_href (area_reference P (versioned_uri parts) r) =
     UriReference (base_uri parts @ ''/'' @
       join_with ''/'' [''v1'', ''areas'', encode_path_segment P (area_id r)])"
  by (simp_all add: reference_defs versioned_uri_def API_VERSION_def Let_def)

lemma capability_routes:
  "s \<noteq> [] \<Longrightarrow> dispatch router GET [''v1'', ''components'', s] = [ComponentCapabilities]"
  "s \<noteq> [] \<Longrightarrow> dispatch router GET [''v1'', ''apps'', s] = [AppCapabilities]"
  "s \<noteq> [] \<Longrightarrow> dispatch router GET [''v1'', ''areas'', s] = [AreaCapabilities]"
  by (simp_all add: dispatch_def router_defs)

text \<open>Two paths overlap when some request path matches both.\<close>

fun overlaps :: "segment list \<Rightarrow> segment list \<Rightarrow> bool" where
  "overlaps [] [] = True"
| "overlaps (Literal a # ps) (Literal b # qs) = (a = b \<and> overlaps ps qs)"
| "overlaps (Literal a # ps) (Param b # qs) = overlaps ps qs"
| "overlaps (Param a # ps) (Literal b # qs) = overlaps ps qs"
| "overlaps (Param a # ps) (Param b # qs) = overlaps ps qs"
| "overlaps _ _ = False"

fun conflicts :: "route \<Rightarrow> route \<Rightarrow> bool" where
  "conflicts (m, p, _) (m', p', _) = (m = m' \<and> overlaps p p')"

lemma matches_overlaps: "path_matches p path \<Longrightarrow> path_matches q path \<Longrightarrow> overlaps p q"
proof (induction p path arbitrary: q rule: path_matches.induct)
  case 1
  then show ?case by (cases q) auto
next
  case (2 l ps s ss)
  then show ?case by (cases "(q, s # ss)" rule: path_matches.cases) auto
next
  case (3 v ps s ss)
  then show ?case by (cases "(q, s # ss)" rule: path_matches.cases) auto
qed auto

lemma dispatch_unambiguous:
  "sorted_wrt (\<lambda>r r'. \<not> conflicts r r') table \<Longrightarrow> length (dispatch table meth path) \<le> 1"
proof (induction table)
  case Nil
  then show ?case by (simp add: dispatch_def)
next
  case (Cons r table)
  obtain m p h where r: "r = (m, p, h)" by (cases r)
  show ?case
  proof (cases "m = meth \<and> path_matches p path")
    case True
    then have "\<not> (m' = meth \<and> path_matches p' path)" if "(m', p', h') \<in> set table" for m' p' h'
      using that Cons.prems r matches_overlaps [of p path p'] by fastforce
    then have "filter (\<lambda>(me, ps, _). me = meth \<and> path_matches ps path) table = []"
      by (auto simp: filter_empty_conv)
    with r True show ?thesis by (simp add: dispatch_def)
  next
    case False
    then have "dispatch (r # table) meth path = dispatch table meth path"
      by (auto simp: dispatch_def r)
    with Cons show ?thesis by simp
  qed
qed

definition sample_env ::
  "((string \<times> unit component) list, (string \<times> unit app) list, (string \<times> unit area) list,
    string list, unit, char \<Rightarrow> bool) route_env" where
  "sample_env = \<lparr> env_containers = list_containers, env_percent = plain_encoding,
     env_schema = (\<lambda>_. schema_fallback) \<rparr>"

definition sample_parts :: "unit request_parts" where
  "sample_parts = \<lparr> rp_method = ''GET'', rp_path = ''/v1/components'',
     rp_header_text = [''host'' \<mapsto> ''ecu.local''], rp_identity = None \<rparr>"

definition sample_ecu :: "unit component" where
  "sample_ecu = component_with_area_id ''front'' (component_new ''ecu'' ''ECU'')"

lemma sample_env_laws:
  "topology_containers (env_containers sample_env)" "percent_encoder (env_percent sample_env)"
  "topology_wf (env_containers sample_env) sample_state"
  "topology_exact (env_containers sample_env) sample_state"
proof -
  have E: "env_containers sample_env = list_containers" "env_percent sample_env = plain_encoding"
    by (simp_all add: sample_env_def)
  show "topology_containers (env_containers sample_env)"
    unfolding E by (rule lists.topology_containers_axioms)
  show "percent_encoder (env_percent sample_env)"
    unfolding E by (rule plain.percent_encoder_axioms)
  show "topology_wf (env_containers sample_env) sample_state"
    unfolding E using lists.run_new_wf [OF sample_ops_ok] by (simp only: sample_reached)
  show "topology_exact (env_containers sample_env) sample_state"
    unfolding E using lists.run_new_exact [OF sample_ops_ok sample_ops_stable]
    by (simp only: sample_reached)
qed

lemmas sample_env_eval = sample_env_def sample_state_eval components_def apps_def areas_def
  get_component_def get_app_def get_area_def list_containers_def alist_map_def

subsection \<open>Properties\<close>

text \<open>
  C38: The route table is unambiguous: whatever the method and the path of a request, at most
  one endpoint answers it.
\<close>

theorem router_is_unambiguous: "length (dispatch router meth path) \<le> 1"
  by (rule dispatch_unambiguous) (simp add: router_defs)

text \<open>A reference that can be followed to the capabilities of the entity it names.\<close>

definition reference_resolves ::
  "'i request_parts \<Rightarrow> string \<Rightarrow> endpoint \<Rightarrow>
     (string \<Rightarrow> (route_error, capabilities_response) result) \<Rightarrow> entity_reference \<Rightarrow> bool" where
  "reference_resolves parts collection endpoint capabilities ref \<longleftrightarrow>
     (\<exists>segment resp.
        er_href ref =
          UriReference (base_uri parts @ ''/'' @ join_with ''/'' [''v1'', collection, segment]) \<and>
        dispatch router GET [''v1'', collection, segment] = [endpoint] \<and>
        percent_decode segment = er_id ref \<and>
        capabilities (percent_decode segment) = Inr resp \<and>
        ec_id (rs_data resp) = er_id ref \<and> ec_name (rs_data resp) = er_name ref)"

lemma reference_resolves_intro:
  assumes "percent_encoder P" and "er_id ref \<noteq> []"
    and "er_href ref = UriReference (base_uri parts @ ''/'' @
      join_with ''/'' [''v1'', collection, encode_path_segment P (er_id ref)])"
    and "\<And>s. s \<noteq> [] \<Longrightarrow> dispatch router GET [''v1'', collection, s] = [endpoint]"
    and "capabilities (er_id ref) = Inr resp"
    and "ec_id (rs_data resp) = er_id ref" and "ec_name (rs_data resp) = er_name ref"
  shows "reference_resolves parts collection endpoint capabilities ref"
proof -
  have dec: "percent_decode (encode_path_segment P (er_id ref)) = er_id ref"
    by (rule percent_encoder.path_segment_decode [OF assms(1)])
  with assms(2) have "encode_path_segment P (er_id ref) \<noteq> []" by auto
  with dec assms show ?thesis unfolding reference_resolves_def by metis
qed



text \<open>
  Listings, hosted apps and area contents are exactly the entities of that relation that
  carry a requested tag (all of them when no tag is requested), in the order of the topology,
  for any topology reached by stable calls.
\<close>

theorem listings_apply_tag_filter:
  assumes "topology_containers (env_containers E)" and "topology_wf (env_containers E) topo"
    and "topology_exact (env_containers E) topo"
    and "get_component (env_containers E) topo host = Inr c"
    and "get_area (env_containers E) topo ar = Inr r"
  shows "map_ok (\<lambda>x. map er_id (items (rs_data x))) (component_list E topo parts query) =
      Inr (map component_id (filter (\<lambda>e. eq_tags query = [] \<or>
        set (eq_tags query) \<inter> set (component_tags e) \<noteq> {}) (components (env_containers E) topo))) \<and>
    map_ok (\<lambda>x. map er_id (items (rs_data x))) (component_hosts E topo host parts query) =
      Inr (map app_id (filter (\<lambda>e. (eq_tags query = [] \<or>
        set (eq_tags query) \<inter> set (app_tags e) \<noteq> {}) \<and> app_is_located_on e = host)
        (apps (env_containers E) topo))) \<and>
    map_ok (\<lambda>x. map er_id (items (rs_data x))) (area_contains E topo ar parts query) =
      Inr (map component_id (filter (\<lambda>e. (eq_tags query = [] \<or>
          set (eq_tags query) \<inter> set (component_tags e) \<noteq> {}) \<and> component_area_id e = Some ar)
          (components (env_containers E) topo)) @
        map app_id (filter (\<lambda>e. (eq_tags query = [] \<or>
          set (eq_tags query) \<inter> set (app_tags e) \<noteq> {}) \<and> app_area_id e = Some ar)
          (apps (env_containers E) topo)))"
  using topology_containers.exact_queries [OF assms(1-3)] assms(4,5)
  by (simp add: component_list_def component_hosts_def area_contains_def Let_def comp_def
      entities_response_of_def tags_match_iff app_component_id_def conj_commute)

theorem listings_apply_tag_filter_witness:
  "map_ok (\<lambda>x. map er_id (items (rs_data x))) (area_contains sample_env sample_state ''front''
     sample_parts \<lparr> eq_include_schema = True, eq_tags = [] \<rparr>) = Inr [''ecu'', ''nav'']"
proof -
  have "get_component (env_containers sample_env) sample_state ''ecu'' = Inr sample_ecu"
    by (simp add: sample_env_eval sample_ecu_def)
  moreover have "get_area (env_containers sample_env) sample_state ''front'' =
      Inr (area_new ''front'' ''Front'')"
    by (simp add: sample_env_eval)
  moreover have
    "components (env_containers sample_env) sample_state = [sample_ecu]"
    "apps (env_containers sample_env) sample_state =
       [app_with_area_id ''front'' (app_new ''nav'' ''Navigation'' ''ecu''),
        app_new ''log'' ''Logger'' ''hpc'']"
    by (simp_all add: sample_env_eval sample_ecu_def)
  ultimately show ?thesis
    using listings_apply_tag_filter [OF sample_env_laws(1,3,4), of "''ecu''" sample_ecu "''front''"
        "area_new ''front'' ''Front''" sample_parts "\<lparr> eq_include_schema = True, eq_tags = [] \<rparr>"]
    by (simp add: sample_ecu_def component_builder_defs app_builder_defs entity_ref_defs)
qed

text \<open>
  C4: A data request for an unknown entity is answered \<open>entity-not-found\<close> and one for an
  entity without data is answered \<open>provider-not-available\<close>, both with status 404, by every
  data handler of components and apps, whatever the query, and without touching the world.
\<close>

definition answers_not_found :: "string \<Rightarrow> (route_error, 'a) result \<times> 'w \<Rightarrow> 'w \<Rightarrow> bool" where
  "answers_not_found vendor_code outcome w \<longleftrightarrow> snd outcome = w \<and>
     (\<exists>e. fst outcome = Inl e \<and> fst (into_response e) = 404 \<and>
        ge_vendor_code (snd (into_response e)) = Some vendor_code)"

definition missing_code :: "(topology_error, 'e) result \<Rightarrow> string" where
  "missing_code found =
     (case found of Inl _ \<Rightarrow> ''entity-not-found'' | Inr _ \<Rightarrow> ''provider-not-available'')"

theorem data_handlers_report_missing:
  assumes "\<And>c. get_component (env_containers E) topo i = Inr c \<Longrightarrow> component_data_provider c = None"
    and "\<And>a. get_app (env_containers E) topo k = Inr a \<Longrightarrow> app_data_provider a = None"
    and "vc = missing_code (get_component (env_containers E) topo i)"
    and "va = missing_code (get_app (env_containers E) topo k)"
  shows "answers_not_found vc (component_data_categories E topo i w) w \<and>
    answers_not_found vc (component_data_groups E topo i (Inr gq) w) w \<and>
    answers_not_found vc (component_data_list E topo i (Inr dq) w) w \<and>
    answers_not_found vc (component_data_read E topo i d (Inr rq) w) w \<and>
    answers_not_found vc (component_data_write E topo i d body w) w \<and>
    answers_not_found va (app_data_categories E topo k w) w \<and>
    answers_not_found va (app_data_groups E topo k (Inr gq) w) w \<and>
    answers_not_found va (app_data_list E topo k (Inr dq) w) w \<and>
    answers_not_found va (app_data_read E topo k d (Inr rq) w) w \<and>
    answers_not_found va (app_data_write E topo k d body w) w"
  using assms(1,2) unfolding assms(3,4)
  by (cases "get_component (env_containers E) topo i"; cases "get_app (env_containers E) topo k")
    (simp_all add: answers_not_found_def missing_code_def data_handlers data_steps Let_def
      generic_error_with_vendor_code_def)

theorem data_handlers_report_missing_witness:
  "answers_not_found ''provider-not-available''
     (component_data_list sample_env sample_state ''ecu''
        (Inr \<lparr> dq_groups = None, dq_categories = None, dq_tags = None, dq_include_schema = False \<rparr>)
        ()) () \<and>
   answers_not_found ''entity-not-found'' (app_data_write sample_env sample_state ''nope'' ''x''
        \<lparr> wr_data = JNull, wr_signature = None \<rparr> ()) ()"
  using data_handlers_report_missing [of sample_env sample_state "''ecu''" "''nope''"
      "''provider-not-available''" "''entity-not-found''" "()" "\<lparr> gq_category = None \<rparr>"
      "\<lparr> dq_groups = None, dq_categories = None, dq_tags = None, dq_include_schema = False \<rparr>"
      "''x''" "\<lparr> rq_include_schema = False \<rparr>" "\<lparr> wr_data = JNull, wr_signature = None \<rparr>"]
  by (simp add: sample_env_def sample_state_eval get_component_def get_app_def missing_code_def
      list_containers_def alist_map_def component_builder_defs)

text \<open>
  C31: The text of an internal failure never reaches a client: two failures that differ only
  in that text are answered alike by every handler's response, with status 500 and the generic
  message; and every error response is 400, 404 or 500 with a body that parses back to the
  error that was reported.
\<close>

theorem error_responses_hide_internals:
  "respond ok body (Inl (DataFailure (Internal m1))) = respond ok body (Inl (DataFailure (Internal m2))) \<and>
   fst (respond ok body (Inl (DataFailure (Internal m1)))) = 500 \<and>
   fst (respond ok body (Inl e)) \<in> {400, 404, 500} \<and>
   generic_error_of_json (snd (respond ok body (Inl e))) = Some (snd (into_response e)) \<and>
   (ge_message (snd (into_response (DataFailure (Internal m1)))) = ''An internal error occurred'')"
proof -
  have "ge_parameters (snd (into_response e)) \<noteq> Some JNull"
    by (cases e) (auto simp: generic_error_with_vendor_code_def generic_error_new_def Let_def)
  then have "generic_error_of_json (snd (respond ok body (Inl e))) = Some (snd (into_response e))"
    by (simp add: respond_def generic_error_json_roundtrip)
  moreover have "fst (respond ok body (Inl e)) \<in> {400, 404, 500}"
    by (cases e) (auto simp: respond_def Let_def split: data_error.splits topology_error.splits)
  ultimately show ?thesis by (simp add: respond_def generic_error_new_def)
qed


definition sample_data_topology :: "json list_topology" where
  "sample_data_topology = wg_state (run_ops list_containers
     [AddComponent (component_with_data_provider
        (built_data_provider alist_map sample_resources) (component_new ''ecu'' ''ECU''))]
     (topology_write (topology_state_new list_containers)))"

definition sample_data_env ::
  "((string \<times> json component) list, (string \<times> json app) list, (string \<times> json area) list,
    string list, json, char \<Rightarrow> bool) route_env" where
  "sample_data_env = \<lparr> env_containers = list_containers, env_percent = plain_encoding,
     env_schema = (\<lambda>_. schema_fallback) \<rparr>"

lemma sample_data_lookup:
  "get_component (env_containers sample_data_env) sample_data_topology ''ecu'' =
     Inr (component_with_data_provider (built_data_provider alist_map sample_resources)
       (component_new ''ecu'' ''ECU''))"
  by (simp add: sample_data_env_def sample_data_topology_def add_component_def topology_write_def
      insert_component_def get_component_def topology_state_new_def list_containers_def
      alist_map_def component_builder_defs entity_ref_defs Let_def)


text \<open>
  The capabilities of a component advertise only what it has: the data link is there
  exactly when the component has a data provider, the hosts link always is and its handler
  answers, and the belongs-to link is there exactly when the component names an area and its
  handler answers with the area if the topology has it.
\<close>

theorem component_capability_links:
  assumes "topology_containers (env_containers E)"
    and "get_component (env_containers E) topo i = Inr c"
  shows "\<exists>resp. component_capabilities E topo i parts (Inr cq) = Inr resp \<and>
    ec_data (rs_data resp) = (if component_data_provider c = None then None else
      Some (UriReference (versioned_uri parts @ ''/components/'' @
        encode_path_segment (env_percent E) i @ ''/data''))) \<and>
    ec_hosts (rs_data resp) = Some (UriReference (versioned_uri parts @ ''/components/'' @
        encode_path_segment (env_percent E) i @ ''/hosts'')) \<and>
    (\<exists>hosted. component_hosts E topo i parts query = Inr hosted) \<and>
    (ec_belongs_to (rs_data resp) \<noteq> None \<longleftrightarrow> component_area_id c \<noteq> None) \<and>
    map_ok (\<lambda>r. items (rs_data r)) (component_belongs_to E topo i parts query) =
      Inr (case Option.bind (component_area_id c)
                  (\<lambda>ar. case get_area (env_containers E) topo ar of Inl _ \<Rightarrow> None | Inr r \<Rightarrow> Some r) of
             None \<Rightarrow> []
           | Some r \<Rightarrow> if eq_tags query = [] \<or> set (eq_tags query) \<inter> set (area_tags r) \<noteq> {}
               then [area_reference (env_percent E) (versioned_uri parts) r] else [])"
proof -
  have "map_of (component_entries (env_containers E) topo) i = Some c"
    using assms(2) by (simp add: topology_containers.get_component_entries [OF assms(1)])
  then have "area_of_component (env_containers E) topo i =
      Inr (Option.bind (component_area_id c)
        (\<lambda>ar. case get_area (env_containers E) topo ar of Inl _ \<Rightarrow> None | Inr r \<Rightarrow> Some r))"
    by (cases "component_area_id c"; cases "map_of (area_entries (env_containers E) topo)
          (the (component_area_id c))")
      (simp_all add: topology_containers.relations_entries [OF assms(1)]
        topology_containers.get_area_entries [OF assms(1)])
  with assms(2) show ?thesis
    by (auto simp: component_capabilities_def component_hosts_def component_belongs_to_def
        with_rejection_def capabilities_response_of_def entities_response_of_def Let_def
        matching_area_eq tags_match_iff split: option.splits)
qed

theorem component_capability_links_witness:
  "\<exists>resp. component_capabilities sample_env sample_state ''ecu'' sample_parts
     (Inr \<lparr> cq_include_schema = False \<rparr>) = Inr resp \<and> ec_data (rs_data resp) = None \<and>
     ec_belongs_to (rs_data resp) \<noteq> None"
proof -
  have "get_component (env_containers sample_env) sample_state ''ecu'' = Inr sample_ecu"
    by (simp add: sample_env_eval sample_ecu_def)
  from component_capability_links [OF sample_env_laws(1) this, of sample_parts
      "\<lparr> cq_include_schema = False \<rparr>" "\<lparr> eq_include_schema = False, eq_tags = [] \<rparr>"]
  show ?thesis by (auto simp: sample_ecu_def component_builder_defs)
qed

end
