(* ===== verification/Auth.thy ===== *)
theory Auth
  imports Http
begin

text \<open>
  Authentication and authorization of \<open>src/opensovd-server/src/auth.rs\<close>: the error and its
  response, the identity extractor, the no-op backends, and the two tower middlewares.  A
  service is an action that answers a request with a response or with its own error; a
  middleware is a service around an inner service.  The identity in a request's extensions is
  the field \<open>rp_identity\<close> of the request parts.
\<close>

subsection \<open>Services\<close>

record http_response =
  hr_status :: nat
  hr_body :: "json option"

type_synonym ('w, 'e, 'i, 'b) service =
  "'i request_parts \<times> 'b \<Rightarrow> ('w, ('e, http_response) result) action"

subsection \<open>Errors\<close>

datatype auth_error = Unauthenticated | Unauthorized

fun auth_error_display :: "auth_error \<Rightarrow> string" where
  "auth_error_display Unauthenticated = ''authentication required''"
| "auth_error_display Unauthorized = ''insufficient access rights''"

definition auth_error_unauthorized :: auth_error where
  "auth_error_unauthorized = Unauthorized"

fun auth_into_response :: "auth_error \<Rightarrow> http_response" where
  "auth_into_response Unauthenticated = \<lparr> hr_status = 401, hr_body = None \<rparr>"
| "auth_into_response Unauthorized =
     (let body = \<lparr> ge_error_code = InsufficientAccessRights, ge_vendor_code = None,
                   ge_message = ''insufficient access rights'', ge_translation_id = None,
                   ge_parameters = None \<rparr>
      in \<lparr> hr_status = 403, hr_body = Some (generic_error_to_json body) \<rparr>)"

text \<open>The extractor \<open>Identity<T>\<close>.\<close>

definition identity_from_request_parts :: "'i request_parts \<Rightarrow> (auth_error, 'i) result" where
  "identity_from_request_parts parts = ok_or Unauthenticated (rp_identity parts)"

subsection \<open>Authentication\<close>

type_synonym ('w, 'x, 'i) authenticator =
  "'x request_parts \<Rightarrow> ('w, (auth_error, 'i) result) action"

definition no_auth :: "('w, 'x, unit) authenticator" where
  "no_auth parts w = (Inr (), w)"

text \<open>\<open>impl Authenticator for Option<A>\<close>.\<close>

definition optional_authenticator ::
  "('w, 'x, 'i) authenticator option \<Rightarrow> ('w, 'x, 'i option) authenticator" where
  "optional_authenticator self parts w =
     (case self of
        Some authenticator \<Rightarrow>
          (case authenticator parts w of (r, w') \<Rightarrow> (map_ok Some r, w'))
      | None \<Rightarrow> (Inr None, w))"

record ('w, 'i) authentication_layer =
  al_authenticator :: "('w, 'i, 'i) authenticator"

definition authentication_layer_new :: "('w, 'i, 'i) authenticator \<Rightarrow> ('w, 'i) authentication_layer" where
  "authentication_layer_new a = \<lparr> al_authenticator = a \<rparr>"

record ('w, 'e, 'i, 'b) authentication_middleware =
  am_inner :: "('w, 'e, 'i, 'b) service"
  am_authenticator :: "('w, 'i, 'i) authenticator"

definition authentication_layer_layer ::
  "('w, 'i) authentication_layer \<Rightarrow> ('w, 'e, 'i, 'b) service \<Rightarrow>
     ('w, 'e, 'i, 'b) authentication_middleware" where
  "authentication_layer_layer self inner =
     \<lparr> am_inner = inner, am_authenticator = al_authenticator self \<rparr>"

definition authentication_call ::
  "('w, 'e, 'i, 'b) authentication_middleware \<Rightarrow> ('w, 'e, 'i, 'b) service" where
  "authentication_call self req w =
     (let (parts, body) = req
      in case am_authenticator self parts w of
           (Inr identity, w') \<Rightarrow>
             am_inner self (parts\<lparr>rp_identity := Some identity\<rparr>, body) w'
         | (Inl auth_error, w') \<Rightarrow> (Inr (auth_into_response auth_error), w'))"

subsection \<open>Authorization\<close>

type_synonym ('w, 'x, 'i) authorizer =
  "'i \<Rightarrow> 'x request_parts \<Rightarrow> ('w, (auth_error, unit) result) action"

definition allow_all :: "('w, 'x, 'i) authorizer" where
  "allow_all identity parts w = (Inr (), w)"

record ('w, 'i) authorization_layer =
  zl_authorizer :: "('w, 'i, 'i) authorizer"

definition authorization_layer_new :: "('w, 'i, 'i) authorizer \<Rightarrow> ('w, 'i) authorization_layer" where
  "authorization_layer_new z = \<lparr> zl_authorizer = z \<rparr>"

record ('w, 'e, 'i, 'b) authorization_middleware =
  zm_inner :: "('w, 'e, 'i, 'b) service"
  zm_authorizer :: "('w, 'i, 'i) authorizer"

definition authorization_layer_layer ::
  "('w, 'i) authorization_layer \<Rightarrow> ('w, 'e, 'i, 'b) service \<Rightarrow>
     ('w, 'e, 'i, 'b) authorization_middleware" where
  "authorization_layer_layer self inner =
     \<lparr> zm_inner = inner, zm_authorizer = zl_authorizer self \<rparr>"

definition authorization_call ::
  "('w, 'e, 'i, 'b) authorization_middleware \<Rightarrow> ('w, 'e, 'i, 'b) service" where
  "authorization_call self req w =
     (let (parts, body) = req
      in case rp_identity parts of
           None \<Rightarrow> (Inr (auth_into_response Unauthenticated), w)
         | Some identity \<Rightarrow>
             (case zm_authorizer self identity parts w of
                (Inr _, w') \<Rightarrow> zm_inner self (parts, body) w'
              | (Inl auth_error, w') \<Rightarrow> (Inr (auth_into_response auth_error), w')))"

text \<open>Both layers around a service, authentication outermost.\<close>

definition authorized_service ::
  "('w, 'i, 'i) authenticator \<Rightarrow> ('w, 'i, 'i) authorizer \<Rightarrow> ('w, 'e, 'i, 'b) service \<Rightarrow>
     ('w, 'e, 'i, 'b) service" where
  "authorized_service a z inner =
     authentication_call (authentication_layer_layer (authentication_layer_new a)
       (authorization_call (authorization_layer_layer (authorization_layer_new z) inner)))"

lemmas auth_defs = authorized_service_def authentication_call_def authentication_layer_layer_def
  authentication_layer_new_def authorization_call_def authorization_layer_layer_def
  authorization_layer_new_def

subsection \<open>Lemmas\<close>

lemma authorized_service_cases:
  "authorized_service a z inner (parts, body) w =
     (case a parts w of
        (Inl e, w1) \<Rightarrow> (Inr (auth_into_response e), w1)
      | (Inr i, w1) \<Rightarrow>
          (case z i (parts\<lparr>rp_identity := Some i\<rparr>) w1 of
             (Inl e, w2) \<Rightarrow> (Inr (auth_into_response e), w2)
           | (Inr _, w2) \<Rightarrow> inner (parts\<lparr>rp_identity := Some i\<rparr>, body) w2))"
  by (simp add: auth_defs split: prod.splits sum.splits)

lemma auth_status [simp]: "hr_status (auth_into_response e) \<in> {401, 403}"
  by (cases e) (simp_all add: Let_def)

lemma authorized_service_open:
  "authorized_service no_auth allow_all inner (parts, body) w =
     inner (parts\<lparr>rp_identity := Some ()\<rparr>, body) w"
  by (simp add: authorized_service_cases no_auth_def allow_all_def)

end
