(* ===== verification/Jwt_Rego.thy ===== *)
theory Jwt_Rego
  imports Auth "HOL-Library.Word"
begin

text \<open>
  The authentication and authorization backends of \<open>src/opensovd-extra/src/auth\<close>: bearer
  tokens validated by the \<open>jsonwebtoken\<close> crate (\<open>jwt.rs\<close>) and policies evaluated by the
  \<open>regorus\<close> engine (\<open>rego.rs\<close>).  Both crates are parameters; what the code relies on of
  \<open>jsonwebtoken\<close> is the locale \<open>jwt_library\<close>, in terms of an observer that gives the claims
  of a token whose signature, algorithm, payload and time stamps are valid.
\<close>

subsection \<open>Algorithms and claims\<close>

datatype jwt_algorithm = HS512 | RS512

fun jwt_algorithm_display :: "jwt_algorithm \<Rightarrow> string" where
  "jwt_algorithm_display HS512 = ''HS512''"
| "jwt_algorithm_display RS512 = ''RS512''"

definition jwt_algorithm_from_str :: "string \<Rightarrow> (string, jwt_algorithm) result" where
  "jwt_algorithm_from_str s =
     (if s = ''HS512'' then Inr HS512
      else if s = ''RS512'' then Inr RS512
      else Inl (''unsupported JWT algorithm: '' @ s @ '' (expected HS512 or RS512)''))"

record claims =
  cl_sub :: string
  cl_exp :: "64 word"
  cl_iat :: "64 word option"
  cl_iss :: "string option"
  cl_roles :: "string list"
  cl_scope :: "string option"

subsection \<open>The jsonwebtoken crate\<close>

record 'alg validation =
  va_algorithm :: 'alg
  va_validate_aud :: bool
  va_required_spec_claims :: "string list"
  va_iss :: "string list option"

record ('alg, 'key) jsonwebtoken =
  jl_hs512 :: 'alg
  jl_rs512 :: 'alg
  jl_from_secret :: "string \<Rightarrow> 'key"
  jl_from_rsa_der :: "string \<Rightarrow> 'key"
  jl_validation_new :: "'alg \<Rightarrow> 'alg validation"
  jl_decode :: "string \<Rightarrow> 'key \<Rightarrow> 'alg validation \<Rightarrow> (string, claims) result"
  jl_verified :: "'alg \<Rightarrow> 'key \<Rightarrow> string \<Rightarrow> claims option"

text \<open>
  The documented behaviour: \<open>exp\<close> is the only claim required by default; a configured issuer is
  compared with the \<open>iss\<close> claim of tokens that have one, and a token without it is refused
  only when \<open>iss\<close> is among the required claims.
\<close>

locale jwt_library =
  fixes J :: "('alg, 'key) jsonwebtoken"
  assumes validation_defaults: "jl_validation_new J a = \<lparr> va_algorithm = a, va_validate_aud = True,
          va_required_spec_claims = [''exp''], va_iss = None \<rparr>"
    and decode_iff: "\<not> va_validate_aud v \<Longrightarrow> jl_decode J t k v = Inr c \<longleftrightarrow>
          jl_verified J (va_algorithm v) k t = Some c \<and>
          (case (va_iss v, cl_iss c) of
             (Some issuers, Some i) \<Rightarrow> i \<in> set issuers
           | _ \<Rightarrow> True) \<and>
          (''iss'' \<in> set (va_required_spec_claims v) \<longrightarrow> cl_iss c \<noteq> None)"

subsection \<open>The authenticator\<close>

record ('alg, 'key) jwt_authenticator =
  ja_decoding_key :: 'key
  ja_validation :: "'alg validation"

definition jwt_authenticator_new ::
  "('alg, 'key) jsonwebtoken \<Rightarrow> jwt_algorithm \<Rightarrow> string \<Rightarrow> string \<Rightarrow>
     ('alg, 'key) jwt_authenticator" where
  "jwt_authenticator_new J algorithm key issuer =
     (let (algo, decoding_key) =
            (case algorithm of
               HS512 \<Rightarrow> (jl_hs512 J, jl_from_secret J key)
             | RS512 \<Rightarrow> (jl_rs512 J, jl_from_rsa_der J key));
          validation = jl_validation_new J algo;
          validation = validation\<lparr>va_validate_aud := False\<rparr>;
          validation = validation\<lparr>va_required_spec_claims :=
            filter (\<lambda>c. c \<noteq> ''aud'') (va_required_spec_claims validation)\<rparr>;
          validation = validation\<lparr>va_iss := Some [issuer]\<rparr>
      in \<lparr> ja_decoding_key = decoding_key, ja_validation = validation \<rparr>)"

definition jwt_authenticate ::
  "('alg, 'key) jsonwebtoken \<Rightarrow> ('alg, 'key) jwt_authenticator \<Rightarrow> ('w, 'x, claims) authenticator" where
  "jwt_authenticate J self parts w =
     (let header = Option.bind (rp_header_text parts ''authorization'') (strip_prefix ''Bearer '')
      in (and_then (ok_or Unauthenticated header) (\<lambda>token.
            map_err (\<lambda>_. Unauthenticated)
              (jl_decode J token (ja_decoding_key self) (ja_validation self))), w))"

subsection \<open>The policy authorizer\<close>

text \<open>
  The engine's operations; \<open>rg_value_from_json_str\<close> and the loading operations may fail with
  an error text.
\<close>

record ('eng, 'val) regorus =
  rg_new :: 'eng
  rg_add_policy :: "string \<Rightarrow> string \<Rightarrow> 'eng \<Rightarrow> (string, 'eng) result"
  rg_add_data :: "'val \<Rightarrow> 'eng \<Rightarrow> (string, 'eng) result"
  rg_value_from_json_str :: "string \<Rightarrow> (string, 'val) result"
  rg_value_from :: "json \<Rightarrow> 'val"
  rg_set_input :: "'val \<Rightarrow> 'eng \<Rightarrow> 'eng"
  rg_eval_bool_query :: "string \<Rightarrow> bool \<Rightarrow> 'eng \<Rightarrow> (string, bool) result"

text \<open>\<open>None\<close> is a poisoned lock.\<close>

record 'eng regorus_authorizer =
  ra_engine :: "'eng option"

text \<open>
  The loops of \<open>new\<close> and \<open>from_paths\<close>, over the texts the readers or files yield (or the
  error of reading them).
\<close>

fun load_policies ::
  "('eng, 'val) regorus \<Rightarrow> (string \<times> (string, string) result) list \<Rightarrow> 'eng \<Rightarrow>
     (string, 'eng) result" where
  "load_policies R [] engine = Inr engine"
| "load_policies R ((name, reader) # rest) engine =
     and_then reader (\<lambda>rego. and_then (rg_add_policy R name rego engine) (load_policies R rest))"

fun load_data ::
  "('eng, 'val) regorus \<Rightarrow> (string, string) result list \<Rightarrow> 'eng \<Rightarrow> (string, 'eng) result" where
  "load_data R [] engine = Inr engine"
| "load_data R (reader # rest) engine =
     and_then reader (\<lambda>text. and_then (rg_value_from_json_str R text) (\<lambda>value.
       and_then (rg_add_data R value engine) (load_data R rest)))"

definition regorus_authorizer_new ::
  "('eng, 'val) regorus \<Rightarrow> (string \<times> (string, string) result) list \<Rightarrow>
     (string, string) result list \<Rightarrow> (string, 'eng regorus_authorizer) result" where
  "regorus_authorizer_new R policies dataset =
     and_then (load_policies R policies (rg_new R)) (\<lambda>engine.
     and_then (load_data R dataset engine) (\<lambda>engine.
       Inr \<lparr> ra_engine = Some engine \<rparr>))"

definition regorus_authorizer_from_paths ::
  "('eng, 'val) regorus \<Rightarrow> (string \<Rightarrow> (string, string) result) \<Rightarrow> string list \<Rightarrow> string list \<Rightarrow>
     (string, 'eng regorus_authorizer) result" where
  "regorus_authorizer_from_paths R read_to_string policies dataset =
     (let read = (\<lambda>path. map_err (\<lambda>e. path @ '': '' @ e) (read_to_string path))
      in and_then (load_policies R (map (\<lambda>path. (path, read path)) policies) (rg_new R)) (\<lambda>engine.
         and_then (load_data R (map read dataset) engine) (\<lambda>engine.
           Inr \<lparr> ra_engine = Some engine \<rparr>)))"

definition json_option_string :: "string option \<Rightarrow> json" where
  "json_option_string s = (case s of None \<Rightarrow> JNull | Some t \<Rightarrow> JString t)"

definition policy_input :: "claims \<Rightarrow> 'x request_parts \<Rightarrow> json" where
  "policy_input identity parts = JObject
     [(''method'', JString (rp_method parts)), (''path'', JString (rp_path parts)),
      (''identity'', JObject
         [(''sub'', JString (cl_sub identity)),
          (''roles'', JArray (map JString (cl_roles identity))),
          (''scope'', json_option_string (cl_scope identity))])]"

definition regorus_authorize ::
  "('eng, 'val) regorus \<Rightarrow> 'eng regorus_authorizer \<Rightarrow> ('w, 'x, claims) authorizer" where
  "regorus_authorize R self identity parts w =
     (case ra_engine self of
        None \<Rightarrow> (Inl auth_error_unauthorized, w)
      | Some engine \<Rightarrow>
          (let eval_engine = rg_set_input R (rg_value_from R (policy_input identity parts)) engine;
               allowed = (case rg_eval_bool_query R ''data.sovd.authz.allow'' False eval_engine of
                            Inr result \<Rightarrow> result | Inl _ \<Rightarrow> False)
           in (if allowed then Inr () else Inl auth_error_unauthorized, w)))"

subsection \<open>Lemmas\<close>

lemma jwt_algorithm_roundtrip: "jwt_algorithm_from_str (jwt_algorithm_display a) = Inr a"
  by (cases a) (simp_all add: jwt_algorithm_from_str_def)

text \<open>The key and the algorithm an authenticator is created with.\<close>

definition configured_key :: "('alg, 'key) jsonwebtoken \<Rightarrow> jwt_algorithm \<Rightarrow> string \<Rightarrow> 'key" where
  "configured_key J algorithm key =
     (case algorithm of HS512 \<Rightarrow> jl_from_secret J key | RS512 \<Rightarrow> jl_from_rsa_der J key)"

definition configured_algorithm :: "('alg, 'key) jsonwebtoken \<Rightarrow> jwt_algorithm \<Rightarrow> 'alg" where
  "configured_algorithm J algorithm = (case algorithm of HS512 \<Rightarrow> jl_hs512 J | RS512 \<Rightarrow> jl_rs512 J)"

lemma strip_bearer: "strip_prefix ''Bearer '' h = Some t \<longleftrightarrow> h = ''Bearer '' @ t"
  by (simp only: strip_prefix_Some_iff)

context jwt_library
begin

lemma authenticator_decodes:
  "jl_decode J t (ja_decoding_key (jwt_authenticator_new J algorithm key issuer))
       (ja_validation (jwt_authenticator_new J algorithm key issuer)) = Inr c \<longleftrightarrow>
     jl_verified J (configured_algorithm J algorithm) (configured_key J algorithm key) t = Some c \<and>
     (cl_iss c = None \<or> cl_iss c = Some issuer)"
  by (cases algorithm; cases "cl_iss c")
    (auto simp: jwt_authenticator_new_def decode_iff validation_defaults configured_key_def
      configured_algorithm_def Let_def)

lemma authenticate_Inr_iff:
  "jwt_authenticate J (jwt_authenticator_new J algorithm key issuer) parts w = (Inr c, w') \<longleftrightarrow>
     w' = w \<and>
     (\<exists>t. rp_header_text parts ''authorization'' = Some (''Bearer '' @ t) \<and>
        jl_verified J (configured_algorithm J algorithm) (configured_key J algorithm key) t = Some c \<and>
        (cl_iss c = None \<or> cl_iss c = Some issuer))"
  by (auto simp: jwt_authenticate_def Let_def and_then_Inr_iff authenticator_decodes
      strip_bearer Option.bind_eq_Some_conv simp del: strip_prefix.simps)

end

lemma authenticate_failure:
  "jwt_authenticate J self parts w = (Inl e, w') \<Longrightarrow> e = Unauthenticated \<and> w' = w"
  by (auto simp: jwt_authenticate_def Let_def and_then_Inl_iff map_err_Inl_iff)

text \<open>A table of valid tokens meets the laws.\<close>

definition token_table :: "(string \<times> claims) list \<Rightarrow> (jwt_algorithm, string) jsonwebtoken" where
  "token_table tokens = \<lparr> jl_hs512 = HS512, jl_rs512 = RS512, jl_from_secret = (\<lambda>k. k),
     jl_from_rsa_der = (\<lambda>k. k),
     jl_validation_new = (\<lambda>a. \<lparr> va_algorithm = a, va_validate_aud = True,
       va_required_spec_claims = [''exp''], va_iss = None \<rparr>),
     jl_decode = (\<lambda>t k v. case map_of tokens t of
         None \<Rightarrow> Inl ''InvalidToken''
       | Some c \<Rightarrow>
           if (case (va_iss v, cl_iss c) of (Some issuers, Some i) \<Rightarrow> i \<in> set issuers | _ \<Rightarrow> True)
              \<and> (''iss'' \<in> set (va_required_spec_claims v) \<longrightarrow> cl_iss c \<noteq> None)
           then Inr c else Inl ''InvalidIssuer''),
     jl_verified = (\<lambda>a k t. map_of tokens t) \<rparr>"

interpretation tokens: jwt_library "token_table ts"
  by unfold_locales (auto simp: token_table_def split: option.splits)

end
