(* ===== verification/Auth_Properties.thy ===== *)
theory Auth_Properties
  imports Jwt_Rego
begin

text \<open>
  The security properties of the middlewares and backends: a request reaches the inner
  service only with an authenticated and authorized identity, identities cannot be smuggled
  in, tokens are accepted only under the configured key and algorithm, and policy decisions
  fail closed and depend on the documented input only.
\<close>

subsection \<open>Concrete instances\<close>

definition sample_claims :: claims where
  "sample_claims = \<lparr> cl_sub = ''tester'', cl_exp = 4000000000, cl_iat = None, cl_iss = None,
     cl_roles = [''reader''], cl_scope = None \<rparr>"

definition sample_tokens :: "(jwt_algorithm, string) jsonwebtoken" where
  "sample_tokens = token_table [(''t0k3n'', sample_claims)]"

definition bearer_parts :: "string \<Rightarrow> 'i option \<Rightarrow> 'i request_parts" where
  "bearer_parts t i = \<lparr> rp_method = ''GET'', rp_path = ''/v1/components'',
     rp_header_text = [''authorization'' \<mapsto> ''Bearer '' @ t], rp_identity = i \<rparr>"

text \<open>A service that counts its calls.\<close>

definition counting_service :: "(nat, unit, 'i, unit) service" where
  "counting_service req n = (Inr \<lparr> hr_status = 200, hr_body = None \<rparr>, Suc n)"

subsection \<open>Properties\<close>



text \<open>
  An identity that is already in the request when it arrives has no influence: for an
  authenticator that looks at the request only, as the token authenticator does, the answer
  is the same whatever identity the request carried; and without the authentication layer the
  authorization layer answers 401 to a request without identity.
\<close>

theorem carried_identity_is_ignored:
  assumes "\<And>parts x w. a (parts\<lparr>rp_identity := x\<rparr>) w = a parts w"
  shows "authorized_service a z inner (parts\<lparr>rp_identity := x\<rparr>, body) w =
      authorized_service a z inner (parts, body) w \<and>
    jwt_authenticate J ja (parts\<lparr>rp_identity := x\<rparr>) w = jwt_authenticate J ja parts w \<and>
    authorization_call mw (parts\<lparr>rp_identity := None\<rparr>, body) w =
      (Inr \<lparr> hr_status = 401, hr_body = None \<rparr>, w)"
proof -
  have "authorized_service a z inner (parts\<lparr>rp_identity := x\<rparr>, body) w =
      authorized_service a z inner (parts, body) w"
    using assms by (auto simp: authorized_service_cases split: prod.splits sum.splits)
  then show ?thesis by (simp add: jwt_authenticate_def authorization_call_def)
qed

theorem carried_identity_is_ignored_witness:
  "authorized_service (jwt_authenticate sample_tokens
       (jwt_authenticator_new sample_tokens HS512 ''secret'' ''OpenSOVD'')) allow_all
       counting_service ((bearer_parts ''forged'' None)\<lparr>rp_identity := Some sample_claims\<rparr>, ()) 0 =
   authorized_service (jwt_authenticate sample_tokens
       (jwt_authenticator_new sample_tokens HS512 ''secret'' ''OpenSOVD'')) allow_all
       counting_service (bearer_parts ''forged'' None, ()) 0"
  using carried_identity_is_ignored [where a = "jwt_authenticate sample_tokens
       (jwt_authenticator_new sample_tokens HS512 ''secret'' ''OpenSOVD'')" and z = allow_all
       and inner = counting_service and parts = "bearer_parts ''forged'' None"
       and x = "Some sample_claims" and body = "()" and w = 0
       and mw = "\<lparr> zm_inner = counting_service, zm_authorizer = allow_all \<rparr>"]
  by (simp add: jwt_authenticate_def)

text \<open>
  C6: The token authenticator accepts a request exactly when its authorization header is
  "Bearer " followed by a token that verifies under the configured algorithm and key and whose
  issuer claim, if it has one, is the configured issuer; every other request, with no or
  another header, a bad token or another issuer, is \<open>Unauthenticated\<close>.
\<close>

theorem jwt_accepts_only_verified_tokens:
  assumes "jwt_library J"
  shows "((\<exists>w'. jwt_authenticate J (jwt_authenticator_new J algorithm key issuer) parts w = (Inr c, w')) \<longleftrightarrow>
      (\<exists>t. rp_header_text parts ''authorization'' = Some (''Bearer '' @ t) \<and>
         jl_verified J (configured_algorithm J algorithm) (configured_key J algorithm key) t = Some c \<and>
         (cl_iss c = None \<or> cl_iss c = Some issuer))) \<and>
    (\<forall>e w'. jwt_authenticate J (jwt_authenticator_new J algorithm key issuer) parts w = (Inl e, w') \<longrightarrow>
      e = Unauthenticated)"
proof (intro conjI allI impI)
  show "(\<exists>w'. jwt_authenticate J (jwt_authenticator_new J algorithm key issuer) parts w = (Inr c, w')) \<longleftrightarrow>
      (\<exists>t. rp_header_text parts ''authorization'' = Some (''Bearer '' @ t) \<and>
         jl_verified J (configured_algorithm J algorithm) (configured_key J algorithm key) t = Some c \<and>
         (cl_iss c = None \<or> cl_iss c = Some issuer))"
    by (simp only: jwt_library.authenticate_Inr_iff [OF assms]) blast
qed (rule conjunct1 [OF authenticate_failure])

theorem jwt_accepts_only_verified_tokens_witness:
  "(\<exists>w'. jwt_authenticate sample_tokens
      (jwt_authenticator_new sample_tokens RS512 ''key'' ''OpenSOVD'')
      (bearer_parts ''t0k3n'' (None :: unit option)) () = (Inr sample_claims, w'))"
proof -
  have "cl_iss sample_claims = None" by (simp add: sample_claims_def)
  moreover have "jwt_library sample_tokens"
    unfolding sample_tokens_def by (rule tokens.jwt_library_axioms)
  ultimately show ?thesis
    using jwt_accepts_only_verified_tokens [of sample_tokens RS512 "''key''" "''OpenSOVD''"
        "bearer_parts ''t0k3n'' (None :: unit option)" "()" sample_claims]
    by (simp add: bearer_parts_def sample_tokens_def token_table_def)
qed

text \<open>
  C20: A policy decision fails closed: access is granted exactly when the lock is healthy and
  the query evaluates to true; a poisoned lock, an evaluation error and a false result are
  \<open>Unauthorized\<close>.  The decision depends only on method, path, subject, roles and scope.
\<close>

theorem policy_decisions_fail_closed:
  "(fst (regorus_authorize R self c parts w) = Inr () \<longleftrightarrow>
      (\<exists>engine. ra_engine self = Some engine \<and>
         rg_eval_bool_query R ''data.sovd.authz.allow'' False
           (rg_set_input R (rg_value_from R (policy_input c parts)) engine) = Inr True)) \<and>
   fst (regorus_authorize R self c parts w) \<in> {Inr (), Inl Unauthorized} \<and>
   regorus_authorize R self c parts w =
     regorus_authorize R self
       \<lparr> cl_sub = cl_sub c, cl_exp = e, cl_iat = ia, cl_iss = is, cl_roles = cl_roles c,
          cl_scope = cl_scope c \<rparr>
       \<lparr> rp_method = rp_method parts, rp_path = rp_path parts, rp_header_text = h,
          rp_identity = i \<rparr> w"
  by (auto simp: regorus_authorize_def policy_input_def auth_error_unauthorized_def Let_def
      split: option.splits sum.splits)

text \<open>
  An authorizer exists only if every policy and every data document was read and accepted
  by the engine; a failure of any of them is the error of the construction, and both
  constructors agree when the files hold what the readers yield.
\<close>

theorem policy_engine_loads_everything:
  assumes "regorus_authorizer_from_paths R fs policies dataset = Inr z"
  shows "(\<forall>p \<in> set policies. \<exists>text. fs p = Inr text) \<and>
    (\<forall>p \<in> set dataset. \<exists>text value. fs p = Inr text \<and> rg_value_from_json_str R text = Inr value) \<and>
    ra_engine z \<noteq> None \<and>
    regorus_authorizer_new R (map (\<lambda>p. (p, fs p)) policies) (map fs dataset) = Inr z"
proof -
  let ?read = "\<lambda>p. map_err (\<lambda>e. p @ '': '' @ e) (fs p)"
  have pol: "load_policies R (map (\<lambda>p. (p, ?read p)) ps) en = Inr en' \<Longrightarrow>
      (\<forall>p \<in> set ps. \<exists>text. fs p = Inr text) \<and>
      load_policies R (map (\<lambda>p. (p, fs p)) ps) en = Inr en'" for ps en en'
    by (induction ps arbitrary: en) (auto simp: and_then_Inr_iff)
  have dat: "load_data R (map ?read ps) en = Inr en' \<Longrightarrow>
      (\<forall>p \<in> set ps. \<exists>text value. fs p = Inr text \<and> rg_value_from_json_str R text = Inr value) \<and>
      load_data R (map fs ps) en = Inr en'" for ps en en'
    by (induction ps arbitrary: en) (auto simp: and_then_Inr_iff)
  from assms obtain e1 e2 where "load_policies R (map (\<lambda>p. (p, ?read p)) policies) (rg_new R) = Inr e1"
    "load_data R (map ?read dataset) e1 = Inr e2" "z = \<lparr> ra_engine = Some e2 \<rparr>"
    by (auto simp: regorus_authorizer_from_paths_def Let_def and_then_Inr_iff)
  then show ?thesis
    using pol [of policies "rg_new R" e1] dat [of dataset e1 e2]
    by (simp add: regorus_authorizer_new_def)
qed

text \<open>An engine that records what it loads and allows what its input spells.\<close>

definition recording_engine :: "(string list, string) regorus" where
  "recording_engine = \<lparr> rg_new = [], rg_add_policy = (\<lambda>n t en. Inr (en @ [t])),
     rg_add_data = (\<lambda>v en. Inr (en @ [v])), rg_value_from_json_str = Inr,
     rg_value_from = (\<lambda>_. []), rg_set_input = (\<lambda>_ en. en),
     rg_eval_bool_query = (\<lambda>_ _ _. Inr True) \<rparr>"

theorem policy_engine_loads_everything_witness:
  "regorus_authorizer_new recording_engine [(''a.rego'', Inr ''a.rego'')] [Inr ''d.json''] =
     Inr \<lparr> ra_engine = Some [''a.rego'', ''d.json''] \<rparr>"
  using policy_engine_loads_everything [of recording_engine Inr "[''a.rego'']" "[''d.json'']"
      "\<lparr> ra_engine = Some [''a.rego'', ''d.json''] \<rparr>"]
  by (simp add: regorus_authorizer_from_paths_def recording_engine_def Let_def)

end
