(* ===== verification/Tls.thy ===== *)
theory Tls
  imports Prelude "HOL-Library.Multiset"
begin

text \<open>
  TLS of \<open>src/opensovd-server/src/tls.rs\<close>: the configuration that is turned into an acceptor,
  and the listener that runs handshakes in tasks of their own and hands completed connections
  to the server.  rustls, the PEM parser and the file system are parameters; so are tokio's
  semaphore and channel, with their documented laws (locale \<open>handshake_primitives\<close>).  The
  listener is a transition relation over the tasks that are alive.
\<close>

subsection \<open>Configuration\<close>

datatype ('io, 'rustls) tls_config_error =
    TlsIo string 'io
  | NoCerts string
  | NoKey string
  | Rustls 'rustls
  | VerifierError string

record tls_config =
  tc_cert :: string
  tc_key :: string
  tc_client_cas :: "string list"

definition tls_config_new :: "string \<Rightarrow> string \<Rightarrow> tls_config" where
  "tls_config_new cert key = \<lparr> tc_cert = cert, tc_key = key, tc_client_cas = [] \<rparr>"

definition with_client_ca :: "string \<Rightarrow> tls_config \<Rightarrow> tls_config" where
  "with_client_ca ca c = c\<lparr>tc_client_cas := tc_client_cas c @ [ca]\<rparr>"

definition has_client_ca :: "tls_config \<Rightarrow> bool" where
  "has_client_ca c \<longleftrightarrow> tc_client_cas c \<noteq> []"

text \<open>
  What the code calls of the standard library, \<open>rustls_pemfile\<close> and \<open>rustls\<close>.
  \<open>ru_with_single_cert None\<close> is \<open>with_no_client_auth\<close>, \<open>Some v\<close> is \<open>with_client_cert_verifier\<close>.
\<close>

record ('io, 'rustls, 'cert, 'pkey, 'store, 'ver, 'cfg) tls_library =
  fs_read :: "string \<Rightarrow> ('io, string) result"
  pem_certs :: "string \<Rightarrow> ('io, 'cert) result list"
  pem_private_key :: "string \<Rightarrow> ('io, 'pkey option) result"
  ru_store_empty :: 'store
  ru_store_add :: "'cert \<Rightarrow> 'store \<Rightarrow> ('rustls, 'store) result"
  ru_verifier_build :: "'store \<Rightarrow> (string, 'ver) result"
  ru_protocol_versions :: "('rustls, unit) result"
  ru_with_single_cert :: "'ver option \<Rightarrow> 'cert list \<Rightarrow> 'pkey \<Rightarrow> ('rustls, 'cfg) result"

type_synonym ('io, 'rustls, 'a) tls_result = "(('io, 'rustls) tls_config_error, 'a) result"

definition read_file ::
  "('io, 'rustls, 'cert, 'pkey, 'store, 'ver, 'cfg) tls_library \<Rightarrow> string \<Rightarrow>
     ('io, 'rustls, string) tls_result" where
  "read_file T path = map_err (TlsIo path) (fs_read T path)"

definition load_certs ::
  "('io, 'rustls, 'cert, 'pkey, 'store, 'ver, 'cfg) tls_library \<Rightarrow> string \<Rightarrow>
     ('io, 'rustls, 'cert list) tls_result" where
  "load_certs T path =
     and_then (read_file T path) (\<lambda>data.
     and_then (map_err (TlsIo path) (collect_results (\<lambda>r. r) (pem_certs T data))) (\<lambda>certs.
       if certs = [] then Inl (NoCerts path) else Inr certs))"

definition load_key ::
  "('io, 'rustls, 'cert, 'pkey, 'store, 'ver, 'cfg) tls_library \<Rightarrow> string \<Rightarrow>
     ('io, 'rustls, 'pkey) tls_result" where
  "load_key T path =
     and_then (read_file T path) (\<lambda>data.
     and_then (map_err (TlsIo path) (pem_private_key T data)) (\<lambda>key.
       ok_or (NoKey path) key))"

text \<open>The nested loops that fill the root store.\<close>

fun add_certs ::
  "('io, 'rustls, 'cert, 'pkey, 'store, 'ver, 'cfg) tls_library \<Rightarrow> 'cert list \<Rightarrow> 'store \<Rightarrow>
     ('io, 'rustls, 'store) tls_result" where
  "add_certs T [] store = Inr store"
| "add_certs T (cert # rest) store =
     and_then (map_err Rustls (ru_store_add T cert store)) (add_certs T rest)"

fun load_client_cas ::
  "('io, 'rustls, 'cert, 'pkey, 'store, 'ver, 'cfg) tls_library \<Rightarrow> string list \<Rightarrow> 'store \<Rightarrow>
     ('io, 'rustls, 'store) tls_result" where
  "load_client_cas T [] store = Inr store"
| "load_client_cas T (ca # rest) store =
     and_then (load_certs T ca) (\<lambda>certs.
     and_then (add_certs T certs store) (load_client_cas T rest))"

definition tls_server_config ::
  "('io, 'rustls, 'cert, 'pkey, 'store, 'ver, 'cfg) tls_library \<Rightarrow> tls_config \<Rightarrow>
     ('io, 'rustls, 'cfg) tls_result" where
  "tls_server_config T c =
     and_then (load_certs T (tc_cert c)) (\<lambda>certs.
     and_then (load_key T (tc_key c)) (\<lambda>key.
       if tc_client_cas c = [] then
         and_then (map_err Rustls (ru_protocol_versions T)) (\<lambda>_.
           map_err Rustls (ru_with_single_cert T None certs key))
       else
         and_then (load_client_cas T (tc_client_cas c) (ru_store_empty T)) (\<lambda>root_store.
         and_then (map_err VerifierError (ru_verifier_build T root_store)) (\<lambda>verifier.
         and_then (map_err Rustls (ru_protocol_versions T)) (\<lambda>_.
           map_err Rustls (ru_with_single_cert T (Some verifier) certs key))))))"

subsection \<open>The listener\<close>

definition MAX_PENDING_HANDSHAKES :: nat where
  "MAX_PENDING_HANDSHAKES = 256"

record ('sem, 'ch, 'c) handshake_primitives =
  sem_new :: "nat \<Rightarrow> 'sem"
  sem_try_acquire :: "'sem \<Rightarrow> 'sem option"
  sem_release :: "'sem \<Rightarrow> 'sem"
  sem_available :: "'sem \<Rightarrow> nat"
  ch_new :: "nat \<Rightarrow> 'ch"
  ch_send :: "'c \<Rightarrow> 'ch \<Rightarrow> 'ch option"
  ch_recv :: "'ch \<Rightarrow> ('c \<times> 'ch) option"
  ch_queue :: "'ch \<Rightarrow> 'c list"
  ch_capacity :: "'ch \<Rightarrow> nat"

text \<open>
  A permit is granted while one is available and given back when it is dropped; the channel
  is a bounded queue whose \<open>send\<close> completes when there is room.
\<close>

locale handshake_primitives_laws =
  fixes H :: "('sem, 'ch, 'c) handshake_primitives"
  assumes sem_new: "sem_available H (sem_new H n) = n"
    and acquire_granted: "sem_try_acquire H s = Some s' \<Longrightarrow> sem_available H s = Suc (sem_available H s')"
    and acquire_refused: "sem_try_acquire H s = None \<Longrightarrow> sem_available H s = 0"
    and released: "sem_available H (sem_release H s) = Suc (sem_available H s)"
    and ch_new: "ch_queue H (ch_new H n) = []" "ch_capacity H (ch_new H n) = n"
    and ch_send: "ch_send H c q = Some q' \<Longrightarrow> length (ch_queue H q) < ch_capacity H q \<and>
          ch_queue H q' = ch_queue H q @ [c] \<and> ch_capacity H q' = ch_capacity H q"
    and ch_recv: "ch_recv H q = Some (c, q') \<Longrightarrow>
          ch_queue H q = c # ch_queue H q' \<and> ch_capacity H q' = ch_capacity H q"

text \<open>A handshake task, holding its permit: still shaking hands, or completed and sending.\<close>

datatype 'c handshake_task = Shaking 'c | Sending 'c

fun task_conn :: "'c handshake_task \<Rightarrow> 'c" where
  "task_conn (Shaking c) = c"
| "task_conn (Sending c) = c"

text \<open>
  The listener with its tasks, and what became of the accepted connections: dropped because
  no slot was free, failed or timed out, or returned to the server.
\<close>

record ('sem, 'ch, 'c) tls_listener =
  tl_semaphore :: 'sem
  tl_done :: 'ch
  tl_tasks :: "'c handshake_task list"
  tl_refused :: "'c list"
  tl_failed :: "'c list"
  tl_returned :: "'c list"

definition tls_listener_new ::
  "('sem, 'ch, 'c) handshake_primitives \<Rightarrow> ('sem, 'ch, 'c) tls_listener" where
  "tls_listener_new H =
     \<lparr> tl_semaphore = sem_new H MAX_PENDING_HANDSHAKES,
       tl_done = ch_new H MAX_PENDING_HANDSHAKES, tl_tasks = [], tl_refused = [], tl_failed = [],
       tl_returned = [] \<rparr>"

text \<open>\<open>TlsConfig::build\<close>.\<close>

definition tls_config_build ::
  "('io, 'rustls, 'cert, 'pkey, 'store, 'ver, 'cfg) tls_library \<Rightarrow>
     ('sem, 'ch, 'c) handshake_primitives \<Rightarrow> tls_config \<Rightarrow> 'tcp \<Rightarrow>
     ('io, 'rustls, 'tcp \<times> 'cfg \<times> ('sem, 'ch, 'c) tls_listener) tls_result" where
  "tls_config_build T H c listener =
     map_ok (\<lambda>config. (listener, config, tls_listener_new H)) (tls_server_config T c)"

text \<open>One arm of the \<open>select!\<close> loop for an accepted TCP connection.\<close>

definition tcp_accepted ::
  "('sem, 'ch, 'c) handshake_primitives \<Rightarrow> 'c \<Rightarrow> ('sem, 'ch, 'c) tls_listener \<Rightarrow>
     ('sem, 'ch, 'c) tls_listener" where
  "tcp_accepted H c lsn =
     (case sem_try_acquire H (tl_semaphore lsn) of
        Some s \<Rightarrow> lsn\<lparr>tl_semaphore := s, tl_tasks := tl_tasks lsn @ [Shaking c]\<rparr>
      | None \<Rightarrow> lsn\<lparr>tl_refused := tl_refused lsn @ [c]\<rparr>)"

inductive tls_step ::
  "('sem, 'ch, 'c) handshake_primitives \<Rightarrow> 'c list \<Rightarrow> ('sem, 'ch, 'c) tls_listener \<Rightarrow>
     ('sem, 'ch, 'c) tls_listener \<Rightarrow> bool"
  for H :: "('sem, 'ch, 'c) handshake_primitives"
where
  accept_tcp: "tls_step H [c] lsn (tcp_accepted H c lsn)"
| accept_error: "tls_step H [] lsn lsn"
| handshake_complete:
    "tl_tasks lsn = ts @ Shaking c # ts' \<Longrightarrow>
     tls_step H [] lsn (lsn\<lparr>tl_tasks := ts @ Sending c # ts'\<rparr>)"
| handshake_failed:
    "tl_tasks lsn = ts @ Shaking c # ts' \<Longrightarrow>
     tls_step H [] lsn (lsn\<lparr>tl_tasks := ts @ ts', tl_failed := tl_failed lsn @ [c],
       tl_semaphore := sem_release H (tl_semaphore lsn)\<rparr>)"
| send_completed:
    "tl_tasks lsn = ts @ Sending c # ts' \<Longrightarrow> ch_send H c (tl_done lsn) = Some q \<Longrightarrow>
     tls_step H [] lsn (lsn\<lparr>tl_tasks := ts @ ts', tl_done := q,
       tl_semaphore := sem_release H (tl_semaphore lsn)\<rparr>)"
| return_connection:
    "ch_recv H (tl_done lsn) = Some (c, q) \<Longrightarrow>
     tls_step H [] lsn (lsn\<lparr>tl_done := q, tl_returned := tl_returned lsn @ [c]\<rparr>)"

inductive_cases tls_stepE [consumes 1, case_names accept_tcp accept_error handshake_complete
    handshake_failed send_completed return_connection]: "tls_step H cs lsn lsn'"

text \<open>The listener states reached after accepting the TCP connections of a list.\<close>

inductive tls_reachable ::
  "('sem, 'ch, 'c) handshake_primitives \<Rightarrow> 'c list \<Rightarrow> ('sem, 'ch, 'c) tls_listener \<Rightarrow> bool"
  for H :: "('sem, 'ch, 'c) handshake_primitives"
where
  tls_start: "tls_reachable H [] (tls_listener_new H)"
| tls_next: "tls_reachable H accepted lsn \<Longrightarrow> tls_step H cs lsn lsn' \<Longrightarrow>
    tls_reachable H (accepted @ cs) lsn'"

definition tls_invariant ::
  "('sem, 'ch, 'c) handshake_primitives \<Rightarrow> 'c list \<Rightarrow> ('sem, 'ch, 'c) tls_listener \<Rightarrow> bool" where
  "tls_invariant H accepted lsn \<longleftrightarrow>
     sem_available H (tl_semaphore lsn) + length (tl_tasks lsn) = MAX_PENDING_HANDSHAKES \<and>
     ch_capacity H (tl_done lsn) = MAX_PENDING_HANDSHAKES \<and>
     length (ch_queue H (tl_done lsn)) \<le> MAX_PENDING_HANDSHAKES \<and>
     mset accepted = mset (tl_refused lsn) + mset (tl_failed lsn) +
       mset (map task_conn (tl_tasks lsn)) + mset (ch_queue H (tl_done lsn)) + mset (tl_returned lsn)"

context handshake_primitives_laws
begin

lemma tls_invariant_new: "tls_invariant H [] (tls_listener_new H)"
  by (simp add: tls_invariant_def tls_listener_new_def sem_new ch_new)

lemma tls_invariant_step:
  assumes "tls_step H cs lsn lsn'" and "tls_invariant H accepted lsn"
  shows "tls_invariant H (accepted @ cs) lsn'"
  using assms(1)
proof (cases rule: tls_stepE)
  case (accept_tcp c)
  then show ?thesis
    using assms(2) by (cases "sem_try_acquire H (tl_semaphore lsn)")
      (auto simp: tls_invariant_def tcp_accepted_def dest: acquire_granted)
next
  case accept_error
  then show ?thesis using assms(2) by simp
next
  case (handshake_complete ts c ts')
  then show ?thesis using assms(2) by (simp add: tls_invariant_def)
next
  case (handshake_failed ts c ts')
  then show ?thesis using assms(2) by (simp add: tls_invariant_def released)
next
  case (send_completed ts c ts' q)
  then show ?thesis using assms(2) ch_send [OF send_completed(4)]
    by (simp add: tls_invariant_def released)
next
  case (return_connection c q)
  then show ?thesis using assms(2) ch_recv [OF return_connection(3)]
    by (simp add: tls_invariant_def)
qed

lemma tls_invariant_reachable: "tls_reachable H accepted lsn \<Longrightarrow> tls_invariant H accepted lsn"
  by (induction rule: tls_reachable.induct) (auto intro: tls_invariant_new tls_invariant_step)

end

subsection \<open>Which roots a verifier is built from\<close>

lemma load_certs_Inr:
  "load_certs T path = Inr certs \<Longrightarrow>
     certs \<noteq> [] \<and> (\<exists>data. fs_read T path = Inr data \<and>
       list_all2 (\<lambda>r c. r = Inr c) (pem_certs T data) certs)"
  by (auto simp: load_certs_def read_file_def and_then_Inr_iff collect_results_Inr_iff
      split: if_splits)

lemma load_client_cas_read:
  "load_client_cas T cas store = Inr store' \<Longrightarrow> ca \<in> set cas \<Longrightarrow> \<exists>certs. load_certs T ca = Inr certs"
  by (induction cas arbitrary: store) (auto simp: and_then_Inr_iff)

lemma tls_server_config_Inr:
  assumes "tls_server_config T c = Inr cfg"
  shows "\<exists>certs key verifier. load_certs T (tc_cert c) = Inr certs \<and>
    load_key T (tc_key c) = Inr key \<and> ru_with_single_cert T verifier certs key = Inr cfg \<and>
    (verifier = None \<longleftrightarrow> tc_client_cas c = []) \<and>
    (\<forall>v. verifier = Some v \<longrightarrow> (\<exists>store.
       load_client_cas T (tc_client_cas c) (ru_store_empty T) = Inr store \<and>
       ru_verifier_build T store = Inr v))"
proof (cases "tc_client_cas c = []")
  case True
  with assms obtain certs key where "load_certs T (tc_cert c) = Inr certs"
    "load_key T (tc_key c) = Inr key" "ru_with_single_cert T None certs key = Inr cfg"
    by (auto simp: tls_server_config_def and_then_Inr_iff)
  with True show ?thesis by (intro exI [of _ certs] exI [of _ key] exI [of _ None]) simp
next
  case False
  with assms obtain certs key store v where "load_certs T (tc_cert c) = Inr certs"
    "load_key T (tc_key c) = Inr key" "ru_with_single_cert T (Some v) certs key = Inr cfg"
    "load_client_cas T (tc_client_cas c) (ru_store_empty T) = Inr store"
    "ru_verifier_build T store = Inr v"
    by (auto simp: tls_server_config_def and_then_Inr_iff)
  with False show ?thesis by (intro exI [of _ certs] exI [of _ key] exI [of _ "Some v"]) simp
qed

subsection \<open>Concrete primitives\<close>

definition counting_handshakes :: "(nat, nat \<times> 'c list, 'c) handshake_primitives" where
  "counting_handshakes = \<lparr> sem_new = (\<lambda>n. n),
     sem_try_acquire = (\<lambda>n. case n of 0 \<Rightarrow> None | Suc m \<Rightarrow> Some m), sem_release = Suc,
     sem_available = (\<lambda>n. n), ch_new = (\<lambda>n. (n, [])),
     ch_send = (\<lambda>c (n, q). if length q < n then Some (n, q @ [c]) else None),
     ch_recv = (\<lambda>(n, q). case q of [] \<Rightarrow> None | c # cs \<Rightarrow> Some (c, (n, cs))),
     ch_queue = snd, ch_capacity = fst \<rparr>"

interpretation counting_tls: handshake_primitives_laws counting_handshakes
  by unfold_locales
    (auto simp: counting_handshakes_def split: nat.splits list.splits if_splits)

text \<open>A file system with a certificate, a key and a root, all PEM data being one entry.\<close>

definition sample_tls ::
  "(string, string, string, string, string list, string list, string list option \<times> string list) tls_library" where
  "sample_tls = \<lparr> fs_read = (\<lambda>path. if path = ''missing'' then Inl ''not found'' else Inr path),
     pem_certs = (\<lambda>data. if data = ''empty'' then [] else [Inr data]),
     pem_private_key = (\<lambda>data. Inr (Some data)), ru_store_empty = [],
     ru_store_add = (\<lambda>c st. Inr (st @ [c])), ru_verifier_build = Inr,
     ru_protocol_versions = Inr (),
     ru_with_single_cert = (\<lambda>v certs key. Inr (v, certs)) \<rparr>"

definition sample_mtls :: tls_config where
  "sample_mtls = with_client_ca ''ca.pem'' (tls_config_new ''cert.pem'' ''key.pem'')"

subsection \<open>Properties\<close>



text \<open>
  C21: However connections arrive and handshakes end, at most 256 handshake tasks are alive and
  at most 256 completed connections wait; no accepted connection is lost, duplicated or
  invented: each is refused, failed, in a task, waiting, or returned; and one is refused
  exactly when all 256 slots are taken.
\<close>

theorem tls_listener_is_bounded_and_loses_nothing:
  assumes "handshake_primitives_laws H" and "tls_reachable H accepted lsn"
  shows "length (tl_tasks lsn) \<le> 256 \<and> length (ch_queue H (tl_done lsn)) \<le> 256 \<and>
    mset accepted = mset (tl_refused lsn) + mset (tl_failed lsn) +
      mset (map task_conn (tl_tasks lsn)) + mset (ch_queue H (tl_done lsn)) + mset (tl_returned lsn) \<and>
    (tl_refused (tcp_accepted H c lsn) \<noteq> tl_refused lsn \<longrightarrow> length (tl_tasks lsn) = 256) \<and>
    (tl_refused (tcp_accepted H c lsn) = tl_refused lsn \<longrightarrow>
       tl_tasks (tcp_accepted H c lsn) = tl_tasks lsn @ [Shaking c])"
proof -
  have inv: "tls_invariant H accepted lsn"
    by (rule handshake_primitives_laws.tls_invariant_reachable [OF assms])
  show ?thesis
    using inv handshake_primitives_laws.acquire_refused [OF assms(1), of "tl_semaphore lsn"]
    by (auto simp: tls_invariant_def MAX_PENDING_HANDSHAKES_def tcp_accepted_def
        split: option.splits)
qed

theorem tls_listener_is_bounded_and_loses_nothing_witness:
  "mset [7 :: nat] = mset (map task_conn (tl_tasks (tcp_accepted counting_handshakes 7
     (tls_listener_new counting_handshakes))))"
proof -
  let ?l = "tcp_accepted counting_handshakes (7 :: nat) (tls_listener_new counting_handshakes)"
  have "tls_reachable counting_handshakes ([] @ [7]) ?l"
    by (rule tls_next [OF tls_start accept_tcp])
  from tls_listener_is_bounded_and_loses_nothing [OF
      counting_tls.handshake_primitives_laws_axioms this]
  show ?thesis
    by (simp add: tcp_accepted_def tls_listener_new_def counting_handshakes_def
        MAX_PENDING_HANDSHAKES_def split: nat.splits)
qed

end
