(* ===== verification/Server.thy ===== *)
theory Server
  imports Auth Tls Topology_Sessions
begin

text \<open>
  The server of \<open>src/opensovd-server/src/server.rs\<close> and the discovery interface of
  \<open>src/opensovd-core/src/discovery.rs\<close>: the base path, the builder and what it builds, the
  composition of the router with its authentication layers and user layers, the task that
  applies discovered changes to the topology, and how \<open>serve\<close> chooses what to serve.  axum's
  router and tower's layer stack are parameters with their documented laws (locale
  \<open>routing_library\<close>).
\<close>

subsection \<open>Base path and listeners\<close>

definition normalize_base :: "string \<Rightarrow> string option" where
  "normalize_base base =
     (case base of
        [] \<Rightarrow> None
      | c # rest \<Rightarrow>
          if c = CHR ''/'' then (if rest = [] then None else Some base)
          else Some (''/'' @ base))"

datatype builder_error = NoListener | InvalidUri

fun builder_error_display :: "builder_error \<Rightarrow> string" where
  "builder_error_display NoListener = ''listener is required''"
| "builder_error_display InvalidUri = ''invalid base URI''"

datatype ('tcp, 'unix) listener = Tcp 'tcp | Unix 'unix

text \<open>The addresses of the sockets: a unix socket has a path, an abstract name, or neither.\<close>

record ('tcp, 'unix, 'io) socket_library =
  so_tcp_addr :: "'tcp \<Rightarrow> ('io, string) result"
  so_unix_addr :: "'unix \<Rightarrow> ('io, string option \<times> string option) result"

definition local_addr ::
  "('tcp, 'unix, 'io) socket_library \<Rightarrow> ('tcp, 'unix) listener \<Rightarrow> ('io, string \<times> string) result" where
  "local_addr S self =
     (case self of
        Tcp l \<Rightarrow> map_ok (\<lambda>a. (a, ''tcp'')) (so_tcp_addr S l)
      | Unix l \<Rightarrow>
          map_ok (\<lambda>(pathname, abstract_name).
            case pathname of
              Some path \<Rightarrow> (path, ''unix'')
            | None \<Rightarrow> (case abstract_name of
                Some name \<Rightarrow> (name, ''abstract'')
              | None \<Rightarrow> (''(unnamed)'', ''unix''))) (so_unix_addr S l))"

subsection \<open>The router\<close>

text \<open>
  axum's router with the operations the server uses, and tower's \<open>Stack\<close> and \<open>Identity\<close>.
  \<open>ax_call r\<close> is the service a router is.
\<close>

record ('r, 'l, 'w, 'e, 'i, 'b) routing_library =
  ax_new :: 'r
  ax_nest :: "string \<Rightarrow> 'r \<Rightarrow> 'r \<Rightarrow> 'r"
  ax_merge :: "'r \<Rightarrow> 'r \<Rightarrow> 'r"
  ax_nest_service :: "string \<Rightarrow> ('w, 'e, 'i, 'b) service \<Rightarrow> 'r \<Rightarrow> 'r"
  ax_layer :: "(('w, 'e, 'i, 'b) service \<Rightarrow> ('w, 'e, 'i, 'b) service) \<Rightarrow> 'r \<Rightarrow> 'r"
  ax_call :: "'r \<Rightarrow> ('w, 'e, 'i, 'b) service"
  tw_identity :: 'l
  tw_stack :: "'l \<Rightarrow> 'l \<Rightarrow> 'l"
  tw_layer :: "'l \<Rightarrow> ('w, 'e, 'i, 'b) service \<Rightarrow> ('w, 'e, 'i, 'b) service"

text \<open>
  A layer wraps every route the router has, nested services included; a stack applies its
  inner layer first, so the outer one sees a request first.
\<close>

locale routing_library =
  fixes A :: "('r, 'l, 'w, 'e, 'i, 'b) routing_library"
  assumes call_layer: "ax_call A (ax_layer A f r) = f (ax_call A r)"
    and layer_identity: "tw_layer A (tw_identity A) s = s"
    and layer_stack: "tw_layer A (tw_stack A inner outer) s = tw_layer A outer (tw_layer A inner s)"

definition unprotected_router ::
  "('r, 'l, 'w, 'e, 'i, 'b) routing_library \<Rightarrow> 'r \<Rightarrow> string option \<Rightarrow>
     (string \<times> ('w, 'e, 'i, 'b) service) list \<Rightarrow> 'r" where
  "unprotected_router A inner base services =
     (let router = (case base of
                      Some path \<Rightarrow> ax_nest A path inner (ax_new A)
                    | None \<Rightarrow> ax_merge A inner (ax_new A))
      in fold (\<lambda>(path, svc) router. ax_nest_service A path svc router) services router)"

text \<open>\<open>inner\<close> is \<open>routes::router(vendor_info, topology)\<close>.\<close>

definition build_router ::
  "('r, 'l, 'w, 'e, 'i, 'b) routing_library \<Rightarrow> 'r \<Rightarrow> string option \<Rightarrow> ('w, 'i, 'i) authenticator \<Rightarrow>
     ('w, 'i, 'i) authorizer \<Rightarrow> 'l \<Rightarrow> (string \<times> ('w, 'e, 'i, 'b) service) list \<Rightarrow> 'r" where
  "build_router A inner base authn authz layer services =
     (let router = unprotected_router A inner base services;
          router = ax_layer A (\<lambda>s. authorization_call
            (authorization_layer_layer (authorization_layer_new authz) s)) router;
          router = ax_layer A (\<lambda>s. authentication_call
            (authentication_layer_layer (authentication_layer_new authn) s)) router
      in ax_layer A (tw_layer A layer) router)"

subsection \<open>The builder\<close>

record ('lst, 'sd, 'v, 'an, 'az, 'topo, 'dp, 'l, 'svc, 'tls) server_builder =
  sb_listener :: "'lst option"
  sb_base :: string
  sb_shutdown :: 'sd
  sb_vendor_info :: "'v option"
  sb_authenticator :: 'an
  sb_authorizer :: 'az
  sb_topology :: 'topo
  sb_discovery_providers :: "'dp list"
  sb_layer :: 'l
  sb_services :: "(string \<times> 'svc) list"
  sb_tls_config :: "'tls option"

record ('lst, 'sd, 'v, 'an, 'az, 'topo, 'dp, 'l, 'svc, 'tls) server =
  sv_listener :: 'lst
  sv_base :: string
  sv_shutdown :: 'sd
  sv_vendor_info :: "'v option"
  sv_authenticator :: 'an
  sv_authorizer :: 'az
  sv_topology :: 'topo
  sv_discovery_providers :: "'dp list"
  sv_layer :: 'l
  sv_services :: "(string \<times> 'svc) list"
  sv_tls_config :: "'tls option"

definition server_builder_new ::
  "string \<Rightarrow> 'sd \<Rightarrow> 'topo \<Rightarrow> 'l \<Rightarrow>
     ('lst, 'sd, vendor_info, ('w, 'x, unit) authenticator, ('w, 'x, unit) authorizer, 'topo, 'dp, 'l,
      'svc, 'tls) server_builder" where
  "server_builder_new pkg_version default_shutdown_signal topology identity_layer =
     \<lparr> sb_listener = None, sb_base = [], sb_shutdown = default_shutdown_signal,
       sb_vendor_info = Some \<lparr> ve_version = pkg_version, ve_name = ''OpenSOVD'' \<rparr>,
       sb_authenticator = no_auth, sb_authorizer = allow_all, sb_topology = topology,
       sb_discovery_providers = [], sb_layer = identity_layer, sb_services = [],
       sb_tls_config = None \<rparr>"

definition with_listener where
  "with_listener l b = b\<lparr>sb_listener := Some l\<rparr>"

text \<open>\<open>parse\<close> answers the path of a URI, or \<open>None\<close> when it is malformed.\<close>

definition with_base_uri where
  "with_base_uri parse uri b =
     (case parse uri of None \<Rightarrow> Inl InvalidUri | Some path \<Rightarrow> Inr (b\<lparr>sb_base := path\<rparr>))"

definition with_shutdown where
  "with_shutdown signal b = b\<lparr>sb_shutdown := signal\<rparr>"

definition with_vendor_info ::
  "'v2 \<Rightarrow> ('lst, 'sd, 'v, 'an, 'az, 'topo, 'dp, 'l, 'svc, 'tls) server_builder \<Rightarrow>
     ('lst, 'sd, 'v2, 'an, 'az, 'topo, 'dp, 'l, 'svc, 'tls) server_builder" where
  "with_vendor_info v b =
     \<lparr> sb_listener = sb_listener b, sb_base = sb_base b, sb_shutdown = sb_shutdown b,
       sb_vendor_info = Some v, sb_authenticator = sb_authenticator b,
       sb_authorizer = sb_authorizer b, sb_topology = sb_topology b,
       sb_discovery_providers = sb_discovery_providers b, sb_layer = sb_layer b,
       sb_services = sb_services b, sb_tls_config = sb_tls_config b \<rparr>"

definition with_authenticator ::
  "'an2 \<Rightarrow> ('lst, 'sd, 'v, 'an, 'az, 'topo, 'dp, 'l, 'svc, 'tls) server_builder \<Rightarrow>
     ('lst, 'sd, 'v, 'an2, 'az, 'topo, 'dp, 'l, 'svc, 'tls) server_builder" where
  "with_authenticator a b =
     \<lparr> sb_listener = sb_listener b, sb_base = sb_base b, sb_shutdown = sb_shutdown b,
       sb_vendor_info = sb_vendor_info b, sb_authenticator = a,
       sb_authorizer = sb_authorizer b, sb_topology = sb_topology b,
       sb_discovery_providers = sb_discovery_providers b, sb_layer = sb_layer b,
       sb_services = sb_services b, sb_tls_config = sb_tls_config b \<rparr>"

definition with_authorizer ::
  "'az2 \<Rightarrow> ('lst, 'sd, 'v, 'an, 'az, 'topo, 'dp, 'l, 'svc, 'tls) server_builder \<Rightarrow>
     ('lst, 'sd, 'v, 'an, 'az2, 'topo, 'dp, 'l, 'svc, 'tls) server_builder" where
  "with_authorizer z b =
     \<lparr> sb_listener = sb_listener b, sb_base = sb_base b, sb_shutdown = sb_shutdown b,
       sb_vendor_info = sb_vendor_info b, sb_authenticator = sb_authenticator b,
       sb_authorizer = z, sb_topology = sb_topology b,
       sb_discovery_providers = sb_discovery_providers b, sb_layer = sb_layer b,
       sb_services = sb_services b, sb_tls_config = sb_tls_config b \<rparr>"

definition with_layer where
  "with_layer A layer b = b\<lparr>sb_layer := tw_stack A layer (sb_layer b)\<rparr>"

definition with_topology where
  "with_topology t b = b\<lparr>sb_topology := t\<rparr>"

text \<open>Wrapping and unwrapping the opaque body type around the service is left to \<open>svc\<close>.\<close>

definition with_service where
  "with_service path svc b = b\<lparr>sb_services := sb_services b @ [(path, svc)]\<rparr>"

definition with_discovery where
  "with_discovery p b = b\<lparr>sb_discovery_providers := sb_discovery_providers b @ [p]\<rparr>"

definition with_tls where
  "with_tls config b = b\<lparr>sb_tls_config := Some config\<rparr>"

definition server_builder_build ::
  "('lst, 'sd, 'v, 'an, 'az, 'topo, 'dp, 'l, 'svc, 'tls) server_builder \<Rightarrow>
     (builder_error, ('lst, 'sd, 'v, 'an, 'az, 'topo, 'dp, 'l, 'svc, 'tls) server) result" where
  "server_builder_build b =
     and_then (ok_or NoListener (sb_listener b)) (\<lambda>l.
       Inr \<lparr> sv_listener = l, sv_base = sb_base b, sv_shutdown = sb_shutdown b,
             sv_vendor_info = sb_vendor_info b, sv_authenticator = sb_authenticator b,
             sv_authorizer = sb_authorizer b, sv_topology = sb_topology b,
             sv_discovery_providers = sb_discovery_providers b, sv_layer = sb_layer b,
             sv_services = sb_services b, sv_tls_config = sb_tls_config b \<rparr>)"

lemmas server_builder_defs = with_listener_def with_base_uri_def with_shutdown_def
  with_vendor_info_def with_authenticator_def with_authorizer_def with_layer_def
  with_topology_def with_service_def with_discovery_def with_tls_def

subsection \<open>Discovery\<close>

datatype 'other discovery_error = Transport string | InvalidResponse string | OtherFailure 'other

text \<open>The \<open>#[error(...)]\<close> texts and the \<open>#[from]\<close> conversion; \<open>display\<close> is the text of a boxed error.\<close>

fun discovery_error_display :: "('o \<Rightarrow> string) \<Rightarrow> 'o discovery_error \<Rightarrow> string" where
  "discovery_error_display display (Transport e) = ''discovery transport error: '' @ e"
| "discovery_error_display display (InvalidResponse e) =
     ''invalid response from discovered server: '' @ e"
| "discovery_error_display display (OtherFailure e) = display e"

definition discovery_error_from :: "'o \<Rightarrow> 'o discovery_error" where
  "discovery_error_from e = OtherFailure e"

text \<open>One item of a discovery stream: references to remove, then entities to add.\<close>

type_synonym 'w discovery_diff = "entity_ref list \<times> 'w entity_collection"

definition removal_op :: "entity_ref \<Rightarrow> 'w topology_op" where
  "removal_op r =
     (case ref_kind r of
        KComponent \<Rightarrow> RemoveComponent (ref_id r)
      | KApp \<Rightarrow> RemoveApp (ref_id r)
      | KArea \<Rightarrow> RemoveArea (ref_id r))"

definition diff_ops :: "'w discovery_diff \<Rightarrow> 'w topology_op list" where
  "diff_ops d =
     (let (remove, add) = d
      in map removal_op remove @ map AddComponent (ecoll_components add) @
         map AddApp (ecoll_apps add) @ map AddArea (ecoll_areas add))"

text \<open>
  One round of the loop: an item is applied under one write guard, whose drop sends the
  events; an error is only logged.
\<close>

definition process_event ::
  "('mc, 'ma, 'mr, 's, 'w) containers \<Rightarrow> ('l, 'tx) sync_primitives \<Rightarrow>
     ('o discovery_error, 'w discovery_diff) result \<Rightarrow>
     (('mc, 'ma, 'mr, 's) topology_state, 'l, 'tx) topology_inner \<Rightarrow>
     (('mc, 'ma, 'mr, 's) topology_state, 'l, 'tx) topology_inner" where
  "process_event L Y event inner =
     (case event of
        Inl e \<Rightarrow> inner
      | Inr d \<Rightarrow>
          (let t = run_ops L (diff_ops d) (topology_write (ti_state inner))
           in inner\<lparr>ti_state := wg_state t,
                    ti_events := guard_drop Y (wg_pending t) (ti_events inner)\<rparr>))"

text \<open>
  The streams of the providers that started; without any, the task ends at once.  Otherwise
  the merged stream is processed until it ends or the shutdown wins the race, which can only
  happen between two items.  \<open>merged\<close> is the items of the streams as \<open>select_all\<close> yields
  them, and \<open>n\<close> the number of items handled before the shutdown.
\<close>

definition started_streams ::
  "('dp \<Rightarrow> ('o discovery_error, 'st) result) \<Rightarrow> 'dp list \<Rightarrow> 'st list" where
  "started_streams discover providers =
     List.map_filter (\<lambda>p. case discover p of Inr stream \<Rightarrow> Some stream | Inl _ \<Rightarrow> None) providers"

definition run_discovery ::
  "('mc, 'ma, 'mr, 's, 'w) containers \<Rightarrow> ('l, 'tx) sync_primitives \<Rightarrow>
     ('dp \<Rightarrow> ('o discovery_error, 'st) result) \<Rightarrow> 'dp list \<Rightarrow>
     ('st list \<Rightarrow> ('o discovery_error, 'w discovery_diff) result list) \<Rightarrow> nat \<Rightarrow>
     (('mc, 'ma, 'mr, 's) topology_state, 'l, 'tx) topology_inner \<Rightarrow>
     (('mc, 'ma, 'mr, 's) topology_state, 'l, 'tx) topology_inner" where
  "run_discovery L Y discover providers merged n inner =
     (let streams = started_streams discover providers
      in if streams = [] then inner
         else fold (process_event L Y) (take n (merged streams)) inner)"

subsection \<open>Serving\<close>

text \<open>What \<open>serve\<close> hands to axum.\<close>

datatype ('tcp, 'unix, 'tl, 'r) served =
    ServeTcp 'tcp 'r
  | ServeUnix 'unix 'r
  | ServeTls 'tl 'r

datatype ('io, 'te) serve_error =
    AddressError 'io
  | TlsError 'te
  | InvalidInput string

text \<open>
  \<open>serve\<close> spawns the discovery task, composes the router, and picks the listener; the result
  says whether discovery was spawned and what is served.  \<open>build_tls\<close> is \<open>TlsConfig::build\<close>,
  \<open>routes\<close> is \<open>routes::router\<close>.
\<close>

definition serve ::
  "('r, 'l, 'w, 'e, 'i, 'b) routing_library \<Rightarrow> ('tcp, 'unix, 'io) socket_library \<Rightarrow>
     ('tls \<Rightarrow> 'tcp \<Rightarrow> ('te, 'tl) result) \<Rightarrow> ('v option \<Rightarrow> 'topo \<Rightarrow> 'r) \<Rightarrow>
     (('tcp, 'unix) listener, 'sd, 'v, ('w, 'i, 'i) authenticator, ('w, 'i, 'i) authorizer, 'topo,
      'dp, 'l, ('w, 'e, 'i, 'b) service, 'tls) server \<Rightarrow>
     bool \<times> (('io, 'te) serve_error, ('tcp, 'unix, 'tl, 'r) served) result" where
  "serve A S build_tls routes self =
     (let base = normalize_base (sv_base self);
          discovery_spawned = (sv_discovery_providers self \<noteq> []);
          router = build_router A (routes (sv_vendor_info self) (sv_topology self)) base
            (sv_authenticator self) (sv_authorizer self) (sv_layer self) (sv_services self)
      in (discovery_spawned,
          and_then (map_err AddressError (local_addr S (sv_listener self))) (\<lambda>_.
            case sv_tls_config self of
              Some tls_cfg \<Rightarrow>
                (case sv_listener self of
                   Tcp l \<Rightarrow> map_ok (\<lambda>tls_listener. ServeTls tls_listener router)
                     (map_err TlsError (build_tls tls_cfg l))
                 | Unix _ \<Rightarrow> Inl (InvalidInput ''TLS is only supported on TCP listeners''))
            | None \<Rightarrow>
                (case sv_listener self of
                   Tcp l \<Rightarrow> Inr (ServeTcp l router)
                 | Unix l \<Rightarrow> Inr (ServeUnix l router)))))"

end
