(* ===== verification/Server_Properties.thy ===== *)
theory Server_Properties
  imports Server Auth_Properties Topology_Properties
begin

text \<open>
  The properties of the server: every request it serves has passed authentication and
  authorization, user layers are outside in the order they were added, discovered changes are
  applied completely or not at all and in step with their events, and \<open>serve\<close> serves exactly
  what was configured.
\<close>

subsection \<open>Helper lemmas\<close>

context routing_library
begin

lemma build_router_call:
  "ax_call A (build_router A inner base authn authz layer services) =
     tw_layer A layer (authorized_service authn authz
       (ax_call A (unprotected_router A inner base services)))"
  by (simp add: build_router_def call_layer authorized_service_def Let_def)

end

text \<open>The references the topology holds after one call, and after a list of calls.\<close>

fun op_refs :: "'w topology_op \<Rightarrow> entity_ref set \<Rightarrow> entity_ref set" where
  "op_refs (AddComponent c) R = insert (entity_ref_component (component_id c)) R"
| "op_refs (AddApp a) R = insert (entity_ref_app (app_id a)) R"
| "op_refs (AddArea a) R = insert (entity_ref_area (area_id a)) R"
| "op_refs (RemoveComponent i) R = R - {entity_ref_component i}"
| "op_refs (RemoveApp i) R = R - {entity_ref_app i}"
| "op_refs (RemoveArea i) R = R - {entity_ref_area i}"

context topology_containers
begin

lemma apply_op_refs:
  assumes "topology_wf L (wg_state g)" and "op_ok p"
  shows "topology_refs L (wg_state (apply_op L p g)) = op_refs p (topology_refs L (wg_state g))"
proof -
  have "replay (op_events L p (wg_state g)) (topology_refs L (wg_state g)) =
      op_refs p (topology_refs L (wg_state g))"
    unfolding topology_refs_entries [OF assms(1)]
    by (cases p) (auto simp: op_events_def map_of_eq_None_iff rev_image_eqI)
  then show ?thesis using op_events_refs [OF assms] by simp
qed

lemma run_ops_refs:
  "topology_wf L (wg_state g) \<Longrightarrow> list_all op_ok ps \<Longrightarrow>
     topology_refs L (wg_state (run_ops L ps g)) = fold op_refs ps (topology_refs L (wg_state g))"
  by (induction ps arbitrary: g) (simp_all add: apply_op_refs apply_op_wf)

end

lemma removal_refs: "op_refs (removal_op r) R = R - {r}"
  by (cases r; cases "ref_kind r") (auto simp: removal_op_def entity_ref_defs)

lemma removals_refs: "fold op_refs (map removal_op rs) R = R - set rs"
  by (induction rs arbitrary: R) (auto simp: removal_refs)

definition collection_ok :: "'w entity_collection \<Rightarrow> bool" where
  "collection_ok ec \<longleftrightarrow> list_all component_ok (ecoll_components ec) \<and>
     list_all app_ok (ecoll_apps ec) \<and> list_all area_ok (ecoll_areas ec)"

lemma additions_refs:
  assumes "collection_ok ec"
  shows "fold op_refs (map AddComponent (ecoll_components ec) @ map AddApp (ecoll_apps ec) @
    map AddArea (ecoll_areas ec)) R = R \<union> set (entity_refs ec)"
proof -
  have c: "list_all component_ok cs \<Longrightarrow>
      fold op_refs (map AddComponent cs) R = R \<union> component_entity_ref ` set cs" for cs R
    by (induction cs arbitrary: R) (auto simp: component_ok_def)
  have a: "list_all app_ok as \<Longrightarrow> fold op_refs (map AddApp as) R = R \<union> app_entity_ref ` set as" for as R
    by (induction as arbitrary: R) (auto simp: app_ok_def)
  have r: "list_all area_ok rs \<Longrightarrow> fold op_refs (map AddArea rs) R = R \<union> area_entity_ref ` set rs" for rs R
    by (induction rs arbitrary: R) (auto simp: area_ok_def)
  show ?thesis
    using assms by (simp add: collection_ok_def c a r entity_refs_def Un_assoc)
qed

lemma diff_ops_ok: "collection_ok (snd d) \<Longrightarrow> list_all op_ok (diff_ops d)"
proof -
  have "op_ok (removal_op r)" for r by (cases "ref_kind r") (simp_all add: removal_op_def)
  then show "collection_ok (snd d) \<Longrightarrow> list_all op_ok (diff_ops d)"
    by (auto simp: diff_ops_def collection_ok_def list_all_iff split: prod.splits)
qed

text \<open>The references and the subscribers' view after one item of a discovery stream.\<close>

definition discovery_refs ::
  "('o discovery_error, 'w discovery_diff) result \<Rightarrow> entity_ref set \<Rightarrow> entity_ref set" where
  "discovery_refs event R =
     (case event of Inl _ \<Rightarrow> R | Inr (remove, add) \<Rightarrow> (R - set remove) \<union> set (entity_refs add))"

definition event_ok :: "('o discovery_error, 'w discovery_diff) result \<Rightarrow> bool" where
  "event_ok event \<longleftrightarrow> (case event of Inl _ \<Rightarrow> True | Inr d \<Rightarrow> collection_ok (snd d))"

definition in_step ::
  "('mc, 'ma, 'mr, 's, 'w) containers \<Rightarrow> ('l, 'tx) sync_primitives \<Rightarrow>
     (('mc, 'ma, 'mr, 's) topology_state, 'l, 'tx) topology_inner \<Rightarrow> bool" where
  "in_step L Y inner \<longleftrightarrow> topology_wf L (ti_state inner) \<and>
     replay (bc_sent Y (ti_events inner)) {} = topology_refs L (ti_state inner)"

context shared_topology_laws
begin

lemma process_event_step:
  assumes "in_step L Y inner" and "event_ok event"
  shows "in_step L Y (process_event L Y event inner) \<and>
    topology_refs L (ti_state (process_event L Y event inner)) =
      discovery_refs event (topology_refs L (ti_state inner))"
proof (cases event)
  case (Inl e)
  then show ?thesis using assms by (simp add: process_event_def discovery_refs_def)
next
  case (Inr d)
  let ?g = "topology_write (ti_state inner)"
  have ok: "list_all op_ok (diff_ops d)" "collection_ok (snd d)"
    using assms(2) Inr diff_ops_ok [of d] by (simp_all add: event_ok_def)
  have wf: "topology_wf L (wg_state ?g)"
    using assms(1) by (simp add: in_step_def topology_write_def)
  have refs: "topology_refs L (wg_state (run_ops L (diff_ops d) ?g)) =
      discovery_refs event (topology_refs L (ti_state inner))"
    unfolding run_ops_refs [OF wf ok(1)] using additions_refs [OF ok(2)] Inr
    by (cases d) (simp add: diff_ops_def discovery_refs_def topology_write_def removals_refs)
  have "replay (wg_pending (run_ops L (diff_ops d) ?g)) (topology_refs L (ti_state inner)) =
      topology_refs L (wg_state (run_ops L (diff_ops d) ?g))"
    by (rule run_ops_replay [OF wf ok(1)]) (simp add: topology_write_def)
  with refs show ?thesis
    using assms(1) Inr run_ops_wf [OF wf ok(1)]
    by (simp add: in_step_def process_event_def guard_drop_sent Let_def)
qed

lemma process_events_steps:
  "in_step L Y inner \<Longrightarrow> list_all event_ok es \<Longrightarrow>
     in_step L Y (fold (process_event L Y) es inner) \<and>
     topology_refs L (ti_state (fold (process_event L Y) es inner)) =
       fold discovery_refs es (topology_refs L (ti_state inner))"
  by (induction es arbitrary: inner) (simp_all add: process_event_step)

end

subsection \<open>Concrete instances\<close>

text \<open>A routing library whose routers are services and whose layers are functions.\<close>

definition plain_routing ::
  "(('w, 'e, 'i, 'b) service, ('w, 'e, 'i, 'b) service \<Rightarrow> ('w, 'e, 'i, 'b) service, 'w, 'e, 'i, 'b)
     routing_library" where
  "plain_routing = \<lparr> ax_new = (\<lambda>req w. (Inr \<lparr> hr_status = 404, hr_body = None \<rparr>, w)),
     ax_nest = (\<lambda>path inner r. inner), ax_merge = (\<lambda>inner r. inner),
     ax_nest_service = (\<lambda>path svc r. r), ax_layer = (\<lambda>f r. f r), ax_call = (\<lambda>r. r),
     tw_identity = (\<lambda>s. s), tw_stack = (\<lambda>inner outer s. outer (inner s)), tw_layer = (\<lambda>l s. l s) \<rparr>"

interpretation plain_routing: routing_library plain_routing
  by unfold_locales (simp_all add: plain_routing_def)

definition sample_server_builder ::
  "(unit, unit, vendor_info, (nat, unit, unit) authenticator, (nat, unit, unit) authorizer, unit,
    unit, (nat, unit, unit, unit) service \<Rightarrow> (nat, unit, unit, unit) service, unit, unit) server_builder" where
  "sample_server_builder = server_builder_new ''0.1.0'' () () (tw_identity plain_routing)"

definition sample_diff :: "(unit discovery_error, unit discovery_diff) result" where
  "sample_diff = Inr ([entity_ref_app ''nav''],
     entity_collection_new [component_new ''tcu'' ''TCU''] [] [area_new ''rear'' ''Rear''])"

definition sample_inner ::
  "(unit list_topology, nat \<times> bool, topology_event list) topology_inner" where
  "sample_inner = topology_new list_containers counting_sync"

subsection \<open>Properties\<close>

text \<open>
  C10: Whatever routes and services are registered, a request to the built router passes the
  user layers, then authentication, then authorization, and only then reaches a route or a
  registered service; a layer added later is inside the layers added before it.
\<close>

theorem server_requests_pass_all_layers:
  assumes "routing_library A"
  shows "ax_call A (build_router A inner base authn authz (sb_layer (with_layer A l2 (with_layer A l1 b))) services) =
    tw_layer A (sb_layer b) (tw_layer A l1 (tw_layer A l2
      (authorized_service authn authz (ax_call A (unprotected_router A inner base services)))))"
  by (simp add: routing_library.build_router_call [OF assms] with_layer_def
      routing_library.layer_stack [OF assms])

theorem server_requests_pass_all_layers_witness:
  "ax_call plain_routing (build_router plain_routing counting_service (Some ''/sovd'')
      (\<lambda>parts w. (Inl Unauthenticated, w)) allow_all
      (sb_layer (with_layer plain_routing (\<lambda>s. s) (with_layer plain_routing (\<lambda>s. s)
        sample_server_builder))) [])
     (bearer_parts ''x'' None, ()) 0 = (Inr \<lparr> hr_status = 401, hr_body = None \<rparr>, 0)"
  unfolding server_requests_pass_all_layers [OF plain_routing.routing_library_axioms]
  by (simp add: plain_routing_def sample_server_builder_def server_builder_new_def
      authorized_service_cases)

text \<open>
  C11: Discovery applies each item of its streams completely and in order: after any number of
  items the topology holds the references obtained by removing each item's removals and then
  adding its entities, errors change nothing, the topology stays well-formed, and a
  subscriber's view stays equal to it.
\<close>

theorem discovery_applies_whole_diffs:
  assumes "shared_topology_laws L Y" and "in_step L Y inner"
    and "list_all event_ok (merged (started_streams discover providers))"
    and "started_streams discover providers \<noteq> []"
  shows "in_step L Y (run_discovery L Y discover providers merged n inner) \<and>
    topology_refs L (ti_state (run_discovery L Y discover providers merged n inner)) =
      fold discovery_refs (take n (merged (started_streams discover providers)))
        (topology_refs L (ti_state inner))"
proof -
  have "list_all event_ok (take n (merged (started_streams discover providers)))"
    using assms(3) by (auto simp: list_all_iff dest: in_set_takeD)
  from shared_topology_laws.process_events_steps [OF assms(1,2) this] assms(4) show ?thesis
    by (simp add: run_discovery_def Let_def)
qed

lemma sample_inner_in_step: "in_step list_containers counting_sync sample_inner"
proof -
  have "system_invariant list_containers counting_sync
      \<lparr> sy_inner = sample_inner, sy_readers = [], sy_writers = [] \<rparr>"
    unfolding sample_inner_def topology_new_def system_new_def [symmetric]
    by (rule shared.invariant_new)
  then show ?thesis by (simp add: in_step_def system_invariant_def all_pending_def)
qed

theorem discovery_applies_whole_diffs_witness:
  "topology_refs list_containers (ti_state (run_discovery list_containers counting_sync
      (\<lambda>p. Inr p :: (unit discovery_error, unit) result) [()] (\<lambda>_. [Inl (Transport ''down''), sample_diff]) 2 sample_inner)) =
     {entity_ref_component ''tcu'', entity_ref_area ''rear''}"
proof -
  let ?merged = "\<lambda>_ :: unit list. [Inl (Transport ''down''), sample_diff]"
  let ?discover = "\<lambda>p. Inr p :: (unit discovery_error, unit) result"
  have started: "started_streams ?discover [()] = [()]"
    by (simp add: started_streams_def List.map_filter_simps)
  have ok: "list_all event_ok (?merged [()])"
    by (simp add: event_ok_def sample_diff_def collection_ok_def entity_collection_new_def)
  have "ti_state sample_inner = topology_state_new list_containers"
    by (simp add: sample_inner_def topology_new_def with_event_capacity_def)
  then have new: "topology_refs list_containers (ti_state sample_inner) = {}"
    by (simp only: lists.topology_refs_new)
  show ?thesis
    using discovery_applies_whole_diffs [OF shared.shared_topology_laws_axioms sample_inner_in_step,
        of ?merged ?discover "[()]" 2] ok
    by (simp add: started new discovery_refs_def sample_diff_def entity_refs_def
        entity_collection_new_def component_new_def area_new_def insert_commute)
qed


definition sample_sockets :: "(unit, unit, string) socket_library" where
  "sample_sockets = \<lparr> so_tcp_addr = (\<lambda>_. Inr ''127.0.0.1:7690''),
     so_unix_addr = (\<lambda>_. Inr (Some ''/run/sovd.sock'', None)) \<rparr>"

definition sample_unix_tls_builder ::
  "((unit, unit) listener, unit, vendor_info, (nat, unit, unit) authenticator,
    (nat, unit, unit) authorizer, unit, unit,
    (nat, unit, unit, unit) service \<Rightarrow> (nat, unit, unit, unit) service,
    (nat, unit, unit, unit) service, unit) server_builder" where
  "sample_unix_tls_builder = with_discovery () (with_tls () (with_listener (Unix ())
     (server_builder_new ''0.1.0'' () () (tw_identity plain_routing))))"


text \<open>
  The base URI the handlers put into hrefs and the version document does not follow the
  server's configured base path: it is \<open>/sovd\<close> whatever the base, so it is the served prefix
  exactly when the normalized base path is \<open>/sovd\<close>.
\<close>

theorem advertised_base_is_fixed:
  assumes "normalize_base base = Some path"
  shows "hd path = CHR ''/'' \<and> length path \<ge> 2 \<and>
    (\<forall>parts. (base_uri parts = ''http://'' @
        (case rp_header_text parts ''host'' of None \<Rightarrow> ''localhost'' | Some h \<Rightarrow> h) @ path) \<longleftrightarrow>
      path = ''/sovd'')"
proof -
  have "hd path = CHR ''/'' \<and> length path \<ge> 2"
    using assms by (auto simp: normalize_base_def Suc_le_eq split: list.splits if_splits)
  then show ?thesis by (auto simp: base_uri_def Let_def split: option.splits)
qed

theorem advertised_base_is_fixed_witness:
  "base_uri (bearer_parts ''x'' (None :: unit option)) \<noteq> ''http://'' @ ''localhost'' @ ''/api/sovd''"
proof -
  have "normalize_base ''api/sovd'' = Some ''/api/sovd''" by (simp add: normalize_base_def)
  from advertised_base_is_fixed [OF this, THEN conjunct2, THEN conjunct2, rule_format,
      of "bearer_parts ''x'' (None :: unit option)"]
  show ?thesis by (simp add: bearer_parts_def)
qed

end
