(* ===== verification/Wire.thy ===== *)
theory Wire
  imports Models "HOL-Library.Monad_Syntax"
begin

text \<open>
  How the wire types of \<open>src/opensovd-models/src\<close> are serialized and read back, as the serde
  attributes of each struct say: field names with their renamings, omitted absent options,
  transparent references, the untagged custom category, and the flattened body of a response.
  Each pair of functions has a round-trip lemma.  Structs are read from JSON objects; the
  positional form that serde also accepts (an array of the fields) is not modelled.
\<close>

subsection \<open>Parts\<close>

definition uri_to_json :: "uri_reference \<Rightarrow> json" where
  "uri_to_json u = JString (uri_text u)"

definition uri_of_json :: "json \<Rightarrow> uri_reference option" where
  "uri_of_json j = map_option UriReference (json_string j)"

fun pointer_text :: "json_pointer \<Rightarrow> string" where
  "pointer_text (JsonPointer s) = s"

definition category_to_json :: "data_category \<Rightarrow> json" where
  "category_to_json c = JString (data_category_as_str c)"

definition category_of_json :: "json \<Rightarrow> data_category option" where
  "category_of_json j = map_option data_category_from (json_string j)"

text \<open>A category that a wire name can stand for: a custom one is not named like a fixed one.\<close>

definition category_ok :: "data_category \<Rightarrow> bool" where
  "category_ok c \<longleftrightarrow> data_category_from (data_category_as_str c) = c"

definition strings_to_json :: "string list \<Rightarrow> json" where
  "strings_to_json ss = JArray (map JString ss)"

fun decode_all :: "(json \<Rightarrow> 'a option) \<Rightarrow> json list \<Rightarrow> 'a list option" where
  "decode_all dec [] = Some []"
| "decode_all dec (j # js) = do { x \<leftarrow> dec j; xs \<leftarrow> decode_all dec js; Some (x # xs) }"

definition array_of_json :: "(json \<Rightarrow> 'a option) \<Rightarrow> json \<Rightarrow> 'a list option" where
  "array_of_json dec j = (case j of JArray js \<Rightarrow> decode_all dec js | _ \<Rightarrow> None)"

text \<open>A \<open>HashMap<String, String>\<close>; a key that occurs twice keeps its last value.\<close>

definition string_map_to_json :: "(string \<times> string) list \<Rightarrow> json" where
  "string_map_to_json m = JObject (map (\<lambda>(k, v). (k, JString v)) m)"

fun string_map_entries :: "(string \<times> json) list \<Rightarrow> (string \<times> string) list option" where
  "string_map_entries [] = Some []"
| "string_map_entries ((k, j) # f) =
     do { v \<leftarrow> json_string j; m \<leftarrow> string_map_entries f; Some ((k, v) # m) }"

definition string_map_of_json :: "json \<Rightarrow> (string \<times> string) list option" where
  "string_map_of_json j =
     (case j of
        JObject f \<Rightarrow> map_option (\<lambda>m. fold (\<lambda>(k, v). AList.update k v) m []) (string_map_entries f)
      | _ \<Rightarrow> None)"

lemma decode_all_map [simp]:
  "(\<And>x. x \<in> set xs \<Longrightarrow> dec (enc x) = Some x) \<Longrightarrow> decode_all dec (map enc xs) = Some xs"
  by (induction xs) simp_all

lemma array_roundtrip [simp]:
  "(\<And>x. x \<in> set xs \<Longrightarrow> dec (enc x) = Some x) \<Longrightarrow>
     array_of_json dec (JArray (map enc xs)) = Some xs"
  by (simp add: array_of_json_def)

lemma uri_roundtrip [simp]: "uri_of_json (uri_to_json u) = Some u" "uri_to_json u \<noteq> JNull"
  by (cases u; simp add: uri_of_json_def uri_to_json_def)+

lemma category_roundtrip [simp]:
  "category_ok c \<Longrightarrow> category_of_json (category_to_json c) = Some c"
  by (simp add: category_of_json_def category_to_json_def category_ok_def)

lemma category_from_ok [simp]: "category_ok (data_category_from s)"
  by (simp add: category_ok_def)

lemma strings_roundtrip [simp]:
  "json_string_list (strings_to_json ss) = Some ss" "strings_to_json ss \<noteq> JNull"
  by (simp_all add: strings_to_json_def)

lemma updates_of_new_keys:
  "distinct (map fst m') \<Longrightarrow> fst ` set m' \<inter> fst ` set m = {} \<Longrightarrow>
     fold (\<lambda>(k, v). AList.update k v) m' m = m @ m'"
proof (induction m' arbitrary: m)
  case Nil
  then show ?case by simp
next
  case (Cons p m')
  obtain k v where p: "p = (k, v)" by (cases p)
  have "k \<notin> fst ` set m \<Longrightarrow> AList.update k v m = m @ [(k, v)]" for m :: "('a \<times> 'b) list"
    by (induction m) auto
  with Cons.prems have "AList.update k v m = m @ [(k, v)]" by (auto simp: p)
  with Cons show ?case by (auto simp: p)
qed

lemma string_map_roundtrip [simp]:
  "distinct (map fst m) \<Longrightarrow> string_map_of_json (string_map_to_json m) = Some m"
  "string_map_to_json m \<noteq> JNull"
proof -
  have "string_map_entries (map (\<lambda>(k, v). (k, JString v)) m) = Some m" by (induction m) auto
  then show "distinct (map fst m) \<Longrightarrow> string_map_of_json (string_map_to_json m) = Some m"
    by (simp add: string_map_of_json_def string_map_to_json_def updates_of_new_keys)
qed (simp add: string_map_to_json_def)

lemmas field_defs = required_def optional_def

subsection \<open>Responses\<close>

text \<open>
  A flattened body contributes its fields to the object: an encoder of a body yields fields,
  a decoder reads them from the whole object and ignores \<open>schema\<close>.
\<close>

definition response_to_json :: "('a \<Rightarrow> (string \<times> json) list) \<Rightarrow> 'a response \<Rightarrow> json" where
  "response_to_json enc r = JObject (enc (rs_data r) @ skip_none ''schema'' id (rs_schema r))"

definition response_of_json ::
  "((string \<times> json) list \<Rightarrow> 'a option) \<Rightarrow> json \<Rightarrow> 'a response option" where
  "response_of_json dec j = (case j of
     JObject f \<Rightarrow> do { x \<leftarrow> dec f; s \<leftarrow> optional f ''schema'' Some;
                    Some \<lparr> rs_data = x, rs_schema = s \<rparr> }
   | _ \<Rightarrow> None)"

definition items_fields :: "('a \<Rightarrow> json) \<Rightarrow> 'a items \<Rightarrow> (string \<times> json) list" where
  "items_fields enc l = [(''items'', JArray (map enc (items l)))]"

definition items_of_fields ::
  "(json \<Rightarrow> 'a option) \<Rightarrow> (string \<times> json) list \<Rightarrow> 'a items option" where
  "items_of_fields dec f = do { xs \<leftarrow> required f ''items'' (array_of_json dec); Some \<lparr> items = xs \<rparr> }"

lemma items_response_roundtrip:
  assumes "\<And>x. x \<in> set (items (rs_data r)) \<Longrightarrow> dec (enc x) = Some x" and "rs_schema r \<noteq> Some JNull"
  shows "response_of_json (items_of_fields dec) (response_to_json (items_fields enc) r) = Some r"
  using assms by (cases r; cases "rs_data r") (simp add: response_of_json_def response_to_json_def
      items_of_fields_def items_fields_def field_defs)

text \<open>A collection that is a document of its own.\<close>

definition items_of_json :: "(json \<Rightarrow> 'a option) \<Rightarrow> json \<Rightarrow> 'a items option" where
  "items_of_json dec j = (case j of JObject f \<Rightarrow> items_of_fields dec f | _ \<Rightarrow> None)"

lemma items_of_response:
  "response_of_json (items_of_fields dec) j = Some x \<Longrightarrow> items_of_json dec j = Some (rs_data x)"
  by (auto simp: response_of_json_def items_of_json_def bind_eq_Some_conv split: json.splits)

subsection \<open>Data resources\<close>

definition metadata_dto_to_json :: "metadata_dto \<Rightarrow> json" where
  "metadata_dto_to_json m = JObject
     ([(''id'', JString (md_id m)), (''name'', JString (md_name m)),
       (''category'', category_to_json (md_category m))]
      @ skip_none ''translation_id'' JString (md_translation_id m)
      @ skip_none ''groups'' strings_to_json (md_groups m)
      @ skip_none ''tags'' strings_to_json (md_tags m))"

definition metadata_dto_of_json :: "json \<Rightarrow> metadata_dto option" where
  "metadata_dto_of_json j = (case j of
     JObject f \<Rightarrow> do {
       i \<leftarrow> required f ''id'' json_string; n \<leftarrow> required f ''name'' json_string;
       c \<leftarrow> required f ''category'' category_of_json;
       t \<leftarrow> optional f ''translation_id'' json_string;
       gs \<leftarrow> optional f ''groups'' json_string_list; ts \<leftarrow> optional f ''tags'' json_string_list;
       Some \<lparr> md_id = i, md_name = n, md_category = c, md_translation_id = t, md_groups = gs,
              md_tags = ts \<rparr> }
   | _ \<Rightarrow> None)"

definition category_information_to_json :: "data_category_information \<Rightarrow> json" where
  "category_information_to_json c = JObject
     ([(''item'', category_to_json (ci_item c))]
      @ skip_none ''category_translation_id'' JString (ci_category_translation_id c))"

definition category_information_of_json :: "json \<Rightarrow> data_category_information option" where
  "category_information_of_json j = (case j of
     JObject f \<Rightarrow> do {
       c \<leftarrow> required f ''item'' category_of_json;
       t \<leftarrow> optional f ''category_translation_id'' json_string;
       Some \<lparr> ci_item = c, ci_category_translation_id = t \<rparr> }
   | _ \<Rightarrow> None)"

definition data_group_to_json :: "data_group \<Rightarrow> json" where
  "data_group_to_json g = JObject
     ([(''id'', JString (gr_id g)), (''category'', category_to_json (gr_category g))]
      @ skip_none ''category_translation_id'' JString (gr_category_translation_id g)
      @ skip_none ''group'' JString (gr_group g)
      @ skip_none ''group_translation_id'' JString (gr_group_translation_id g))"

definition data_group_of_json :: "json \<Rightarrow> data_group option" where
  "data_group_of_json j = (case j of
     JObject f \<Rightarrow> do {
       i \<leftarrow> required f ''id'' json_string; c \<leftarrow> required f ''category'' category_of_json;
       ct \<leftarrow> optional f ''category_translation_id'' json_string;
       g \<leftarrow> optional f ''group'' json_string;
       gt \<leftarrow> optional f ''group_translation_id'' json_string;
       Some \<lparr> gr_id = i, gr_category = c, gr_category_translation_id = ct, gr_group = g,
              gr_group_translation_id = gt \<rparr> }
   | _ \<Rightarrow> None)"

definition error_entry_to_json :: "data_error_entry \<Rightarrow> json" where
  "error_entry_to_json e = JObject
     [(''path'', JString (pointer_text (de_path e))),
      (''error'', generic_error_to_json (de_error e))]"

definition error_entry_of_json :: "json \<Rightarrow> data_error_entry option" where
  "error_entry_of_json j = (case j of
     JObject f \<Rightarrow> do {
       p \<leftarrow> required f ''path'' json_string; e \<leftarrow> required f ''error'' generic_error_of_json;
       Some \<lparr> de_path = JsonPointer p, de_error = e \<rparr> }
   | _ \<Rightarrow> None)"

definition read_response_to_json :: "read_response \<Rightarrow> json" where
  "read_response_to_json r = JObject
     ([(''id'', JString (rr_id r)), (''data'', rr_data r)]
      @ skip_none ''errors'' (\<lambda>es. JArray (map error_entry_to_json es)) (rr_errors r)
      @ skip_none ''schema'' id (rr_schema r))"

definition read_response_of_json :: "json \<Rightarrow> read_response option" where
  "read_response_of_json j = (case j of
     JObject f \<Rightarrow> do {
       i \<leftarrow> required f ''id'' json_string; d \<leftarrow> required f ''data'' Some;
       es \<leftarrow> optional f ''errors'' (array_of_json error_entry_of_json);
       s \<leftarrow> optional f ''schema'' Some;
       Some \<lparr> rr_id = i, rr_data = d, rr_errors = es, rr_schema = s \<rparr> }
   | _ \<Rightarrow> None)"

definition write_request_to_json :: "write_request \<Rightarrow> json" where
  "write_request_to_json b = JObject
     ([(''data'', wr_data b)] @ skip_none ''signature'' JString (wr_signature b))"

definition write_request_of_json :: "json \<Rightarrow> write_request option" where
  "write_request_of_json j = (case j of
     JObject f \<Rightarrow> do {
       d \<leftarrow> required f ''data'' Some; s \<leftarrow> optional f ''signature'' json_string;
       Some \<lparr> wr_data = d, wr_signature = s \<rparr> }
   | _ \<Rightarrow> None)"

lemma metadata_dto_roundtrip [simp]:
  "category_ok (md_category m) \<Longrightarrow> metadata_dto_of_json (metadata_dto_to_json m) = Some m"
  by (cases m) (simp add: metadata_dto_of_json_def metadata_dto_to_json_def field_defs)

lemma category_information_roundtrip [simp]:
  "category_ok (ci_item c) \<Longrightarrow>
     category_information_of_json (category_information_to_json c) = Some c"
  by (cases c) (simp add: category_information_of_json_def category_information_to_json_def
      field_defs)

lemma data_group_roundtrip [simp]:
  "category_ok (gr_category g) \<Longrightarrow> data_group_of_json (data_group_to_json g) = Some g"
  by (cases g) (simp add: data_group_of_json_def data_group_to_json_def field_defs)

lemma error_entry_roundtrip [simp]:
  "ge_parameters (de_error e) \<noteq> Some JNull \<Longrightarrow> error_entry_of_json (error_entry_to_json e) = Some e"
  by (cases e; cases "de_path e") (simp add: error_entry_of_json_def error_entry_to_json_def
      field_defs generic_error_json_roundtrip)

definition read_response_ok :: "read_response \<Rightarrow> bool" where
  "read_response_ok r \<longleftrightarrow> rr_schema r \<noteq> Some JNull \<and>
     (case rr_errors r of None \<Rightarrow> True
      | Some es \<Rightarrow> list_all (\<lambda>e. ge_parameters (de_error e) \<noteq> Some JNull) es)"

lemma read_response_roundtrip [simp]:
  "read_response_ok r \<Longrightarrow> read_response_of_json (read_response_to_json r) = Some r"
  by (cases r; cases "rr_errors r") (simp_all add: read_response_of_json_def
      read_response_to_json_def field_defs read_response_ok_def list_all_iff)

lemma write_request_roundtrip [simp]: "write_request_of_json (write_request_to_json b) = Some b"
  by (cases b) (simp add: write_request_of_json_def write_request_to_json_def field_defs)

subsection \<open>Discovery\<close>

definition capabilities_fields :: "entity_capabilities \<Rightarrow> (string \<times> json) list" where
  "capabilities_fields e =
     [(''id'', JString (ec_id e)), (''name'', JString (ec_name e))]
      @ skip_none ''translation_id'' JString (ec_translation_id e)
      @ skip_none ''variant'' string_map_to_json (ec_variant e)
      @ skip_none ''configurations'' uri_to_json (ec_configurations e)
      @ skip_none ''bulk-data'' uri_to_json (ec_bulk_data e)
      @ skip_none ''data'' uri_to_json (ec_data e)
      @ skip_none ''data-lists'' uri_to_json (ec_data_lists e)
      @ skip_none ''faults'' uri_to_json (ec_faults e)
      @ skip_none ''operations'' uri_to_json (ec_operations e)
      @ skip_none ''updates'' uri_to_json (ec_updates e)
      @ skip_none ''modes'' uri_to_json (ec_modes e)
      @ skip_none ''areas'' uri_to_json (ec_areas e)
      @ skip_none ''components'' uri_to_json (ec_components e)
      @ skip_none ''apps'' uri_to_json (ec_apps e)
      @ skip_none ''functions'' uri_to_json (ec_functions e)
      @ skip_none ''subcomponents'' uri_to_json (ec_subcomponents e)
      @ skip_none ''subareas'' uri_to_json (ec_subareas e)
      @ skip_none ''locks'' uri_to_json (ec_locks e)
      @ skip_none ''logs'' uri_to_json (ec_logs e)
      @ skip_none ''belongs-to'' uri_to_json (ec_belongs_to e)
      @ skip_none ''contains'' uri_to_json (ec_contains e)
      @ skip_none ''communication-logs'' uri_to_json (ec_communication_logs e)
      @ skip_none ''cyclic-subscriptions'' uri_to_json (ec_cyclic_subscriptions e)
      @ skip_none ''depends-on'' uri_to_json (ec_depends_on e)
      @ skip_none ''hosts'' uri_to_json (ec_hosts e)
      @ skip_none ''is-located-on'' uri_to_json (ec_is_located_on e)
      @ skip_none ''scripts'' uri_to_json (ec_scripts e)
      @ skip_none ''triggers'' uri_to_json (ec_triggers e)"

definition capabilities_of_fields :: "(string \<times> json) list \<Rightarrow> entity_capabilities option" where
  "capabilities_of_fields f = do {
     i \<leftarrow> required f ''id'' json_string; n \<leftarrow> required f ''name'' json_string;
     translation_id \<leftarrow> optional f ''translation_id'' json_string;
     variant \<leftarrow> optional f ''variant'' string_map_of_json;
     configurations \<leftarrow> optional f ''configurations'' uri_of_json;
     bulk_data \<leftarrow> optional f ''bulk-data'' uri_of_json;
     data \<leftarrow> optional f ''data'' uri_of_json;
     data_lists \<leftarrow> optional f ''data-lists'' uri_of_json;
     faults \<leftarrow> optional f ''faults'' uri_of_json;
     operations \<leftarrow> optional f ''operations'' uri_of_json;
     updates \<leftarrow> optional f ''updates'' uri_of_json;
     modes \<leftarrow> optional f ''modes'' uri_of_json;
     areas \<leftarrow> optional f ''areas'' uri_of_json;
     components \<leftarrow> optional f ''components'' uri_of_json;
     apps \<leftarrow> optional f ''apps'' uri_of_json;
     functions \<leftarrow> optional f ''functions'' uri_of_json;
     subcomponents \<leftarrow> optional f ''subcomponents'' uri_of_json;
     subareas \<leftarrow> optional f ''subareas'' uri_of_json;
     locks \<leftarrow> optional f ''locks'' uri_of_json;
     logs \<leftarrow> optional f ''logs'' uri_of_json;
     belongs_to \<leftarrow> optional f ''belongs-to'' uri_of_json;
     contains \<leftarrow> optional f ''contains'' uri_of_json;
     communication_logs \<leftarrow> optional f ''communication-logs'' uri_of_json;
     cyclic_subscriptions \<leftarrow> optional f ''cyclic-subscriptions'' uri_of_json;
     depends_on \<leftarrow> optional f ''depends-on'' uri_of_json;
     hosts \<leftarrow> optional f ''hosts'' uri_of_json;
     is_located_on \<leftarrow> optional f ''is-located-on'' uri_of_json;
     scripts \<leftarrow> optional f ''scripts'' uri_of_json;
     triggers \<leftarrow> optional f ''triggers'' uri_of_json;
     Some \<lparr> ec_id = i, ec_name = n, ec_translation_id = translation_id, ec_variant = variant,
       ec_configurations = configurations,
       ec_bulk_data = bulk_data,
       ec_data = data,
       ec_data_lists = data_lists,
       ec_faults = faults,
       ec_operations = operations,
       ec_updates = updates,
       ec_modes = modes,
       ec_areas = areas,
       ec_components = components,
       ec_apps = apps,
       ec_functions = functions,
       ec_subcomponents = subcomponents,
       ec_subareas = subareas,
       ec_locks = locks,
       ec_logs = logs,
       ec_belongs_to = belongs_to,
       ec_contains = contains,
       ec_communication_logs = communication_logs,
       ec_cyclic_subscriptions = cyclic_subscriptions,
       ec_depends_on = depends_on,
       ec_hosts = hosts,
       ec_is_located_on = is_located_on,
       ec_scripts = scripts,
       ec_triggers = triggers \<rparr> }"

definition capabilities_ok :: "entity_capabilities \<Rightarrow> bool" where
  "capabilities_ok e \<longleftrightarrow> (case ec_variant e of None \<Rightarrow> True | Some m \<Rightarrow> distinct (map fst m))"

lemma capabilities_fields_roundtrip:
  assumes "capabilities_ok e"
  shows "capabilities_of_fields (capabilities_fields e @ skip_none ''schema'' id s) = Some e"
  using assms
  by (cases e; cases "ec_variant e") (simp_all add: capabilities_of_fields_def
      capabilities_fields_def field_defs capabilities_ok_def)

lemma capabilities_response_roundtrip:
  assumes "capabilities_ok (rs_data r)" and "rs_schema r \<noteq> Some JNull"
  shows "response_of_json capabilities_of_fields (response_to_json capabilities_fields r) = Some r"
proof -
  have "entries_of (capabilities_fields e) ''schema'' = []" for e
    by (simp add: capabilities_fields_def)
  with assms show ?thesis
    by (cases r) (simp add: response_of_json_def response_to_json_def optional_def
        capabilities_fields_roundtrip)
qed

subsection \<open>Version document\<close>

definition sovd_info_to_json :: "('v \<Rightarrow> json) \<Rightarrow> 'v sovd_info \<Rightarrow> json" where
  "sovd_info_to_json enc i = JObject
     ([(''version'', JString (si_version i)), (''base_uri'', uri_to_json (si_base_uri i))]
      @ skip_none ''vendor_info'' enc (si_vendor_info i))"

definition sovd_info_of_json :: "(json \<Rightarrow> 'v option) \<Rightarrow> json \<Rightarrow> 'v sovd_info option" where
  "sovd_info_of_json dec j = (case j of
     JObject f \<Rightarrow> do {
       v \<leftarrow> required f ''version'' json_string; u \<leftarrow> required f ''base_uri'' uri_of_json;
       i \<leftarrow> optional f ''vendor_info'' dec;
       Some \<lparr> si_version = v, si_base_uri = u, si_vendor_info = i \<rparr> }
   | _ \<Rightarrow> None)"

definition version_info_fields :: "('v \<Rightarrow> json) \<Rightarrow> 'v version_info \<Rightarrow> (string \<times> json) list" where
  "version_info_fields enc v = [(''sovd_info'', JArray (map (sovd_info_to_json enc) (vi_sovd_info v)))]"

definition version_info_of_fields ::
  "(json \<Rightarrow> 'v option) \<Rightarrow> (string \<times> json) list \<Rightarrow> 'v version_info option" where
  "version_info_of_fields dec f = do {
     is \<leftarrow> required f ''sovd_info'' (array_of_json (sovd_info_of_json dec));
     Some \<lparr> vi_sovd_info = is \<rparr> }"

definition vendor_info_to_json :: "vendor_info \<Rightarrow> json" where
  "vendor_info_to_json v = JObject
     [(''version'', JString (ve_version v)), (''name'', JString (ve_name v))]"

definition vendor_info_of_json :: "json \<Rightarrow> vendor_info option" where
  "vendor_info_of_json j = (case j of
     JObject f \<Rightarrow> do {
       v \<leftarrow> required f ''version'' json_string; n \<leftarrow> required f ''name'' json_string;
       Some \<lparr> ve_version = v, ve_name = n \<rparr> }
   | _ \<Rightarrow> None)"

lemma vendor_info_roundtrip [simp]:
  "vendor_info_of_json (vendor_info_to_json v) = Some v" "vendor_info_to_json v \<noteq> JNull"
  by (cases v; simp add: vendor_info_of_json_def vendor_info_to_json_def field_defs)+

lemma version_info_roundtrip:
  assumes "\<And>v. enc v \<noteq> JNull \<and> dec (enc v) = Some v" and "rs_schema r \<noteq> Some JNull"
  shows "response_of_json (version_info_of_fields dec)
    (response_to_json (version_info_fields enc) r) = Some r"
proof -
  have "sovd_info_of_json dec (sovd_info_to_json enc i) = Some i" for i
    using assms(1) by (cases i) (simp add: sovd_info_of_json_def sovd_info_to_json_def field_defs)
  with assms(2) show ?thesis
    by (cases r; cases "rs_data r") (simp add: response_of_json_def response_to_json_def
        version_info_of_fields_def version_info_fields_def field_defs)
qed

subsection \<open>Tags and data values\<close>

text \<open>
  The \<open>Tag\<close> and \<open>Data\<close> payloads, which the server does not use itself.
\<close>

record tag =
  tg_name :: string
  tg_description :: "string option"
  tg_translation_id :: "string option"

definition tag_to_json :: "tag \<Rightarrow> json" where
  "tag_to_json t = JObject
     ([(''name'', JString (tg_name t))]
      @ skip_none ''description'' JString (tg_description t)
      @ skip_none ''translation_id'' JString (tg_translation_id t))"

definition tag_of_json :: "json \<Rightarrow> tag option" where
  "tag_of_json j = (case j of
     JObject f \<Rightarrow> do {
       n \<leftarrow> required f ''name'' json_string; d \<leftarrow> optional f ''description'' json_string;
       t \<leftarrow> optional f ''translation_id'' json_string;
       Some \<lparr> tg_name = n, tg_description = d, tg_translation_id = t \<rparr> }
   | _ \<Rightarrow> None)"

record data_dto =
  dt_data :: json
  dt_errors :: "data_error_entry list option"

definition data_dto_to_json :: "data_dto \<Rightarrow> json" where
  "data_dto_to_json d = JObject
     ([(''data'', dt_data d)]
      @ skip_none ''errors'' (\<lambda>es. JArray (map error_entry_to_json es)) (dt_errors d))"

lemma tag_roundtrip [simp]: "tag_of_json (tag_to_json t) = Some t"
  by (cases t) (simp add: tag_of_json_def tag_to_json_def field_defs)

end
