(* ===== verification/Service.thy ===== *)
theory Service
  imports Data_Routes Wire
begin

text \<open>
  The server's routes as one service: how a request target selects a handler of the route table
  with its path parameters, how the query structs of \<open>src/opensovd-models/src\<close> are read from the
  query string, and what each endpoint of \<open>src/opensovd-server/src/routes\<close> answers, with its
  response serialized.  The router and the query deserializers are libraries: matching is the
  documented one of the route table, and what the code relies on of the deserializer is the
  locale \<open>query_laws\<close>.
\<close>

subsection \<open>Targets\<close>

text \<open>The segments of a path that starts with a slash, as the router sees them.\<close>

fun split_at_slash :: "string \<Rightarrow> string \<times> string list" where
  "split_at_slash [] = ([], [])"
| "split_at_slash (c # cs) =
     (let (s, rest) = split_at_slash cs
      in if c = CHR ''/'' then ([], s # rest) else (c # s, rest))"

definition path_segments :: "string \<Rightarrow> string list" where
  "path_segments path = snd (split_at_slash path)"

definition target_segments :: "string \<Rightarrow> string list" where
  "target_segments target = path_segments (takeWhile (\<lambda>c. c \<noteq> CHR ''?'') target)"

definition target_query :: "string \<Rightarrow> string" where
  "target_query target = (case dropWhile (\<lambda>c. c \<noteq> CHR ''?'') target of [] \<Rightarrow> [] | _ # q \<Rightarrow> q)"

text \<open>
  The handlers the route table selects for a request target below the version prefix, with the
  percent-decoded path parameters.
\<close>

fun path_params :: "segment list \<Rightarrow> string list \<Rightarrow> string list" where
  "path_params (Literal _ # ps) (_ # ss) = path_params ps ss"
| "path_params (Param _ # ps) (s # ss) = percent_decode s # path_params ps ss"
| "path_params _ _ = []"

definition calls :: "route list \<Rightarrow> http_method \<Rightarrow> string \<Rightarrow> (endpoint \<times> string list) list" where
  "calls table meth target =
     (let segs = API_VERSION # target_segments target
      in map (\<lambda>(_, ps, h). (h, path_params ps segs))
           (filter (\<lambda>(me, ps, _). me = meth \<and> path_matches ps segs) table))"

lemma split_at_slash_append:
  "CHR ''/'' \<notin> set s \<Longrightarrow> split_at_slash (s @ rest) =
     (s @ fst (split_at_slash rest), snd (split_at_slash rest))"
  by (induction s) (auto simp: Let_def split: prod.splits)

lemma split_at_slash_slash [simp]:
  "split_at_slash (CHR ''/'' # rest) = ([], fst (split_at_slash rest) # snd (split_at_slash rest))"
  by (simp add: Let_def split: prod.splits)

lemma split_at_slash_segment [simp]: "CHR ''/'' \<notin> set s \<Longrightarrow> split_at_slash s = (s, [])"
  using split_at_slash_append [of s "[]"] by simp

lemma no_query: "x \<notin> set path \<Longrightarrow> takeWhile (\<lambda>c. c \<noteq> x) path = path"
  by (simp add: takeWhile_eq_all_conv) metis

subsection \<open>Query strings\<close>

text \<open>
  \<open>ql_pairs\<close> parses a query string into its pairs; \<open>ql_sequence\<close> is what axum's \<open>Query\<close> makes of
  the values of a key for a \<open>Vec<String>\<close>.  Its documentation sends users to axum-extra's
  \<open>Query\<close> for sequences, and the values of a key are single strings, from which a sequence
  cannot be read.
\<close>

record query_library =
  ql_pairs :: "string \<Rightarrow> (string \<times> string) list"
  ql_sequence :: "string list \<Rightarrow> string list option"
  ql_rejection :: string

locale query_laws =
  fixes Q :: query_library
  assumes sequence_refused: "vs \<noteq> [] \<Longrightarrow> ql_sequence Q vs = None"
    and no_pairs: "ql_pairs Q [] = []"
    and flag_pair: "ql_pairs Q ''include-schema=true'' = [(''include-schema'', ''true'')]"

definition values_of :: "(string \<times> string) list \<Rightarrow> string \<Rightarrow> string list" where
  "values_of pairs key = map snd (filter (\<lambda>(k, _). k = key) pairs)"

text \<open>A \<open>bool\<close> with \<open>#[serde(default)]\<close>.\<close>

definition flag_of :: "(string \<times> string) list \<Rightarrow> string \<Rightarrow> bool option" where
  "flag_of pairs key =
     (case values_of pairs key of
        [] \<Rightarrow> Some False
      | [v] \<Rightarrow> if v = ''true'' then Some True else if v = ''false'' then Some False else None
      | _ \<Rightarrow> None)"

definition sequence_of ::
  "query_library \<Rightarrow> (string \<times> string) list \<Rightarrow> string \<Rightarrow> string list option option" where
  "sequence_of Q pairs key =
     (case values_of pairs key of [] \<Rightarrow> Some None | vs \<Rightarrow> map_option Some (ql_sequence Q vs))"

text \<open>\<open>EntitiesQuery\<close> is read by axum-extra, the others by axum.\<close>

definition read_entities_query :: "query_library \<Rightarrow> string \<Rightarrow> entities_query option" where
  "read_entities_query Q query = (let pairs = ql_pairs Q query in
     map_option (\<lambda>b. \<lparr> eq_include_schema = b, eq_tags = values_of pairs ''tags'' \<rparr>)
       (flag_of pairs ''include-schema''))"

definition read_capabilities_query ::
  "query_library \<Rightarrow> string \<Rightarrow> (string, capabilities_query) result" where
  "read_capabilities_query Q query = ok_or (ql_rejection Q)
     (map_option (\<lambda>b. \<lparr> cq_include_schema = b \<rparr>) (flag_of (ql_pairs Q query) ''include-schema''))"

definition read_version_query ::
  "query_library \<Rightarrow> string \<Rightarrow> (string, version_info_query) result" where
  "read_version_query Q query = ok_or (ql_rejection Q)
     (map_option (\<lambda>b. \<lparr> vq_include_schema = b \<rparr>) (flag_of (ql_pairs Q query) ''include-schema''))"

definition read_read_query :: "query_library \<Rightarrow> string \<Rightarrow> (string, read_data_query) result" where
  "read_read_query Q query = ok_or (ql_rejection Q)
     (map_option (\<lambda>b. \<lparr> rq_include_schema = b \<rparr>) (flag_of (ql_pairs Q query) ''include-schema''))"

definition read_data_query_of :: "query_library \<Rightarrow> string \<Rightarrow> (string, data_query) result" where
  "read_data_query_of Q query = (let pairs = ql_pairs Q query in ok_or (ql_rejection Q) (do {
     gs \<leftarrow> sequence_of Q pairs ''groups''; cs \<leftarrow> sequence_of Q pairs ''categories'';
     ts \<leftarrow> sequence_of Q pairs ''tags''; b \<leftarrow> flag_of pairs ''include-schema'';
     Some \<lparr> dq_groups = gs, dq_categories = cs, dq_tags = ts, dq_include_schema = b \<rparr> }))"

definition read_groups_query :: "query_library \<Rightarrow> string \<Rightarrow> (string, data_groups_query) result" where
  "read_groups_query Q query = ok_or (ql_rejection Q)
     (case values_of (ql_pairs Q query) ''category'' of
        [] \<Rightarrow> Some \<lparr> gq_category = None \<rparr>
      | [v] \<Rightarrow> Some \<lparr> gq_category = Some (data_category_from v) \<rparr>
      | _ \<Rightarrow> None)"

subsection \<open>Endpoints\<close>

text \<open>A response: its status and its JSON body, if it has one.\<close>

type_synonym answer = "nat \<times> json option"

definition json_answer :: "('a \<Rightarrow> json) \<Rightarrow> (route_error, 'a) result \<Rightarrow> answer" where
  "json_answer enc r = (let (status, j) = respond 200 enc r in (status, Some j))"

definition status_answer :: "(route_error, nat) result \<Rightarrow> answer" where
  "status_answer r =
     (case r of Inr status \<Rightarrow> (status, None)
      | Inl e \<Rightarrow> (let (status, j) = respond 0 (\<lambda>_. JNull) (Inl e :: (route_error, unit) result)
                in (status, Some j)))"

definition entities_answer ::
  "query_library \<Rightarrow> string \<Rightarrow> (entities_query \<Rightarrow> (route_error, entities_response) result) \<Rightarrow> answer" where
  "entities_answer Q query handler =
     (case read_entities_query Q query of
        None \<Rightarrow> (400, None)
      | Some q \<Rightarrow> json_answer (response_to_json (items_fields entity_reference_to_json)) (handler q))"

definition capabilities_answer ::
  "query_library \<Rightarrow> string \<Rightarrow>
     ((string, capabilities_query) result \<Rightarrow> (route_error, capabilities_response) result) \<Rightarrow> answer" where
  "capabilities_answer Q query handler =
     json_answer (response_to_json capabilities_fields) (handler (read_capabilities_query Q query))"

definition acting :: "('r \<Rightarrow> answer) \<Rightarrow> 'r \<times> 'w \<Rightarrow> answer \<times> 'w" where
  "acting enc outcome = (let (r, w) = outcome in (enc r, w))"

text \<open>
  A PUT body that is not a write request is refused by the \<open>Json\<close> extractor; the request is
  taken to carry the JSON content type, which the client always sets.
\<close>

definition with_body ::
  "json option \<Rightarrow> (write_request \<Rightarrow> 'w \<Rightarrow> answer \<times> 'w) \<Rightarrow> 'w \<Rightarrow> answer \<times> 'w" where
  "with_body body handler w =
     (case body of
        None \<Rightarrow> ((400, None), w)
      | Some j \<Rightarrow> (case write_request_of_json j of
          None \<Rightarrow> ((422, None), w)
        | Some b \<Rightarrow> handler b w))"

text \<open>
  \<open>args\<close> are the path parameters, as many as the route of the endpoint has; \<open>enc\<close> serializes
  the vendor information.
\<close>

fun endpoint_answer ::
  "('mc, 'ma, 'mr, 's, 'w, 'set) route_env \<Rightarrow> query_library \<Rightarrow> ('v \<Rightarrow> json) \<Rightarrow> 'v option \<Rightarrow>
     ('mc, 'ma, 'mr, 's) topology_state \<Rightarrow> 'i request_parts \<Rightarrow> string \<Rightarrow> json option \<Rightarrow>
     endpoint \<Rightarrow> string list \<Rightarrow> 'w \<Rightarrow> answer \<times> 'w" where
  "endpoint_answer E Q enc vendor topo parts query body ComponentList args w =
     (entities_answer Q query (\<lambda>q. component_list E topo parts q), w)"
| "endpoint_answer E Q enc vendor topo parts query body ComponentHosts args w =
     (entities_answer Q query (\<lambda>q. component_hosts E topo (args ! 0) parts q), w)"
| "endpoint_answer E Q enc vendor topo parts query body ComponentBelongsTo args w =
     (entities_answer Q query (\<lambda>q. component_belongs_to E topo (args ! 0) parts q), w)"
| "endpoint_answer E Q enc vendor topo parts query body AppList args w =
     (entities_answer Q query (\<lambda>q. app_list E topo parts q), w)"
| "endpoint_answer E Q enc vendor topo parts query body AppIsLocatedOn args w =
     (entities_answer Q query (\<lambda>q. app_is_located_on_handler E topo (args ! 0) parts q), w)"
| "endpoint_answer E Q enc vendor topo parts query body AppBelongsTo args w =
     (entities_answer Q query (\<lambda>q. app_belongs_to E topo (args ! 0) parts q), w)"
| "endpoint_answer E Q enc vendor topo parts query body AreaList args w =
     (entities_answer Q query (\<lambda>q. area_list E topo parts q), w)"
| "endpoint_answer E Q enc vendor topo parts query body AreaContains args w =
     (entities_answer Q query (\<lambda>q. area_contains E topo (args ! 0) parts q), w)"
| "endpoint_answer E Q enc vendor topo parts query body RootCapabilities args w =
     (capabilities_answer Q query (\<lambda>q. root_capabilities E topo parts q), w)"
| "endpoint_answer E Q enc vendor topo parts query body ComponentCapabilities args w =
     (capabilities_answer Q query (\<lambda>q. component_capabilities E topo (args ! 0) parts q), w)"
| "endpoint_answer E Q enc vendor topo parts query body AppCapabilities args w =
     (capabilities_answer Q query (\<lambda>q. app_capabilities E topo (args ! 0) parts q), w)"
| "endpoint_answer E Q enc vendor topo parts query body AreaCapabilities args w =
     (capabilities_answer Q query (\<lambda>q. area_capabilities E topo (args ! 0) parts q), w)"
| "endpoint_answer E Q enc vendor topo parts query body ComponentDataCategories args w =
     acting (json_answer (response_to_json (items_fields category_information_to_json)))
       (component_data_categories E topo (args ! 0) w)"
| "endpoint_answer E Q enc vendor topo parts query body ComponentDataGroups args w =
     acting (json_answer (response_to_json (items_fields data_group_to_json)))
       (component_data_groups E topo (args ! 0) (read_groups_query Q query) w)"
| "endpoint_answer E Q enc vendor topo parts query body ComponentDataList args w =
     acting (json_answer (response_to_json (items_fields metadata_dto_to_json)))
       (component_data_list E topo (args ! 0) (read_data_query_of Q query) w)"
| "endpoint_answer E Q enc vendor topo parts query body ComponentDataRead args w =
     acting (json_answer read_response_to_json)
       (component_data_read E topo (args ! 0) (args ! 1) (read_read_query Q query) w)"
| "endpoint_answer E Q enc vendor topo parts query body ComponentDataWrite args w =
     with_body body (\<lambda>b w. acting status_answer
       (component_data_write E topo (args ! 0) (args ! 1) b w)) w"
| "endpoint_answer E Q enc vendor topo parts query body AppDataCategories args w =
     acting (json_answer (response_to_json (items_fields category_information_to_json)))
       (app_data_categories E topo (args ! 0) w)"
| "endpoint_answer E Q enc vendor topo parts query body AppDataGroups args w =
     acting (json_answer (response_to_json (items_fields data_group_to_json)))
       (app_data_groups E topo (args ! 0) (read_groups_query Q query) w)"
| "endpoint_answer E Q enc vendor topo parts query body AppDataList args w =
     acting (json_answer (response_to_json (items_fields metadata_dto_to_json)))
       (app_data_list E topo (args ! 0) (read_data_query_of Q query) w)"
| "endpoint_answer E Q enc vendor topo parts query body AppDataRead args w =
     acting (json_answer read_response_to_json)
       (app_data_read E topo (args ! 0) (args ! 1) (read_read_query Q query) w)"
| "endpoint_answer E Q enc vendor topo parts query body AppDataWrite args w =
     with_body body (\<lambda>b w. acting status_answer
       (app_data_write E topo (args ! 0) (args ! 1) b w)) w"
| "endpoint_answer E Q enc vendor topo parts query body VersionDocument args w =
     (json_answer (response_to_json (version_info_fields enc))
       (version_info E vendor parts (read_version_query Q query)), w)"

text \<open>
  A request: the selected endpoint's answer; 405 when the path has a route for another method
  only, 404 when it has none.
\<close>

definition serve_request ::
  "('mc, 'ma, 'mr, 's, 'w, 'set) route_env \<Rightarrow> query_library \<Rightarrow> ('v \<Rightarrow> json) \<Rightarrow> 'v option \<Rightarrow>
     ('mc, 'ma, 'mr, 's) topology_state \<Rightarrow> 'i request_parts \<Rightarrow> http_method \<Rightarrow> string \<Rightarrow>
     json option \<Rightarrow> 'w \<Rightarrow> answer \<times> 'w" where
  "serve_request E Q enc vendor topo parts meth target body w =
     (case calls router meth target of
        (endpoint, args) # _ \<Rightarrow>
          endpoint_answer E Q enc vendor topo parts (target_query target) body endpoint args w
      | [] \<Rightarrow>
          ((if calls router GET target = [] \<and> calls router PUT target = [] then 404 else 405, None),
           w))"

subsection \<open>Lemmas\<close>

context query_laws
begin

text \<open>A query without parameters, and the one the client sends.\<close>

lemma read_plain_queries [simp]:
  "read_entities_query Q [] = Some \<lparr> eq_include_schema = False, eq_tags = [] \<rparr>"
  "read_read_query Q [] = Inr \<lparr> rq_include_schema = False \<rparr>"
  "read_data_query_of Q [] = Inr \<lparr> dq_groups = None, dq_categories = None, dq_tags = None,
     dq_include_schema = False \<rparr>"
  "read_groups_query Q [] = Inr \<lparr> gq_category = None \<rparr>"
  by (simp_all add: read_entities_query_def read_read_query_def read_data_query_of_def no_pairs
      read_groups_query_def flag_of_def values_of_def sequence_of_def Let_def)

lemma read_schema_queries [simp]:
  "read_entities_query Q ''include-schema=true'' = Some \<lparr> eq_include_schema = True, eq_tags = [] \<rparr>"
  "read_read_query Q ''include-schema=true'' = Inr \<lparr> rq_include_schema = True \<rparr>"
  "read_data_query_of Q ''include-schema=true'' = Inr \<lparr> dq_groups = None, dq_categories = None,
     dq_tags = None, dq_include_schema = True \<rparr>"
  by (simp_all add: read_entities_query_def read_read_query_def read_data_query_of_def flag_pair
      flag_of_def values_of_def sequence_of_def Let_def)

lemma filters_refused:
  assumes "key \<in> {''groups'', ''categories'', ''tags''}" and "(key, v) \<in> set (ql_pairs Q query)"
  shows "read_data_query_of Q query = Inl (ql_rejection Q)"
proof -
  have "values_of (ql_pairs Q query) key \<noteq> []"
    using assms(2) by (force simp: values_of_def filter_empty_conv)
  then have "sequence_of Q (ql_pairs Q query) key = None"
    by (simp add: sequence_of_def sequence_refused split: list.split)
  with assms(1) show ?thesis
    by (auto simp: read_data_query_of_def Let_def bind_eq_None_conv)
qed

end

text \<open>Splitting at ampersands and equality signs, without decoding, meets the laws.\<close>

fun split_on :: "char \<Rightarrow> string \<Rightarrow> string list" where
  "split_on x [] = [[]]"
| "split_on x (c # cs) =
     (case split_on x cs of
        [] \<Rightarrow> [[c]]
      | s # ss \<Rightarrow> if c = x then [] # s # ss else (c # s) # ss)"

definition plain_query :: query_library where
  "plain_query = \<lparr>
     ql_pairs = (\<lambda>q. map (\<lambda>p. (takeWhile (\<lambda>c. c \<noteq> CHR ''='') p, drop 1 (dropWhile (\<lambda>c. c \<noteq> CHR ''='') p)))
       (filter (\<lambda>p. p \<noteq> []) (split_on (CHR ''&'') q))),
     ql_sequence = (\<lambda>vs. None), ql_rejection = ''Failed to deserialize query string'' \<rparr>"

interpretation plain_query: query_laws plain_query
  by unfold_locales (simp_all add: plain_query_def)

end
