(* ===== verification/Client.thy ===== *)
theory Client
  imports Service
begin

text \<open>
  The REST client of \<open>src/opensovd-client/src\<close>: its builder, the construction of request URIs,
  \<open>get\<close>, \<open>put\<close> and the common \<open>request\<close>, the entity handles with their requests, and the unix
  connector.  The HTTP service a client is built on is a parameter, as are URI parsing,
  request construction and JSON (record \<open>http_library\<close>).
\<close>

subsection \<open>The libraries\<close>

record 'uri client_request =
  cr_method :: http_method
  cr_uri :: 'uri
  cr_headers :: "(string \<times> string) list"
  cr_body :: string

text \<open>\<open>cs_body\<close> is what collecting the response body yields.\<close>

record 'se client_response =
  cs_status :: nat
  cs_body :: "('se, string) result"

type_synonym ('w, 'uri, 'se) http_service =
  "'uri client_request \<Rightarrow> ('w, ('se, 'se client_response) result) action"

record ('uri, 'ue, 'he, 'je) http_library =
  hl_parse_uri :: "string \<Rightarrow> ('ue, 'uri) result"
  hl_display_uri :: "'uri \<Rightarrow> string"
  hl_build_request :: "'uri client_request \<Rightarrow> ('he, 'uri client_request) result"
  hl_from_slice :: "string \<Rightarrow> ('je, json) result"
  hl_to_vec :: "json \<Rightarrow> ('je, string) result"

datatype ('ue, 'he, 'je, 'hy, 'se) client_error =
    ApiError nat "generic_error option"
  | Http 'he
  | Hyper 'hy
  | Service 'se
  | Json 'je
  | ClientInvalidUri 'ue

type_synonym ('ue, 'he, 'je, 'hy, 'se, 'a) client_result = "(('ue, 'he, 'je, 'hy, 'se) client_error, 'a) result"

subsection \<open>Building requests\<close>

definition schema_query :: "bool \<Rightarrow> (string \<times> string) list" where
  "schema_query include = (if include then [(''include-schema'', ''true'')] else [])"

definition encode :: "'set percent_encoding \<Rightarrow> string \<Rightarrow> string" where
  "encode P segment = pe_encode P (pe_non_alphanumeric P) segment"

definition build_uri_query_string :: "string \<Rightarrow> (string \<times> string) list \<Rightarrow> string" where
  "build_uri_query_string base query =
     (if query = [] then base
      else (let qs = map (\<lambda>(k, v). k @ ''='' @ v) query in base @ ''?'' @ join_with ''&'' qs))"

definition build_uri_with_query ::
  "('uri, 'ue, 'he, 'je) http_library \<Rightarrow> 'uri \<Rightarrow> string \<Rightarrow> (string \<times> string) list \<Rightarrow>
     ('ue, 'he, 'je, 'hy, 'se, 'uri) client_result" where
  "build_uri_with_query H base path query =
     (let url = hl_display_uri H base @ path
      in map_err ClientInvalidUri (hl_parse_uri H (build_uri_query_string url query)))"

subsection \<open>The client\<close>

record ('w, 'uri, 'se) client =
  hc_base_uri :: 'uri
  hc_http :: "('w, 'uri, 'se) http_service"

definition is_success :: "nat \<Rightarrow> bool" where
  "is_success status \<longleftrightarrow> 200 \<le> status \<and> status < 300"

definition client_request_call ::
  "('uri, 'ue, 'he, 'je) http_library \<Rightarrow> ('w, 'uri, 'se) client \<Rightarrow> 'uri client_request \<Rightarrow>
     ('w, ('ue, 'he, 'je, 'hy, 'se, string) client_result) action" where
  "client_request_call H self req w =
     (case hc_http self req w of
        (Inl e, w') \<Rightarrow> (Inl (Service e), w')
      | (Inr resp, w') \<Rightarrow>
          (case cs_body resp of
             Inl e \<Rightarrow> (Inl (Service e), w')
           | Inr body \<Rightarrow>
               if \<not> is_success (cs_status resp) then
                 (let error = (case hl_from_slice H body of
                                 Inl _ \<Rightarrow> None | Inr j \<Rightarrow> generic_error_of_json j)
                  in (Inl (ApiError (cs_status resp) error), w'))
               else (Inr body, w')))"

text \<open>\<open>de\<close> is \<open>serde_json::from_slice\<close> at the result type.\<close>

definition client_get ::
  "('uri, 'ue, 'he, 'je) http_library \<Rightarrow> ('w, 'uri, 'se) client \<Rightarrow> (string \<Rightarrow> ('je, 'a) result) \<Rightarrow>
     string \<Rightarrow> (string \<times> string) list \<Rightarrow> ('w, ('ue, 'he, 'je, 'hy, 'se, 'a) client_result) action" where
  "client_get H self de path query w =
     (case build_uri_with_query H (hc_base_uri self) path query of
        Inl e \<Rightarrow> (Inl e, w)
      | Inr uri \<Rightarrow>
          (case hl_build_request H \<lparr> cr_method = GET, cr_uri = uri, cr_headers = [], cr_body = [] \<rparr> of
             Inl e \<Rightarrow> (Inl (Http e), w)
           | Inr req \<Rightarrow>
               (case client_request_call H self req w of
                  (Inl e, w') \<Rightarrow> (Inl e, w')
                | (Inr bytes, w') \<Rightarrow> (map_err Json (de bytes), w'))))"

definition client_put ::
  "('uri, 'ue, 'he, 'je) http_library \<Rightarrow> ('w, 'uri, 'se) client \<Rightarrow> string \<Rightarrow>
     (string \<times> string) list \<Rightarrow> json \<Rightarrow> ('w, ('ue, 'he, 'je, 'hy, 'se, unit) client_result) action" where
  "client_put H self path query body w =
     (case build_uri_with_query H (hc_base_uri self) path query of
        Inl e \<Rightarrow> (Inl e, w)
      | Inr uri \<Rightarrow>
          (case hl_to_vec H body of
             Inl e \<Rightarrow> (Inl (Json e), w)
           | Inr json_bytes \<Rightarrow>
               (case hl_build_request H \<lparr> cr_method = PUT, cr_uri = uri,
                        cr_headers = [(''content-type'', ''application/json'')],
                        cr_body = json_bytes \<rparr> of
                  Inl e \<Rightarrow> (Inl (Http e), w)
                | Inr req \<Rightarrow>
                    (case client_request_call H self req w of
                       (Inl e, w') \<Rightarrow> (Inl e, w')
                     | (Inr _, w') \<Rightarrow> (Inr (), w')))))"

subsection \<open>The builder\<close>

datatype client_builder_error = NoBaseUri | InvalidBaseUri

record ('uri, 'conn, 'l) client_builder =
  cb_base_uri :: "'uri option"
  cb_connector :: 'conn
  cb_layer :: 'l

definition client_builder_new :: "'conn \<Rightarrow> 'l \<Rightarrow> ('uri, 'conn, 'l) client_builder" where
  "client_builder_new http_connector identity_layer =
     \<lparr> cb_base_uri = None, cb_connector = http_connector, cb_layer = identity_layer \<rparr>"

definition client_builder_base_uri ::
  "('uri, 'ue, 'he, 'je) http_library \<Rightarrow> string \<Rightarrow> ('uri, 'conn, 'l) client_builder \<Rightarrow>
     (client_builder_error, ('uri, 'conn, 'l) client_builder) result" where
  "client_builder_base_uri H uri b =
     map_ok (\<lambda>u. b\<lparr>cb_base_uri := Some u\<rparr>) (map_err (\<lambda>_. InvalidBaseUri) (hl_parse_uri H uri))"

definition client_builder_connector ::
  "'conn2 \<Rightarrow> ('uri, 'conn, 'l) client_builder \<Rightarrow> ('uri, 'conn2, 'l) client_builder" where
  "client_builder_connector connector b =
     \<lparr> cb_base_uri = cb_base_uri b, cb_connector = connector, cb_layer = cb_layer b \<rparr>"

definition client_builder_layer ::
  "('l \<Rightarrow> 'l \<Rightarrow> 'l) \<Rightarrow> 'l \<Rightarrow> ('uri, 'conn, 'l) client_builder \<Rightarrow> ('uri, 'conn, 'l) client_builder" where
  "client_builder_layer stack layer b = b\<lparr>cb_layer := stack layer (cb_layer b)\<rparr>"

text \<open>
  \<open>hyper\<close> is the legacy client over a connector, \<open>apply_layer\<close> is \<open>Layer::layer\<close>; boxing the
  errors and the body does not change what the service answers.
\<close>

definition client_builder_build ::
  "('conn \<Rightarrow> 'svc) \<Rightarrow> ('l \<Rightarrow> 'svc \<Rightarrow> ('w, 'uri, 'se) http_service) \<Rightarrow>
     ('uri, 'conn, 'l) client_builder \<Rightarrow> (client_builder_error, ('w, 'uri, 'se) client) result" where
  "client_builder_build hyper apply_layer b =
     and_then (ok_or NoBaseUri (cb_base_uri b)) (\<lambda>uri.
       let http = hyper (cb_connector b); service = apply_layer (cb_layer b) http
       in Inr \<lparr> hc_base_uri = uri, hc_http = service \<rparr>)"

definition client_connect where
  "client_connect H hyper apply_layer http_connector identity_layer uri =
     and_then (client_builder_base_uri H uri (client_builder_new http_connector identity_layer))
       (client_builder_build hyper apply_layer)"

text \<open>The unix connector; an abstract name gets a leading null byte.\<close>

datatype unix_address = SocketPath string | Abstract string

definition unix_connector_new :: "string \<Rightarrow> unix_address" where
  "unix_connector_new path = SocketPath path"

definition unix_connector_abstract_name :: "string \<Rightarrow> unix_address" where
  "unix_connector_abstract_name name = Abstract (CHR 0x00 # name)"

definition unix_connector_call :: "(string \<Rightarrow> 'r) \<Rightarrow> unix_address \<Rightarrow> 'uri \<Rightarrow> 'r" where
  "unix_connector_call connect addr uri =
     (case addr of SocketPath path \<Rightarrow> connect path | Abstract name \<Rightarrow> connect name)"

definition client_connect_unix where
  "client_connect_unix H hyper apply_layer http_connector identity_layer uri path =
     and_then (client_builder_base_uri H uri (client_builder_new http_connector identity_layer))
       (\<lambda>b. client_builder_build hyper apply_layer
          (client_builder_connector (unix_connector_new path) b))"

definition client_connect_unix_abstract where
  "client_connect_unix_abstract H hyper apply_layer http_connector identity_layer uri name =
     and_then (client_builder_base_uri H uri (client_builder_new http_connector identity_layer))
       (\<lambda>b. client_builder_build hyper apply_layer
          (client_builder_connector (unix_connector_abstract_name name) b))"

subsection \<open>Requests\<close>

text \<open>A listing or read request: its path and whether a schema is asked for.\<close>

record read_request =
  rd_path :: string
  rd_with_schema :: bool

definition request_schema :: "bool \<Rightarrow> read_request \<Rightarrow> read_request" where
  "request_schema include r = r\<lparr>rd_with_schema := include\<rparr>"

definition request_send where
  "request_send H client de r =
     client_get H client de (rd_path r) (schema_query (rd_with_schema r))"

definition list_components :: read_request where
  "list_components = \<lparr> rd_path = ''/components'', rd_with_schema = False \<rparr>"

definition list_apps :: read_request where
  "list_apps = \<lparr> rd_path = ''/apps'', rd_with_schema = False \<rparr>"

definition list_areas :: read_request where
  "list_areas = \<lparr> rd_path = ''/areas'', rd_with_schema = False \<rparr>"

text \<open>Entity handles hold the encoded id.\<close>

record entity_handle =
  eh_id :: string

definition client_component :: "'set percent_encoding \<Rightarrow> string \<Rightarrow> entity_handle" where
  "client_component P ident = \<lparr> eh_id = encode P ident \<rparr>"

definition client_app :: "'set percent_encoding \<Rightarrow> string \<Rightarrow> entity_handle" where
  "client_app P ident = \<lparr> eh_id = encode P ident \<rparr>"

definition client_area :: "'set percent_encoding \<Rightarrow> string \<Rightarrow> entity_handle" where
  "client_area P ident = \<lparr> eh_id = encode P ident \<rparr>"

definition handle_component_list_data :: "entity_handle \<Rightarrow> read_request" where
  "handle_component_list_data h =
     \<lparr> rd_path = ''/components/'' @ eh_id h @ ''/data'', rd_with_schema = False \<rparr>"

definition handle_component_data :: "'set percent_encoding \<Rightarrow> string \<Rightarrow> entity_handle \<Rightarrow> string" where
  "handle_component_data P data_id h = ''/components/'' @ eh_id h @ ''/data/'' @ encode P data_id"

definition handle_component_data_categories :: "entity_handle \<Rightarrow> string" where
  "handle_component_data_categories h = ''/components/'' @ eh_id h @ ''/data-categories''"

definition handle_component_data_groups :: "entity_handle \<Rightarrow> string" where
  "handle_component_data_groups h = ''/components/'' @ eh_id h @ ''/data-groups''"

definition handle_component_hosts :: "entity_handle \<Rightarrow> string" where
  "handle_component_hosts h = ''/components/'' @ eh_id h @ ''/hosts''"

definition handle_component_belongs_to :: "entity_handle \<Rightarrow> string" where
  "handle_component_belongs_to h = ''/components/'' @ eh_id h @ ''/belongs-to''"

definition handle_app_list_data :: "entity_handle \<Rightarrow> read_request" where
  "handle_app_list_data h = \<lparr> rd_path = ''/apps/'' @ eh_id h @ ''/data'', rd_with_schema = False \<rparr>"

definition handle_app_data :: "'set percent_encoding \<Rightarrow> string \<Rightarrow> entity_handle \<Rightarrow> string" where
  "handle_app_data P data_id h = ''/apps/'' @ eh_id h @ ''/data/'' @ encode P data_id"

definition handle_app_data_categories :: "entity_handle \<Rightarrow> string" where
  "handle_app_data_categories h = ''/apps/'' @ eh_id h @ ''/data-categories''"

definition handle_app_data_groups :: "entity_handle \<Rightarrow> string" where
  "handle_app_data_groups h = ''/apps/'' @ eh_id h @ ''/data-groups''"

definition handle_app_is_located_on :: "entity_handle \<Rightarrow> string" where
  "handle_app_is_located_on h = ''/apps/'' @ eh_id h @ ''/is-located-on''"

definition handle_app_belongs_to :: "entity_handle \<Rightarrow> string" where
  "handle_app_belongs_to h = ''/apps/'' @ eh_id h @ ''/belongs-to''"

definition handle_area_contains :: "entity_handle \<Rightarrow> string" where
  "handle_area_contains h = ''/areas/'' @ eh_id h @ ''/contains''"

definition handle_get where
  "handle_get H client de path = client_get H client de path []"

definition data_request_read :: "string \<Rightarrow> read_request" where
  "data_request_read path = \<lparr> rd_path = path, rd_with_schema = False \<rparr>"

record write_data_request =
  wd_path :: string
  wd_value :: json

definition data_request_write ::
  "('v \<Rightarrow> ('je, json) result) \<Rightarrow> 'v \<Rightarrow> string \<Rightarrow> ('ue, 'he, 'je, 'hy, 'se, write_data_request) client_result" where
  "data_request_write ser v path =
     map_ok (\<lambda>j. \<lparr> wd_path = path, wd_value = j \<rparr>) (map_err Json (ser v))"

definition write_data_send where
  "write_data_send H client r =
     client_put H client (wd_path r) []
       (write_request_to_json \<lparr> wr_data = wd_value r, wr_signature = None \<rparr>)"

lemmas handle_defs = client_component_def client_app_def client_area_def
  handle_component_list_data_def handle_component_data_def handle_component_data_categories_def
  handle_component_data_groups_def handle_component_hosts_def handle_component_belongs_to_def
  handle_app_list_data_def handle_app_data_def handle_app_data_categories_def
  handle_app_data_groups_def handle_app_is_located_on_def handle_app_belongs_to_def
  handle_area_contains_def list_components_def list_apps_def list_areas_def

subsection \<open>Paths as segments\<close>

context percent_encoder
begin

lemma client_encode_decode: "percent_decode (encode P s) = s"
  unfolding encode_def by (rule decode_encode) (simp add: contains_non_alphanumeric)

lemma client_encode_no_slash: "CHR ''/'' \<notin> set (encode P s)"
  unfolding encode_def by (rule encode_avoids) (simp_all add: contains_non_alphanumeric)

lemma client_encode_nonempty: "s \<noteq> [] \<Longrightarrow> encode P s \<noteq> []"
  using client_encode_decode [of s] by auto

lemma collection_path_segments:
  "path_segments (''/components/'' @ encode P i @ ''/'' @ t) =
     ''components'' # encode P i # fst (split_at_slash t) # snd (split_at_slash t)"
  "path_segments (''/apps/'' @ encode P i @ ''/'' @ t) =
     ''apps'' # encode P i # fst (split_at_slash t) # snd (split_at_slash t)"
  "path_segments (''/areas/'' @ encode P i @ ''/'' @ t) =
     ''areas'' # encode P i # fst (split_at_slash t) # snd (split_at_slash t)"
  using split_at_slash_append [OF client_encode_no_slash, of i "CHR ''/'' # t"]
  by (simp_all add: path_segments_def Let_def split_beta)

end

end
