(* ===== verification/Client_Properties.thy ===== *)
theory Client_Properties
  imports Client
begin

text \<open>
  The properties of the client: each of its requests is dispatched by the server's route table
  to the handler it is meant for with the ids the caller gave, \<open>get\<close> and \<open>put\<close> send
  exactly one request and succeed exactly on a success status, and an error of a handler
  arrives as the same error.
\<close>

subsection \<open>Requests as the server sees them\<close>

definition sends_read :: "read_request \<Rightarrow> bool \<Rightarrow> string" where
  "sends_read r include =
     build_uri_query_string (rd_path (request_schema include r))
       (schema_query (rd_with_schema (request_schema include r)))"

lemma target_of_query:
  "CHR ''?'' \<notin> set path \<Longrightarrow>
     target_segments (build_uri_query_string path (schema_query b)) = path_segments path"
  "CHR ''?'' \<notin> set path \<Longrightarrow> target_segments path = path_segments path"
  by (auto simp: target_segments_def build_uri_query_string_def schema_query_def Let_def
      takeWhile_tail no_query)

context percent_encoder
begin

lemma client_encode_no_query: "CHR ''?'' \<notin> set (encode P s)"
  unfolding encode_def by (rule encode_avoids) (simp_all add: contains_non_alphanumeric)

lemmas client_segments = collection_path_segments client_encode_no_slash client_encode_no_query
  client_encode_decode client_encode_nonempty

lemma sends_read_calls:
  "CHR ''?'' \<notin> set (rd_path r) \<Longrightarrow> calls table meth (sends_read r b) = calls table meth (rd_path r)"
  by (simp add: calls_def sends_read_def request_schema_def target_of_query)

lemma listing_calls:
  "calls router GET (rd_path list_components) = [(ComponentList, [])]"
  "calls router GET (rd_path list_apps) = [(AppList, [])]"
  "calls router GET (rd_path list_areas) = [(AreaList, [])]"
  by (simp_all add: calls_def handle_defs target_segments_def path_segments_def router_defs)

lemma component_data_calls:
  assumes "i \<noteq> []" and "d \<noteq> []"
  shows "calls router GET (handle_component_data P d (client_component P i)) =
      [(ComponentDataRead, [i, d])]"
    and "calls router PUT (handle_component_data P d (client_component P i)) =
      [(ComponentDataWrite, [i, d])]"
  using assms collection_path_segments(1) [of i "''data/'' @ encode P d"]
    split_at_slash_append [of "''data''" "CHR ''/'' # encode P d"]
  by (simp_all add: calls_def handle_defs target_of_query router_defs client_segments)

lemma app_data_calls:
  assumes "i \<noteq> []" and "d \<noteq> []"
  shows "calls router GET (handle_app_data P d (client_app P i)) = [(AppDataRead, [i, d])]"
    and "calls router PUT (handle_app_data P d (client_app P i)) = [(AppDataWrite, [i, d])]"
  using assms collection_path_segments(2) [of i "''data/'' @ encode P d"]
    split_at_slash_append [of "''data''" "CHR ''/'' # encode P d"]
  by (simp_all add: calls_def handle_defs target_of_query router_defs client_segments)

lemma component_resource_calls:
  assumes "i \<noteq> []"
  shows "calls router GET (rd_path (handle_component_list_data (client_component P i))) =
      [(ComponentDataList, [i])]"
    and "calls router GET (handle_component_data_categories (client_component P i)) =
      [(ComponentDataCategories, [i])]"
    and "calls router GET (handle_component_data_groups (client_component P i)) =
      [(ComponentDataGroups, [i])]"
    and "calls router GET (handle_component_hosts (client_component P i)) = [(ComponentHosts, [i])]"
    and "calls router GET (handle_component_belongs_to (client_component P i)) =
      [(ComponentBelongsTo, [i])]"
  using assms collection_path_segments(1) [of i "''data''"]
    collection_path_segments(1) [of i "''data-categories''"]
    collection_path_segments(1) [of i "''data-groups''"]
    collection_path_segments(1) [of i "''hosts''"] collection_path_segments(1) [of i "''belongs-to''"]
  by (simp_all add: calls_def handle_defs target_of_query router_defs client_segments)

lemma app_resource_calls:
  assumes "i \<noteq> []"
  shows "calls router GET (rd_path (handle_app_list_data (client_app P i))) = [(AppDataList, [i])]"
    and "calls router GET (handle_app_data_categories (client_app P i)) =
      [(AppDataCategories, [i])]"
    and "calls router GET (handle_app_data_groups (client_app P i)) = [(AppDataGroups, [i])]"
    and "calls router GET (handle_app_is_located_on (client_app P i)) = [(AppIsLocatedOn, [i])]"
    and "calls router GET (handle_app_belongs_to (client_app P i)) = [(AppBelongsTo, [i])]"
  using assms collection_path_segments(2) [of i "''data''"]
    collection_path_segments(2) [of i "''data-categories''"]
    collection_path_segments(2) [of i "''data-groups''"]
    collection_path_segments(2) [of i "''is-located-on''"]
    collection_path_segments(2) [of i "''belongs-to''"]
  by (simp_all add: calls_def handle_defs target_of_query router_defs client_segments)

lemma area_contains_calls:
  assumes "i \<noteq> []"
  shows "calls router GET (handle_area_contains (client_area P i)) = [(AreaContains, [i])]"
  using assms collection_path_segments(3) [of i "''contains''"]
  by (simp add: calls_def handle_defs target_of_query router_defs client_segments)

lemma paths_without_query:
  "CHR ''?'' \<notin> set (rd_path list_components)" "CHR ''?'' \<notin> set (rd_path list_apps)"
  "CHR ''?'' \<notin> set (rd_path list_areas)"
  "CHR ''?'' \<notin> set (rd_path (handle_component_list_data (client_component P i)))"
  "CHR ''?'' \<notin> set (rd_path (handle_app_list_data (client_app P i)))"
  "CHR ''?'' \<notin> set (rd_path (data_request_read (handle_component_data P d (client_component P i))))"
  "CHR ''?'' \<notin> set (rd_path (data_request_read (handle_app_data P d (client_app P i))))"
  by (simp_all add: handle_defs client_encode_no_query data_request_read_def)

end

subsection \<open>One request per call\<close>

text \<open>What a call answers once the request is built, sent and its body is read.\<close>

definition parsed_error :: "('uri, 'ue, 'he, 'je) http_library \<Rightarrow> string \<Rightarrow> generic_error option" where
  "parsed_error H body =
     (case hl_from_slice H body of Inl _ \<Rightarrow> None | Inr j \<Rightarrow> generic_error_of_json j)"

definition get_sent where
  "get_sent H self path query uri req \<longleftrightarrow>
     hl_parse_uri H (build_uri_query_string (hl_display_uri H (hc_base_uri self) @ path) query) =
       Inr uri \<and>
     hl_build_request H \<lparr> cr_method = GET, cr_uri = uri, cr_headers = [], cr_body = [] \<rparr> = Inr req"

definition put_sent where
  "put_sent H self path query j uri req \<longleftrightarrow>
     hl_parse_uri H (build_uri_query_string (hl_display_uri H (hc_base_uri self) @ path) query) =
       Inr uri \<and>
     (\<exists>bytes. hl_to_vec H j = Inr bytes \<and>
        hl_build_request H \<lparr> cr_method = PUT, cr_uri = uri,
          cr_headers = [(''content-type'', ''application/json'')], cr_body = bytes \<rparr> = Inr req)"

definition answered where
  "answered self req w status body w' \<longleftrightarrow>
     (\<exists>resp. hc_http self req w = (Inr resp, w') \<and> cs_status resp = status \<and>
        cs_body resp = Inr body)"

lemmas exchange_defs = parsed_error_def answered_def is_success_def Let_def

text \<open>The steps of a call, as one decision.\<close>

lemma client_get_steps:
  "client_get H self de path query w =
     (case hl_parse_uri H
         (build_uri_query_string (hl_display_uri H (hc_base_uri self) @ path) query) of
        Inl e \<Rightarrow> (Inl (ClientInvalidUri e), w)
      | Inr uri \<Rightarrow>
     (case hl_build_request H \<lparr> cr_method = GET, cr_uri = uri, cr_headers = [], cr_body = [] \<rparr> of
        Inl e \<Rightarrow> (Inl (Http e), w)
      | Inr req \<Rightarrow>
     (case hc_http self req w of
        (Inl e, w') \<Rightarrow> (Inl (Service e), w')
      | (Inr resp, w') \<Rightarrow>
     (case cs_body resp of
        Inl e \<Rightarrow> (Inl (Service e), w')
      | Inr body \<Rightarrow>
          if is_success (cs_status resp) then (map_err Json (de body), w')
          else (Inl (ApiError (cs_status resp) (parsed_error H body)), w')))))"
  by (simp add: client_get_def build_uri_with_query_def client_request_call_def parsed_error_def
      Let_def split: sum.split prod.split)

lemma client_put_steps:
  "client_put H self path query j w =
     (case hl_parse_uri H
         (build_uri_query_string (hl_display_uri H (hc_base_uri self) @ path) query) of
        Inl e \<Rightarrow> (Inl (ClientInvalidUri e), w)
      | Inr uri \<Rightarrow>
     (case hl_to_vec H j of
        Inl e \<Rightarrow> (Inl (Json e), w)
      | Inr bytes \<Rightarrow>
     (case hl_build_request H \<lparr> cr_method = PUT, cr_uri = uri,
           cr_headers = [(''content-type'', ''application/json'')], cr_body = bytes \<rparr> of
        Inl e \<Rightarrow> (Inl (Http e), w)
      | Inr req \<Rightarrow>
     (case hc_http self req w of
        (Inl e, w') \<Rightarrow> (Inl (Service e), w')
      | (Inr resp, w') \<Rightarrow>
     (case cs_body resp of
        Inl e \<Rightarrow> (Inl (Service e), w')
      | Inr body \<Rightarrow>
          if is_success (cs_status resp) then (Inr (), w')
          else (Inl (ApiError (cs_status resp) (parsed_error H body)), w'))))))"
  by (simp add: client_put_def build_uri_with_query_def client_request_call_def parsed_error_def
      Let_def split: sum.split prod.split)

lemma client_get_eqs:
  "client_get H self de path query w = (Inr a, w') \<longleftrightarrow>
     (\<exists>uri req status body. get_sent H self path query uri req \<and>
        answered self req w status body w' \<and> is_success status \<and> de body = Inr a)"
  "client_get H self de path query w = (Inl (ApiError status e), w') \<longleftrightarrow>
     (\<exists>uri req body. get_sent H self path query uri req \<and>
        answered self req w status body w' \<and> \<not> is_success status \<and> e = parsed_error H body)"
  by (auto simp: client_get_steps get_sent_def answered_def map_err_Inl_iff
      split: sum.splits prod.splits if_splits)

lemma client_put_eqs:
  "client_put H self path query j w = (Inr u, w') \<longleftrightarrow>
     (\<exists>uri req status body. put_sent H self path query j uri req \<and>
        answered self req w status body w' \<and> is_success status)"
  "client_put H self path query j w = (Inl (ApiError status e), w') \<longleftrightarrow>
     (\<exists>uri req body. put_sent H self path query j uri req \<and>
        answered self req w status body w' \<and> \<not> is_success status \<and> e = parsed_error H body)"
  by (auto simp: client_put_steps put_sent_def answered_def
      split: sum.splits prod.splits if_splits)

lemma into_response_fails: "\<not> is_success (fst (into_response e))"
  by (cases e rule: into_response.cases)
    (auto simp: is_success_def split: data_error.splits topology_error.splits)

lemma into_response_parameters: "ge_parameters (snd (into_response e)) = None"
  by (cases e rule: into_response.cases)
    (auto simp: generic_error_new_def generic_error_with_vendor_code_def)

subsection \<open>Properties\<close>

text \<open>
  C9: Every request of the client, with or without a schema, is dispatched by the server's
  route table to exactly the handler it is meant for, which decodes exactly the ids the caller
  gave, whatever bytes they hold.
\<close>

theorem client_requests_reach_their_handlers:
  assumes "percent_encoder P" and "i \<noteq> []" and "d \<noteq> []"
  shows "calls router GET (sends_read list_components b) = [(ComponentList, [])] \<and>
    calls router GET (sends_read list_apps b) = [(AppList, [])] \<and>
    calls router GET (sends_read list_areas b) = [(AreaList, [])] \<and>
    calls router GET (sends_read (handle_component_list_data (client_component P i)) b) =
      [(ComponentDataList, [i])] \<and>
    calls router GET
      (sends_read (data_request_read (handle_component_data P d (client_component P i))) b) =
      [(ComponentDataRead, [i, d])] \<and>
    calls router PUT (handle_component_data P d (client_component P i)) =
      [(ComponentDataWrite, [i, d])] \<and>
    calls router GET (handle_component_data_categories (client_component P i)) =
      [(ComponentDataCategories, [i])] \<and>
    calls router GET (handle_component_data_groups (client_component P i)) =
      [(ComponentDataGroups, [i])] \<and>
    calls router GET (handle_component_hosts (client_component P i)) = [(ComponentHosts, [i])] \<and>
    calls router GET (handle_component_belongs_to (client_component P i)) =
      [(ComponentBelongsTo, [i])] \<and>
    calls router GET (sends_read (handle_app_list_data (client_app P i)) b) =
      [(AppDataList, [i])] \<and>
    calls router GET (sends_read (data_request_read (handle_app_data P d (client_app P i))) b) =
      [(AppDataRead, [i, d])] \<and>
    calls router PUT (handle_app_data P d (client_app P i)) = [(AppDataWrite, [i, d])] \<and>
    calls router GET (handle_app_data_categories (client_app P i)) = [(AppDataCategories, [i])] \<and>
    calls router GET (handle_app_data_groups (client_app P i)) = [(AppDataGroups, [i])] \<and>
    calls router GET (handle_app_is_located_on (client_app P i)) = [(AppIsLocatedOn, [i])] \<and>
    calls router GET (handle_app_belongs_to (client_app P i)) = [(AppBelongsTo, [i])] \<and>
    calls router GET (handle_area_contains (client_area P i)) = [(AreaContains, [i])]"
proof -
  note L = percent_encoder.paths_without_query [OF assms(1)]
    percent_encoder.sends_read_calls [OF assms(1)] percent_encoder.listing_calls [OF assms(1)]
    percent_encoder.component_data_calls [OF assms] percent_encoder.app_data_calls [OF assms]
    percent_encoder.component_resource_calls [OF assms(1,2)]
    percent_encoder.app_resource_calls [OF assms(1,2)]
    percent_encoder.area_contains_calls [OF assms(1,2)]
  have read: "rd_path (data_request_read p) = p" for p by (simp add: data_request_read_def)
  note L' = L [unfolded read]
  show ?thesis by (simp only: L' read simp_thms not_False_eq_True)
qed

theorem client_requests_reach_their_handlers_witness:
  "calls router PUT (handle_component_data plain_encoding ''a/b?c''
     (client_component plain_encoding ''ecu/../1'')) = [(ComponentDataWrite, [''ecu/../1'', ''a/b?c''])]"
  using client_requests_reach_their_handlers
    [OF plain.percent_encoder_axioms, of "''ecu/../1''" "''a/b?c''" True]
  by simp

text \<open>
  C33: \<open>get\<close> succeeds with a value exactly when the service answers its one GET request,
  without headers and body, with a 2xx status and a body that decodes to this value; \<open>put\<close>
  exactly when its one PUT request with the serialized value as JSON body is answered with a
  2xx status; and either reports a server error exactly for an answer outside 2xx, with the
  status and the error the body holds, if it holds one.
\<close>

theorem client_outcomes:
  "(client_get H self de path query w = (Inr a, w') \<longleftrightarrow>
     (\<exists>uri req status body. get_sent H self path query uri req \<and>
        answered self req w status body w' \<and> 200 \<le> status \<and> status < 300 \<and> de body = Inr a)) \<and>
   (client_get H self de path query w = (Inl (ApiError st e), w') \<longleftrightarrow>
     (\<exists>uri req body. get_sent H self path query uri req \<and>
        answered self req w st body w' \<and> \<not> (200 \<le> st \<and> st < 300) \<and> e = parsed_error H body)) \<and>
   (client_put H self path query j w = (Inr u, w') \<longleftrightarrow>
     (\<exists>uri req status body. put_sent H self path query j uri req \<and>
        answered self req w status body w' \<and> 200 \<le> status \<and> status < 300)) \<and>
   (client_put H self path query j w = (Inl (ApiError st e), w') \<longleftrightarrow>
     (\<exists>uri req body. put_sent H self path query j uri req \<and>
        answered self req w st body w' \<and> \<not> (200 \<le> st \<and> st < 300) \<and> e = parsed_error H body))"
  unfolding client_get_eqs client_put_eqs is_success_def by blast

text \<open>
  What a handler answers arrives at the caller: when the service answers a request with
  the response the server makes of a handler's result, an error comes back as a server error
  with the same status and the same SOVD error, and a success as what the body decodes to
  (for \<open>put\<close>, as success).
\<close>

theorem handler_results_arrive:
  assumes "get_sent H self path query uri req" and "put_sent H self path [] j uri' req'"
    and "respond 200 enc r = (status, answer)" and "respond 204 enc' r' = (status', answer')"
    and "answered self req w status body w'" and "hl_from_slice H body = Inr answer"
    and "answered self req' v status' body' v'" and "hl_from_slice H body' = Inr answer'"
  shows "client_get H self de path query w =
      (case r of
         Inl e \<Rightarrow> Inl (ApiError (fst (into_response e)) (Some (snd (into_response e))))
       | Inr a \<Rightarrow> map_err Json (de body), w') \<and>
    client_put H self path [] j v =
      (case r' of
         Inl e \<Rightarrow> Inl (ApiError (fst (into_response e)) (Some (snd (into_response e))))
       | Inr a \<Rightarrow> Inr (), v')"
proof
  have parsed: "parsed_error H b = Some (snd (into_response e))"
    if "hl_from_slice H b = Inr (generic_error_to_json (snd (into_response e)))" for b e
    using that by (simp add: parsed_error_def generic_error_json_roundtrip into_response_parameters)
  show "client_get H self de path query w =
      (case r of
         Inl e \<Rightarrow> Inl (ApiError (fst (into_response e)) (Some (snd (into_response e))))
       | Inr a \<Rightarrow> map_err Json (de body), w')"
    using assms(1,3,5,6) parsed
    by (cases r) (auto simp: client_get_steps get_sent_def answered_def respond_def
        into_response_fails, simp_all add: is_success_def)
  show "client_put H self path [] j v =
      (case r' of
         Inl e \<Rightarrow> Inl (ApiError (fst (into_response e)) (Some (snd (into_response e))))
       | Inr a \<Rightarrow> Inr (), v')"
    using assms(2,4,7,8) parsed
    by (cases r') (auto simp: client_put_steps put_sent_def answered_def respond_def
        into_response_fails, simp_all add: is_success_def)
qed

text \<open>A service that answers reads with a 404 and writes with a 400, and counts its requests.\<close>

definition sample_library :: "(string, unit, unit, unit) http_library" where
  "sample_library = \<lparr> hl_parse_uri = Inr, hl_display_uri = (\<lambda>u. u), hl_build_request = Inr,
     hl_from_slice = (\<lambda>b. Inr (generic_error_to_json (snd (into_response
       (if b = ''404'' then EntityNotFound ''ecu'' else DataFailure ReadOnly))))),
     hl_to_vec = (\<lambda>_. Inr ''{}'') \<rparr>"

definition sample_client :: "(nat, string, unit) client" where
  "sample_client = \<lparr> hc_base_uri = ''http://ecu/sovd/v1'',
     hc_http = (\<lambda>req n. (Inr (if cr_method req = GET
       then \<lparr> cs_status = 404, cs_body = Inr ''404'' \<rparr>
       else \<lparr> cs_status = 400, cs_body = Inr ''400'' \<rparr>), n + 1)) \<rparr>"

lemmas sample_exchange = sample_library_def sample_client_def get_sent_def put_sent_def
  answered_def respond_def

theorem handler_results_arrive_witness:
  "client_get sample_library sample_client (\<lambda>b. Inr b) ''/components/ecu'' [] 0 =
     (Inl (ApiError 404 (Some (snd (into_response (EntityNotFound ''ecu''))))) ::
        (unit, unit, unit, unit, unit, string) client_result, 1) \<and>
   client_put sample_library sample_client ''/components/ecu'' [] JNull 0 =
     (Inl (ApiError 400 (Some (snd (into_response (DataFailure ReadOnly))))) ::
        (unit, unit, unit, unit, unit, unit) client_result, 1)"
proof -
  let ?r = "Inl (EntityNotFound ''ecu'') :: (route_error, unit) result"
  let ?r' = "Inl (DataFailure ReadOnly) :: (route_error, unit) result"
  have "client_get sample_library sample_client (\<lambda>b. Inr b) ''/components/ecu'' [] 0 =
      (case ?r of
         Inl e \<Rightarrow> Inl (ApiError (fst (into_response e)) (Some (snd (into_response e)))) ::
           (unit, unit, unit, unit, unit, string) client_result
       | Inr a \<Rightarrow> map_err Json (Inr ''404''), 1) \<and>
    client_put sample_library sample_client ''/components/ecu'' [] JNull 0 =
      (case ?r' of
         Inl e \<Rightarrow> Inl (ApiError (fst (into_response e)) (Some (snd (into_response e)))) ::
           (unit, unit, unit, unit, unit, unit) client_result
       | Inr a \<Rightarrow> Inr (), 1)"
    by (rule handler_results_arrive [where
          uri = "''http://ecu/sovd/v1/components/ecu''" and
          uri' = "''http://ecu/sovd/v1/components/ecu''" and
          req = "\<lparr> cr_method = GET, cr_uri = ''http://ecu/sovd/v1/components/ecu'',
            cr_headers = [], cr_body = [] \<rparr>" and
          req' = "\<lparr> cr_method = PUT, cr_uri = ''http://ecu/sovd/v1/components/ecu'',
            cr_headers = [(''content-type'', ''application/json'')], cr_body = ''{}'' \<rparr>" and
          enc = "\<lambda>_. JNull" and enc' = "\<lambda>_. JNull" and body' = "''400''" and
          status = 404 and status' = 400 and
          answer = "generic_error_to_json (snd (into_response (EntityNotFound ''ecu'')))" and
          answer' = "generic_error_to_json (snd (into_response (DataFailure ReadOnly)))"])
      (simp_all add: sample_exchange build_uri_query_string_def)
  then show ?thesis by simp
qed

end
