(* ===== verification/Text.thy ===== *)
theory Text
  imports Prelude
begin

text \<open>
  The operations of \<open>str\<close> that the programs parse small texts with: lines, splitting at the
  first occurrence of a character, trimming a character at both ends, and words separated by
  white space.  Texts are UTF-8 byte strings, so a white-space character is one to three bytes.
\<close>

subsection \<open>Lines\<close>

abbreviation line_feed :: char where
  "line_feed \<equiv> CHR 0x0A"

abbreviation carriage_return :: char where
  "carriage_return \<equiv> CHR 0x0D"

text \<open>\<open>str::lines\<close>: a line ends at a line feed, or at the carriage return before one.\<close>

fun str_lines :: "string \<Rightarrow> string list" where
  "str_lines [] = []"
| "str_lines (c # s) =
     (if c = line_feed then [] # str_lines s
      else if c = carriage_return \<and> s \<noteq> [] \<and> hd s = line_feed then str_lines s
      else (case str_lines s of [] \<Rightarrow> [[c]] | l # ls \<Rightarrow> (c # l) # ls))"

definition unlines :: "string list \<Rightarrow> string" where
  "unlines ls = concat (map (\<lambda>l. l @ [line_feed]) ls)"

definition is_line :: "string \<Rightarrow> bool" where
  "is_line l \<longleftrightarrow> line_feed \<notin> set l \<and> (l = [] \<or> last l \<noteq> carriage_return)"

lemma str_lines_line:
  "is_line l \<Longrightarrow> str_lines (l @ line_feed # s) = l # str_lines s"
proof (induction l)
  case Nil
  then show ?case by simp
next
  case (Cons c l)
  then have "is_line l" by (auto simp: is_line_def split: if_splits)
  moreover have "\<not> (c = carriage_return \<and> hd (l @ line_feed # s) = line_feed)"
    using Cons.prems by (cases l) (auto simp: is_line_def)
  ultimately show ?case
    using Cons by (auto simp: is_line_def)
qed

lemma str_lines_unlines: "list_all is_line ls \<Longrightarrow> str_lines (unlines ls) = ls"
  by (induction ls) (simp_all add: unlines_def str_lines_line)

lemma str_lines_no_feed: "l \<in> set (str_lines s) \<Longrightarrow> line_feed \<notin> set l"
  by (induction s arbitrary: l) (auto split: if_splits list.splits)

subsection \<open>Splitting and trimming\<close>

text \<open>\<open>str::split_once\<close> at a character.\<close>

fun split_once :: "char \<Rightarrow> string \<Rightarrow> (string \<times> string) option" where
  "split_once d [] = None"
| "split_once d (c # s) =
     (if c = d then Some ([], s) else map_option (\<lambda>(a, b). (c # a, b)) (split_once d s))"

lemma split_once_first: "d \<notin> set a \<Longrightarrow> split_once d (a @ d # b) = Some (a, b)"
  by (induction a) auto

lemma split_once_parts: "split_once d s = Some (a, b) \<Longrightarrow> s = a @ d # b \<and> d \<notin> set a"
  by (induction s arbitrary: a) (auto split: if_splits)

lemma split_once_Some_iff: "split_once d s = Some (a, b) \<longleftrightarrow> s = a @ d # b \<and> d \<notin> set a"
  using split_once_first split_once_parts by metis

lemma split_once_None_iff: "split_once d s = None \<longleftrightarrow> d \<notin> set s"
  by (induction s) auto

text \<open>\<open>str::trim_matches\<close> with a character.\<close>

definition trim_matches :: "char \<Rightarrow> string \<Rightarrow> string" where
  "trim_matches d s = rev (dropWhile (\<lambda>c. c = d) (rev (dropWhile (\<lambda>c. c = d) s)))"

lemma dropWhile_hd: "xs = [] \<or> \<not> P (hd xs) \<Longrightarrow> dropWhile P xs = xs"
  by (cases xs) auto

lemma trim_matches_plain:
  "s = [] \<or> hd s \<noteq> d \<and> last s \<noteq> d \<Longrightarrow> trim_matches d s = s"
  by (auto simp: trim_matches_def dropWhile_hd hd_rev)

lemma trim_matches_wrapped: "trim_matches d (d # s @ [d]) = trim_matches d s"
proof (cases "list_all (\<lambda>c. c = d) s")
  case True
  then have "dropWhile (\<lambda>c. c = d) (s @ [d]) = []" "dropWhile (\<lambda>c. c = d) s = []"
    by (auto simp: list_all_iff)
  then show ?thesis by (simp add: trim_matches_def del: dropWhile_eq_Nil_conv)
next
  case False
  then have "dropWhile (\<lambda>c. c = d) (s @ [d]) = dropWhile (\<lambda>c. c = d) s @ [d]"
    by (auto simp: list_all_iff dropWhile_append1)
  then show ?thesis by (simp add: trim_matches_def)
qed

subsection \<open>Words\<close>

text \<open>The characters of Unicode's White_Space property, in UTF-8.\<close>

definition white_space :: "string list" where
  "white_space =
     [[CHR 0x09], [CHR 0x0A], [CHR 0x0B], [CHR 0x0C], [CHR 0x0D], [CHR 0x20],
      [CHR 0xC2, CHR 0x85], [CHR 0xC2, CHR 0xA0], [CHR 0xE1, CHR 0x9A, CHR 0x80],
      [CHR 0xE2, CHR 0x80, CHR 0x80], [CHR 0xE2, CHR 0x80, CHR 0x81],
      [CHR 0xE2, CHR 0x80, CHR 0x82], [CHR 0xE2, CHR 0x80, CHR 0x83],
      [CHR 0xE2, CHR 0x80, CHR 0x84], [CHR 0xE2, CHR 0x80, CHR 0x85],
      [CHR 0xE2, CHR 0x80, CHR 0x86], [CHR 0xE2, CHR 0x80, CHR 0x87],
      [CHR 0xE2, CHR 0x80, CHR 0x88], [CHR 0xE2, CHR 0x80, CHR 0x89],
      [CHR 0xE2, CHR 0x80, CHR 0x8A], [CHR 0xE2, CHR 0x80, CHR 0xA8],
      [CHR 0xE2, CHR 0x80, CHR 0xA9], [CHR 0xE2, CHR 0x80, CHR 0xAF],
      [CHR 0xE2, CHR 0x81, CHR 0x9F], [CHR 0xE3, CHR 0x80, CHR 0x80]]"

text \<open>The length of the white-space character a text starts with, or 0.\<close>

definition space_width :: "string \<Rightarrow> nat" where
  "space_width s = (case find (\<lambda>w. take (length w) s = w) white_space of
     None \<Rightarrow> 0 | Some w \<Rightarrow> length w)"

text \<open>\<open>str::split_whitespace\<close>, with the bytes of the current word in reverse.\<close>

function words_from :: "string \<Rightarrow> string \<Rightarrow> string list" where
  "words_from word [] = (if word = [] then [] else [rev word])"
| "words_from word (c # s) =
     (let n = space_width (c # s)
      in if n = 0 then words_from (c # word) s
         else (if word = [] then [] else [rev word]) @ words_from [] (drop n (c # s)))"
  by pat_completeness auto
termination by (relation "measure (\<lambda>(word, s). length s)") auto

definition split_whitespace :: "string \<Rightarrow> string list" where
  "split_whitespace s = words_from [] s"

lemma words_nonempty: "v \<in> set (words_from word s) \<Longrightarrow> v \<noteq> []"
  by (induction word s rule: words_from.induct) (auto simp: Let_def split: if_splits)

text \<open>Printable ASCII text without a blank is a word.\<close>

definition plain_word :: "string \<Rightarrow> bool" where
  "plain_word s \<longleftrightarrow> list_all (\<lambda>c. 0x20 < (of_char c :: nat) \<and> (of_char c :: nat) < 0x80) s"

lemma space_width_plain:
  assumes "0x20 < (of_char c :: nat)" and "(of_char c :: nat) < 0x80"
  shows "space_width (c # s) = 0"
proof -
  have "take (length w) (c # s) \<noteq> w" if "w \<in> set white_space" for w
    using that assms by (auto simp: white_space_def)
  then have "find (\<lambda>w. take (length w) (c # s) = w) white_space = None"
    by (simp add: find_None_iff)
  then show ?thesis by (simp add: space_width_def)
qed

lemma space_width_blank: "space_width (CHR '' '' # s) = 1" "space_width (line_feed # s) = 1"
  by (simp_all add: space_width_def white_space_def)

lemma words_from_plain:
  "plain_word v \<Longrightarrow> words_from word (v @ s) = words_from (rev v @ word) s"
  by (induction v arbitrary: word) (simp_all add: plain_word_def space_width_plain)

lemma first_word:
  assumes "plain_word v" and "v \<noteq> []" and "c = CHR '' '' \<or> c = line_feed"
  shows "\<exists>vs. split_whitespace (v @ c # s) = v # vs"
  using assms words_from_plain [OF assms(1), of "[]" "c # s"]
  by (auto simp: split_whitespace_def space_width_blank Let_def)

end
