(* ===== verification/Gateway.thy ===== *)
theory Gateway
  imports Server Jwt_Rego Text
begin

text \<open>
  The gateway binary of \<open>src/opensovd-cli/gateway/src\<close>: the arguments (\<open>cli.rs\<close>), the CORS layer
  built from them (\<open>cors.rs\<close>), and \<open>main.rs\<close>, which chooses the authentication backend, the
  listener and the topology and builds the server.  tower-http's CORS layer and the operating
  system's sockets are parameters; what the code relies on of the former is the locale
  \<open>cors_laws\<close>.
\<close>

subsection \<open>Arguments\<close>

record cors_args =
  co_origins :: "string list"
  co_methods :: "string list"
  co_headers :: "string list"
  co_credentials :: bool
  co_max_age :: "64 word option"

record tls_args =
  ta_cert :: "string option"
  ta_key :: "string option"
  ta_client_ca :: "string list"

record auth_args =
  aa_jwt_key :: "string option"
  aa_jwt_algo :: string
  aa_jwt_issuer :: string
  aa_policy :: "string list"
  aa_policy_data :: "string list"

record cli =
  cli_url :: string
  cli_unix_socket :: "string option"
  cli_cors :: cors_args
  cli_auth :: auth_args
  cli_tls :: tls_args
  cli_mock :: bool
  cli_serve_dir :: "string option"

text \<open>\<open>TlsArgs::build\<close>: a configuration needs both the certificate and the key.\<close>

definition tls_args_build :: "tls_args \<Rightarrow> (string, tls_config option) result" where
  "tls_args_build self =
     (case (ta_cert self, ta_key self) of
        (Some c, Some k) \<Rightarrow>
          Inr (Some (fold with_client_ca (ta_client_ca self) (tls_config_new c k)))
      | (None, None) \<Rightarrow> Inr None
      | _ \<Rightarrow> Inl ''--tls-cert and --tls-key must both be provided'')"

subsection \<open>CORS\<close>

datatype 'a allowed = AnyValue | OneOf "'a list"

record ('l, 'hv, 'me, 'hn) cors_library =
  cors_new :: 'l
  cors_parse_origin :: "string \<Rightarrow> 'hv option"
  cors_parse_method :: "string \<Rightarrow> 'me option"
  cors_parse_header :: "string \<Rightarrow> 'hn option"
  cors_allow_origin :: "'hv allowed \<Rightarrow> 'l \<Rightarrow> 'l"
  cors_allow_methods :: "'me allowed \<Rightarrow> 'l \<Rightarrow> 'l"
  cors_allow_headers :: "'hn allowed \<Rightarrow> 'l \<Rightarrow> 'l"
  cors_allow_credentials :: "bool \<Rightarrow> 'l \<Rightarrow> 'l"
  cors_max_age :: "64 word \<Rightarrow> 'l \<Rightarrow> 'l"

text \<open>The error texts; \<open>debug\<close> is the \<open>Debug\<close> formatting of a string.\<close>

datatype cors_error =
    WildcardOrigins
  | WildcardHeaders
  | InvalidCorsOrigin string
  | InvalidCorsMethod string
  | InvalidCorsHeader string

fun cors_error_text :: "(string \<Rightarrow> string) \<Rightarrow> cors_error \<Rightarrow> string" where
  "cors_error_text debug WildcardOrigins =
     ''cannot use wildcard '' @ [CHR 0x27, CHR ''*'', CHR 0x27] @
       '' for origins when credentials are enabled''"
| "cors_error_text debug WildcardHeaders =
     ''cannot use wildcard '' @ [CHR 0x27, CHR ''*'', CHR 0x27] @
       '' for headers when credentials are enabled''"
| "cors_error_text debug (InvalidCorsOrigin s) = ''invalid CORS origin: '' @ debug s"
| "cors_error_text debug (InvalidCorsMethod s) = ''invalid CORS method: '' @ debug s"
| "cors_error_text debug (InvalidCorsHeader s) = ''invalid CORS header: '' @ debug s"

definition parse_all ::
  "(string \<Rightarrow> 'a option) \<Rightarrow> (string \<Rightarrow> cors_error) \<Rightarrow> string list \<Rightarrow> (cors_error, 'a list) result" where
  "parse_all parse err texts = collect_results (\<lambda>s. ok_or (err s) (parse s)) texts"

definition create_cors_layer ::
  "('l, 'hv, 'me, 'hn) cors_library \<Rightarrow> string list \<Rightarrow> string list \<Rightarrow> string list \<Rightarrow> bool \<Rightarrow>
     64 word option \<Rightarrow> (cors_error, 'l option) result" where
  "create_cors_layer K origins methods headers credentials max_age =
     (if origins = [] then Inr None
      else
        let wildcard_origins = list_ex (\<lambda>v. v = ''*'') origins;
            wildcard_headers = list_ex (\<lambda>v. v = ''*'') headers
        in if credentials \<and> wildcard_origins then Inl WildcardOrigins
           else if credentials \<and> wildcard_headers then Inl WildcardHeaders
           else
             let layer = cors_new K
             in and_then (if wildcard_origins then Inr (cors_allow_origin K AnyValue layer)
                  else map_ok (\<lambda>parsed. cors_allow_origin K (OneOf parsed) layer)
                    (parse_all (cors_parse_origin K) InvalidCorsOrigin origins)) (\<lambda>layer.
                and_then (if list_ex (\<lambda>v. v = ''*'') methods
                  then Inr (cors_allow_methods K AnyValue layer)
                  else map_ok (\<lambda>parsed. cors_allow_methods K (OneOf parsed) layer)
                    (parse_all (cors_parse_method K) InvalidCorsMethod methods)) (\<lambda>layer.
                and_then (if wildcard_headers then Inr (cors_allow_headers K AnyValue layer)
                  else map_ok (\<lambda>parsed. cors_allow_headers K (OneOf parsed) layer)
                    (parse_all (cors_parse_header K) InvalidCorsHeader headers)) (\<lambda>layer.
                let layer = (if credentials then cors_allow_credentials K True layer else layer);
                    layer = (case max_age of Some s \<Rightarrow> cors_max_age K s layer | None \<Rightarrow> layer)
                in Inr (Some layer)))))"

text \<open>
  The documented behaviour of the CORS layer: each setter sets its part of the configuration,
  and a layer that allows credentials together with any wildcard panics when it is applied;
  \<open>usable\<close> is that it does not.
\<close>

record ('hv, 'me, 'hn) cors_view =
  cv_origins :: "'hv allowed"
  cv_methods :: "'me allowed"
  cv_headers :: "'hn allowed"
  cv_credentials :: bool
  cv_max_age :: "64 word option"

locale cors_laws =
  fixes K :: "('l, 'hv, 'me, 'hn) cors_library"
    and view :: "'l \<Rightarrow> ('hv, 'me, 'hn) cors_view"
    and usable :: "'l \<Rightarrow> bool"
  assumes view_new: "view (cors_new K) = \<lparr> cv_origins = OneOf [], cv_methods = OneOf [],
      cv_headers = OneOf [], cv_credentials = False, cv_max_age = None \<rparr>"
    and view_set: "view (cors_allow_origin K a l) = (view l)\<lparr>cv_origins := a\<rparr>"
      "view (cors_allow_methods K b l) = (view l)\<lparr>cv_methods := b\<rparr>"
      "view (cors_allow_headers K c l) = (view l)\<lparr>cv_headers := c\<rparr>"
      "view (cors_allow_credentials K d l) = (view l)\<lparr>cv_credentials := d\<rparr>"
      "view (cors_max_age K e l) = (view l)\<lparr>cv_max_age := Some e\<rparr>"
    and usable_iff: "usable l \<longleftrightarrow> \<not> (cv_credentials (view l) \<and>
      (cv_origins (view l) = AnyValue \<or> cv_methods (view l) = AnyValue \<or>
       cv_headers (view l) = AnyValue))"

text \<open>What a list of arguments allows.\<close>

definition allowed_of :: "(string \<Rightarrow> 'a option) \<Rightarrow> string list \<Rightarrow> 'a allowed option" where
  "allowed_of parse texts =
     (if ''*'' \<in> set texts then Some AnyValue
      else if list_all (\<lambda>s. parse s \<noteq> None) texts then Some (OneOf (map (the \<circ> parse) texts))
      else None)"

lemma parse_all_Inr:
  "parse_all parse err texts = Inr ys \<longleftrightarrow>
     list_all (\<lambda>s. parse s \<noteq> None) texts \<and> ys = map (the \<circ> parse) texts"
  unfolding parse_all_def
proof (induction texts arbitrary: ys)
  case Nil
  then show ?case by auto
next
  case (Cons s texts)
  then show ?case
    by (cases "parse s"; cases "collect_results (\<lambda>s. ok_or (err s) (parse s)) texts") auto
qed

lemma allowed_part:
  "(if list_ex (\<lambda>v. v = ''*'') texts then Inr (setp AnyValue l)
    else map_ok (\<lambda>ys. setp (OneOf ys) l) (parse_all parse err texts)) = Inr l' \<longleftrightarrow>
   (\<exists>a. allowed_of parse texts = Some a \<and> l' = setp a l)"
proof (cases "''*'' \<in> set texts")
  case True
  then show ?thesis by (auto simp: allowed_of_def list_ex_iff)
next
  case False
  then have "\<not> list_ex (\<lambda>v. v = ''*'') texts" by (auto simp: list_ex_iff)
  with False show ?thesis by (simp add: allowed_of_def parse_all_Inr map_ok_Inr_iff)
qed

lemma allowed_part_listed:
  "\<not> list_ex (\<lambda>v. v = ''*'') texts \<Longrightarrow>
   map_ok (\<lambda>ys. setp (OneOf ys) l) (parse_all parse err texts) = Inr l' \<longleftrightarrow>
   (\<exists>a. allowed_of parse texts = Some a \<and> l' = setp a l)"
  using allowed_part [of texts setp l parse err l'] by simp

context cors_laws
begin

text \<open>A created layer is what the arguments say, and unusable only for a method wildcard.\<close>

lemma created_layer:
  assumes "create_cors_layer K origins methods headers credentials max_age = Inr (Some l)"
  shows "origins \<noteq> []" and "\<not> (credentials \<and> (''*'' \<in> set origins \<or> ''*'' \<in> set headers))"
    and "Some (cv_origins (view l)) = allowed_of (cors_parse_origin K) origins"
    and "Some (cv_methods (view l)) = allowed_of (cors_parse_method K) methods"
    and "Some (cv_headers (view l)) = allowed_of (cors_parse_header K) headers"
    and "cv_credentials (view l) = credentials" and "cv_max_age (view l) = max_age"
proof -
  show "origins \<noteq> []" using assms by (auto simp: create_cors_layer_def)
  let ?last = "\<lambda>layer. let layer = (if credentials then cors_allow_credentials K True layer else layer)
      in case max_age of Some s \<Rightarrow> cors_max_age K s layer | None \<Rightarrow> layer"
  have "\<not> (credentials \<and> (list_ex (\<lambda>v. v = ''*'') origins \<or> list_ex (\<lambda>v. v = ''*'') headers)) \<and>
    (\<exists>a b c. allowed_of (cors_parse_origin K) origins = Some a \<and>
      allowed_of (cors_parse_method K) methods = Some b \<and>
      allowed_of (cors_parse_header K) headers = Some c \<and>
      l = ?last (cors_allow_headers K c (cors_allow_methods K b
          (cors_allow_origin K a (cors_new K)))))"
    using assms unfolding create_cors_layer_def Let_def
    by (cases credentials) (auto simp only: and_then_Inr_iff allowed_part allowed_part_listed
        simp_thms if_True if_False sum.inject option.inject sum.distinct option.distinct
        de_Morgan_conj de_Morgan_disj split: if_split_asm)
  then obtain a b c where
    guard: "\<not> (credentials \<and> (list_ex (\<lambda>v. v = ''*'') origins \<or> list_ex (\<lambda>v. v = ''*'') headers))" and
    abc: "allowed_of (cors_parse_origin K) origins = Some a"
      "allowed_of (cors_parse_method K) methods = Some b"
      "allowed_of (cors_parse_header K) headers = Some c" and
    l: "l = ?last (cors_allow_headers K c (cors_allow_methods K b
          (cors_allow_origin K a (cors_new K))))"
    by blast
  from guard show "\<not> (credentials \<and> (''*'' \<in> set origins \<or> ''*'' \<in> set headers))"
    by (auto simp: list_ex_iff)
  show "Some (cv_origins (view l)) = allowed_of (cors_parse_origin K) origins"
    "Some (cv_methods (view l)) = allowed_of (cors_parse_method K) methods"
    "Some (cv_headers (view l)) = allowed_of (cors_parse_header K) headers"
    "cv_credentials (view l) = credentials" "cv_max_age (view l) = max_age"
    by (cases max_age; simp add: abc l view_new view_set Let_def)+
qed

lemma created_layer_usable:
  assumes "create_cors_layer K origins methods headers credentials max_age = Inr (Some l)"
  shows "usable l \<longleftrightarrow> \<not> (credentials \<and> ''*'' \<in> set methods)"
proof -
  have any: "allowed_of parse texts = Some AnyValue \<longleftrightarrow> ''*'' \<in> set texts" 
    for parse :: "string \<Rightarrow> 'a option" and texts
    by (auto simp: allowed_of_def)
  note created = created_layer [OF assms]
  show ?thesis
    using created(2) created(3-5) [symmetric] created(6) by (auto simp: usable_iff allowed_of_def
        split: if_splits)
qed

end

text \<open>A layer that is its configuration meets the laws.\<close>

definition plain_cors :: "((string, string, string) cors_view, string, string, string) cors_library" where
  "plain_cors = \<lparr>
     cors_new = \<lparr> cv_origins = OneOf [], cv_methods = OneOf [], cv_headers = OneOf [],
       cv_credentials = False, cv_max_age = None \<rparr>,
     cors_parse_origin = Some, cors_parse_method = (\<lambda>m. if CHR '' '' \<in> set m then None else Some m),
     cors_parse_header = Some,
     cors_allow_origin = (\<lambda>a l. l\<lparr>cv_origins := a\<rparr>),
     cors_allow_methods = (\<lambda>a l. l\<lparr>cv_methods := a\<rparr>),
     cors_allow_headers = (\<lambda>a l. l\<lparr>cv_headers := a\<rparr>),
     cors_allow_credentials = (\<lambda>c l. l\<lparr>cv_credentials := c\<rparr>),
     cors_max_age = (\<lambda>s l. l\<lparr>cv_max_age := Some s\<rparr>) \<rparr>"

definition plain_cors_usable :: "(string, string, string) cors_view \<Rightarrow> bool" where
  "plain_cors_usable l \<longleftrightarrow> \<not> (cv_credentials l \<and>
     (cv_origins l = AnyValue \<or> cv_methods l = AnyValue \<or> cv_headers l = AnyValue))"

interpretation cors: cors_laws plain_cors "\<lambda>l. l" plain_cors_usable
  by unfold_locales (simp_all add: plain_cors_def plain_cors_usable_def)

subsection \<open>Choosing the authentication backend\<close>

datatype ('b64, 'io, 'te) gateway_error =
    UnsupportedAlgorithm string
  | BadBase64 'b64
  | PolicyFailure string
  | MalformedUrl
  | MissingAuthority
  | ListenFailure 'io
  | TlsArguments string
  | UsageExit cors_error
  | ServeDirFormat
  | BuilderFailure builder_error
  | ServeFailure "('io, 'te) serve_error"

definition create_jwt_authenticator ::
  "('alg, 'key) jsonwebtoken \<Rightarrow> (string \<Rightarrow> ('b64, string) result) \<Rightarrow> string \<Rightarrow> auth_args \<Rightarrow>
     (('b64, 'io, 'te) gateway_error, ('alg, 'key) jwt_authenticator) result" where
  "create_jwt_authenticator J base64_decode secret auth =
     and_then (map_err UnsupportedAlgorithm (jwt_algorithm_from_str (aa_jwt_algo auth))) (\<lambda>algo.
     and_then (map_err BadBase64 (base64_decode secret)) (\<lambda>key.
       Inr (jwt_authenticator_new J algo key (aa_jwt_issuer auth))))"

definition create_rego_authorizer ::
  "('eng, 'val) regorus \<Rightarrow> (string \<Rightarrow> (string, string) result) \<Rightarrow> auth_args \<Rightarrow>
     (('b64, 'io, 'te) gateway_error, 'eng regorus_authorizer) result" where
  "create_rego_authorizer R read_to_string auth =
     map_err PolicyFailure
       (regorus_authorizer_from_paths R read_to_string (aa_policy auth) (aa_policy_data auth))"

text \<open>
  \<open>run\<close>: \<open>serve\<close> is generic in the authenticator and the authorizer, so it is used at two
  identity types; \<open>serve_open\<close> is its instance for \<open>NoAuth\<close>.
\<close>

definition run ::
  "('alg, 'key) jsonwebtoken \<Rightarrow> ('eng, 'val) regorus \<Rightarrow> (string \<Rightarrow> ('b64, string) result) \<Rightarrow>
     (string \<Rightarrow> (string, string) result) \<Rightarrow>
     (cli \<Rightarrow> ('w, 'x, unit) authenticator \<Rightarrow> ('w, 'x, unit) authorizer \<Rightarrow>
        (('b64, 'io, 'te) gateway_error, 'r) result) \<Rightarrow>
     (cli \<Rightarrow> ('w, 'x, claims) authenticator \<Rightarrow> ('w, 'x, claims) authorizer \<Rightarrow>
        (('b64, 'io, 'te) gateway_error, 'r) result) \<Rightarrow>
     cli \<Rightarrow> (('b64, 'io, 'te) gateway_error, 'r) result" where
  "run J R base64_decode read_to_string serve_open serve_claims cli =
     (case aa_jwt_key (cli_auth cli) of
        Some key \<Rightarrow>
          and_then (create_jwt_authenticator J base64_decode key (cli_auth cli)) (\<lambda>authenticator.
            if aa_policy (cli_auth cli) = [] then
              serve_claims cli (jwt_authenticate J authenticator) allow_all
            else
              and_then (create_rego_authorizer R read_to_string (cli_auth cli)) (\<lambda>authorizer.
                serve_claims cli (jwt_authenticate J authenticator)
                  (regorus_authorize R authorizer)))
      | None \<Rightarrow> serve_open cli no_auth allow_all)"

subsection \<open>Listener and topology\<close>

text \<open>
  The sockets of the operating system; \<open>os_activated\<close> is the first descriptor systemd passes.
\<close>

record ('fd, 'tcp, 'unix, 'io) os_sockets =
  os_activated :: "('io, 'fd option) result"
  os_tcp_from_fd :: "'fd \<Rightarrow> ('io, 'tcp) result"
  os_unix_bind :: "string \<Rightarrow> ('io, 'unix) result"
  os_unix_bind_abstract :: "string \<Rightarrow> ('io, 'unix) result"
  os_tcp_bind :: "string \<Rightarrow> ('io, 'tcp) result"

definition select_listener ::
  "('fd, 'tcp, 'unix, 'io) os_sockets \<Rightarrow> cli \<Rightarrow> string \<Rightarrow> ('io, ('tcp, 'unix) listener) result" where
  "select_listener S cli authority =
     and_then (os_activated S) (\<lambda>fd.
       case fd of
         Some fd \<Rightarrow> map_ok Tcp (os_tcp_from_fd S fd)
       | None \<Rightarrow>
           (case cli_unix_socket cli of
              Some socket_path \<Rightarrow>
                (case strip_prefix ''@'' socket_path of
                   Some name \<Rightarrow> map_ok Unix (os_unix_bind_abstract S name)
                 | None \<Rightarrow> map_ok Unix (os_unix_bind S socket_path))
            | None \<Rightarrow> map_ok Tcp (os_tcp_bind S authority)))"

definition configure_listener where
  "configure_listener S builder cli authority =
     map_ok (\<lambda>l. with_listener l builder) (select_listener S cli authority)"

text \<open>Targets without unix sockets bind the authority only.\<close>

definition configure_listener_portable where
  "configure_listener_portable S builder cli authority =
     map_ok (\<lambda>l. with_listener (Tcp l) builder) (os_tcp_bind S authority)"

definition configure_topology where
  "configure_topology mock_topology default_topology builder cli =
     with_topology (if cli_mock cli then mock_topology else default_topology) builder"

subsection \<open>Serving\<close>

text \<open>
  The values the surrounding crates provide: the path and authority of a parsed URL, the trace
  layer and \<open>option_layer\<close>, the static file service, the default shutdown signal and versions.
  The gateway has no discovery providers, so their type is immaterial.
\<close>

record ('topo, 'l, 'c, 'svc, 'v, 'sd) gateway_parts =
  gp_url :: "string \<Rightarrow> (string \<times> string option) option"
  gp_uri_path :: "string \<Rightarrow> string option"
  gp_mock_topology :: 'topo
  gp_default_topology :: 'topo
  gp_trace_layer :: 'l
  gp_option_layer :: "'c option \<Rightarrow> 'l"
  gp_serve_dir :: "string \<Rightarrow> 'svc"
  gp_vendor_info :: 'v
  gp_shutdown :: 'sd
  gp_server_version :: string

text \<open>
  The builder as \<open>serve\<close> fills it in, and the server it builds; an error returns before the
  steps after it.
\<close>

definition add_serve_dir where
  "add_serve_dir G cli builder =
     (case cli_serve_dir cli of
        None \<Rightarrow> Inr builder
      | Some arg \<Rightarrow>
          (case split_once (CHR '':'') arg of
             None \<Rightarrow> Inl ServeDirFormat
           | Some (path, dir) \<Rightarrow> Inr (with_service path (gp_serve_dir G dir) builder)))"

definition add_tls where
  "add_tls tls builder = (case tls of Some cfg \<Rightarrow> with_tls cfg builder | None \<Rightarrow> builder)"

definition gateway_server ::
  "('r, 'l, 'w, 'e, 'i, 'b) routing_library \<Rightarrow> ('fd, 'tcp, 'unix, 'io) os_sockets \<Rightarrow>
     ('c, 'hv, 'me, 'hn) cors_library \<Rightarrow>
     ('topo, 'l, 'c, ('w, 'e, 'i, 'b) service, 'v, 'sd) gateway_parts \<Rightarrow> cli \<Rightarrow>
     ('w, 'i, 'i) authenticator \<Rightarrow> ('w, 'i, 'i) authorizer \<Rightarrow>
     (('b64, 'io, 'te) gateway_error,
      (('tcp, 'unix) listener, 'sd, 'v, ('w, 'i, 'i) authenticator, ('w, 'i, 'i) authorizer, 'topo,
       unit, 'l, ('w, 'e, 'i, 'b) service, tls_config) server) result" where
  "gateway_server A S K G cli authn authz =
     and_then (ok_or MalformedUrl (gp_url G (cli_url cli))) (\<lambda>(base_uri, authority).
     and_then (ok_or MissingAuthority authority) (\<lambda>authority.
     let builder = with_authorizer authz (with_authenticator authn
           (server_builder_new (gp_server_version G) (gp_shutdown G) (gp_default_topology G)
              (tw_identity A) ::
              (('tcp, 'unix) listener, 'sd, vendor_info, ('w, 'i, unit) authenticator,
               ('w, 'i, unit) authorizer, 'topo, unit, 'l, ('w, 'e, 'i, 'b) service, tls_config)
              server_builder))
     in and_then (map_err ListenFailure (configure_listener S builder cli authority)) (\<lambda>builder.
     let builder = configure_topology (gp_mock_topology G) (gp_default_topology G) builder cli
     in and_then (map_err TlsArguments (tls_args_build (cli_tls cli))) (\<lambda>tls.
     let builder = add_tls tls builder; c = cli_cors cli
     in and_then (map_err UsageExit (create_cors_layer K (co_origins c) (co_methods c)
           (co_headers c) (co_credentials c) (co_max_age c))) (\<lambda>cors.
     and_then (add_serve_dir G cli builder) (\<lambda>builder.
     let builder = with_layer A (gp_option_layer G cors) (with_layer A (gp_trace_layer G) builder)
     in and_then (map_err BuilderFailure (with_base_uri (gp_uri_path G) base_uri builder)) (\<lambda>builder.
     map_err BuilderFailure (server_builder_build
       (with_vendor_info (gp_vendor_info G) builder)))))))))"

text \<open>
  Readiness is announced just before serving; a failure is only a warning, the lines of which are
  the result.
\<close>

definition notify_readiness :: "('io \<Rightarrow> string) \<Rightarrow> ('io, unit) result \<Rightarrow> string list" where
  "notify_readiness display notified =
     (case notified of
        Inl e \<Rightarrow> [''Failed to notify systemd readiness error='' @ display e]
      | Inr _ \<Rightarrow> [])"

definition gateway_serve where
  "gateway_serve A S K G Y build_tls routes cli authn authz =
     and_then (gateway_server A S K G cli authn authz) (\<lambda>server.
       map_err ServeFailure (snd (serve A Y build_tls routes server)))"

end
