(* ===== verification/Gateway_Properties.thy ===== *)
theory Gateway_Properties
  imports Gateway Server_Properties
begin

text \<open>
  The properties of the gateway: a configured token secret protects every request it serves
  whatever else is configured, the listener, TLS, base path and layers of the server are those
  of the arguments, and the CORS layer is exactly the configured one.
\<close>

subsection \<open>What a built gateway server is\<close>

lemma with_client_cas:
  "tc_client_cas (fold with_client_ca cas cfg) = tc_client_cas cfg @ cas"
  "tc_cert (fold with_client_ca cas cfg) = tc_cert cfg"
  "tc_key (fold with_client_ca cas cfg) = tc_key cfg"
  by (induction cas arbitrary: cfg) (simp_all add: with_client_ca_def)

lemma tls_args_build_Inr:
  "tls_args_build args = Inr tls \<longleftrightarrow>
     (case tls of
        None \<Rightarrow> ta_cert args = None \<and> ta_key args = None
      | Some cfg \<Rightarrow> ta_cert args = Some (tc_cert cfg) \<and> ta_key args = Some (tc_key cfg) \<and>
          tc_client_cas cfg = ta_client_ca args)"
  by (cases "ta_cert args"; cases "ta_key args"; cases tls)
    (auto simp: tls_args_build_def tls_config_new_def with_client_cas
      intro!: tls_config.equality)

text \<open>The service a gateway may add for static files.\<close>

definition extra_services :: "('topo, 'l, 'c, 'svc, 'v, 'sd) gateway_parts \<Rightarrow> cli \<Rightarrow> (string \<times> 'svc) list" where
  "extra_services G cli =
     (case Option.bind (cli_serve_dir cli) (split_once (CHR '':'')) of
        None \<Rightarrow> [] | Some (path, dir) \<Rightarrow> [(path, gp_serve_dir G dir)])"

definition cors_of :: "('l, 'hv, 'me, 'hn) cors_library \<Rightarrow> cli \<Rightarrow> (cors_error, 'l option) result" where
  "cors_of K cli = (let c = cli_cors cli in
     create_cors_layer K (co_origins c) (co_methods c) (co_headers c) (co_credentials c) (co_max_age c))"

lemma add_serve_dir_Inr:
  "add_serve_dir G cli b = Inr b' \<longleftrightarrow>
     (\<forall>arg. cli_serve_dir cli = Some arg \<longrightarrow> split_once (CHR '':'') arg \<noteq> None) \<and>
     b' = b\<lparr>sb_services := sb_services b @ extra_services G cli\<rparr>"
  by (auto simp: add_serve_dir_def extra_services_def with_service_def split: option.splits)

lemma gateway_server_Inr:
  assumes "gateway_server A S K G cli authn authz = Inr server"
  shows "sv_authenticator server = authn" and "sv_authorizer server = authz"
    and "\<exists>path authority cors tls base.
      gp_url G (cli_url cli) = Some (path, Some authority) \<and>
      select_listener S cli authority = Inr (sv_listener server) \<and>
      tls_args_build (cli_tls cli) = Inr tls \<and> sv_tls_config server = tls \<and>
      cors_of K cli = Inr cors \<and>
      sv_layer server = tw_stack A (gp_option_layer G cors)
        (tw_stack A (gp_trace_layer G) (tw_identity A)) \<and>
      gp_uri_path G path = Some base \<and> sv_base server = base"
    and "sv_services server = extra_services G cli"
    and "sv_vendor_info server = Some (gp_vendor_info G)" and "sv_discovery_providers server = []"
    and "sv_topology server = (if cli_mock cli then gp_mock_topology G else gp_default_topology G)"
  using assms
  by (auto simp: gateway_server_def Let_def and_then_Inr_iff add_serve_dir_Inr configure_listener_def
      map_ok_Inr_iff cors_of_def server_builder_build_def server_builder_defs configure_topology_def
      server_builder_new_def add_tls_def split: option.splits prod.splits)

fun served_router :: "('tcp, 'unix, 'tl, 'r) served \<Rightarrow> 'r" where
  "served_router (ServeTcp _ r) = r"
| "served_router (ServeUnix _ r) = r"
| "served_router (ServeTls _ r) = r"

lemma serve_router:
  assumes "snd (serve A Y build_tls routes server) = Inr sv"
  shows "served_router sv = build_router A (routes (sv_vendor_info server) (sv_topology server))
    (normalize_base (sv_base server)) (sv_authenticator server) (sv_authorizer server)
    (sv_layer server) (sv_services server)"
  using assms
  by (auto simp: serve_def Let_def and_then_Inr_iff map_ok_Inr_iff
      split: option.splits listener.splits)

text \<open>What the service of a gateway router does: the protected routes below the user layers.\<close>

lemma gateway_serve_Inr:
  assumes "routing_library A"
    and "gateway_serve A S K G Y build_tls routes cli authn authz =
      (Inr sv :: (('b64, 'io, 'te) gateway_error, ('tcp, 'unix, 'tl, 'r) served) result)"
  shows "\<exists>cors inner. ax_call A (served_router sv) =
    tw_layer A (gp_trace_layer G) (tw_layer A (gp_option_layer G cors)
      (authorized_service authn authz inner)) \<and> cors_of K cli = Inr cors"
proof -
  from assms(2) obtain server where server: "gateway_server A S K G cli authn authz =
      (Inr server :: (('b64, 'io, 'te) gateway_error, _) result)"
    and serve: "snd (serve A Y build_tls routes server) = Inr sv"
    by (auto simp: gateway_serve_def and_then_Inr_iff)
  note fields = gateway_server_Inr [OF server]
  from fields(3) obtain cors where cors: "cors_of K cli = Inr cors"
    "sv_layer server = tw_stack A (gp_option_layer G cors)
      (tw_stack A (gp_trace_layer G) (tw_identity A))"
    by blast
  show ?thesis
    unfolding serve_router [OF serve] routing_library.build_router_call [OF assms(1)]
      fields(1,2) cors(2)
    using cors(1) by (auto simp: routing_library.layer_stack [OF assms(1)]
        routing_library.layer_identity [OF assms(1)])
qed

lemma gateway_serve_policy [simp]:
  "gateway_serve A S K G Y build_tls routes
     (cli\<lparr>cli_auth := auth\<rparr>) authn authz =
   gateway_serve A S K G Y build_tls routes cli authn authz"
  by (simp add: gateway_serve_def gateway_server_def configure_listener_def select_listener_def
      configure_topology_def add_serve_dir_def)

lemma unverified_is_refused:
  assumes "jwt_library J"
    and "\<And>t c. rp_header_text parts ''authorization'' = Some (''Bearer '' @ t) \<Longrightarrow>
      jl_verified J (configured_algorithm J algo) (configured_key J algo key) t = Some c \<Longrightarrow>
      cl_iss c \<noteq> None \<and> cl_iss c \<noteq> Some issuer"
  shows "authorized_service (jwt_authenticate J (jwt_authenticator_new J algo key issuer)) authz
    inner (parts, body) w = (Inr \<lparr> hr_status = 401, hr_body = None \<rparr>, w)"
proof -
  let ?a = "jwt_authenticate J (jwt_authenticator_new J algo key issuer)"
  have "fst (?a parts w) \<noteq> Inr c" for c
  proof
    assume "fst (?a parts w) = Inr c"
    then have "?a parts w = (Inr c, snd (?a parts w))" by (simp add: prod_eq_iff)
    with assms(2) show False
      unfolding jwt_library.authenticate_Inr_iff [OF assms(1)] by blast
  qed
  then obtain e w' where "?a parts w = (Inl e, w')"
    by (cases "?a parts w"; cases "fst (?a parts w)") auto
  then show ?thesis using authenticate_failure by (fastforce simp: authorized_service_cases)
qed

subsection \<open>Concrete instances\<close>

definition sample_cli :: "auth_args \<Rightarrow> cli" where
  "sample_cli auth = \<lparr> cli_url = ''http://localhost:7690/sovd'', cli_unix_socket = Some ''@sovd'',
     cli_cors = \<lparr> co_origins = [''http://ui''], co_methods = [''*''], co_headers = [],
       co_credentials = True, co_max_age = None \<rparr>,
     cli_auth = auth, cli_tls = \<lparr> ta_cert = None, ta_key = None, ta_client_ca = [] \<rparr>,
     cli_mock = False, cli_serve_dir = None \<rparr>"

definition sample_auth :: "string option \<Rightarrow> string list \<Rightarrow> auth_args" where
  "sample_auth key policies = \<lparr> aa_jwt_key = key, aa_jwt_algo = ''HS512'', aa_jwt_issuer = ''OpenSOVD'',
     aa_policy = policies, aa_policy_data = [] \<rparr>"

definition sample_os :: "(unit, unit, unit, string) os_sockets" where
  "sample_os = \<lparr> os_activated = Inr None, os_tcp_from_fd = (\<lambda>_. Inr ()),
     os_unix_bind = (\<lambda>_. Inl ''denied''),
     os_unix_bind_abstract = (\<lambda>_. Inr ()), os_tcp_bind = (\<lambda>_. Inr ()) \<rparr>"

lemma sample_arguments [simp]:
  "cli_auth (sample_cli auth) = auth" "aa_jwt_key (sample_auth key ps) = key"
  "aa_jwt_algo (sample_auth key ps) = ''HS512''" "aa_policy (sample_auth key ps) = ps"
  "aa_jwt_issuer (sample_auth key ps) = ''OpenSOVD''"
  by (simp_all add: sample_cli_def sample_auth_def)

type_synonym 'i sample_service = "(nat, unit, 'i, unit) service"

definition sample_parts_of ::
  "(unit, 'i sample_service \<Rightarrow> 'i sample_service, (string, string, string) cors_view,
    'i sample_service, vendor_info, unit) gateway_parts" where
  "sample_parts_of = \<lparr> gp_url = (\<lambda>_. Some (''/sovd'', Some ''localhost:7690'')),
     gp_uri_path = Some, gp_mock_topology = (), gp_default_topology = (),
     gp_trace_layer = (\<lambda>s. s), gp_option_layer = (\<lambda>_ s. s),
     gp_serve_dir = (\<lambda>_. counting_service),
     gp_vendor_info = \<lparr> ve_version = ''0.1.0'', ve_name = ''OpenSOVD'' \<rparr>, gp_shutdown = (),
     gp_server_version = ''0.1.0'' \<rparr>"

definition sample_serve ::
  "cli \<Rightarrow> (nat, 'i, 'i) authenticator \<Rightarrow> (nat, 'i, 'i) authorizer \<Rightarrow>
     ((unit, string, unit) gateway_error, (unit, unit, unit, 'i sample_service) served) result" where
  "sample_serve = gateway_serve plain_routing sample_os plain_cors sample_parts_of sample_sockets
     (\<lambda>_ _. Inl ()) (\<lambda>_ _. counting_service)"

lemma sample_cors: "cors_of plain_cors (sample_cli auth) =
  Inr (Some \<lparr> cv_origins = OneOf [''http://ui''], cv_methods = AnyValue, cv_headers = OneOf [],
    cv_credentials = True, cv_max_age = None \<rparr>)"
  by (simp add: cors_of_def sample_cli_def create_cors_layer_def plain_cors_def parse_all_def
      Let_def)

lemmas sample_gateway = gateway_server_def sample_cli_def sample_os_def sample_parts_of_def
  configure_listener_def select_listener_def configure_topology_def tls_args_build_def
  add_serve_dir_def add_tls_def server_builder_defs server_builder_build_def server_builder_new_def

lemma sample_serves: "\<exists>r. sample_serve (sample_cli auth) authn authz = Inr (ServeUnix () r)"
  using sample_cors [of auth]
  by (simp add: sample_serve_def gateway_serve_def sample_gateway cors_of_def Let_def serve_def
      sample_sockets_def local_addr_def)

subsection \<open>Properties\<close>

text \<open>
  C14: With a token secret configured the gateway serves nothing unprotected: what it serves,
  below the trace and CORS layers, is the routes behind token authentication under exactly the
  configured algorithm, decoded key and issuer and behind the policies' authorizer, or behind
  none when no policy is given; a request without a verified token of this issuer (or without
  issuer) is answered 401 whatever the routes do; and a bad algorithm, secret or policy is an
  error, never a fallback.
\<close>

theorem token_secret_protects_every_route:
  assumes "routing_library A" and "jwt_library J"
    and "aa_jwt_key (cli_auth cli) = Some secret"
    and "run J R b64 rd serve_open (gateway_serve A S K G Y build_tls routes) cli =
      (Inr sv :: (('b64, 'io, 'te) gateway_error, ('tcp, 'unix, 'tl, 'r) served) result)"
  shows "\<exists>algo key authz cors inner.
    jwt_algorithm_from_str (aa_jwt_algo (cli_auth cli)) = Inr algo \<and> b64 secret = Inr key \<and>
    ax_call A (served_router sv) =
      tw_layer A (gp_trace_layer G) (tw_layer A (gp_option_layer G cors)
        (authorized_service
          (jwt_authenticate J (jwt_authenticator_new J algo key (aa_jwt_issuer (cli_auth cli))))
          authz inner)) \<and>
    (if aa_policy (cli_auth cli) = [] then authz = allow_all
     else \<exists>z. regorus_authorizer_from_paths R rd (aa_policy (cli_auth cli))
         (aa_policy_data (cli_auth cli)) = Inr z \<and> authz = regorus_authorize R z) \<and>
    (\<forall>parts body w.
       (\<forall>t c. rp_header_text parts ''authorization'' = Some (''Bearer '' @ t) \<and>
          jl_verified J (configured_algorithm J algo) (configured_key J algo key) t = Some c \<longrightarrow>
          cl_iss c \<noteq> None \<and> cl_iss c \<noteq> Some (aa_jwt_issuer (cli_auth cli))) \<longrightarrow>
       authorized_service
         (jwt_authenticate J (jwt_authenticator_new J algo key (aa_jwt_issuer (cli_auth cli))))
         authz inner (parts, body) w = (Inr \<lparr> hr_status = 401, hr_body = None \<rparr>, w))"
proof -
  let ?auth = "cli_auth cli"
  obtain algo key where algo: "jwt_algorithm_from_str (aa_jwt_algo ?auth) = Inr algo"
    and key: "b64 secret = Inr key"
    using assms(3,4) by (auto simp: run_def create_jwt_authenticator_def and_then_Inr_iff)
  let ?authn = "jwt_authenticate J (jwt_authenticator_new J algo key (aa_jwt_issuer ?auth))"
  obtain authz where authz: "if aa_policy ?auth = [] then authz = allow_all
      else \<exists>z. regorus_authorizer_from_paths R rd (aa_policy ?auth) (aa_policy_data ?auth) = Inr z \<and>
        authz = regorus_authorize R z"
    and serve: "gateway_serve A S K G Y build_tls routes cli ?authn authz =
      (Inr sv :: (('b64, 'io, 'te) gateway_error, ('tcp, 'unix, 'tl, 'r) served) result)"
    using assms(3,4) algo key
    by (auto simp: run_def create_jwt_authenticator_def create_rego_authorizer_def and_then_Inr_iff
        split: if_splits)
  from gateway_serve_Inr [OF assms(1) serve] obtain cors inner where call:
    "ax_call A (served_router sv) = tw_layer A (gp_trace_layer G)
      (tw_layer A (gp_option_layer G cors) (authorized_service ?authn authz inner))"
    by blast
  show ?thesis
    by (rule exI [of _ algo], rule exI [of _ key], rule exI [of _ authz], rule exI [of _ cors],
        rule exI [of _ inner], intro conjI algo key call authz allI impI
        unverified_is_refused [OF assms(2)]) auto
qed

theorem token_secret_protects_every_route_witness:
  "\<exists>sv. run sample_tokens recording_engine Inr Inr (\<lambda>_ _ _. Inl MissingAuthority) sample_serve
      (sample_cli (sample_auth (Some ''secret'') [])) = Inr sv \<and>
    ax_call plain_routing (served_router sv) (bearer_parts ''forged'' None, ()) 7 =
      (Inr \<lparr> hr_status = 401, hr_body = None \<rparr>, 7)"
proof -
  let ?cli = "sample_cli (sample_auth (Some ''secret'') [])"
  obtain r where r: "sample_serve ?cli (jwt_authenticate sample_tokens
      (jwt_authenticator_new sample_tokens HS512 ''secret'' ''OpenSOVD'')) allow_all =
      Inr (ServeUnix () r)"
    using sample_serves by blast
  then have served: "run sample_tokens recording_engine Inr Inr (\<lambda>_ _ _. Inl MissingAuthority)
      sample_serve ?cli = Inr (ServeUnix () r)"
    by (simp add: run_def create_jwt_authenticator_def
        jwt_algorithm_from_str_def)
  have laws: "jwt_library sample_tokens"
    unfolding sample_tokens_def by (rule tokens.jwt_library_axioms)
  have none: "jl_verified sample_tokens a k t = Some c \<Longrightarrow> t = ''t0k3n''" for a k t c
    by (simp add: sample_tokens_def token_table_def split: if_splits)
  have "ax_call plain_routing r (bearer_parts ''forged'' None, ()) 7 =
      (Inr \<lparr> hr_status = 401, hr_body = None \<rparr>, 7)"
    using token_secret_protects_every_route [OF plain_routing.routing_library_axioms laws _
        served [unfolded sample_serve_def], of "''secret''"]
    by (auto simp: plain_routing_def sample_parts_of_def bearer_parts_def
        dest!: none spec [of _ "bearer_parts ''forged'' None"])
  with served show ?thesis by simp
qed

text \<open>
  Without a token secret the policy arguments have no effect: whatever policy and data
  files are given, even unreadable ones, the gateway serves the same, and what it serves lets
  every request through to its routes.
\<close>

theorem policies_need_a_token_secret:
  assumes "routing_library A" and "aa_jwt_key (cli_auth cli) = None"
    and "run J R b64 rd (gateway_serve A S K G Y build_tls routes) serve_claims cli =
      (Inr sv :: (('b64, 'io, 'te) gateway_error, ('tcp, 'unix, 'tl, 'r) served) result)"
  shows "run J R b64 rd (gateway_serve A S K G Y build_tls routes) serve_claims
      (cli\<lparr>cli_auth := (cli_auth cli)\<lparr>aa_policy := policies, aa_policy_data := dataset\<rparr>\<rparr>) = Inr sv \<and>
    (\<exists>cors inner.
      ax_call A (served_router sv) =
        tw_layer A (gp_trace_layer G) (tw_layer A (gp_option_layer G cors)
          (authorized_service no_auth allow_all inner)) \<and>
      (\<forall>parts body w. authorized_service no_auth allow_all inner (parts, body) w =
         inner (parts\<lparr>rp_identity := Some ()\<rparr>, body) w))"
proof
  have serve: "gateway_serve A S K G Y build_tls routes cli no_auth allow_all =
      (Inr sv :: (('b64, 'io, 'te) gateway_error, ('tcp, 'unix, 'tl, 'r) served) result)"
    using assms(2,3) by (simp add: run_def)
  with assms(2) show "run J R b64 rd (gateway_serve A S K G Y build_tls routes) serve_claims
      (cli\<lparr>cli_auth := (cli_auth cli)\<lparr>aa_policy := policies, aa_policy_data := dataset\<rparr>\<rparr>) = Inr sv"
    by (simp add: run_def)
  show "\<exists>cors inner.
      ax_call A (served_router sv) =
        tw_layer A (gp_trace_layer G) (tw_layer A (gp_option_layer G cors)
          (authorized_service no_auth allow_all inner)) \<and>
      (\<forall>parts body w. authorized_service no_auth allow_all inner (parts, body) w =
         inner (parts\<lparr>rp_identity := Some ()\<rparr>, body) w)"
    using gateway_serve_Inr [OF assms(1) serve] by (auto simp: authorized_service_open)
qed

theorem policies_need_a_token_secret_witness:
  "\<exists>sv. run sample_tokens recording_engine Inr (\<lambda>_. Inl ''unreadable'') sample_serve
      (\<lambda>_ _ _. Inl MissingAuthority)
      ((sample_cli (sample_auth None []))\<lparr>cli_auth := (cli_auth (sample_cli (sample_auth None [])))
        \<lparr>aa_policy := [''deny.rego''], aa_policy_data := []\<rparr>\<rparr>) = Inr sv"
proof -
  obtain r where "sample_serve (sample_cli (sample_auth None [])) no_auth allow_all =
      Inr (ServeUnix () r)"
    using sample_serves by blast
  then have served: "run sample_tokens recording_engine Inr (\<lambda>_. Inl ''unreadable'') sample_serve
      (\<lambda>_ _ _. Inl MissingAuthority) (sample_cli (sample_auth None [])) = Inr (ServeUnix () r)"
    by (simp add: run_def)
  show ?thesis
    using policies_need_a_token_secret [OF plain_routing.routing_library_axioms _
        served [unfolded sample_serve_def],
        where policies = "[''deny.rego'']" and dataset = "[]"]
    unfolding sample_serve_def by auto
qed

text \<open>
  C40: A gateway server is what its arguments say: the base path is the URL's, a socket passed
  by systemd comes before a unix socket and that before the URL's address, a leading at sign
  names an abstract socket, TLS is configured exactly when a certificate and a key are given
  (one of them alone is an error) with all the client CAs, the topology is the mock one
  exactly when asked for, and the trace layer is outside the CORS layer.
\<close>

theorem gateway_arguments_are_applied:
  assumes "gateway_server A S K G cli authn authz = Inr server"
  shows "\<exists>path authority cors. gp_url G (cli_url cli) = Some (path, Some authority) \<and>
    gp_uri_path G path = Some (sv_base server) \<and> cors_of K cli = Inr cors \<and>
    (\<exists>fd. os_activated S = Inr fd \<and>
      (case (fd, cli_unix_socket cli) of
         (Some f, _) \<Rightarrow> \<exists>l. os_tcp_from_fd S f = Inr l \<and> sv_listener server = Tcp l
       | (None, Some file) \<Rightarrow>
           \<exists>l. (if file \<noteq> [] \<and> hd file = CHR ''@'' then os_unix_bind_abstract S (tl file)
                else os_unix_bind S file) = Inr l \<and> sv_listener server = Unix l
       | (None, None) \<Rightarrow> \<exists>l. os_tcp_bind S authority = Inr l \<and> sv_listener server = Tcp l)) \<and>
    (sv_tls_config server = None \<longleftrightarrow> ta_cert (cli_tls cli) = None) \<and>
    (ta_cert (cli_tls cli) = None \<longleftrightarrow> ta_key (cli_tls cli) = None) \<and>
    (\<forall>cfg. sv_tls_config server = Some cfg \<longrightarrow> Some (tc_cert cfg) = ta_cert (cli_tls cli) \<and>
      Some (tc_key cfg) = ta_key (cli_tls cli) \<and> tc_client_cas cfg = ta_client_ca (cli_tls cli)) \<and>
    sv_topology server = (if cli_mock cli then gp_mock_topology G else gp_default_topology G) \<and>
    sv_services server = extra_services G cli \<and>
    sv_layer server = tw_stack A (gp_option_layer G cors)
      (tw_stack A (gp_trace_layer G) (tw_identity A))"
proof -
  note fields = gateway_server_Inr [OF assms]
  from fields(3) obtain path authority cors tls where
    url: "gp_url G (cli_url cli) = Some (path, Some authority)" and
    listener: "select_listener S cli authority = Inr (sv_listener server)" and
    tls: "tls_args_build (cli_tls cli) = Inr (sv_tls_config server)" and
    cors: "cors_of K cli = Inr cors" "sv_layer server = tw_stack A (gp_option_layer G cors)
      (tw_stack A (gp_trace_layer G) (tw_identity A))" and
    base: "gp_uri_path G path = Some (sv_base server)"
    by blast
  have fd: "\<exists>fd. os_activated S = Inr fd \<and>
      (case (fd, cli_unix_socket cli) of
         (Some f, _) \<Rightarrow> \<exists>l. os_tcp_from_fd S f = Inr l \<and> sv_listener server = Tcp l
       | (None, Some file) \<Rightarrow>
           \<exists>l. (if file \<noteq> [] \<and> hd file = CHR ''@'' then os_unix_bind_abstract S (tl file)
                else os_unix_bind S file) = Inr l \<and> sv_listener server = Unix l
       | (None, None) \<Rightarrow> \<exists>l. os_tcp_bind S authority = Inr l \<and> sv_listener server = Tcp l)"
    using listener
    by (cases "cli_unix_socket cli"; cases "the (cli_unix_socket cli)")
      (auto simp: select_listener_def and_then_Inr_iff map_ok_Inr_iff split: option.splits if_splits)
  have pair: "(sv_tls_config server = None \<longleftrightarrow> ta_cert (cli_tls cli) = None) \<and>
    (ta_cert (cli_tls cli) = None \<longleftrightarrow> ta_key (cli_tls cli) = None) \<and>
    (\<forall>cfg. sv_tls_config server = Some cfg \<longrightarrow> Some (tc_cert cfg) = ta_cert (cli_tls cli) \<and>
      Some (tc_key cfg) = ta_key (cli_tls cli) \<and> tc_client_cas cfg = ta_client_ca (cli_tls cli))"
    using tls by (auto simp: tls_args_build_Inr split: option.splits)
  show ?thesis
    by (rule exI [of _ path], rule exI [of _ authority], rule exI [of _ cors], insert fd pair)
      (simp add: url base cors fields(4,7))
qed

theorem gateway_arguments_are_applied_witness:
  "\<exists>server. gateway_server plain_routing sample_os plain_cors sample_parts_of
      (sample_cli (sample_auth None [])) no_auth allow_all =
      (Inr server :: ((unit, string, unit) gateway_error, _) result) \<and>
    sv_listener server = Unix () \<and> sv_base server = ''/sovd'' \<and> sv_tls_config server = None"
proof -
  let ?cli = "sample_cli (sample_auth None [])"
  obtain server where server: "gateway_server plain_routing sample_os plain_cors sample_parts_of
      ?cli no_auth allow_all = (Inr server :: ((unit, string, unit) gateway_error, _) result)"
    using sample_cors [of "sample_auth None []"]
    by (auto simp: sample_gateway cors_of_def Let_def)
  have args [simp]: "gp_url sample_parts_of u = Some (''/sovd'', Some ''localhost:7690'')"
    "gp_uri_path sample_parts_of u = Some u" "os_activated sample_os = Inr None"
    "cli_unix_socket ?cli = Some ''@sovd''" "ta_cert (cli_tls ?cli) = None" for u
    by (simp_all add: sample_parts_of_def sample_os_def sample_cli_def)
  from gateway_arguments_are_applied [OF server] server show ?thesis by auto
qed

text \<open>
  CORS is off exactly when no origin is given; otherwise the layer allows exactly the given
  origins, methods and headers (all of them for a star), credentials and age; credentials with
  a star among the origins or the headers are refused, but credentials with a star among the
  methods are accepted and give a layer that panics when it is applied.
\<close>

theorem cors_layer_is_as_configured:
  assumes "cors_laws K view usable"
    and "create_cors_layer K origins methods headers credentials max_age = Inr layer"
  shows "(layer = None \<longleftrightarrow> origins = []) \<and>
    (\<forall>l. layer = Some l \<longrightarrow>
      Some (cv_origins (view l)) = allowed_of (cors_parse_origin K) origins \<and>
      Some (cv_methods (view l)) = allowed_of (cors_parse_method K) methods \<and>
      Some (cv_headers (view l)) = allowed_of (cors_parse_header K) headers \<and>
      cv_credentials (view l) = credentials \<and> cv_max_age (view l) = max_age \<and>
      \<not> (credentials \<and> (''*'' \<in> set origins \<or> ''*'' \<in> set headers)) \<and>
      (usable l \<longleftrightarrow> \<not> (credentials \<and> ''*'' \<in> set methods)))"
proof (cases layer)
  case None
  with assms(2) show ?thesis
    by (auto simp: create_cors_layer_def Let_def and_then_Inr_iff split: if_split_asm)
next
  case (Some l)
  with assms(2) have "create_cors_layer K origins methods headers credentials max_age = Inr (Some l)"
    by simp
  with Some show ?thesis
    using cors_laws.created_layer [OF assms(1)] cors_laws.created_layer_usable [OF assms(1)]
    by (metis option.distinct(1) option.inject)
qed

theorem cors_layer_is_as_configured_witness:
  "\<exists>l. cors_of plain_cors (sample_cli (sample_auth None [])) = Inr (Some l) \<and>
     \<not> plain_cors_usable l"
proof -
  obtain l where "create_cors_layer plain_cors [''http://ui''] [''*''] [] True None = Inr (Some l)"
    using sample_cors [of "sample_auth None []"] by (simp add: cors_of_def sample_cli_def)
  from this cors_layer_is_as_configured [OF cors.cors_laws_axioms this]
  show ?thesis by (simp add: cors_of_def sample_cli_def)
qed

end
