(* ===== verification/Running.thy ===== *)
theory Running
  imports Server Service
begin

text \<open>
  The running server: the discovery task of \<open>src/opensovd-server/src/server.rs\<close> and the handlers
  of concurrent requests over one topology lock.  A handler takes the read lock once, after its
  extractors, and keeps it until its answer is complete, also while it waits for a data provider;
  the discovery task takes the write lock for each item of its stream.  The lock is tokio's: a
  parameter with its documented first-in first-out policy (locale \<open>fair_lock_laws\<close>).  An event
  names who moves next, so a list of events is an interleaving.
\<close>

subsection \<open>The lock\<close>

text \<open>
  \<open>fl_read\<close> and \<open>fl_write\<close> are the first poll of \<open>read()\<close> and \<open>write()\<close> by a task, which either
  gets its guard or queues; \<open>fl_release\<close> drops the guard of a task, or the future of a task that
  still waits.  The tasks that hold a guard and those that wait are paired with whether the
  guard is a writer's.
\<close>

record ('k, 'l) fair_lock =
  fl_new :: 'l
  fl_read :: "'k \<Rightarrow> 'l \<Rightarrow> 'l"
  fl_write :: "'k \<Rightarrow> 'l \<Rightarrow> 'l"
  fl_release :: "'k \<Rightarrow> 'l \<Rightarrow> 'l"
  fl_held :: "'l \<Rightarrow> ('k \<times> bool) list"
  fl_waiting :: "'l \<Rightarrow> ('k \<times> bool) list"

text \<open>
  Guards are given out in the order of the queue: a reader unless a writer holds the lock, a
  writer when nobody does, and nobody past one who cannot be served.
\<close>

fun admit :: "('k \<times> bool) list \<Rightarrow> ('k \<times> bool) list \<Rightarrow> ('k \<times> bool) list \<times> ('k \<times> bool) list" where
  "admit held [] = (held, [])"
| "admit held ((k, writer) # queue) =
     (if (if writer then held = [] else list_all (\<lambda>(_, w). \<not> w) held)
      then admit (held @ [(k, writer)]) queue else (held, (k, writer) # queue))"

definition without :: "'k \<Rightarrow> ('k \<times> bool) list \<Rightarrow> ('k \<times> bool) list" where
  "without k xs = filter (\<lambda>(j, _). j \<noteq> k) xs"

locale fair_lock_laws =
  fixes F :: "('k, 'l) fair_lock"
  assumes new_lock: "fl_held F (fl_new F) = []" "fl_waiting F (fl_new F) = []"
    and read_lock: "(fl_held F (fl_read F k l), fl_waiting F (fl_read F k l)) =
      admit (fl_held F l) (fl_waiting F l @ [(k, False)])"
    and write_lock: "(fl_held F (fl_write F k l), fl_waiting F (fl_write F k l)) =
      admit (fl_held F l) (fl_waiting F l @ [(k, True)])"
    and release_lock: "(fl_held F (fl_release F k l), fl_waiting F (fl_release F k l)) =
      admit (without k (fl_held F l)) (without k (fl_waiting F l))"

subsection \<open>Requests that take the lock\<close>

text \<open>A request that passed the layers, and what the routes are made of.\<close>

record 'i http_call =
  call_parts :: "'i request_parts"
  call_method :: http_method
  call_target :: string
  call_body :: "json option"

record ('mc, 'ma, 'mr, 's, 'w, 'set, 'v) site =
  site_env :: "('mc, 'ma, 'mr, 's, 'w, 'set) route_env"
  site_query :: query_library
  site_vendor_json :: "'v \<Rightarrow> json"
  site_vendor :: "'v option"

definition call_answer ::
  "('mc, 'ma, 'mr, 's, 'w, 'set, 'v) site \<Rightarrow> ('mc, 'ma, 'mr, 's) topology_state \<Rightarrow>
     'i http_call \<Rightarrow> 'w \<Rightarrow> answer \<times> 'w" where
  "call_answer S topo c w =
     serve_request (site_env S) (site_query S) (site_vendor_json S) (site_vendor S) topo
       (call_parts c) (call_method c) (call_target c) (call_body c) w"

text \<open>
  The extractors of a handler run before it; when one rejects, or when the handler is that of
  the version document, the lock is not taken.
\<close>

fun extracted :: "query_library \<Rightarrow> string \<Rightarrow> json option \<Rightarrow> endpoint \<Rightarrow> bool" where
  "extracted Q query body RootCapabilities \<longleftrightarrow> \<not> isl (read_capabilities_query Q query)"
| "extracted Q query body ComponentCapabilities \<longleftrightarrow> \<not> isl (read_capabilities_query Q query)"
| "extracted Q query body AppCapabilities \<longleftrightarrow> \<not> isl (read_capabilities_query Q query)"
| "extracted Q query body AreaCapabilities \<longleftrightarrow> \<not> isl (read_capabilities_query Q query)"
| "extracted Q query body ComponentDataCategories \<longleftrightarrow> True"
| "extracted Q query body AppDataCategories \<longleftrightarrow> True"
| "extracted Q query body ComponentDataGroups \<longleftrightarrow> \<not> isl (read_groups_query Q query)"
| "extracted Q query body AppDataGroups \<longleftrightarrow> \<not> isl (read_groups_query Q query)"
| "extracted Q query body ComponentDataList \<longleftrightarrow> \<not> isl (read_data_query_of Q query)"
| "extracted Q query body AppDataList \<longleftrightarrow> \<not> isl (read_data_query_of Q query)"
| "extracted Q query body ComponentDataRead \<longleftrightarrow> \<not> isl (read_read_query Q query)"
| "extracted Q query body AppDataRead \<longleftrightarrow> \<not> isl (read_read_query Q query)"
| "extracted Q query body ComponentDataWrite \<longleftrightarrow>
     (case body of None \<Rightarrow> False | Some j \<Rightarrow> write_request_of_json j \<noteq> None)"
| "extracted Q query body AppDataWrite \<longleftrightarrow>
     (case body of None \<Rightarrow> False | Some j \<Rightarrow> write_request_of_json j \<noteq> None)"
| "extracted Q query body VersionDocument \<longleftrightarrow> \<not> isl (read_version_query Q query)"
| "extracted Q query body _ \<longleftrightarrow> read_entities_query Q query \<noteq> None"

definition takes_lock :: "query_library \<Rightarrow> 'i http_call \<Rightarrow> bool" where
  "takes_lock Q c =
     (case calls router (call_method c) (call_target c) of
        [] \<Rightarrow> False
      | (endpoint, args) # _ \<Rightarrow> endpoint \<noteq> VersionDocument \<and>
          extracted Q (target_query (call_target c)) (call_body c) endpoint)"

subsection \<open>The state\<close>

text \<open>
  A call waits for its guard or holds it, has its answer and still holds the guard, is
  answered, or was abandoned by its client, which drops the handler.
\<close>

datatype phase = Pending | Acted answer | Answered answer | Abandoned

datatype ('g, 'w) discovery_phase =
    Listening
  | Acquiring "'w discovery_diff"
  | Applying 'g "'w topology_op list"
  | Finished

datatype ticket = Request nat | Discovery

locale server_lock = fair_lock_laws F for F :: "(ticket, 'l) fair_lock"

record ('mc, 'ma, 'mr, 's, 'w, 'i, 'l, 'o) running =
  rn_lock :: 'l
  rn_topology :: "('mc, 'ma, 'mr, 's) topology_state"
  rn_published :: "topology_event list"
  rn_world :: 'w
  rn_calls :: "('i http_call \<times> phase) list"
  rn_discovery :: "(('mc, 'ma, 'mr, 's) guard, 'w) discovery_phase"
  rn_stream :: "('o discovery_error, 'w discovery_diff) result list"
  rn_shutdown :: bool

text \<open>
  \<open>serve\<close> spawns the discovery task if it has providers, and the task waits for the merged
  streams of the providers that started, if there is one.
\<close>

definition discovery_stream ::
  "('dp \<Rightarrow> ('o discovery_error, 'st) result) \<Rightarrow> 'dp list \<Rightarrow>
     ('st list \<Rightarrow> ('o discovery_error, 'w discovery_diff) result list) \<Rightarrow>
     ('o discovery_error, 'w discovery_diff) result list" where
  "discovery_stream discover providers merged =
     (let streams = started_streams discover providers
      in if streams = [] then [] else merged streams)"

definition server_start ::
  "(ticket, 'l) fair_lock \<Rightarrow> ('mc, 'ma, 'mr, 's) topology_state \<Rightarrow> 'w \<Rightarrow>
     ('dp \<Rightarrow> ('o discovery_error, 'st) result) \<Rightarrow> 'dp list \<Rightarrow>
     ('st list \<Rightarrow> ('o discovery_error, 'w discovery_diff) result list) \<Rightarrow>
     ('mc, 'ma, 'mr, 's, 'w, 'i, 'l, 'o) running" where
  "server_start F topo w discover providers merged =
     \<lparr> rn_lock = fl_new F, rn_topology = topo, rn_published = [], rn_world = w, rn_calls = [],
       rn_discovery = (if started_streams discover providers = [] then Finished else Listening),
       rn_stream = discovery_stream discover providers merged, rn_shutdown = False \<rparr>"

subsection \<open>Steps\<close>

datatype 'i server_event =
    Arrive "'i http_call"
  | Handle nat
  | Respond nat
  | Abandon nat
  | Receive
  | Begin
  | Apply
  | Commit
  | StreamEnd
  | Signal
  | StopDiscovery

definition set_phase ::
  "nat \<Rightarrow> phase \<Rightarrow> ('i http_call \<times> phase) list \<Rightarrow> ('i http_call \<times> phase) list" where
  "set_phase i p cs = cs[i := (fst (cs ! i), p)]"

text \<open>
  A call arrives: its handler asks for the lock, or answers at once without it.  A call with its
  guard acts, on the topology the guard shows; it then answers, and its guard is dropped with the
  handler's frame.  It can be abandoned until then.
\<close>

fun handler_step ::
  "('mc, 'ma, 'mr, 's, 'w, 'set, 'v) site \<Rightarrow> (ticket, 'l) fair_lock \<Rightarrow> 'i server_event \<Rightarrow>
     ('mc, 'ma, 'mr, 's, 'w, 'i, 'l, 'o) running \<Rightarrow>
     ('mc, 'ma, 'mr, 's, 'w, 'i, 'l, 'o) running option" where
  "handler_step S F (Arrive c) s = Some
     (if takes_lock (site_query S) c
      then s\<lparr>rn_lock := fl_read F (Request (length (rn_calls s))) (rn_lock s),
             rn_calls := rn_calls s @ [(c, Pending)]\<rparr>
      else let (a, w) = call_answer S (rn_topology s) c (rn_world s)
           in s\<lparr>rn_world := w, rn_calls := rn_calls s @ [(c, Answered a)]\<rparr>)"
| "handler_step S F (Handle i) s =
     (if i < length (rn_calls s) \<and> snd (rn_calls s ! i) = Pending \<and>
         (Request i, False) \<in> set (fl_held F (rn_lock s))
      then let (a, w) = call_answer S (rn_topology s) (fst (rn_calls s ! i)) (rn_world s)
           in Some (s\<lparr>rn_world := w, rn_calls := set_phase i (Acted a) (rn_calls s)\<rparr>)
      else None)"
| "handler_step S F (Respond i) s =
     (if i < length (rn_calls s)
      then case snd (rn_calls s ! i) of
             Acted a \<Rightarrow> Some (s\<lparr>rn_lock := fl_release F (Request i) (rn_lock s),
               rn_calls := set_phase i (Answered a) (rn_calls s)\<rparr>)
           | _ \<Rightarrow> None
      else None)"
| "handler_step S F (Abandon i) s =
     (if i < length (rn_calls s)
      then case snd (rn_calls s ! i) of
             Answered _ \<Rightarrow> None
           | Abandoned \<Rightarrow> None
           | _ \<Rightarrow> Some (s\<lparr>rn_lock := fl_release F (Request i) (rn_lock s),
               rn_calls := set_phase i Abandoned (rn_calls s)\<rparr>)
      else None)"
| "handler_step S F _ s = None"

text \<open>
  The discovery task takes the next item; for a diff it asks for the lock, and once it has the
  guard applies the operations, drops the guard, which sends the events, and takes the next
  item.  The shutdown signal stops it where it waits: for an item or for the lock.
\<close>

fun discovery_step ::
  "('mc, 'ma, 'mr, 's, 'w) containers \<Rightarrow> (ticket, 'l) fair_lock \<Rightarrow> 'i server_event \<Rightarrow>
     ('mc, 'ma, 'mr, 's, 'w, 'i, 'l, 'o) running \<Rightarrow>
     ('mc, 'ma, 'mr, 's, 'w, 'i, 'l, 'o) running option" where
  "discovery_step L F Receive s =
     (case (rn_discovery s, rn_stream s) of
        (Listening, Inl e # rest) \<Rightarrow> Some (s\<lparr>rn_stream := rest\<rparr>)
      | (Listening, Inr d # rest) \<Rightarrow>
          Some (s\<lparr>rn_stream := rest, rn_discovery := Acquiring d,
                  rn_lock := fl_write F Discovery (rn_lock s)\<rparr>)
      | _ \<Rightarrow> None)"
| "discovery_step L F Begin s =
     (case rn_discovery s of
        Acquiring d \<Rightarrow>
          if (Discovery, True) \<in> set (fl_held F (rn_lock s))
          then Some (s\<lparr>rn_discovery := Applying (topology_write (rn_topology s)) (diff_ops d)\<rparr>)
          else None
      | _ \<Rightarrow> None)"
| "discovery_step L F Apply s =
     (case rn_discovery s of
        Applying g (p # ps) \<Rightarrow>
          let g' = apply_op L p g
          in Some (s\<lparr>rn_topology := wg_state g', rn_discovery := Applying g' ps\<rparr>)
      | _ \<Rightarrow> None)"
| "discovery_step L F Commit s =
     (case rn_discovery s of
        Applying g [] \<Rightarrow>
          Some (s\<lparr>rn_published := rn_published s @ wg_pending g,
                  rn_lock := fl_release F Discovery (rn_lock s), rn_discovery := Listening\<rparr>)
      | _ \<Rightarrow> None)"
| "discovery_step L F StreamEnd s =
     (if rn_discovery s = Listening \<and> rn_stream s = []
      then Some (s\<lparr>rn_discovery := Finished\<rparr>) else None)"
| "discovery_step L F Signal s = Some (s\<lparr>rn_shutdown := True\<rparr>)"
| "discovery_step L F StopDiscovery s =
     (if rn_shutdown s
      then case rn_discovery s of
             Listening \<Rightarrow> Some (s\<lparr>rn_discovery := Finished\<rparr>)
           | Acquiring d \<Rightarrow> Some (s\<lparr>rn_discovery := Finished,
               rn_lock := fl_release F Discovery (rn_lock s)\<rparr>)
           | _ \<Rightarrow> None
      else None)"
| "discovery_step L F _ s = None"

definition server_step ::
  "('mc, 'ma, 'mr, 's, 'w, 'set, 'v) site \<Rightarrow> (ticket, 'l) fair_lock \<Rightarrow> 'i server_event \<Rightarrow>
     ('mc, 'ma, 'mr, 's, 'w, 'i, 'l, 'o) running \<Rightarrow>
     ('mc, 'ma, 'mr, 's, 'w, 'i, 'l, 'o) running option" where
  "server_step S F e s =
     (case e of
        Arrive _ \<Rightarrow> handler_step S F e s
      | Handle _ \<Rightarrow> handler_step S F e s
      | Respond _ \<Rightarrow> handler_step S F e s
      | Abandon _ \<Rightarrow> handler_step S F e s
      | _ \<Rightarrow> discovery_step (env_containers (site_env S)) F e s)"

fun server_run ::
  "('mc, 'ma, 'mr, 's, 'w, 'set, 'v) site \<Rightarrow> (ticket, 'l) fair_lock \<Rightarrow> 'i server_event list \<Rightarrow>
     ('mc, 'ma, 'mr, 's, 'w, 'i, 'l, 'o) running \<Rightarrow>
     ('mc, 'ma, 'mr, 's, 'w, 'i, 'l, 'o) running option" where
  "server_run S F [] s = Some s"
| "server_run S F (e # es) s = Option.bind (server_step S F e s) (server_run S F es)"

end
