(* ===== verification/Running_Properties.thy ===== *)
theory Running_Properties
  imports Running Server_Properties Route_Properties
begin

text \<open>
  The running server is serial: whatever the interleaving, its answers, its world and its
  topology are those of a server that handles calls and discovery items one at a time.  No call
  is left waiting, and one that waits for its provider holds up every later one as soon as
  discovery wants the lock.
\<close>

subsection \<open>The lock\<close>

lemma admit_line: "fst (admit h q) @ snd (admit h q) = h @ q"
  by (induction h q rule: admit.induct) simp_all

lemma admit_keeps: "\<exists>xs. fst (admit h q) = h @ xs"
proof (induction h q rule: admit.induct)
  case (2 h k w q)
  then show ?case by (metis (mono_tags, lifting) admit.simps(2) append.assoc append_Nil2 fst_conv)
qed simp

lemma admit_progress: "snd (admit h q) \<noteq> [] \<Longrightarrow> fst (admit h q) \<noteq> []"
  by (induction h q rule: admit.induct) (auto split: if_splits)

definition exclusive :: "('k \<times> bool) list \<Rightarrow> bool" where
  "exclusive held \<longleftrightarrow> list_all (\<lambda>(_, w). \<not> w) held \<or> (\<exists>k. held = [(k, True)])"

lemma admit_exclusive: "exclusive h \<Longrightarrow> exclusive (fst (admit h q))"
  by (induction h q rule: admit.induct) (auto simp: exclusive_def split: if_splits)

lemma admit_blocked:
  "h \<noteq> [] \<Longrightarrow> \<exists>p. snd (admit h (q @ (k, True) # r)) = p @ (k, True) # r"
proof (induction h q rule: admit.induct)
  case (2 h j w q)
  then show ?case by auto
qed simp

lemma exclusive_without: "exclusive h \<Longrightarrow> exclusive (without k h)"
  by (auto simp: exclusive_def without_def list_all_iff)

definition line :: "('k, 'l) fair_lock \<Rightarrow> 'l \<Rightarrow> ('k \<times> bool) list" where
  "line F l = fl_held F l @ fl_waiting F l"

context fair_lock_laws
begin

lemma lock_parts:
  "fl_held F (fl_read F k l) = fst (admit (fl_held F l) (fl_waiting F l @ [(k, False)]))"
  "fl_waiting F (fl_read F k l) = snd (admit (fl_held F l) (fl_waiting F l @ [(k, False)]))"
  "fl_held F (fl_write F k l) = fst (admit (fl_held F l) (fl_waiting F l @ [(k, True)]))"
  "fl_waiting F (fl_write F k l) = snd (admit (fl_held F l) (fl_waiting F l @ [(k, True)]))"
  "fl_held F (fl_release F k l) = fst (admit (without k (fl_held F l)) (without k (fl_waiting F l)))"
  "fl_waiting F (fl_release F k l) = snd (admit (without k (fl_held F l)) (without k (fl_waiting F l)))"
  using read_lock [of k l] write_lock [of k l] release_lock [of k l] by (simp_all add: prod_eq_iff)

lemma line_operations:
  "line F (fl_read F k l) = line F l @ [(k, False)]"
  "line F (fl_write F k l) = line F l @ [(k, True)]"
  "line F (fl_release F k l) = without k (line F l)"
  by (simp_all add: line_def lock_parts admit_line without_def)

lemma held_operations:
  "x \<in> set (fl_held F l) \<Longrightarrow> x \<in> set (fl_held F (fl_read F k l))"
  "x \<in> set (fl_held F l) \<Longrightarrow> x \<in> set (fl_held F (fl_write F k l))"
  "x \<in> set (fl_held F l) \<Longrightarrow> fst x \<noteq> k \<Longrightarrow> x \<in> set (fl_held F (fl_release F k l))"
  using admit_keeps [of "fl_held F l" "fl_waiting F l @ [(k, False)]"]
    admit_keeps [of "fl_held F l" "fl_waiting F l @ [(k, True)]"]
    admit_keeps [of "without k (fl_held F l)" "without k (fl_waiting F l)"]
  by (auto simp: lock_parts without_def)

lemma exclusive_operations:
  assumes "exclusive (fl_held F l)"
  shows "exclusive (fl_held F (fl_read F k l))" "exclusive (fl_held F (fl_write F k l))"
    "exclusive (fl_held F (fl_release F k l))"
  using assms by (simp_all add: lock_parts admit_exclusive exclusive_without)

lemma progress_operations:
  "fl_waiting F (fl_read F k l) \<noteq> [] \<Longrightarrow> fl_held F (fl_read F k l) \<noteq> []"
  "fl_waiting F (fl_write F k l) \<noteq> [] \<Longrightarrow> fl_held F (fl_write F k l) \<noteq> []"
  "fl_waiting F (fl_release F k l) \<noteq> [] \<Longrightarrow> fl_held F (fl_release F k l) \<noteq> []"
  by (simp_all add: lock_parts admit_progress)

end

text \<open>
  The lock is right about the calls and the discovery task: who has a place in its line, and who
  of them must hold a guard.
\<close>

definition lock_right ::
  "(ticket, 'l) fair_lock \<Rightarrow> 'l \<Rightarrow> (nat \<Rightarrow> bool) \<Rightarrow> (nat \<Rightarrow> bool) \<Rightarrow> bool \<Rightarrow> bool \<Rightarrow> bool" where
  "lock_right F l place acted wanted applying \<longleftrightarrow>
     distinct (map fst (line F l)) \<and> exclusive (fl_held F l) \<and>
     (fl_waiting F l \<noteq> [] \<longrightarrow> fl_held F l \<noteq> []) \<and>
     (\<forall>i b. (Request i, b) \<in> set (line F l) \<longleftrightarrow> place i \<and> \<not> b) \<and>
     (\<forall>b. (Discovery, b) \<in> set (line F l) \<longleftrightarrow> wanted \<and> b) \<and>
     (\<forall>i. acted i \<longrightarrow> (Request i, False) \<in> set (fl_held F l)) \<and>
     (applying \<longrightarrow> (Discovery, True) \<in> set (fl_held F l))"

lemma set_without: "x \<in> set (without k xs) \<longleftrightarrow> x \<in> set xs \<and> fst x \<noteq> k"
  by (auto simp: without_def)

lemma distinct_without: "distinct (map fst xs) \<Longrightarrow> distinct (map fst (without k xs))"
  by (induction xs) (auto simp: without_def)

context server_lock
begin

lemmas lock_right_simps = lock_right_def line_operations exclusive_operations held_operations
  progress_operations

lemma lock_right_new: "lock_right F (fl_new F) (\<lambda>_. False) (\<lambda>_. False) False False"
  by (simp add: lock_right_def line_def new_lock exclusive_def)

lemma lock_right_read:
  assumes "lock_right F l place acted wanted applying" and "\<not> place n"
  shows "lock_right F (fl_read F (Request n) l) (place(n := True)) acted wanted applying"
proof -
  have "Request n \<notin> fst ` set (line F l)" using assms by (auto simp: lock_right_def)
  then show ?thesis using assms by (auto simp: lock_right_simps)
qed

lemma lock_right_write:
  assumes "lock_right F l place acted False False"
  shows "lock_right F (fl_write F Discovery l) place acted True False"
proof -
  have "Discovery \<notin> fst ` set (line F l)" using assms by (auto simp: lock_right_def)
  then show ?thesis using assms by (auto simp: lock_right_simps)
qed

lemma lock_right_leave:
  assumes "lock_right F l place acted wanted applying"
  shows "lock_right F (fl_release F (Request n) l) (place(n := False)) (acted(n := False)) wanted applying"
  using assms unfolding lock_right_def line_operations set_without
  by (intro conjI distinct_without exclusive_operations(3) impI progress_operations(3) allI
      held_operations(3)) (auto split: if_splits)

lemma lock_right_done:
  assumes "lock_right F l place acted wanted applying"
  shows "lock_right F (fl_release F Discovery l) place acted False False"
  using assms unfolding lock_right_def line_operations set_without
  by (intro conjI distinct_without exclusive_operations(3) impI progress_operations(3) allI
      held_operations(3)) (auto split: if_splits)

lemma lock_right_act:
  assumes "lock_right F l place acted wanted applying" and "(Request n, False) \<in> set (fl_held F l)"
  shows "lock_right F l place (acted(n := True)) wanted applying"
  using assms by (simp add: lock_right_def)

lemma lock_right_begin:
  assumes "lock_right F l place acted True False" and "(Discovery, True) \<in> set (fl_held F l)"
  shows "lock_right F l place acted True True"
  using assms by (simp add: lock_right_def)

end

subsection \<open>The serial server\<close>

text \<open>
  The specification: calls and discovery items are handled one at a time.  A call is handled
  when its handler acts, an item as a whole when the discovery task commits it; arrivals queue,
  and the other events mean nothing.
\<close>

record ('mc, 'ma, 'mr, 's, 'w, 'i) serial =
  se_topology :: "('mc, 'ma, 'mr, 's) topology_state"
  se_world :: 'w
  se_calls :: "'i http_call list"
  se_answers :: "nat \<rightharpoonup> answer"
  se_diffs :: "'w discovery_diff list"

definition stream_diffs ::
  "('o discovery_error, 'w discovery_diff) result list \<Rightarrow> 'w discovery_diff list" where
  "stream_diffs stream = List.map_filter (\<lambda>r. case r of Inl _ \<Rightarrow> None | Inr d \<Rightarrow> Some d) stream"

definition apply_diff ::
  "('mc, 'ma, 'mr, 's, 'w) containers \<Rightarrow> 'w discovery_diff \<Rightarrow> ('mc, 'ma, 'mr, 's) topology_state \<Rightarrow>
     ('mc, 'ma, 'mr, 's) topology_state" where
  "apply_diff L d topo = wg_state (run_ops L (diff_ops d) (topology_write topo))"

definition serial_answer ::
  "('mc, 'ma, 'mr, 's, 'w, 'set, 'v) site \<Rightarrow> nat \<Rightarrow> 'i http_call \<Rightarrow>
     ('mc, 'ma, 'mr, 's, 'w, 'i) serial \<Rightarrow> ('mc, 'ma, 'mr, 's, 'w, 'i) serial" where
  "serial_answer S i c q =
     (let (a, w) = call_answer S (se_topology q) c (se_world q)
      in q\<lparr>se_world := w, se_answers := (se_answers q)(i \<mapsto> a)\<rparr>)"

fun serial_step ::
  "('mc, 'ma, 'mr, 's, 'w, 'set, 'v) site \<Rightarrow> 'i server_event \<Rightarrow>
     ('mc, 'ma, 'mr, 's, 'w, 'i) serial \<Rightarrow> ('mc, 'ma, 'mr, 's, 'w, 'i) serial" where
  "serial_step S (Arrive c) q =
     (let q' = (if takes_lock (site_query S) c then q else serial_answer S (length (se_calls q)) c q)
      in q'\<lparr>se_calls := se_calls q @ [c]\<rparr>)"
| "serial_step S (Handle i) q = serial_answer S i (se_calls q ! i) q"
| "serial_step S Commit q =
     (case se_diffs q of
        [] \<Rightarrow> q
      | d # ds \<Rightarrow> q\<lparr>se_topology := apply_diff (env_containers (site_env S)) d (se_topology q),
          se_diffs := ds\<rparr>)"
| "serial_step S _ q = q"

definition serial_run ::
  "('mc, 'ma, 'mr, 's, 'w, 'set, 'v) site \<Rightarrow> 'i server_event list \<Rightarrow>
     ('mc, 'ma, 'mr, 's) topology_state \<Rightarrow> 'w \<Rightarrow> 'w discovery_diff list \<Rightarrow>
     ('mc, 'ma, 'mr, 's, 'w, 'i) serial" where
  "serial_run S es topo w ds = fold (serial_step S) es
     \<lparr> se_topology = topo, se_world = w, se_calls = [], se_answers = Map.empty, se_diffs = ds \<rparr>"

subsection \<open>The simulation\<close>

definition call_phase ::
  "('mc, 'ma, 'mr, 's, 'w, 'i, 'l, 'o) running \<Rightarrow> nat \<Rightarrow> phase option" where
  "call_phase s i = (if i < length (rn_calls s) then Some (snd (rn_calls s ! i)) else None)"

fun wants_lock :: "('g, 'w) discovery_phase \<Rightarrow> bool" where
  "wants_lock (Acquiring d) = True"
| "wants_lock (Applying g ps) = True"
| "wants_lock _ = False"

fun is_applying :: "('g, 'w) discovery_phase \<Rightarrow> bool" where
  "is_applying (Applying g ps) = True"
| "is_applying _ = False"

fun has_place :: "phase option \<Rightarrow> bool" where
  "has_place (Some Pending) = True"
| "has_place (Some (Acted a)) = True"
| "has_place _ = False"

fun has_acted :: "phase option \<Rightarrow> bool" where
  "has_acted (Some (Acted a)) = True"
| "has_acted _ = False"

definition guards_right ::
  "(ticket, 'l) fair_lock \<Rightarrow> ('mc, 'ma, 'mr, 's, 'w, 'i, 'l, 'o) running \<Rightarrow> bool" where
  "guards_right F s \<longleftrightarrow> lock_right F (rn_lock s) (\<lambda>i. has_place (call_phase s i))
     (\<lambda>i. has_acted (call_phase s i)) (wants_lock (rn_discovery s)) (is_applying (rn_discovery s))"

text \<open>
  While an item is being applied, what is left to do of it leads from the topology there is to
  the one the serial server will have.
\<close>

definition discovery_agrees ::
  "('mc, 'ma, 'mr, 's, 'w) containers \<Rightarrow> ('mc, 'ma, 'mr, 's, 'w, 'i, 'l, 'o) running \<Rightarrow>
     ('mc, 'ma, 'mr, 's, 'w, 'i) serial \<Rightarrow> bool" where
  "discovery_agrees L s q \<longleftrightarrow>
     (case rn_discovery s of
        Listening \<Rightarrow> rn_topology s = se_topology q \<and> se_diffs q = stream_diffs (rn_stream s)
      | Acquiring d \<Rightarrow> rn_topology s = se_topology q \<and> se_diffs q = d # stream_diffs (rn_stream s)
      | Applying g ps \<Rightarrow> rn_topology s = wg_state g \<and>
          (\<exists>d. se_diffs q = d # stream_diffs (rn_stream s) \<and>
            wg_state (run_ops L ps g) = apply_diff L d (se_topology q))
      | Finished \<Rightarrow> rn_topology s = se_topology q)"

definition simulates ::
  "('mc, 'ma, 'mr, 's, 'w, 'set, 'v) site \<Rightarrow> (ticket, 'l) fair_lock \<Rightarrow>
     ('mc, 'ma, 'mr, 's, 'w, 'i, 'l, 'o) running \<Rightarrow> ('mc, 'ma, 'mr, 's, 'w, 'i) serial \<Rightarrow> bool" where
  "simulates S F s q \<longleftrightarrow>
     rn_world s = se_world q \<and> map fst (rn_calls s) = se_calls q \<and>
     discovery_agrees (env_containers (site_env S)) s q \<and>
     (\<forall>i a. call_phase s i = Some (Acted a) \<or> call_phase s i = Some (Answered a) \<longrightarrow>
        se_answers q i = Some a)"

lemma call_phase_append:
  "call_phase (s\<lparr>rn_calls := rn_calls s @ [(c, p)]\<rparr>) =
     (call_phase s)(length (rn_calls s) \<mapsto> p)"
  by (rule ext) (auto simp: call_phase_def nth_append)

lemma call_phase_set:
  "i < length (rn_calls s) \<Longrightarrow>
     call_phase (s\<lparr>rn_calls := set_phase i p (rn_calls s)\<rparr>) = (call_phase s)(i \<mapsto> p)"
  by (rule ext) (auto simp: call_phase_def set_phase_def nth_list_update)

lemma call_phase_frame [simp]:
  "call_phase (s\<lparr>rn_lock := l\<rparr>) = call_phase s"
  "call_phase (s\<lparr>rn_world := w\<rparr>) = call_phase s"
  "call_phase (s\<lparr>rn_topology := t\<rparr>) = call_phase s"
  "call_phase (s\<lparr>rn_published := p\<rparr>) = call_phase s"
  "call_phase (s\<lparr>rn_discovery := d\<rparr>) = call_phase s"
  "call_phase (s\<lparr>rn_stream := st\<rparr>) = call_phase s"
  "call_phase (s\<lparr>rn_shutdown := b\<rparr>) = call_phase s"
  by (rule ext, simp add: call_phase_def)+

lemma calls_set_phase [simp]:
  "map fst (set_phase i p cs) = map fst cs" "length (set_phase i p cs) = length cs"
  by (cases "i < length cs") (simp_all add: set_phase_def map_update list_update_same_conv list_update_beyond)


lemma phase_update:
  "(\<lambda>i. has_place ((f(n \<mapsto> p)) i)) = (\<lambda>i. has_place (f i))(n := has_place (Some p))"
  "(\<lambda>i. has_acted ((f(n \<mapsto> p)) i)) = (\<lambda>i. has_acted (f i))(n := has_acted (Some p))"
  by (rule ext, simp)+

lemma call_phase_beyond: "call_phase s (length (rn_calls s)) = None"
  by (simp add: call_phase_def)

lemma phase_known: "i < length (rn_calls s) \<Longrightarrow> call_phase s i = Some (snd (rn_calls s ! i))"
  by (simp add: call_phase_def)

text \<open>The cases of a step, with what it needs and what it leads to.\<close>

lemma server_stepE [consumes 1, case_names queue reject act respond abandon failed item granted mutate
    commit ended signal stopped withdrawn]:
  assumes "server_step S F e s = Some s'"
  obtains
    c where "e = Arrive c" and "takes_lock (site_query S) c"
      and "s' = s\<lparr>rn_lock := fl_read F (Request (length (rn_calls s))) (rn_lock s),
        rn_calls := rn_calls s @ [(c, Pending)]\<rparr>"
  | c a w where "e = Arrive c" and "\<not> takes_lock (site_query S) c"
      and "call_answer S (rn_topology s) c (rn_world s) = (a, w)"
      and "s' = s\<lparr>rn_world := w, rn_calls := rn_calls s @ [(c, Answered a)]\<rparr>"
  | i a w where "e = Handle i" and "i < length (rn_calls s)" and "call_phase s i = Some Pending"
      and "(Request i, False) \<in> set (fl_held F (rn_lock s))"
      and "call_answer S (rn_topology s) (fst (rn_calls s ! i)) (rn_world s) = (a, w)"
      and "s' = s\<lparr>rn_world := w, rn_calls := set_phase i (Acted a) (rn_calls s)\<rparr>"
  | i a where "e = Respond i" and "i < length (rn_calls s)" and "call_phase s i = Some (Acted a)"
      and "s' = s\<lparr>rn_lock := fl_release F (Request i) (rn_lock s),
        rn_calls := set_phase i (Answered a) (rn_calls s)\<rparr>"
  | i where "e = Abandon i" and "i < length (rn_calls s)" and "has_place (call_phase s i)"
      and "s' = s\<lparr>rn_lock := fl_release F (Request i) (rn_lock s),
        rn_calls := set_phase i Abandoned (rn_calls s)\<rparr>"
  | err rest where "e = Receive" and "rn_discovery s = Listening" and "rn_stream s = Inl err # rest"
      and "s' = s\<lparr>rn_stream := rest\<rparr>"
  | d rest where "e = Receive" and "rn_discovery s = Listening" and "rn_stream s = Inr d # rest"
      and "s' = s\<lparr>rn_stream := rest, rn_discovery := Acquiring d,
        rn_lock := fl_write F Discovery (rn_lock s)\<rparr>"
  | d where "e = Begin" and "rn_discovery s = Acquiring d"
      and "(Discovery, True) \<in> set (fl_held F (rn_lock s))"
      and "s' = s\<lparr>rn_discovery := Applying (topology_write (rn_topology s)) (diff_ops d)\<rparr>"
  | g p ps where "e = Apply" and "rn_discovery s = Applying g (p # ps)"
      and "s' = s\<lparr>rn_topology := wg_state (apply_op (env_containers (site_env S)) p g),
        rn_discovery := Applying (apply_op (env_containers (site_env S)) p g) ps\<rparr>"
  | g where "e = Commit" and "rn_discovery s = Applying g []"
      and "s' = s\<lparr>rn_published := rn_published s @ wg_pending g,
        rn_lock := fl_release F Discovery (rn_lock s), rn_discovery := Listening\<rparr>"
  | "e = StreamEnd" and "rn_discovery s = Listening" and "rn_stream s = []"
      and "s' = s\<lparr>rn_discovery := Finished\<rparr>"
  | "e = Signal" and "s' = s\<lparr>rn_shutdown := True\<rparr>"
  | "e = StopDiscovery" and "rn_shutdown s" and "rn_discovery s = Listening"
      and "s' = s\<lparr>rn_discovery := Finished\<rparr>"
  | d where "e = StopDiscovery" and "rn_shutdown s" and "rn_discovery s = Acquiring d"
      and "s' = s\<lparr>rn_discovery := Finished, rn_lock := fl_release F Discovery (rn_lock s)\<rparr>"
proof (cases e)
  case (Arrive c)
  with assms that(1,2) show thesis
    by (auto simp: server_step_def split: if_splits prod.splits)
next
  case (Handle i)
  with assms that(3) show thesis
    by (auto simp: server_step_def phase_known split: if_splits prod.splits)
next
  case (Respond i)
  with assms that(4) show thesis
    by (auto simp: server_step_def phase_known split: if_splits phase.splits)
next
  case (Abandon i)
  with assms that(5) show thesis
    by (auto simp: server_step_def phase_known split: if_splits phase.splits)
next
  case Receive
  with assms that(6,7) show thesis
    by (auto simp: server_step_def split: discovery_phase.splits list.splits sum.splits)
next
  case Begin
  with assms that(8) show thesis
    by (auto simp: server_step_def split: discovery_phase.splits if_splits)
next
  case Apply
  with assms that(9) show thesis
    by (auto simp: server_step_def Let_def split: discovery_phase.splits list.splits)
next
  case Commit
  with assms that(10) show thesis
    by (auto simp: server_step_def split: discovery_phase.splits list.splits)
next
  case StreamEnd
  with assms that(11) show thesis
    by (auto simp: server_step_def split: if_splits)
next
  case Signal
  with assms that(12) show thesis
    by (auto simp: server_step_def)
next
  case StopDiscovery
  with assms that(13,14) show thesis
    by (auto simp: server_step_def split: discovery_phase.splits if_splits)
qed

lemma call_phase_steps [simp]:
  "call_phase (s\<lparr>rn_lock := l, rn_calls := rn_calls s @ [(c, p)]\<rparr>) =
     (call_phase s)(length (rn_calls s) \<mapsto> p)"
  "call_phase (s\<lparr>rn_world := w, rn_calls := rn_calls s @ [(c, p)]\<rparr>) =
     (call_phase s)(length (rn_calls s) \<mapsto> p)"
  "i < length (rn_calls s) \<Longrightarrow>
     call_phase (s\<lparr>rn_lock := l, rn_calls := set_phase i p (rn_calls s)\<rparr>) = (call_phase s)(i \<mapsto> p)"
  "i < length (rn_calls s) \<Longrightarrow>
     call_phase (s\<lparr>rn_world := w, rn_calls := set_phase i p (rn_calls s)\<rparr>) = (call_phase s)(i \<mapsto> p)"
  using call_phase_append [of "s\<lparr>rn_lock := l\<rparr>" c p] call_phase_append [of "s\<lparr>rn_world := w\<rparr>" c p]
    call_phase_set [of i "s\<lparr>rn_lock := l\<rparr>" p] call_phase_set [of i "s\<lparr>rn_world := w\<rparr>" p]
  by simp_all


context server_lock
begin

lemma guards_right_step:
  assumes "server_step S F e s = Some s'" and "guards_right F s"
  shows "guards_right F s'"
  using assms(1)
proof (cases rule: server_stepE)
  case (queue c)
  then show ?thesis
    using assms(2) lock_right_read [of "rn_lock s" "\<lambda>i. has_place (call_phase s i)" _ _ _ "length (rn_calls s)"]
    by (simp add: guards_right_def phase_update call_phase_beyond fun_upd_idem
        del: fun_upd_apply)
next
  case (reject c a w)
  then show ?thesis
    using assms(2) by (simp add: guards_right_def phase_update call_phase_beyond fun_upd_idem
        del: fun_upd_apply)
next
  case (act i a w)
  then show ?thesis
    using assms(2) lock_right_act [of "rn_lock s" "\<lambda>i. has_place (call_phase s i)" _ _ _ i]
    by (simp add: guards_right_def phase_update fun_upd_idem del: fun_upd_apply)
next
  case (respond i a)
  then show ?thesis
    using assms(2) lock_right_leave [of "rn_lock s" "\<lambda>i. has_place (call_phase s i)" _ _ _ i]
    by (simp add: guards_right_def phase_update del: fun_upd_apply)
next
  case (abandon i)
  then show ?thesis
    using assms(2) lock_right_leave [of "rn_lock s" "\<lambda>i. has_place (call_phase s i)" _ _ _ i]
    by (simp add: guards_right_def phase_update del: fun_upd_apply)
next
  case (item d rest)
  then show ?thesis
    using assms(2) by (simp add: guards_right_def lock_right_write)
next
  case (granted d)
  then show ?thesis
    using assms(2) by (simp add: guards_right_def lock_right_begin)
next
  case (commit g)
  then show ?thesis
    using assms(2) by (simp add: guards_right_def lock_right_done)
next
  case (withdrawn d)
  then show ?thesis
    using assms(2) by (simp add: guards_right_def lock_right_done)
qed (use assms(2) in \<open>simp_all add: guards_right_def\<close>)

text \<open>A reader's guard and an item being applied exclude each other.\<close>

lemma readers_exclude_applying:
  assumes "guards_right F s" and "(Request i, False) \<in> set (fl_held F (rn_lock s))"
  shows "\<not> is_applying (rn_discovery s)"
proof
  assume "is_applying (rn_discovery s)"
  then have "(Discovery, True) \<in> set (fl_held F (rn_lock s))" "exclusive (fl_held F (rn_lock s))"
    using assms(1) by (simp_all add: guards_right_def lock_right_def)
  with assms(2) show False by (auto simp: exclusive_def list_all_iff)
qed

lemma agreed_topology:
  "discovery_agrees L s q \<Longrightarrow> \<not> is_applying (rn_discovery s) \<Longrightarrow> rn_topology s = se_topology q"
  by (cases "rn_discovery s") (simp_all add: discovery_agrees_def)

end

text \<open>A call that does not take the lock does not depend on the topology.\<close>

lemma unextracted_answer:
  assumes "endpoint = VersionDocument \<or> \<not> extracted Q query body endpoint"
  shows "endpoint_answer E Q enc vendor topo parts query body endpoint args w =
      endpoint_answer E Q enc vendor topo' parts query body endpoint args w"
  using assms
  by (cases endpoint) (auto simp: entities_answer_def capabilities_answer_def handler_defs
      with_rejection_def with_query_def with_body_def acting_def isl_def split: option.splits)

lemma unlocked_answer:
  "\<not> takes_lock (site_query S) c \<Longrightarrow> call_answer S topo c w = call_answer S topo' c w"
  by (auto simp: takes_lock_def call_answer_def serve_request_def intro: unextracted_answer
      split: list.splits prod.splits)


lemma stream_diffs_simps [simp]:
  "stream_diffs [] = []" "stream_diffs (Inl e # rest) = stream_diffs rest"
  "stream_diffs (Inr d # rest) = d # stream_diffs rest"
  by (simp_all add: stream_diffs_def List.map_filter_simps)

lemma simulated_call:
  "map fst (rn_calls s) = se_calls q \<Longrightarrow> i < length (rn_calls s) \<Longrightarrow>
     se_calls q ! i = fst (rn_calls s ! i)"
  by (metis nth_map)

lemma discovery_agrees_frame [simp]:
  "discovery_agrees L (s\<lparr>rn_lock := l, rn_calls := cs\<rparr>) q = discovery_agrees L s q"
  "discovery_agrees L (s\<lparr>rn_world := w, rn_calls := cs\<rparr>) q = discovery_agrees L s q"
  "discovery_agrees L (s\<lparr>rn_shutdown := b\<rparr>) q = discovery_agrees L s q"
  "discovery_agrees L s (q\<lparr>se_calls := ns\<rparr>) = discovery_agrees L s q"
  "discovery_agrees L s (q\<lparr>se_world := w, se_answers := an\<rparr>) = discovery_agrees L s q"
  "discovery_agrees L s (q\<lparr>se_world := w, se_answers := an, se_calls := ns\<rparr>) = discovery_agrees L s q"
  by (simp_all add: discovery_agrees_def split: discovery_phase.split)

context server_lock
begin

lemma simulates_step:
  assumes "server_step S F e s = Some s'" and "guards_right F s" and "simulates S F s q"
  shows "simulates S F s' (serial_step S e q)"
proof -
  note sim = assms(3) [unfolded simulates_def]
  have n: "length (se_calls q) = length (rn_calls s)"
    using sim by (metis length_map)
  show ?thesis
    using assms(1)
  proof (cases rule: server_stepE)
    case (queue c)
    then show ?thesis
      using sim n by (auto simp: simulates_def)
  next
    case (reject c a w)
    have "call_answer S (se_topology q) c (se_world q) = (a, w)"
      using reject(3) sim unlocked_answer [OF reject(2)] by metis
    with reject show ?thesis
      using sim n by (auto simp: simulates_def serial_answer_def)
  next
    case (act i a w)
    have "\<not> is_applying (rn_discovery s)"
      using readers_exclude_applying [OF assms(2) act(4)] .
    then have "rn_topology s = se_topology q" using sim agreed_topology by blast
    with act show ?thesis
      using sim simulated_call [of s q i]
      by (auto simp: simulates_def serial_answer_def)
  next
    case (respond i a)
    then show ?thesis
      using sim by (auto simp: simulates_def)
  next
    case (abandon i)
    then show ?thesis
      using sim by (auto simp: simulates_def)
  next
    case (granted d)
    then show ?thesis
      using sim by (auto simp: simulates_def discovery_agrees_def apply_diff_def topology_write_def)
  next
    case (mutate g p ps)
    then show ?thesis
      using sim by (auto simp: simulates_def discovery_agrees_def)
  next
    case (commit g)
    then show ?thesis
      using sim by (auto simp: simulates_def discovery_agrees_def)
  next
    case signal
    then show ?thesis
      using sim by (auto simp: simulates_def)
  qed (use sim in \<open>auto simp: simulates_def discovery_agrees_def\<close>)
qed

lemma run_simulates:
  "server_run S F es s = Some s' \<Longrightarrow> guards_right F s \<Longrightarrow> simulates S F s q \<Longrightarrow>
     guards_right F s' \<and> simulates S F s' (fold (serial_step S) es q)"
proof (induction es arbitrary: s q)
  case (Cons e es)
  then obtain s1 where "server_step S F e s = Some s1" "server_run S F es s1 = Some s'"
    by (auto simp: bind_eq_Some_conv)
  with Cons.IH Cons.prems(2,3) show ?case
    using guards_right_step simulates_step by (metis fold_simps(2))
qed simp

lemma guards_right_start: "guards_right F (server_start F topo w discover providers merged)"
  by (simp add: guards_right_def call_phase_def server_start_def lock_right_new)

end

subsection \<open>Progress\<close>

text \<open>The moves of handlers and of the discovery task that finish what is under way.\<close>

fun is_progress :: "'i server_event \<Rightarrow> bool" where
  "is_progress (Handle i) = True"
| "is_progress (Respond i) = True"
| "is_progress Begin = True"
| "is_progress Apply = True"
| "is_progress Commit = True"
| "is_progress _ = False"

fun phase_work :: "phase \<Rightarrow> nat" where
  "phase_work Pending = 2"
| "phase_work (Acted a) = 1"
| "phase_work _ = 0"

fun discovery_work :: "('g, 'w) discovery_phase \<Rightarrow> nat" where
  "discovery_work (Acquiring d) = Suc (Suc (length (diff_ops d)))"
| "discovery_work (Applying g ps) = Suc (length ps)"
| "discovery_work _ = 0"

definition work :: "('mc, 'ma, 'mr, 's, 'w, 'i, 'l, 'o) running \<Rightarrow> nat" where
  "work s = sum_list (map (phase_work \<circ> snd) (rn_calls s)) + discovery_work (rn_discovery s)"

lemma set_phase_work:
  assumes "i < length cs"
  shows "sum_list (map (phase_work \<circ> snd) (set_phase i p cs)) + phase_work (snd (cs ! i)) =
    sum_list (map (phase_work \<circ> snd) cs) + phase_work p"
  using assms
proof (induction cs arbitrary: i)
  case (Cons c cs)
  then show ?case by (cases i) (auto simp: set_phase_def)
qed simp

lemma progress_work:
  assumes "server_step S F e s = Some s'" and "is_progress e"
  shows "work s = Suc (work s')"
  using assms(1)
proof (cases rule: server_stepE)
  case (act i a w)
  then have "snd (rn_calls s ! i) = Pending" by (simp add: call_phase_def)
  with act set_phase_work [of i "rn_calls s" "Acted a"] show ?thesis by (simp add: work_def)
next
  case (respond i a)
  then have "snd (rn_calls s ! i) = Acted a" by (simp add: call_phase_def)
  with respond set_phase_work [of i "rn_calls s" "Answered a"] show ?thesis by (simp add: work_def)
qed (use assms(2) in \<open>auto simp: work_def\<close>)

lemma no_work_iff:
  "work s = 0 \<longleftrightarrow> (\<forall>i. \<not> has_place (call_phase s i)) \<and> \<not> wants_lock (rn_discovery s)"
proof -
  have phase: "phase_work p = 0 \<longleftrightarrow> \<not> has_place (Some p)" for p by (cases p) simp_all
  have "discovery_work (rn_discovery s) = 0 \<longleftrightarrow> \<not> wants_lock (rn_discovery s)"
    by (cases "rn_discovery s") simp_all
  moreover have "(\<forall>c \<in> set (rn_calls s). phase_work (snd c) = 0) \<longleftrightarrow>
      (\<forall>i. \<not> has_place (call_phase s i))"
    unfolding phase by (auto simp: all_set_conv_all_nth call_phase_def)
  ultimately show ?thesis by (simp add: work_def sum_list_eq_0_iff)
qed

context server_lock
begin

lemma progress_possible:
  assumes right: "guards_right F s" and "work s \<noteq> 0"
  shows "\<exists>e. is_progress e \<and> server_step S F e s \<noteq> None"
proof (cases "\<exists>i a. call_phase s i = Some (Acted a)")
  case True
  then obtain i a where "call_phase s i = Some (Acted a)" by auto
  then have "server_step S F (Respond i) s \<noteq> None"
    by (auto simp: server_step_def call_phase_def split: if_splits)
  then show ?thesis by (intro exI [of _ "Respond i"]) simp
next
  case no_acted: False
  show ?thesis
  proof (cases "is_applying (rn_discovery s)")
    case True
    then obtain g ps where "rn_discovery s = Applying g ps"
      by (cases "rn_discovery s") simp_all
    then show ?thesis
      by (intro exI [of _ "if ps = [] then Commit else Apply"])
        (cases ps, simp_all add: server_step_def Let_def)
  next
    case idle: False
    have "(Request i, False) \<in> set (line F (rn_lock s)) \<longleftrightarrow> has_place (call_phase s i)" for i
      using right by (simp add: guards_right_def lock_right_def)
    moreover have "(Discovery, True) \<in> set (line F (rn_lock s)) \<longleftrightarrow> wants_lock (rn_discovery s)"
      using right by (simp add: guards_right_def lock_right_def)
    ultimately have "line F (rn_lock s) \<noteq> []"
      using assms(2) unfolding no_work_iff by fastforce
    then obtain k b where held: "(k, b) \<in> set (fl_held F (rn_lock s))"
      using right by (cases "fl_held F (rn_lock s)") (auto simp: guards_right_def lock_right_def line_def)
    then have line: "(k, b) \<in> set (line F (rn_lock s))" by (simp add: line_def)
    show ?thesis
    proof (cases k)
      case (Request i)
      then have i: "has_place (call_phase s i)" "\<not> b"
        using line right by (simp_all add: guards_right_def lock_right_def)
      then have "call_phase s i = Some Pending"
        using no_acted by (cases "call_phase s i" rule: has_place.cases) auto
      then have "server_step S F (Handle i) s \<noteq> None"
        using held Request i by (auto simp: server_step_def call_phase_def split: if_splits prod.splits)
      then show ?thesis by (intro exI [of _ "Handle i"]) simp
    next
      case Discovery
      then have "wants_lock (rn_discovery s)" "b"
        using line right by (simp_all add: guards_right_def lock_right_def)
      then obtain d where "rn_discovery s = Acquiring d"
        using idle by (cases "rn_discovery s") auto
      then show ?thesis
        using held Discovery \<open>b\<close> by (intro exI [of _ Begin]) (simp add: server_step_def)
    qed
  qed
qed

end

lemma progress_run_work:
  "list_all is_progress es \<Longrightarrow> server_run S F es s = Some s' \<Longrightarrow> work s = length es + work s'"
  by (induction es arbitrary: s) (auto simp: bind_eq_Some_conv dest: progress_work)

text \<open>A call that is in service stays so, or is answered, as long as nobody abandons it.\<close>

fun in_service :: "phase option \<Rightarrow> bool" where
  "in_service (Some Abandoned) = False"
| "in_service None = False"
| "in_service _ = True"

lemma progress_keeps_calls:
  assumes "server_step S F e s = Some s'" and "is_progress e" and "in_service (call_phase s i)"
  shows "in_service (call_phase s' i)"
  using assms(1) by (cases rule: server_stepE) (use assms(2,3) in auto)

lemma progress_run_keeps_calls:
  "list_all is_progress es \<Longrightarrow> server_run S F es s = Some s' \<Longrightarrow> in_service (call_phase s i) \<Longrightarrow>
     in_service (call_phase s' i)"
  by (induction es arbitrary: s) (auto simp: bind_eq_Some_conv dest: progress_keeps_calls)

lemma server_run_append:
  "server_run S F (es @ es') s = Option.bind (server_run S F es s) (server_run S F es')"
  by (induction es arbitrary: s) (auto split: bind_splits)

context server_lock
begin

lemma run_guards_right:
  "server_run S F es (server_start F topo w discover providers merged) = Some s \<Longrightarrow> guards_right F s"
proof (induction es arbitrary: s rule: rev_induct)
  case (snoc e es)
  then show ?case
    by (auto simp: server_run_append bind_eq_Some_conv intro: guards_right_step)
qed (auto intro: guards_right_start)

end

subsection \<open>A call that does not return\<close>

text \<open>
  \<open>j\<close> holds a reader's guard, the discovery task waits for the lock, and none of the calls from
  the \<open>n\<close>-th on is before it in the line.
\<close>

definition held_up ::
  "(ticket, 'l) fair_lock \<Rightarrow> nat \<Rightarrow> nat \<Rightarrow> ('mc, 'ma, 'mr, 's, 'w, 'i, 'l, 'o) running \<Rightarrow> bool" where
  "held_up F j n s \<longleftrightarrow>
     (Request j, False) \<in> set (fl_held F (rn_lock s)) \<and>
     (\<exists>p r. fl_waiting F (rn_lock s) = p @ (Discovery, True) # r \<and>
       (\<forall>i\<ge>n. (Request i, False) \<notin> set (fl_held F (rn_lock s)) \<union> set p))"

definition later_waiting ::
  "('mc, 'ma, 'mr, 's, 'w, 'set, 'v) site \<Rightarrow> nat \<Rightarrow>
     ('mc, 'ma, 'mr, 's, 'w, 'i, 'l, 'o) running \<Rightarrow> bool" where
  "later_waiting S n s \<longleftrightarrow> (\<forall>i. n \<le> i \<longrightarrow> i < length (rn_calls s) \<longrightarrow>
     takes_lock (site_query S) (fst (rn_calls s ! i)) \<longrightarrow>
     snd (rn_calls s ! i) = Pending \<or> snd (rn_calls s ! i) = Abandoned)"

lemma held_upI:
  assumes "(Request j, False) \<in> set (fl_held F l)"
    and "fl_waiting F l = p @ (Discovery, True) # r"
    and "set (fl_held F l) \<union> set p = A" and "A \<subseteq> B" and "\<forall>i\<ge>n. (Request i, False) \<notin> B"
  shows "held_up F j n (s\<lparr>rn_lock := l, rn_calls := cs\<rparr>)"
proof -
  have "\<forall>i\<ge>n. (Request i, False) \<notin> set (fl_held F l) \<union> set p"
    using assms(3-5) by blast
  with assms(2) have "\<exists>p r. fl_waiting F l = p @ (Discovery, True) # r \<and>
      (\<forall>i\<ge>n. (Request i, False) \<notin> set (fl_held F l) \<union> set p)"
    by blast
  with assms(1) show ?thesis by (simp add: held_up_def)
qed

lemma admit_before:
  assumes "x \<in> set h"
  obtains p' where "snd (admit h (p @ (k, True) # r)) = p' @ (k, True) # r"
    and "set (fst (admit h (p @ (k, True) # r))) \<union> set p' = set h \<union> set p"
proof -
  have "h \<noteq> []" using assms by auto
  then obtain p' where p': "snd (admit h (p @ (k, True) # r)) = p' @ (k, True) # r"
    using admit_blocked [of h p k r] by blast
  moreover have "fst (admit h (p @ (k, True) # r)) @ p' = h @ p"
    using admit_line [of h "p @ (k, True) # r"] unfolding p' by simp
  ultimately show thesis using that by (metis set_append)
qed

context server_lock
begin

lemma held_up_read:
  assumes "held_up F j n s"
  shows "held_up F j n (s\<lparr>rn_lock := fl_read F (Request m) (rn_lock s), rn_calls := cs\<rparr>)"
proof -
  let ?h = "fl_held F (rn_lock s)"
  obtain p r where j: "(Request j, False) \<in> set ?h"
    and w: "fl_waiting F (rn_lock s) = p @ (Discovery, True) # r"
    and later: "\<forall>i\<ge>n. (Request i, False) \<notin> set ?h \<union> set p"
    using assms by (auto simp: held_up_def)
  from j obtain p' where p': "snd (admit ?h (p @ (Discovery, True) # r @ [(Request m, False)])) =
      p' @ (Discovery, True) # r @ [(Request m, False)]"
    "set (fst (admit ?h (p @ (Discovery, True) # r @ [(Request m, False)]))) \<union> set p' =
      set ?h \<union> set p"
    by (rule admit_before)
  show ?thesis
    using held_operations(1) [OF j] p' later
    by (intro held_upI [where A = "set ?h \<union> set p" and B = "set ?h \<union> set p" and p = p'])
      (simp_all add: lock_parts w)
qed

lemma held_up_release:
  assumes "held_up F j n s" and "i \<noteq> j"
  shows "held_up F j n (s\<lparr>rn_lock := fl_release F (Request i) (rn_lock s), rn_calls := cs\<rparr>)"
proof -
  let ?h = "without (Request i) (fl_held F (rn_lock s))"
  obtain p r where j: "(Request j, False) \<in> set (fl_held F (rn_lock s))"
    and w: "fl_waiting F (rn_lock s) = p @ (Discovery, True) # r"
    and later: "\<forall>i\<ge>n. (Request i, False) \<notin> set (fl_held F (rn_lock s)) \<union> set p"
    using assms(1) by (auto simp: held_up_def)
  let ?p = "without (Request i) p" and ?r = "without (Request i) r"
  have queue: "without (Request i) (fl_waiting F (rn_lock s)) = ?p @ (Discovery, True) # ?r"
    using w by (simp add: without_def)
  have "(Request j, False) \<in> set ?h" using j assms(2) by (simp add: set_without)
  then obtain p' where p': "snd (admit ?h (?p @ (Discovery, True) # ?r)) = p' @ (Discovery, True) # ?r"
    "set (fst (admit ?h (?p @ (Discovery, True) # ?r))) \<union> set p' = set ?h \<union> set ?p"
    by (rule admit_before)
  have held: "(Request j, False) \<in> set (fl_held F (fl_release F (Request i) (rn_lock s)))"
    using j assms(2) by (intro held_operations(3)) simp_all
  show ?thesis
    by (rule held_upI [where A = "set ?h \<union> set ?p" and p = p', OF held _ _ _ later])
      (use p' in \<open>auto simp: lock_parts queue set_without\<close>)
qed

lemma held_up_step:
  assumes "server_step S F e s = Some s'" and "guards_right F s"
    and "held_up F j n s" and "rn_discovery s = Acquiring d" and "n \<le> length (rn_calls s)"
    and "e \<notin> {Respond j, Abandon j, StopDiscovery}" and "later_waiting S n s"
  shows "held_up F j n s' \<and> rn_discovery s' = Acquiring d \<and> rn_topology s' = rn_topology s \<and>
    n \<le> length (rn_calls s') \<and> later_waiting S n s'"
  using assms(1)
proof (cases rule: server_stepE)
  case (queue c)
  then show ?thesis
    using assms(3-7) held_up_read [OF assms(3)]
    by (auto simp: later_waiting_def nth_append less_Suc_eq)
next
  case (reject c a w)
  then show ?thesis
    using assms(3-7) by (auto simp: held_up_def later_waiting_def nth_append less_Suc_eq)
next
  case (act i a w)
  have "i < n" using act(4) assms(3) unfolding held_up_def by (meson UnI1 not_le_imp_less)
  with act show ?thesis
    using assms(3-7) by (auto simp: held_up_def later_waiting_def set_phase_def)
next
  case (respond i a)
  then have "i \<noteq> j" using assms(6) by auto
  moreover have "i < n" if lock: "takes_lock (site_query S) (fst (rn_calls s ! i))"
  proof (rule ccontr)
    assume "\<not> i < n"
    moreover have "snd (rn_calls s ! i) = Acted a"
      using respond by (simp add: call_phase_def)
    ultimately show False
      using assms(7) [unfolded later_waiting_def, rule_format, of i] respond(2) lock
      by (simp add: not_less)
  qed
  ultimately show ?thesis
    using respond assms(3-7) held_up_release [OF assms(3)]
    by (auto simp: later_waiting_def set_phase_def nth_list_update)
next
  case (abandon i)
  then have "i \<noteq> j" using assms(6) by auto
  with abandon show ?thesis
    using assms(3-7) held_up_release [OF assms(3)]
    by (auto simp: later_waiting_def set_phase_def nth_list_update)
next
  case (granted d')
  have "(Discovery, True) \<in> set (fl_waiting F (rn_lock s))" using assms(3) by (auto simp: held_up_def)
  moreover have "distinct (map fst (line F (rn_lock s)))"
    using assms(2) by (simp add: guards_right_def lock_right_def)
  ultimately show ?thesis
    using granted(3) by (force simp: line_def)
next
  case signal
  then show ?thesis
    using assms(3-7) by (auto simp: held_up_def later_waiting_def)
qed (use assms(4,6) in simp_all)

end

subsection \<open>Subscribers\<close>

text \<open>The events of the item that is being applied, which its guard sends when it is dropped.\<close>

fun outstanding :: "('t write_guard, 'w) discovery_phase \<Rightarrow> topology_event list" where
  "outstanding (Applying g ps) = wg_pending g"
| "outstanding _ = []"

definition informed ::
  "('mc, 'ma, 'mr, 's, 'w) containers \<Rightarrow> entity_ref set \<Rightarrow>
     ('mc, 'ma, 'mr, 's, 'w, 'i, 'l, 'o) running \<Rightarrow> bool" where
  "informed L R s \<longleftrightarrow> topology_wf L (rn_topology s) \<and> list_all event_ok (rn_stream s) \<and>
     (case rn_discovery s of
        Acquiring d \<Rightarrow> list_all op_ok (diff_ops d)
      | Applying g ps \<Rightarrow> wg_state g = rn_topology s \<and> list_all op_ok ps
      | _ \<Rightarrow> True) \<and>
     replay (rn_published s @ outstanding (rn_discovery s)) R = topology_refs L (rn_topology s)"

lemma informed_frame [simp]:
  "informed L R (s\<lparr>rn_lock := l, rn_calls := cs\<rparr>) = informed L R s"
  "informed L R (s\<lparr>rn_world := w, rn_calls := cs\<rparr>) = informed L R s"
  "informed L R (s\<lparr>rn_shutdown := b\<rparr>) = informed L R s"
  by (simp_all add: informed_def split: discovery_phase.split)

context topology_containers
begin

lemma informed_step:
  assumes "server_step S F e s = Some s'" and "env_containers (site_env S) = L" and "informed L R s"
  shows "informed L R s'"
  using assms(1)
proof (cases rule: server_stepE)
  case (failed err rest)
  then show ?thesis using assms(3) by (simp add: informed_def)
next
  case (item d rest)
  then show ?thesis using assms(3) diff_ops_ok [of d] by (simp add: informed_def event_ok_def)
next
  case (granted d)
  then show ?thesis using assms(3) by (simp add: informed_def topology_write_def)
next
  case (mutate g p ps)
  then show ?thesis
    using assms(2,3) apply_op_wf [of g p] op_events_refs [of g p]
    by (simp add: informed_def apply_op_pending)
next
  case (commit g)
  then show ?thesis using assms(3) by (simp add: informed_def)
next
  case ended
  then show ?thesis using assms(3) by (simp add: informed_def)
next
  case stopped
  then show ?thesis using assms(3) by (simp add: informed_def)
next
  case (withdrawn d)
  then show ?thesis using assms(3) by (simp add: informed_def)
qed (use assms(3) in simp_all)

lemma informed_run:
  "server_run S F es s = Some s' \<Longrightarrow> env_containers (site_env S) = L \<Longrightarrow> informed L R s \<Longrightarrow>
     informed L R s'"
proof (induction es arbitrary: s)
  case (Cons e es)
  then obtain s1 where "server_step S F e s = Some s1" "server_run S F es s1 = Some s'"
    by (auto simp: bind_eq_Some_conv)
  with Cons show ?case using informed_step by blast
qed simp

end

subsection \<open>A concrete lock\<close>

text \<open>The holders and the queue, as lists.\<close>

definition queue_lock ::
  "(ticket, (ticket \<times> bool) list \<times> (ticket \<times> bool) list) fair_lock" where
  "queue_lock = \<lparr> fl_new = ([], []),
     fl_read = (\<lambda>k (h, q). admit h (q @ [(k, False)])),
     fl_write = (\<lambda>k (h, q). admit h (q @ [(k, True)])),
     fl_release = (\<lambda>k (h, q). admit (without k h) (without k q)),
     fl_held = fst, fl_waiting = snd \<rparr>"

interpretation queue_lock: fair_lock_laws queue_lock
  by unfold_locales (simp_all add: queue_lock_def split_beta)

interpretation server_queue: server_lock queue_lock
  by unfold_locales

text \<open>A call that arrives before an item of discovery, and is handled while the item waits.\<close>

definition sample_site ::
  "((string \<times> unit component) list, (string \<times> unit app) list, (string \<times> unit area) list,
    string list, unit, char \<Rightarrow> bool, vendor_info) site" where
  "sample_site = \<lparr> site_env = sample_env, site_query = plain_query,
     site_vendor_json = vendor_info_to_json, site_vendor = None \<rparr>"

definition sample_call :: "unit http_call" where
  "sample_call = \<lparr> call_parts = sample_parts, call_method = GET, call_target = ''/components'',
     call_body = None \<rparr>"

definition sample_server ::
  "((string \<times> unit component) list, (string \<times> unit app) list, (string \<times> unit area) list,
    string list, unit, unit, (ticket \<times> bool) list \<times> (ticket \<times> bool) list, unit) running" where
  "sample_server = server_start queue_lock (topology_state_new list_containers) ()
     (\<lambda>p. Inr p :: (unit discovery_error, unit) result) [()] (\<lambda>_. [sample_diff])"

lemma sample_call_takes_lock [simp]: "takes_lock (site_query sample_site) sample_call"
  by (simp add: takes_lock_def sample_site_def sample_call_def calls_def target_segments_def
      path_segments_def target_query_def router_defs)

definition sample_item :: "unit discovery_diff" where
  "sample_item = projr sample_diff"

lemma sample_diff_item: "sample_diff = Inr sample_item"
  by (simp add: sample_item_def sample_diff_def)

lemma sample_stream:
  "discovery_stream (\<lambda>p. Inr p :: (unit discovery_error, unit) result) [()] (\<lambda>_. [sample_diff]) =
     [Inr sample_item]"
  by (simp add: discovery_stream_def started_streams_def List.map_filter_simps sample_diff_item)

lemma sample_start:
  "server_start queue_lock topo () (\<lambda>p. Inr p :: (unit discovery_error, unit) result) [()] (\<lambda>_. [sample_diff]) =
     \<lparr> rn_lock = ([], []), rn_topology = topo, rn_published = [], rn_world = (), rn_calls = [],
       rn_discovery = Listening, rn_stream = [Inr sample_item], rn_shutdown = False \<rparr>"
  by (simp add: server_start_def discovery_stream_def started_streams_def List.map_filter_simps
      queue_lock_def sample_diff_item)

lemma queue_lock_simps:
  "fl_read queue_lock k (h, q) = admit h (q @ [(k, False)])"
  "fl_write queue_lock k (h, q) = admit h (q @ [(k, True)])"
  "fl_release queue_lock k (h, q) = admit (without k h) (without k q)"
  "fl_held queue_lock (h, q) = h"
  by (simp_all add: queue_lock_def)

lemmas sample_steps = sample_server_def sample_start server_step_def queue_lock_simps set_phase_def
  without_def split_beta

definition sample_phase :: phase where
  "sample_phase =
     Acted (fst (call_answer sample_site (topology_state_new list_containers) sample_call ()))"

definition sample_waiting ::
  "((string \<times> unit component) list, (string \<times> unit app) list, (string \<times> unit area) list,
    string list, unit, unit, (ticket \<times> bool) list \<times> (ticket \<times> bool) list, unit) running" where
  "sample_waiting = \<lparr> rn_lock = ([(Request 0, False)], [(Discovery, True)]),
     rn_topology = topology_state_new list_containers, rn_published = [], rn_world = (),
     rn_calls = [(sample_call, sample_phase)], rn_discovery = Acquiring sample_item,
     rn_stream = [], rn_shutdown = False \<rparr>"

lemma sample_first_half:
  "server_run sample_site queue_lock [Arrive sample_call, Receive, Handle 0] sample_server =
     Some sample_waiting"
  by (simp add: sample_steps sample_phase_def sample_waiting_def)

lemma sample_ops: "diff_ops sample_item = [RemoveApp ''nav'', AddComponent (component_new ''tcu'' ''TCU''),
    AddArea (area_new ''rear'' ''Rear'')]"
  by (simp add: sample_item_def sample_diff_def diff_ops_def removal_op_def entity_ref_defs
      entity_collection_new_def)

definition sample_events :: "unit server_event list" where
  "sample_events = [Respond 0, Begin, Apply, Apply, Apply, Commit]"

lemma sample_second_half:
  "\<exists>s. server_run sample_site queue_lock
     ([Arrive sample_call, Receive, Handle 0] @ sample_events) sample_server = Some s \<and>
     rn_discovery s = Listening \<and> call_phase s 0 = Some (Answered (fst
       (call_answer sample_site (topology_state_new list_containers) sample_call ())))"
  unfolding server_run_append sample_first_half
  by (simp add: sample_steps sample_events_def sample_ops sample_phase_def sample_waiting_def
      call_phase_def Let_def)

subsection \<open>Properties\<close>

text \<open>
  C4: The running server is serial.  Whatever the interleaving of calls, discovery items,
  abandoned calls and shutdown, every answer is that of a server which handles the calls one at
  a time, in the order their handlers act, and the items one at a time and whole, in the order
  they are committed; so is the world the providers leave, and so is the topology whenever no
  item is being applied.
\<close>

theorem running_server_is_serial:
  assumes "server_lock F"
    and "server_run S F es (server_start F topo w discover providers merged) = Some s"
  defines "q \<equiv> serial_run S es topo w
    (stream_diffs (discovery_stream discover providers merged))"
  shows "(\<forall>i a. call_phase s i = Some (Answered a) \<longrightarrow> se_answers q i = Some a) \<and>
    rn_world s = se_world q \<and>
    ((\<forall>g ps. rn_discovery s \<noteq> Applying g ps) \<longrightarrow> rn_topology s = se_topology q)"
proof -
  let ?s = "server_start F topo w discover providers merged"
  let ?q = "\<lparr> se_topology = topo, se_world = w, se_calls = [], se_answers = Map.empty,
    se_diffs = stream_diffs (discovery_stream discover providers merged) \<rparr>"
  have "simulates S F ?s ?q"
    by (simp add: simulates_def discovery_agrees_def call_phase_def server_start_def)
  then have sim: "simulates S F s q"
    unfolding q_def serial_run_def
    using server_lock.run_simulates [OF assms(1,2) server_lock.guards_right_start [OF assms(1)]]
    by blast
  have "rn_topology s = se_topology q" if "\<forall>g ps. rn_discovery s \<noteq> Applying g ps"
    using sim that
    by (cases "rn_discovery s") (simp_all add: simulates_def discovery_agrees_def)
  with sim show ?thesis by (simp add: simulates_def)
qed


theorem running_server_is_serial_witness:
  "\<exists>s. server_run sample_site queue_lock ([Arrive sample_call, Receive, Handle 0] @ sample_events)
       sample_server = Some s \<and>
     rn_topology s = se_topology (serial_run sample_site
       ([Arrive sample_call, Receive, Handle 0] @ sample_events) (topology_state_new list_containers)
       () [sample_item]) \<and>
     se_answers (serial_run sample_site ([Arrive sample_call, Receive, Handle 0] @ sample_events)
       (topology_state_new list_containers) () [sample_item]) 0 =
       Some (fst (call_answer sample_site (topology_state_new list_containers) sample_call ()))"
proof -
  obtain s where s: "server_run sample_site queue_lock
      ([Arrive sample_call, Receive, Handle 0] @ sample_events) sample_server = Some s"
    "rn_discovery s = Listening" "call_phase s 0 = Some (Answered (fst
       (call_answer sample_site (topology_state_new list_containers) sample_call ())))"
    using sample_second_half by blast
  obtain a b where "fst (call_answer sample_site (topology_state_new list_containers) sample_call ()) = (a, b)"
    by fastforce
  then show ?thesis
    using running_server_is_serial [OF server_queue.server_lock_axioms s(1) [unfolded sample_server_def]] s
    by (simp add: sample_stream del: server_run.simps)
qed

text \<open>
  C12: No call is left behind.  From every state the server can reach, the handlers and the
  discovery task can only make a bounded number of moves before everything under way is finished,
  and when they can make none, every call that was in service is answered and discovery waits for
  its next item: nobody starves and nothing deadlocks, as long as each provider call returns.
\<close>

theorem running_server_answers_every_call:
  assumes "server_lock F"
    and "server_run S F es (server_start F topo w discover providers merged) = Some s"
    and "list_all is_progress es'" and "server_run S F es' s = Some s'"
  shows "length es' \<le> work s \<and>
    ((\<forall>e. is_progress e \<longrightarrow> server_step S F e s' = None) \<longrightarrow>
      \<not> wants_lock (rn_discovery s') \<and>
      (\<forall>i. in_service (call_phase s i) \<longrightarrow> (\<exists>a. call_phase s' i = Some (Answered a))))"
proof (intro conjI impI allI)
  show "length es' \<le> work s" using progress_run_work [OF assms(3,4)] by simp
  assume stuck: "\<forall>e. is_progress e \<longrightarrow> server_step S F e s' = None"
  have "server_run S F (es @ es') (server_start F topo w discover providers merged) = Some s'"
    using assms(2,4) by (simp add: server_run_append)
  then have right: "guards_right F s'" by (rule server_lock.run_guards_right [OF assms(1)])
  have idle: "work s' = 0"
  proof (rule ccontr)
    assume "work s' \<noteq> 0"
    then obtain e where "is_progress e" "server_step S F e s' \<noteq> None"
      using server_lock.progress_possible [OF assms(1) right, of S] by auto
    with stuck show False by simp
  qed
  then show "\<not> wants_lock (rn_discovery s')" by (simp add: no_work_iff)
  fix i
  assume "in_service (call_phase s i)"
  then have "in_service (call_phase s' i)" by (rule progress_run_keeps_calls [OF assms(3,4)])
  with idle show "\<exists>a. call_phase s' i = Some (Answered a)"
    by (cases "call_phase s' i" rule: in_service.cases) (auto simp: no_work_iff dest: spec [of _ i])
qed

theorem running_server_answers_every_call_witness:
  "\<exists>s. server_run sample_site queue_lock [Arrive sample_call, Receive, Handle 0] sample_server = Some s \<and>
     length sample_events \<le> work s"
proof -
  obtain s' where "server_run sample_site queue_lock
      ([Arrive sample_call, Receive, Handle 0] @ sample_events) sample_server = Some s'"
    using sample_second_half by blast
  then obtain s where s: "server_run sample_site queue_lock [Arrive sample_call, Receive, Handle 0]
      sample_server = Some s" "server_run sample_site queue_lock sample_events s = Some s'"
    unfolding server_run_append bind_eq_Some_conv by blast
  have "list_all is_progress sample_events" by (simp add: sample_events_def)
  from running_server_answers_every_call [OF server_queue.server_lock_axioms
      s(1) [unfolded sample_server_def] this s(2)] s(1)
  show ?thesis by blast
qed

text \<open>
  C13: A call that waits for its provider holds up the server: it keeps the topology lock, so once
  discovery has an item to apply, no later call that takes the lock is handled and the topology
  does not change until that call returns or is abandoned, or the server shuts down, whatever
  else happens.
\<close>

theorem pending_call_holds_up_server:
  assumes "server_lock F"
    and "server_run S F es (server_start F topo w discover providers merged) = Some s"
    and "(Request j, False) \<in> set (fl_held F (rn_lock s))" and "rn_discovery s = Acquiring d"
    and "set es' \<inter> {Respond j, Abandon j, StopDiscovery} = {}"
    and "server_run S F es' s = Some s'"
    and "length (rn_calls s) \<le> i" and "i < length (rn_calls s')"
    and "takes_lock (site_query S) (fst (rn_calls s' ! i))"
  shows "call_phase s' i \<in> {Some Pending, Some Abandoned} \<and> rn_topology s' = rn_topology s"
proof -
  have "held_up F j n s' \<and> rn_discovery s' = Acquiring d \<and> rn_topology s' = rn_topology s \<and>
      n \<le> length (rn_calls s') \<and> later_waiting S n s'"
    if "server_run S F es' s = Some s'" "set es' \<inter> {Respond j, Abandon j, StopDiscovery} = {}"
      "guards_right F s" "held_up F j n s" "rn_discovery s = Acquiring d"
      "n \<le> length (rn_calls s)" "later_waiting S n s" for n s
    using that
  proof (induction es' arbitrary: s)
    case (Cons e es')
    then obtain s1 where s1: "server_step S F e s = Some s1" "server_run S F es' s1 = Some s'"
      by (auto simp: bind_eq_Some_conv)
    have "held_up F j n s1 \<and> rn_discovery s1 = Acquiring d \<and> rn_topology s1 = rn_topology s \<and>
        n \<le> length (rn_calls s1) \<and> later_waiting S n s1"
      using Cons.prems by (intro server_lock.held_up_step [OF assms(1) s1(1)]) auto
    then show ?case
      using Cons.IH [OF s1(2)] Cons.prems(2) server_lock.guards_right_step [OF assms(1) s1(1) Cons.prems(3)]
      by auto
  qed simp
  moreover have right: "guards_right F s" by (rule server_lock.run_guards_right [OF assms(1,2)])
  moreover have "held_up F j (length (rn_calls s)) s"
  proof -
    have members: "(Request m, False) \<in> set (line F (rn_lock s)) \<longleftrightarrow> has_place (call_phase s m)" for m
      using right by (simp add: guards_right_def lock_right_def)
    have "(Discovery, True) \<in> set (line F (rn_lock s))"
      using right assms(4) by (simp add: guards_right_def lock_right_def)
    moreover have "(Discovery, True) \<notin> set (fl_held F (rn_lock s))"
      using right assms(3) by (auto simp: guards_right_def lock_right_def exclusive_def list_all_iff)
    ultimately obtain p r where pr: "fl_waiting F (rn_lock s) = p @ (Discovery, True) # r"
      unfolding line_def by (metis UnE set_append split_list)
    moreover have "(Request m, False) \<notin> set (fl_held F (rn_lock s)) \<union> set p"
      if "length (rn_calls s) \<le> m" for m
      using members [of m] that pr by (auto simp: line_def call_phase_def)
    ultimately show ?thesis using assms(3) unfolding held_up_def by blast
  qed
  moreover have "later_waiting S (length (rn_calls s)) s" by (simp add: later_waiting_def)
  ultimately show ?thesis
    using assms(4-9) by (auto simp: later_waiting_def call_phase_def)
qed

theorem pending_call_holds_up_server_witness:
  "\<exists>s. server_run sample_site queue_lock [Arrive sample_call, Receive, Handle 0, Arrive sample_call]
      sample_server = Some s \<and> call_phase s 1 = Some Pending \<and>
    rn_topology s = topology_state_new list_containers"
proof -
  let ?s = "sample_waiting\<lparr>rn_lock := ([(Request 0, False)], [(Discovery, True), (Request 1, False)]),
       rn_calls := [(sample_call, sample_phase), (sample_call, Pending)]\<rparr>"
  have more: "server_run sample_site queue_lock [Arrive sample_call] sample_waiting = Some ?s"
    by (simp add: sample_steps sample_waiting_def)
  have "call_phase ?s 1 \<in> {Some Pending, Some Abandoned} \<and> rn_topology ?s = rn_topology sample_waiting"
    by (rule pending_call_holds_up_server [OF server_queue.server_lock_axioms
          sample_first_half [unfolded sample_server_def] _ _ _ more, where j = 0])
      (simp_all add: queue_lock_simps sample_waiting_def)
  moreover have "server_run sample_site queue_lock
      ([Arrive sample_call, Receive, Handle 0] @ [Arrive sample_call]) sample_server = Some ?s"
    unfolding server_run_append sample_first_half using more by simp
  ultimately show ?thesis by (auto simp: call_phase_def sample_waiting_def)
qed

text \<open>
  C25: Subscribers can follow the running server: at every moment the events published so far,
  with those of the item being applied, lead from the references the topology had to those it
  has, and the topology is well-formed.
\<close>

theorem running_server_informs_subscribers:
  assumes "topology_containers L" and "env_containers (site_env S) = L" and "topology_wf L topo"
    and "list_all event_ok (discovery_stream discover providers merged)"
    and "server_run S F es (server_start F topo w discover providers merged) = Some s"
  shows "topology_wf L (rn_topology s) \<and>
    replay (rn_published s @ outstanding (rn_discovery s)) (topology_refs L topo) =
      topology_refs L (rn_topology s)"
proof -
  have "informed L (topology_refs L topo) (server_start F topo w discover providers merged)"
    using assms(3,4) by (simp add: informed_def server_start_def)
  then have "informed L (topology_refs L topo) s"
    by (rule topology_containers.informed_run [OF assms(1,5,2)])
  then show ?thesis by (simp add: informed_def)
qed

theorem running_server_informs_subscribers_witness:
  "\<exists>s. server_run sample_site queue_lock ([Arrive sample_call, Receive, Handle 0] @ sample_events)
       sample_server = Some s \<and>
     replay (rn_published s) {} = topology_refs list_containers (rn_topology s)"
proof -
  obtain s where s: "server_run sample_site queue_lock
      ([Arrive sample_call, Receive, Handle 0] @ sample_events) sample_server = Some s"
    "rn_discovery s = Listening"
    using sample_second_half by blast
  have "list_all event_ok (discovery_stream (\<lambda>p. Inr p :: (unit discovery_error, unit) result) [()]
      (\<lambda>_. [sample_diff]))"
    unfolding sample_stream by (simp add: event_ok_def sample_item_def sample_diff_def collection_ok_def
        entity_collection_new_def)
  from running_server_informs_subscribers [OF lists.topology_containers_axioms _ lists.topology_wf_new
      this s(1) [unfolded sample_server_def]] s
  show ?thesis
    by (simp add: sample_site_def sample_env_def lists.topology_refs_new)
qed

end
