(* ===== verification/Remote.thy ===== *)
theory Remote
  imports Client_Properties "HOL-Library.Countable"
begin

text \<open>
  The client connected to the server: its HTTP service hands a request to the server's routes
  and their answer back.  What the connection needs of the client's libraries is the locale
  \<open>client_link\<close>; under it a remote call is the handler's own call.
\<close>

subsection \<open>The connection\<close>

definition uri_char :: "char \<Rightarrow> bool" where
  "uri_char c \<longleftrightarrow> (let n = (of_char c :: nat) in
     48 \<le> n \<and> n \<le> 57 \<or> 65 \<le> n \<and> n \<le> 90 \<or> 97 \<le> n \<and> n \<le> 122) \<or> c \<in> set ''/%?=-''"

definition target_ok :: "string \<Rightarrow> bool" where
  "target_ok t \<longleftrightarrow> t \<noteq> [] \<and> hd t = CHR ''/'' \<and> list_all uri_char t"

text \<open>
  A URI that extends the base by an origin-form target is valid and its target below the base
  is that text; a request made of valid parts is built as it is; JSON is read back from its
  bytes.
\<close>

locale client_link =
  fixes H :: "('uri, 'ue, 'he, 'je) http_library"
    and base :: 'uri
    and target :: "'uri \<Rightarrow> string"
  assumes parse_extended:
      "target_ok t \<Longrightarrow> \<exists>u. hl_parse_uri H (hl_display_uri H base @ t) = Inr u \<and> target u = t"
    and build_request: "hl_build_request H r = Inr r"
    and json_bytes: "\<exists>b. hl_to_vec H j = Inr b \<and> hl_from_slice H b = Inr j"

definition body_of :: "('uri, 'ue, 'he, 'je) http_library \<Rightarrow> string \<Rightarrow> json option" where
  "body_of H bytes = (case hl_from_slice H bytes of Inl _ \<Rightarrow> None | Inr j \<Rightarrow> Some j)"

definition bytes_of :: "('uri, 'ue, 'he, 'je) http_library \<Rightarrow> json option \<Rightarrow> string" where
  "bytes_of H j = (case j of None \<Rightarrow> []
     | Some j \<Rightarrow> (case hl_to_vec H j of Inl _ \<Rightarrow> [] | Inr b \<Rightarrow> b))"

definition over_http ::
  "('uri, 'ue, 'he, 'je) http_library \<Rightarrow> ('uri \<Rightarrow> string) \<Rightarrow>
     (http_method \<Rightarrow> string \<Rightarrow> json option \<Rightarrow> 'w \<Rightarrow> answer \<times> 'w) \<Rightarrow> ('w, 'uri, 'se) http_service" where
  "over_http H target srv req w =
     (let ((status, answer), w') =
            srv (cr_method req) (target (cr_uri req)) (body_of H (cr_body req)) w
      in (Inr \<lparr> cs_status = status, cs_body = Inr (bytes_of H answer) \<rparr>, w'))"

text \<open>\<open>serde_json::from_slice\<close> at a type with the decoder \<open>dec\<close>.\<close>

definition decode_as ::
  "('uri, 'ue, 'he, 'je) http_library \<Rightarrow> (json \<Rightarrow> 'a option) \<Rightarrow> 'je \<Rightarrow> string \<Rightarrow> ('je, 'a) result" where
  "decode_as H dec err bytes = and_then (hl_from_slice H bytes) (\<lambda>j. ok_or err (dec j))"

definition remote_error :: "route_error \<Rightarrow> ('ue, 'he, 'je, 'hy, 'se) client_error" where
  "remote_error e = ApiError (fst (into_response e)) (Some (snd (into_response e)))"

text \<open>The outcome of a handler as the client sees it.\<close>

definition arrives ::
  "(route_error, 'a) result \<times> 'w \<Rightarrow> ('ue, 'he, 'je, 'hy, 'se, 'a) client_result \<times> 'w" where
  "arrives outcome = (map_err remote_error (fst outcome), snd outcome)"

definition received ::
  "('uri, 'ue, 'he, 'je) http_library \<Rightarrow> (string \<Rightarrow> ('je, 'a) result) \<Rightarrow> answer \<Rightarrow>
     ('ue, 'he, 'je, 'hy, 'se, 'a) client_result" where
  "received H de a =
     (if is_success (fst a) then map_err Json (de (bytes_of H (snd a)))
      else Inl (ApiError (fst a) (parsed_error H (bytes_of H (snd a)))))"

subsection \<open>Exchanges\<close>

lemma query_string_extends:
  "build_uri_query_string (b @ path) query = b @ build_uri_query_string path query"
  by (simp add: build_uri_query_string_def Let_def)

lemma success_statuses: "is_success 200" "is_success NO_CONTENT"
  by (simp_all add: is_success_def NO_CONTENT_def)

lemma write_outcomes:
  "fst (component_data_write E topo i d body w) = Inr st \<Longrightarrow> st = NO_CONTENT"
  "fst (app_data_write E topo i d body w) = Inr st \<Longrightarrow> st = NO_CONTENT"
  by (auto simp: component_data_write_def app_data_write_def with_provider_def
      split: sum.splits prod.splits)

context client_link
begin

lemma bytes_read_back: "hl_from_slice H (bytes_of H (Some j)) = Inr j"
  using json_bytes [of j] by (auto simp: bytes_of_def)

lemma body_read_back: "hl_to_vec H j = Inr b \<Longrightarrow> body_of H b = Some j"
  using json_bytes [of j] by (auto simp: body_of_def)

lemma received_json_as:
  assumes "\<And>x. r = Inr x \<Longrightarrow> dec (enc x) = Some (g x)"
  shows "received H (decode_as H dec err) (json_answer enc r) = map_ok g (map_err remote_error r)"
  using assms
  by (cases r) (simp_all add: received_def json_answer_def respond_def decode_as_def
      bytes_read_back into_response_fails remote_error_def parsed_error_def
      generic_error_json_roundtrip into_response_parameters success_statuses)

lemma received_json:
  "(\<And>x. r = Inr x \<Longrightarrow> dec (enc x) = Some x) \<Longrightarrow>
     received H (decode_as H dec err) (json_answer enc r) = map_err remote_error r"
  using received_json_as [of r dec enc "\<lambda>x. x" err] by (simp add: map_ok_ident)

lemma received_status:
  assumes "\<And>st. r = Inr st \<Longrightarrow> is_success st"
  shows "received H (\<lambda>_. Inr ()) (status_answer r) = map_ok (\<lambda>_. ()) (map_err remote_error r)"
  using assms
  by (cases r) (simp_all add: received_def status_answer_def respond_def bytes_read_back
      into_response_fails remote_error_def parsed_error_def generic_error_json_roundtrip
      into_response_parameters)

lemma get_exchange:
  assumes "hc_base_uri self = base" and "hc_http self = over_http H target srv"
    and "target_ok (build_uri_query_string path query)"
  shows "client_get H self de path query w =
    (case srv GET (build_uri_query_string path query) (body_of H []) w of
       (a, w') \<Rightarrow> (received H de a, w'))"
  using parse_extended [OF assms(3)]
  by (auto simp: client_get_steps assms(1,2) query_string_extends build_request over_http_def
      received_def Let_def split: prod.split)

lemma put_exchange:
  assumes "hc_base_uri self = base" and "hc_http self = over_http H target srv"
    and "target_ok path"
  shows "client_put H self path [] j w =
    (case srv PUT path (Some j) w of (a, w') \<Rightarrow> (received H (\<lambda>_. Inr ()) a, w'))"
proof -
  obtain b where b: "hl_to_vec H j = Inr b" using json_bytes [of j] by auto
  then show ?thesis
    using parse_extended [OF assms(3)] body_read_back [OF b]
    by (auto simp: client_put_steps assms(1,2) build_uri_query_string_def build_request
        over_http_def received_def Let_def split: prod.split)
qed

end

context percent_encoder
begin

lemma encoded_chars: "list_all uri_char (encode P s)"
proof -
  have "set (percent_byte c) \<subseteq> set ''%0123456789ABCDEF''" for c
  proof -
    have "(of_char c :: nat) < 256" by simp
    then have "(of_char c :: nat) div 16 < 16" by linarith
    then show ?thesis
      using hex_digit_range [of "of_char c div 16"] hex_digit_range [of "of_char c mod 16"]
      by (auto simp: percent_byte_def)
  qed
  moreover have "list_all uri_char ''%0123456789ABCDEF''" by (simp add: uri_char_def)
  ultimately have "list_all uri_char (percent_byte c)" for c
    by (auto simp: list_all_iff simp del: list.set)
  moreover have "uri_char c" if "\<not> 128 \<le> (of_char c :: nat)"
    and "\<not> pe_contains P (pe_non_alphanumeric P) c" for c
    using that by (auto simp: contains_non_alphanumeric uri_char_def Let_def)
  ultimately show ?thesis
    by (auto simp: encode_def encode_bytes list_all_iff)
qed

text \<open>The paths of the handles are targets without a query.\<close>

lemma handle_targets_ok:
  "target_ok (rd_path (handle_component_list_data (client_component P i)))"
  "target_ok (handle_component_data P d (client_component P i))"
  "target_ok (handle_component_data_categories (client_component P i))"
  "target_ok (handle_component_data_groups (client_component P i))"
  "target_ok (handle_component_hosts (client_component P i))"
  "target_ok (handle_component_belongs_to (client_component P i))"
  "target_ok (rd_path (handle_app_list_data (client_app P i)))"
  "target_ok (handle_app_data P d (client_app P i))"
  "target_ok (handle_app_data_categories (client_app P i))"
  "target_ok (handle_app_data_groups (client_app P i))"
  "target_ok (handle_app_is_located_on (client_app P i))"
  "target_ok (handle_app_belongs_to (client_app P i))"
  "target_ok (handle_area_contains (client_area P i))"
  using encoded_chars [of i] encoded_chars [of d]
  by (simp_all add: handle_defs target_ok_def uri_char_def Let_def)

lemma handle_paths_without_query:
  "CHR ''?'' \<notin> set (rd_path (handle_component_list_data (client_component P i)))"
  "CHR ''?'' \<notin> set (handle_component_data P d (client_component P i))"
  "CHR ''?'' \<notin> set (handle_component_data_categories (client_component P i))"
  "CHR ''?'' \<notin> set (handle_component_data_groups (client_component P i))"
  "CHR ''?'' \<notin> set (handle_component_hosts (client_component P i))"
  "CHR ''?'' \<notin> set (handle_component_belongs_to (client_component P i))"
  "CHR ''?'' \<notin> set (rd_path (handle_app_list_data (client_app P i)))"
  "CHR ''?'' \<notin> set (handle_app_data P d (client_app P i))"
  "CHR ''?'' \<notin> set (handle_app_data_categories (client_app P i))"
  "CHR ''?'' \<notin> set (handle_app_data_groups (client_app P i))"
  "CHR ''?'' \<notin> set (handle_app_is_located_on (client_app P i))"
  "CHR ''?'' \<notin> set (handle_app_belongs_to (client_app P i))"
  "CHR ''?'' \<notin> set (handle_area_contains (client_area P i))"
  by (simp_all add: handle_defs client_encode_no_query)

end

subsection \<open>Remote calls\<close>

lemma serve_request_selected:
  "calls router meth target = [(endpoint, args)] \<Longrightarrow>
     serve_request E Q enc vendor topo parts meth target body w =
       endpoint_answer E Q enc vendor topo parts (target_query target) body endpoint args w"
  by (simp add: serve_request_def)

lemma query_of_target:
  assumes "CHR ''?'' \<notin> set path"
  shows "target_query (build_uri_query_string path (schema_query b)) =
    (if b then ''include-schema=true'' else [])"
proof -
  have "dropWhile (\<lambda>c. c \<noteq> CHR ''?'') (path @ CHR ''?'' # q) = CHR ''?'' # q" for q
    using assms by (induction path) auto
  moreover have "target_query path = []"
    using assms by (induction path) (auto simp: target_query_def)
  ultimately show ?thesis
    by (simp add: target_query_def build_uri_query_string_def schema_query_def Let_def)
qed

lemma target_with_query:
  "target_ok path \<Longrightarrow> target_ok (build_uri_query_string path (schema_query b))"
  by (auto simp: target_ok_def build_uri_query_string_def schema_query_def uri_char_def Let_def)

lemma calls_with_query:
  "CHR ''?'' \<notin> set path \<Longrightarrow>
     calls table meth (build_uri_query_string path (schema_query b)) = calls table meth path"
  by (simp add: calls_def target_of_query)

text \<open>A call that reads, over the service, from the answer of its endpoint.\<close>

lemma remote_read_as:
  assumes "client_link H base target" and "hc_base_uri self = base"
    and "hc_http self = over_http H target (serve_request E Q enc vendor topo parts)"
    and "target_ok path" and "CHR ''?'' \<notin> set path"
    and "calls router GET path = [(endpoint, args)]"
    and "\<And>body. endpoint_answer E Q enc vendor topo parts (if b then ''include-schema=true'' else [])
      body endpoint args w = (json_answer ser r, w')"
    and "\<And>x. r = Inr x \<Longrightarrow> dec (ser x) = Some (g x)"
  shows "client_get H self (decode_as H dec err) path (schema_query b) w =
    (map_ok g (map_err remote_error r), w')"
  using assms(6)
  by (simp add: client_link.get_exchange [OF assms(1-3) target_with_query [OF assms(4)]]
      serve_request_selected calls_with_query [OF assms(5)] query_of_target [OF assms(5)] assms(7)
      client_link.received_json_as [OF assms(1), where dec = dec and g = g, OF assms(8)])

lemmas remote_read = remote_read_as [where g = "\<lambda>x. x", unfolded map_ok_ident]

lemma remote_write:
  assumes "client_link H base target" and "hc_base_uri self = base"
    and "hc_http self = over_http H target (serve_request E Q enc vendor topo parts)"
    and "target_ok path" and "CHR ''?'' \<notin> set path"
    and "calls router PUT path = [(endpoint, args)]"
    and "endpoint_answer E Q enc vendor topo parts [] (Some j) endpoint args w = (status_answer r, w')"
    and "\<And>st. r = Inr st \<Longrightarrow> st = NO_CONTENT"
  shows "client_put H self path [] j w = (map_ok (\<lambda>_. ()) (map_err remote_error r), w')"
proof -
  have path: "build_uri_query_string path (schema_query False) = path"
    by (simp add: build_uri_query_string_def schema_query_def)
  have "target_ok path" using target_with_query [OF assms(4), of False] by (simp add: path)
  moreover have "target_query path = []" using query_of_target [OF assms(5), of False] by (simp add: path)
  moreover have "is_success st" if "r = Inr st" for st
    using assms(8) [OF that] success_statuses(2) by simp
  ultimately show ?thesis
    using assms(6) by (simp add: client_link.put_exchange [OF assms(1-3)] serve_request_selected
        assms(7) client_link.received_status [OF assms(1)])
qed

text \<open>A listing whose endpoint is served with the result \<open>r\<close>.\<close>

abbreviation listing_answer :: "(route_error, entities_response) result \<Rightarrow> answer" where
  "listing_answer \<equiv> json_answer (response_to_json (items_fields entity_reference_to_json))"

abbreviation decode_listing ::
  "('uri, 'ue, 'he, 'je) http_library \<Rightarrow> 'je \<Rightarrow> string \<Rightarrow> ('je, entities_response) result" where
  "decode_listing H err \<equiv>
     decode_as H (response_of_json (items_of_fields entity_reference_of_json)) err"

lemma client_listing:
  assumes "client_link H base target" and "hc_base_uri self = base"
    and "hc_http self = over_http H target srv"
    and "target_ok (build_uri_query_string (rd_path req) (schema_query (rd_with_schema req)))"
    and "\<And>body. srv GET (build_uri_query_string (rd_path req) (schema_query (rd_with_schema req))) body w =
      (listing_answer r, w')"
    and "\<And>x. r = Inr x \<Longrightarrow> rs_schema x \<noteq> Some JNull"
  shows "request_send H self (decode_listing H err) req w = (map_err remote_error r, w')"
proof -
  have "response_of_json (items_of_fields entity_reference_of_json)
      (response_to_json (items_fields entity_reference_to_json) x) = Some x" if "r = Inr x" for x
    using assms(6) [OF that]
    by (intro items_response_roundtrip) (simp_all add: entity_reference_json_roundtrip)
  then show ?thesis
    by (simp add: request_send_def assms(5) client_link.get_exchange [OF assms(1-4)]
        client_link.received_json [OF assms(1)])
qed

lemma listing_target_ok:
  "target_ok (build_uri_query_string ''/components'' (schema_query b))"
  "target_ok (build_uri_query_string ''/areas'' (schema_query b))"
  "target_ok (build_uri_query_string ''/apps'' (schema_query b))"
  by (simp_all add: target_ok_def build_uri_query_string_def schema_query_def uri_char_def Let_def)

lemma listings_served:
  assumes "query_laws Q"
  defines "q \<equiv> \<lambda>b. \<lparr> eq_include_schema = b, eq_tags = [] \<rparr>"
  shows "serve_request E Q enc vendor topo parts GET
      (build_uri_query_string ''/components'' (schema_query b)) body w =
    (listing_answer (component_list E topo parts (q b)), w)"
   and "serve_request E Q enc vendor topo parts GET
      (build_uri_query_string ''/areas'' (schema_query b)) body w =
    (listing_answer (area_list E topo parts (q b)), w)"
   and "serve_request E Q enc vendor topo parts GET
      (build_uri_query_string ''/apps'' (schema_query b)) body w =
    (listing_answer (app_list E topo parts (q b)), w)"
  using query_laws.read_plain_queries(1) [OF assms(1)]
    query_laws.read_schema_queries(1) [OF assms(1)]
  by (auto simp: serve_request_def calls_def target_of_query path_segments_def router_defs
      query_of_target entities_answer_def q_def)

lemma listing_schema:
  assumes "eq_include_schema q \<Longrightarrow> env_schema E ''Entities'' \<noteq> JNull"
  shows "component_list E topo parts q = Inr x \<Longrightarrow> rs_schema x \<noteq> Some JNull"
    and "area_list E topo parts q = Inr x \<Longrightarrow> rs_schema x \<noteq> Some JNull"
    and "app_list E topo parts q = Inr x \<Longrightarrow> rs_schema x \<noteq> Some JNull"
  using assms by (auto simp: component_list_def area_list_def app_list_def entities_response_of_def
      then_some_def Let_def split: if_split_asm)

subsection \<open>A connection\<close>

text \<open>
  URIs as their text and JSON as the unary numeral of its index in an enumeration meet the laws.
\<close>

instance json :: countable
  by countable_datatype

definition text_library :: "(string, unit, unit, unit) http_library" where
  "text_library = \<lparr> hl_parse_uri = Inr, hl_display_uri = (\<lambda>u. u), hl_build_request = Inr,
     hl_from_slice = (\<lambda>b. Inr (from_nat (length b))),
     hl_to_vec = (\<lambda>j. Inr (replicate (to_nat j) CHR ''1'')) \<rparr>"

definition text_target :: "string \<Rightarrow> string" where
  "text_target u = drop (length ''http://ecu/sovd/v1'') u"

interpretation text_link: client_link text_library "''http://ecu/sovd/v1''" text_target
  by unfold_locales (simp_all add: text_library_def text_target_def)

end
