(* ===== verification/Remote_Properties.thy ===== *)
theory Remote_Properties
  imports Remote Route_Properties
begin

text \<open>
  The properties of client and server together: a remote call is the handler's own call, and
  the filters of a data listing cannot be used over HTTP.
\<close>

subsection \<open>A connected client\<close>

definition sample_remote_client :: "(json, string, unit) client" where
  "sample_remote_client = \<lparr> hc_base_uri = ''http://ecu/sovd/v1'',
     hc_http = over_http text_library text_target
       (serve_request sample_data_env plain_query vendor_info_to_json None sample_data_topology
          sample_parts) \<rparr>"

subsection \<open>What the client decodes\<close>

abbreviation all_entities :: "bool \<Rightarrow> entities_query" where
  "all_entities b \<equiv> \<lparr> eq_include_schema = b, eq_tags = [] \<rparr>"

abbreviation all_data :: "bool \<Rightarrow> (string, data_query) result" where
  "all_data b \<equiv> Inr \<lparr> dq_groups = None, dq_categories = None, dq_tags = None,
     dq_include_schema = b \<rparr>"

abbreviation all_groups :: "(string, data_groups_query) result" where
  "all_groups \<equiv> Inr \<lparr> gq_category = None \<rparr>"

abbreviation decode_items ::
  "('uri, 'ue, 'he, 'je) http_library \<Rightarrow> (json \<Rightarrow> 'a option) \<Rightarrow> 'je \<Rightarrow> string \<Rightarrow>
     ('je, 'a items response) result" where
  "decode_items H dec err \<equiv> decode_as H (response_of_json (items_of_fields dec)) err"

text \<open>The relations, categories and groups are read as a bare collection.\<close>

abbreviation decode_collection ::
  "('uri, 'ue, 'he, 'je) http_library \<Rightarrow> (json \<Rightarrow> 'a option) \<Rightarrow> 'je \<Rightarrow> string \<Rightarrow> ('je, 'a items) result" where
  "decode_collection H dec err \<equiv> decode_as H (items_of_json dec) err"

lemma data_items_decode:
  "fst (component_data_categories E topo i w) = Inr x \<Longrightarrow>
     response_of_json (items_of_fields category_information_of_json)
       (response_to_json (items_fields category_information_to_json) x) = Some x"
  "fst (app_data_categories E topo i w) = Inr x \<Longrightarrow>
     response_of_json (items_of_fields category_information_of_json)
       (response_to_json (items_fields category_information_to_json) x) = Some x"
  "fst (component_data_groups E topo i q w) = Inr y \<Longrightarrow>
     response_of_json (items_of_fields data_group_of_json)
       (response_to_json (items_fields data_group_to_json) y) = Some y"
  "fst (app_data_groups E topo i q w) = Inr y \<Longrightarrow>
     response_of_json (items_of_fields data_group_of_json)
       (response_to_json (items_fields data_group_to_json) y) = Some y"
  by (intro items_response_roundtrip; auto simp: component_data_categories_def
      app_data_categories_def component_data_groups_def app_data_groups_def with_query_def
      with_provider_def category_item_def group_item_def Let_def split: sum.splits prod.splits)+

lemma data_list_decodes:
  assumes "env_schema E ''DataList'' \<noteq> JNull"
  shows "fst (component_data_list E topo i q w) = Inr x \<Longrightarrow>
     response_of_json (items_of_fields metadata_dto_of_json)
       (response_to_json (items_fields metadata_dto_to_json) x) = Some x"
  and "fst (app_data_list E topo i q w) = Inr x \<Longrightarrow>
     response_of_json (items_of_fields metadata_dto_of_json)
       (response_to_json (items_fields metadata_dto_to_json) x) = Some x"
  using assms
  by (intro items_response_roundtrip; auto simp: component_data_list_def app_data_list_def
      with_query_def with_provider_def metadata_item_def then_some_def
      split: sum.splits prod.splits if_split_asm)+

lemma reads_decode:
  "fst (component_data_read E topo i d q w) = Inr v \<Longrightarrow> rr_schema v \<noteq> Some JNull \<Longrightarrow>
     read_response_of_json (read_response_to_json v) = Some v"
  "fst (app_data_read E topo i d q w) = Inr v \<Longrightarrow> rr_schema v \<noteq> Some JNull \<Longrightarrow>
     read_response_of_json (read_response_to_json v) = Some v"
  by (rule read_response_roundtrip, auto simp: read_response_ok_def component_data_read_def
      app_data_read_def with_query_def with_provider_def read_response_of_def
      split: sum.splits prod.splits)+

lemma entities_decode:
  "rs_schema x \<noteq> Some JNull \<Longrightarrow> response_of_json (items_of_fields entity_reference_of_json)
     (response_to_json (items_fields entity_reference_to_json) x) = Some x"
  by (intro items_response_roundtrip) (simp_all add: entity_reference_json_roundtrip)

lemma relation_schema:
  "component_hosts E topo i parts (all_entities False) = Inr x \<Longrightarrow> rs_schema x \<noteq> Some JNull"
  "component_belongs_to E topo i parts (all_entities False) = Inr x \<Longrightarrow> rs_schema x \<noteq> Some JNull"
  "app_is_located_on_handler E topo i parts (all_entities False) = Inr x \<Longrightarrow>
     rs_schema x \<noteq> Some JNull"
  "app_belongs_to E topo i parts (all_entities False) = Inr x \<Longrightarrow> rs_schema x \<noteq> Some JNull"
  "area_contains E topo i parts (all_entities False) = Inr x \<Longrightarrow> rs_schema x \<noteq> Some JNull"
  by (auto simp: component_hosts_def component_belongs_to_def app_is_located_on_handler_def
      app_belongs_to_def area_contains_def entities_response_of_def and_then_Inr_iff Let_def)

subsection \<open>Calls on a connected client\<close>

text \<open>A write is answered without a value.\<close>

definition acknowledged :: "('e, 'a) result \<times> 'w \<Rightarrow> ('e, unit) result \<times> 'w" where
  "acknowledged outcome = (map_ok (\<lambda>_. ()) (fst outcome), snd outcome)"

text \<open>Of a response the call answers its data.\<close>

definition contents :: "('e, 'a response) result \<times> 'w \<Rightarrow> ('e, 'a) result \<times> 'w" where
  "contents outcome = (map_ok rs_data (fst outcome), snd outcome)"

lemma handle_get_plain: "handle_get H self de path = client_get H self de path (schema_query False)"
  by (simp add: handle_get_def schema_query_def)

lemma request_send_schema:
  "request_send H self de (request_schema b r) = client_get H self de (rd_path r) (schema_query b)"
  by (rule ext) (simp add: request_send_def request_schema_def)

lemmas endpoint_steps = entities_answer_def acting_def split_beta Let_def

lemma listing_targets:
  "target_ok (rd_path list_components)" "target_ok (rd_path list_apps)" "target_ok (rd_path list_areas)"
  by (simp_all add: handle_defs target_ok_def uri_char_def)

lemma remote_listings:
  assumes "client_link H base target" and "query_laws Q" and "percent_encoder P"
    and "hc_base_uri self = base"
    and "hc_http self = over_http H target (serve_request E Q enc vendor topo parts)"
    and "b \<Longrightarrow> env_schema E ''Entities'' \<noteq> JNull"
  shows "request_send H self (decode_listing H err) (request_schema b list_components) w =
      arrives (component_list E topo parts (all_entities b), w)"
    and "request_send H self (decode_listing H err) (request_schema b list_apps) w =
      arrives (app_list E topo parts (all_entities b), w)"
    and "request_send H self (decode_listing H err) (request_schema b list_areas) w =
      arrives (area_list E topo parts (all_entities b), w)"
proof -
  note read = remote_read [OF assms(1,4,5), where b = b
      and ser = "response_to_json (items_fields entity_reference_to_json)"]
  note paths = percent_encoder.paths_without_query [OF assms(3)]
  note calls = percent_encoder.listing_calls [OF assms(3)]
  note answers = endpoint_steps query_laws.read_plain_queries [OF assms(2)]
    query_laws.read_schema_queries [OF assms(2)]
  show "request_send H self (decode_listing H err) (request_schema b list_components) w =
      arrives (component_list E topo parts (all_entities b), w)"
    unfolding request_send_schema arrives_def fst_conv snd_conv
    by (rule read [OF listing_targets(1) paths(1) calls(1)])
      (cases b, simp add: answers, simp add: answers, rule entities_decode,
        erule listing_schema(1) [rotated], simp add: assms(6))
  show "request_send H self (decode_listing H err) (request_schema b list_apps) w =
      arrives (app_list E topo parts (all_entities b), w)"
    unfolding request_send_schema arrives_def fst_conv snd_conv
    by (rule read [OF listing_targets(2) paths(2) calls(2)])
      (cases b, simp add: answers, simp add: answers, rule entities_decode,
        erule listing_schema(3) [rotated], simp add: assms(6))
  show "request_send H self (decode_listing H err) (request_schema b list_areas) w =
      arrives (area_list E topo parts (all_entities b), w)"
    unfolding request_send_schema arrives_def fst_conv snd_conv
    by (rule read [OF listing_targets(3) paths(3) calls(3)])
      (cases b, simp add: answers, simp add: answers, rule entities_decode,
        erule listing_schema(2) [rotated], simp add: assms(6))
qed

lemmas relation_decodes = relation_schema [THEN entities_decode, THEN items_of_response]

lemmas catalogue_decodes = data_items_decode [THEN items_of_response]

lemma remote_relations:
  assumes "client_link H base target" and "query_laws Q" and "percent_encoder P"
    and "hc_base_uri self = base"
    and "hc_http self = over_http H target (serve_request E Q enc vendor topo parts)"
    and "i \<noteq> []"
  shows "handle_get H self (decode_collection H entity_reference_of_json err) (handle_component_hosts (client_component P i)) w =
      contents (arrives (component_hosts E topo i parts (all_entities False), w))"
    and "handle_get H self (decode_collection H entity_reference_of_json err) (handle_component_belongs_to (client_component P i)) w =
      contents (arrives (component_belongs_to E topo i parts (all_entities False), w))"
    and "handle_get H self (decode_collection H entity_reference_of_json err) (handle_app_is_located_on (client_app P i)) w =
      contents (arrives (app_is_located_on_handler E topo i parts (all_entities False), w))"
    and "handle_get H self (decode_collection H entity_reference_of_json err) (handle_app_belongs_to (client_app P i)) w =
      contents (arrives (app_belongs_to E topo i parts (all_entities False), w))"
    and "handle_get H self (decode_collection H entity_reference_of_json err) (handle_area_contains (client_area P i)) w =
      contents (arrives (area_contains E topo i parts (all_entities False), w))"
proof -
  note read = remote_read_as [OF assms(1,4,5), where b = False]
  note targets = percent_encoder.handle_targets_ok [OF assms(3), of i]
  note paths = percent_encoder.handle_paths_without_query [OF assms(3), of i]
  note calls = percent_encoder.component_resource_calls [OF assms(3,6)]
    percent_encoder.app_resource_calls [OF assms(3,6)] percent_encoder.area_contains_calls [OF assms(3,6)]
  note answers = endpoint_steps query_laws.read_plain_queries [OF assms(2)]
  show "handle_get H self (decode_collection H entity_reference_of_json err) (handle_component_hosts (client_component P i)) w =
      contents (arrives (component_hosts E topo i parts (all_entities False), w))"
    unfolding handle_get_plain contents_def arrives_def fst_conv snd_conv
    by (rule read [OF targets(5) paths(5) calls(4)]) (simp add: answers, erule relation_decodes)
  show "handle_get H self (decode_collection H entity_reference_of_json err) (handle_component_belongs_to (client_component P i)) w =
      contents (arrives (component_belongs_to E topo i parts (all_entities False), w))"
    unfolding handle_get_plain contents_def arrives_def fst_conv snd_conv
    by (rule read [OF targets(6) paths(6) calls(5)]) (simp add: answers, erule relation_decodes)
  show "handle_get H self (decode_collection H entity_reference_of_json err) (handle_app_is_located_on (client_app P i)) w =
      contents (arrives (app_is_located_on_handler E topo i parts (all_entities False), w))"
    unfolding handle_get_plain contents_def arrives_def fst_conv snd_conv
    by (rule read [OF targets(11) paths(11) calls(9)]) (simp add: answers, erule relation_decodes)
  show "handle_get H self (decode_collection H entity_reference_of_json err) (handle_app_belongs_to (client_app P i)) w =
      contents (arrives (app_belongs_to E topo i parts (all_entities False), w))"
    unfolding handle_get_plain contents_def arrives_def fst_conv snd_conv
    by (rule read [OF targets(12) paths(12) calls(10)]) (simp add: answers, erule relation_decodes)
  show "handle_get H self (decode_collection H entity_reference_of_json err) (handle_area_contains (client_area P i)) w =
      contents (arrives (area_contains E topo i parts (all_entities False), w))"
    unfolding handle_get_plain contents_def arrives_def fst_conv snd_conv
    by (rule read [OF targets(13) paths(13) calls(11)]) (simp add: answers, erule relation_decodes)
qed

lemma remote_catalogues:
  assumes "client_link H base target" and "query_laws Q" and "percent_encoder P"
    and "hc_base_uri self = base"
    and "hc_http self = over_http H target (serve_request E Q enc vendor topo parts)"
    and "i \<noteq> []"
  shows "handle_get H self (decode_collection H category_information_of_json err) (handle_component_data_categories (client_component P i)) w =
      contents (arrives (component_data_categories E topo i w))"
    and "handle_get H self (decode_collection H category_information_of_json err) (handle_app_data_categories (client_app P i)) w =
      contents (arrives (app_data_categories E topo i w))"
    and "handle_get H self (decode_collection H data_group_of_json err) (handle_component_data_groups (client_component P i)) w =
      contents (arrives (component_data_groups E topo i all_groups w))"
    and "handle_get H self (decode_collection H data_group_of_json err) (handle_app_data_groups (client_app P i)) w =
      contents (arrives (app_data_groups E topo i all_groups w))"
proof -
  note read = remote_read_as [OF assms(1,4,5), where b = False]
  note targets = percent_encoder.handle_targets_ok [OF assms(3), of i]
  note paths = percent_encoder.handle_paths_without_query [OF assms(3), of i]
  note calls = percent_encoder.component_resource_calls [OF assms(3,6)]
    percent_encoder.app_resource_calls [OF assms(3,6)]
  note answers = endpoint_steps query_laws.read_plain_queries [OF assms(2)]
  show "handle_get H self (decode_collection H category_information_of_json err) (handle_component_data_categories (client_component P i)) w =
      contents (arrives (component_data_categories E topo i w))"
    unfolding handle_get_plain contents_def arrives_def fst_conv snd_conv
    by (rule read [OF targets(3) paths(3) calls(2)]) (simp add: answers, erule catalogue_decodes)
  show "handle_get H self (decode_collection H category_information_of_json err) (handle_app_data_categories (client_app P i)) w =
      contents (arrives (app_data_categories E topo i w))"
    unfolding handle_get_plain contents_def arrives_def fst_conv snd_conv
    by (rule read [OF targets(9) paths(9) calls(7)]) (simp add: answers, erule catalogue_decodes)
  show "handle_get H self (decode_collection H data_group_of_json err) (handle_component_data_groups (client_component P i)) w =
      contents (arrives (component_data_groups E topo i all_groups w))"
    unfolding handle_get_plain contents_def arrives_def fst_conv snd_conv
    by (rule read [OF targets(4) paths(4) calls(3)]) (simp add: answers, erule catalogue_decodes)
  show "handle_get H self (decode_collection H data_group_of_json err) (handle_app_data_groups (client_app P i)) w =
      contents (arrives (app_data_groups E topo i all_groups w))"
    unfolding handle_get_plain contents_def arrives_def fst_conv snd_conv
    by (rule read [OF targets(10) paths(10) calls(8)]) (simp add: answers, erule catalogue_decodes)
qed

lemma remote_data:
  assumes "client_link H base target" and "query_laws Q" and "percent_encoder P"
    and "hc_base_uri self = base"
    and "hc_http self = over_http H target (serve_request E Q enc vendor topo parts)"
    and "i \<noteq> []" and "d \<noteq> []"
    and "env_schema E ''DataList'' \<noteq> JNull"
    and "\<And>v. fst (component_data_read E topo i d (Inr \<lparr> rq_include_schema = b \<rparr>) w) = Inr v \<Longrightarrow>
      rr_schema v \<noteq> Some JNull"
    and "\<And>v. fst (app_data_read E topo i d (Inr \<lparr> rq_include_schema = b \<rparr>) w) = Inr v \<Longrightarrow>
      rr_schema v \<noteq> Some JNull"
  shows "request_send H self (decode_items H metadata_dto_of_json err)
      (request_schema b (handle_component_list_data (client_component P i))) w =
      arrives (component_data_list E topo i (all_data b) w)"
    and "request_send H self (decode_items H metadata_dto_of_json err)
      (request_schema b (handle_app_list_data (client_app P i))) w =
      arrives (app_data_list E topo i (all_data b) w)"
    and "request_send H self (decode_as H read_response_of_json err)
      (request_schema b (data_request_read (handle_component_data P d (client_component P i)))) w =
      arrives (component_data_read E topo i d (Inr \<lparr> rq_include_schema = b \<rparr>) w)"
    and "request_send H self (decode_as H read_response_of_json err)
      (request_schema b (data_request_read (handle_app_data P d (client_app P i)))) w =
      arrives (app_data_read E topo i d (Inr \<lparr> rq_include_schema = b \<rparr>) w)"
    and "write_data_send H self
      \<lparr> wd_path = handle_component_data P d (client_component P i), wd_value = v \<rparr> w =
      acknowledged (arrives (component_data_write E topo i d \<lparr> wr_data = v, wr_signature = None \<rparr> w))"
    and "write_data_send H self
      \<lparr> wd_path = handle_app_data P d (client_app P i), wd_value = v \<rparr> w =
      acknowledged (arrives (app_data_write E topo i d \<lparr> wr_data = v, wr_signature = None \<rparr> w))"
proof -
  note list = remote_read [OF assms(1,4,5), where b = b
      and ser = "response_to_json (items_fields metadata_dto_to_json)"]
  note read = remote_read [OF assms(1,4,5), where b = b and ser = read_response_to_json]
  note writes = remote_write [OF assms(1,4,5)]
  note targets = percent_encoder.handle_targets_ok [OF assms(3)]
  note paths = percent_encoder.handle_paths_without_query [OF assms(3)]
  note calls = percent_encoder.component_resource_calls(1) [OF assms(3,6)]
    percent_encoder.app_resource_calls(1) [OF assms(3,6)]
    percent_encoder.component_data_calls [OF assms(3,6,7)]
    percent_encoder.app_data_calls [OF assms(3,6,7)]
  note answers = endpoint_steps query_laws.read_plain_queries [OF assms(2)]
    query_laws.read_schema_queries [OF assms(2)] with_body_def
  show "request_send H self (decode_items H metadata_dto_of_json err)
      (request_schema b (handle_component_list_data (client_component P i))) w =
      arrives (component_data_list E topo i (all_data b) w)"
    unfolding request_send_schema arrives_def
    by (rule list [OF targets(1) paths(1) calls(1)]) (cases b, simp add: answers, simp add: answers, erule data_list_decodes(1) [OF assms(8)])
  show "request_send H self (decode_items H metadata_dto_of_json err)
      (request_schema b (handle_app_list_data (client_app P i))) w =
      arrives (app_data_list E topo i (all_data b) w)"
    unfolding request_send_schema arrives_def
    by (rule list [OF targets(7) paths(7) calls(2)]) (cases b, simp add: answers, simp add: answers, erule data_list_decodes(2) [OF assms(8)])
  show "request_send H self (decode_as H read_response_of_json err)
      (request_schema b (data_request_read (handle_component_data P d (client_component P i)))) w =
      arrives (component_data_read E topo i d (Inr \<lparr> rq_include_schema = b \<rparr>) w)"
    unfolding request_send_schema arrives_def data_request_read_def read_request.simps
    by (rule read [OF targets(2) paths(2) calls(3)]) (cases b, simp add: answers, simp add: answers, rule reads_decode(1), assumption, erule assms(9))
  show "request_send H self (decode_as H read_response_of_json err)
      (request_schema b (data_request_read (handle_app_data P d (client_app P i)))) w =
      arrives (app_data_read E topo i d (Inr \<lparr> rq_include_schema = b \<rparr>) w)"
    unfolding request_send_schema arrives_def data_request_read_def read_request.simps
    by (rule read [OF targets(8) paths(8) calls(5)]) (cases b, simp add: answers, simp add: answers, rule reads_decode(2), assumption, erule assms(10))
  show "write_data_send H self
      \<lparr> wd_path = handle_component_data P d (client_component P i), wd_value = v \<rparr> w =
      acknowledged (arrives (component_data_write E topo i d \<lparr> wr_data = v, wr_signature = None \<rparr> w))"
    unfolding write_data_send_def arrives_def acknowledged_def fst_conv snd_conv write_data_request.simps
    by (rule writes [OF targets(2) paths(2) calls(4)]) (simp add: answers, erule write_outcomes(1))
  show "write_data_send H self
      \<lparr> wd_path = handle_app_data P d (client_app P i), wd_value = v \<rparr> w =
      acknowledged (arrives (app_data_write E topo i d \<lparr> wr_data = v, wr_signature = None \<rparr> w))"
    unfolding write_data_send_def arrives_def acknowledged_def fst_conv snd_conv write_data_request.simps
    by (rule writes [OF targets(8) paths(8) calls(6)]) (simp add: answers, erule write_outcomes(2))
qed

subsection \<open>Properties\<close>

text \<open>
  C5: Over a connection that carries URIs and JSON faithfully, every call of the client is the
  server's handler: the listings, the relations of components, apps and areas, the data
  listings, categories, groups, reads and writes do to the world exactly what the handler does
  and answer what it answers (relations, categories and groups the bare collection in it), an
  error with its status and SOVD error; ids are any non-empty byte strings.
\<close>

theorem remote_calls_are_handler_calls:
  assumes "client_link H base target" and "query_laws Q" and "percent_encoder P"
    and "hc_base_uri self = base"
    and "hc_http self = over_http H target (serve_request E Q enc vendor topo parts)"
    and "i \<noteq> []" and "d \<noteq> []"
    and "env_schema E ''Entities'' \<noteq> JNull" and "env_schema E ''DataList'' \<noteq> JNull"
    and "\<And>v. fst (component_data_read E topo i d (Inr \<lparr> rq_include_schema = b \<rparr>) w) = Inr v \<Longrightarrow>
      rr_schema v \<noteq> Some JNull"
    and "\<And>v. fst (app_data_read E topo i d (Inr \<lparr> rq_include_schema = b \<rparr>) w) = Inr v \<Longrightarrow>
      rr_schema v \<noteq> Some JNull"
  shows "(write_data_send H self
      \<lparr> wd_path = handle_component_data P d (client_component P i), wd_value = v \<rparr> w =
      acknowledged (arrives (component_data_write E topo i d \<lparr> wr_data = v, wr_signature = None \<rparr> w))) \<and>
    (write_data_send H self
      \<lparr> wd_path = handle_app_data P d (client_app P i), wd_value = v \<rparr> w =
      acknowledged (arrives (app_data_write E topo i d \<lparr> wr_data = v, wr_signature = None \<rparr> w))) \<and>
    (request_send H self (decode_listing H err) (request_schema b list_components) w =
      arrives (component_list E topo parts (all_entities b), w)) \<and>
    (request_send H self (decode_listing H err) (request_schema b list_apps) w =
      arrives (app_list E topo parts (all_entities b), w)) \<and>
    (request_send H self (decode_listing H err) (request_schema b list_areas) w =
      arrives (area_list E topo parts (all_entities b), w)) \<and>
    (handle_get H self (decode_collection H entity_reference_of_json err) (handle_component_hosts (client_component P i)) w =
      contents (arrives (component_hosts E topo i parts (all_entities False), w))) \<and>
    (handle_get H self (decode_collection H entity_reference_of_json err) (handle_component_belongs_to (client_component P i)) w =
      contents (arrives (component_belongs_to E topo i parts (all_entities False), w))) \<and>
    (handle_get H self (decode_collection H entity_reference_of_json err) (handle_app_is_located_on (client_app P i)) w =
      contents (arrives (app_is_located_on_handler E topo i parts (all_entities False), w))) \<and>
    (handle_get H self (decode_collection H entity_reference_of_json err) (handle_app_belongs_to (client_app P i)) w =
      contents (arrives (app_belongs_to E topo i parts (all_entities False), w))) \<and>
    (handle_get H self (decode_collection H entity_reference_of_json err) (handle_area_contains (client_area P i)) w =
      contents (arrives (area_contains E topo i parts (all_entities False), w))) \<and>
    (handle_get H self (decode_collection H category_information_of_json err) (handle_component_data_categories (client_component P i)) w =
      contents (arrives (component_data_categories E topo i w))) \<and>
    (handle_get H self (decode_collection H category_information_of_json err) (handle_app_data_categories (client_app P i)) w =
      contents (arrives (app_data_categories E topo i w))) \<and>
    (handle_get H self (decode_collection H data_group_of_json err) (handle_component_data_groups (client_component P i)) w =
      contents (arrives (component_data_groups E topo i all_groups w))) \<and>
    (handle_get H self (decode_collection H data_group_of_json err) (handle_app_data_groups (client_app P i)) w =
      contents (arrives (app_data_groups E topo i all_groups w))) \<and>
    (request_send H self (decode_items H metadata_dto_of_json err)
      (request_schema b (handle_component_list_data (client_component P i))) w =
      arrives (component_data_list E topo i (all_data b) w)) \<and>
    (request_send H self (decode_items H metadata_dto_of_json err)
      (request_schema b (handle_app_list_data (client_app P i))) w =
      arrives (app_data_list E topo i (all_data b) w)) \<and>
    (request_send H self (decode_as H read_response_of_json err)
      (request_schema b (data_request_read (handle_component_data P d (client_component P i)))) w =
      arrives (component_data_read E topo i d (Inr \<lparr> rq_include_schema = b \<rparr>) w)) \<and>
    (request_send H self (decode_as H read_response_of_json err)
      (request_schema b (data_request_read (handle_app_data P d (client_app P i)))) w =
      arrives (app_data_read E topo i d (Inr \<lparr> rq_include_schema = b \<rparr>) w))"
  by (intro conjI remote_listings [OF assms(1-5)] remote_relations [OF assms(1-6)]
      remote_catalogues [OF assms(1-6)] remote_data [OF assms(1-7,9-11)] assms(8))

lemma sample_data_no_apps:
  "get_app (env_containers sample_data_env) sample_data_topology i =
     Inl (TopologyNotFound (entity_ref_app i))"
  by (simp add: sample_data_env_def sample_data_topology_def add_component_def topology_write_def
      insert_component_def get_app_def topology_state_new_def list_containers_def alist_map_def
      component_builder_defs entity_ref_defs Let_def)

theorem remote_calls_are_handler_calls_witness:
  "write_data_send text_library sample_remote_client
      \<lparr> wd_path = handle_component_data plain_encoding ''reg'' (client_component plain_encoding ''ecu''),
        wd_value = JString ''on'' \<rparr> JNull =
    (Inr () :: (unit, unit, unit, unit, unit, unit) client_result, JString ''on'')"
proof -
  have client: "hc_base_uri sample_remote_client = ''http://ecu/sovd/v1''"
    "hc_http sample_remote_client = over_http text_library text_target
       (serve_request sample_data_env plain_query vendor_info_to_json None sample_data_topology
          sample_parts)"
    by (simp_all add: sample_remote_client_def)
  have provider: "component_provider (env_containers sample_data_env) sample_data_topology ''ecu'' =
      Inr (built_data_provider alist_map sample_resources)"
    using sample_data_lookup by (simp add: component_provider_def component_builder_defs)
  note eval = provider with_query_def with_provider_def built_data_provider_def built_read_def
    built_write_def find_resource_def sample_resources_def sample_builder_eval alist_map_def
    adapter_defs
  have "fst (component_data_read sample_data_env sample_data_topology ''ecu'' ''reg''
      (Inr \<lparr> rq_include_schema = False \<rparr>) JNull) = Inr v \<Longrightarrow> rr_schema v \<noteq> Some JNull" for v
    by (auto simp: component_data_read_def eval serialized_read_def register_read_def
        read_response_of_def)
  moreover have "env_schema sample_data_env ''Entities'' \<noteq> JNull"
    by (simp add: sample_data_env_def schema_fallback_def)
  moreover have "env_schema sample_data_env ''DataList'' \<noteq> JNull"
    by (simp add: sample_data_env_def schema_fallback_def)
  moreover have "fst (app_data_read sample_data_env sample_data_topology ''ecu'' ''reg''
      (Inr \<lparr> rq_include_schema = False \<rparr>) JNull) = Inr v \<Longrightarrow> rr_schema v \<noteq> Some JNull" for v
    by (simp add: app_data_read_def with_query_def with_provider_def app_provider_def
        sample_data_no_apps)
  ultimately have "write_data_send text_library sample_remote_client
      \<lparr> wd_path = handle_component_data plain_encoding ''reg'' (client_component plain_encoding ''ecu''),
        wd_value = JString ''on'' \<rparr> JNull =
    acknowledged (arrives (component_data_write sample_data_env sample_data_topology ''ecu'' ''reg''
       \<lparr> wr_data = JString ''on'', wr_signature = None \<rparr> JNull))"
    by (intro remote_calls_are_handler_calls [where b = False, OF text_link.client_link_axioms
          plain_query.query_laws_axioms plain.percent_encoder_axioms client, THEN conjunct1]) simp_all
  then show ?thesis
    by (simp add: component_data_write_def eval deserialized_write_def register_write_def
        arrives_def acknowledged_def)
qed

text \<open>
  C36: The filters of a data listing cannot be used over HTTP: a query with a \<open>groups\<close>,
  \<open>categories\<close> or \<open>tags\<close> parameter is answered with 400 by both data-list endpoints, whatever
  the entity, and no provider is called.
\<close>

theorem data_filters_are_refused_over_http:
  assumes "query_laws Q" and "key \<in> {''groups'', ''categories'', ''tags''}"
    and "(key, v) \<in> set (ql_pairs Q (target_query target))"
    and "calls router GET target = [(endpoint, args)]"
    and "endpoint \<in> {ComponentDataList, AppDataList}"
  shows "serve_request E Q enc vendor topo parts GET target body w =
    ((400, Some (generic_error_to_json (generic_error_new IncompleteRequest ''Bad request''))), w)"
  using assms(5)
  by (auto simp: serve_request_selected [OF assms(4)] query_laws.filters_refused [OF assms(1-3)]
      component_data_list_def app_data_list_def with_query_def acting_def json_answer_def
      respond_def)

theorem data_filters_are_refused_over_http_witness:
  "serve_request sample_data_env plain_query vendor_info_to_json None sample_data_topology
      sample_parts GET ''/components/ecu/data?groups=sw'' None JNull =
    ((400, Some (generic_error_to_json (generic_error_new IncompleteRequest ''Bad request''))), JNull)"
  by (rule data_filters_are_refused_over_http [OF plain_query.query_laws_axioms,
        where key = "''groups''" and v = "''sw''" and endpoint = ComponentDataList and
        args = "[''ecu'']"])
    (simp_all add: plain_query_def target_query_def calls_def target_segments_def path_segments_def
      router_defs)

end
