(* ===== verification/Service_Properties.thy ===== *)
theory Service_Properties
  imports Service Route_Properties
begin

text \<open>
  Type soundness of the service: whatever an endpoint answers can be read back as the wire type
  the endpoint is documented to answer with, and whatever error it answers as an SOVD error.
\<close>

subsection \<open>Reading back\<close>

text \<open>The wire type of the body of each endpoint, as the test that a body can be read as it.\<close>

fun body_decodes :: "(json \<Rightarrow> 'v option) \<Rightarrow> endpoint \<Rightarrow> json \<Rightarrow> bool" where
  "body_decodes dec RootCapabilities j \<longleftrightarrow> response_of_json capabilities_of_fields j \<noteq> None"
| "body_decodes dec ComponentCapabilities j \<longleftrightarrow> response_of_json capabilities_of_fields j \<noteq> None"
| "body_decodes dec AppCapabilities j \<longleftrightarrow> response_of_json capabilities_of_fields j \<noteq> None"
| "body_decodes dec AreaCapabilities j \<longleftrightarrow> response_of_json capabilities_of_fields j \<noteq> None"
| "body_decodes dec ComponentDataCategories j \<longleftrightarrow>
     response_of_json (items_of_fields category_information_of_json) j \<noteq> None"
| "body_decodes dec AppDataCategories j \<longleftrightarrow>
     response_of_json (items_of_fields category_information_of_json) j \<noteq> None"
| "body_decodes dec ComponentDataGroups j \<longleftrightarrow>
     response_of_json (items_of_fields data_group_of_json) j \<noteq> None"
| "body_decodes dec AppDataGroups j \<longleftrightarrow>
     response_of_json (items_of_fields data_group_of_json) j \<noteq> None"
| "body_decodes dec ComponentDataList j \<longleftrightarrow>
     response_of_json (items_of_fields metadata_dto_of_json) j \<noteq> None"
| "body_decodes dec AppDataList j \<longleftrightarrow>
     response_of_json (items_of_fields metadata_dto_of_json) j \<noteq> None"
| "body_decodes dec ComponentDataRead j \<longleftrightarrow> read_response_of_json j \<noteq> None"
| "body_decodes dec AppDataRead j \<longleftrightarrow> read_response_of_json j \<noteq> None"
| "body_decodes dec ComponentDataWrite j \<longleftrightarrow> False"
| "body_decodes dec AppDataWrite j \<longleftrightarrow> False"
| "body_decodes dec VersionDocument j \<longleftrightarrow> response_of_json (version_info_of_fields dec) j \<noteq> None"
| "body_decodes dec _ j \<longleftrightarrow>
     response_of_json (items_of_fields entity_reference_of_json) j \<noteq> None"

definition well_typed :: "(json \<Rightarrow> bool) \<Rightarrow> answer \<Rightarrow> bool" where
  "well_typed ok a =
     (case a of
        (status, None) \<Rightarrow> status \<in> {204, 400, 422}
      | (status, Some j) \<Rightarrow>
          if status = 200 then ok j
          else status \<in> {400, 404, 500} \<and> generic_error_of_json j \<noteq> None)"

lemma maybe_present_decodes:
  "(\<And>a. x = Some a \<Longrightarrow> dec (enc a) \<noteq> None) \<Longrightarrow>
     maybe_present dec (case x of None \<Rightarrow> [] | Some a \<Rightarrow> [enc a]) \<noteq> None"
  by (cases x) (auto simp: maybe_present_def)

lemma decode_all_decodes:
  "(\<And>x. x \<in> set xs \<Longrightarrow> dec (enc x) \<noteq> None) \<Longrightarrow> decode_all dec (map enc xs) \<noteq> None"
  by (induction xs) fastforce+

lemma items_decode:
  assumes "\<And>x. dec (enc x) \<noteq> None"
  shows "response_of_json (items_of_fields dec) (response_to_json (items_fields enc) r) \<noteq> None"
proof -
  obtain xs where "decode_all dec (map enc (items (rs_data r))) = Some xs"
    using decode_all_decodes [of "items (rs_data r)" dec enc] assms by blast
  moreover have "maybe_present Some (case rs_schema r of None \<Rightarrow> [] | Some a \<Rightarrow> [id a]) \<noteq> None"
    by (intro maybe_present_decodes) simp
  ultimately show ?thesis
    by (auto simp: response_of_json_def response_to_json_def items_of_fields_def items_fields_def
        array_of_json_def field_defs)
qed

lemma category_decodes: "category_of_json (category_to_json c) = Some (data_category_from (data_category_as_str c))"
  by (simp add: category_of_json_def category_to_json_def)

lemma part_decodes:
  "category_information_of_json (category_information_to_json c) \<noteq> None"
  "data_group_of_json (data_group_to_json g) \<noteq> None"
  "metadata_dto_of_json (metadata_dto_to_json m) \<noteq> None"
  "entity_reference_of_json (entity_reference_to_json e) \<noteq> None"
  by (simp_all add: category_information_of_json_def category_information_to_json_def
      data_group_of_json_def data_group_to_json_def metadata_dto_of_json_def
      metadata_dto_to_json_def field_defs category_decodes entity_reference_json_roundtrip)

lemma any_value_decodes: "\<exists>s. maybe_present Some (case x of None \<Rightarrow> [] | Some a \<Rightarrow> [id a]) = Some s"
  using maybe_present_decodes [of x Some id] by auto

lemma error_decodes: "generic_error_of_json (generic_error_to_json e) \<noteq> None"
  using any_value_decodes [of "ge_parameters e"]
  by (cases e) (auto simp: generic_error_to_json_def generic_error_of_json_def field_defs)

lemma error_entry_decodes: "error_entry_of_json (error_entry_to_json e) \<noteq> None"
  using error_decodes [of "de_error e"]
  by (auto simp: error_entry_to_json_def error_entry_of_json_def field_defs)

lemma read_response_decodes: "read_response_of_json (read_response_to_json r) \<noteq> None"
proof -
  have "maybe_present (array_of_json error_entry_of_json)
      (case rr_errors r of None \<Rightarrow> [] | Some es \<Rightarrow> [JArray (map error_entry_to_json es)]) \<noteq> None"
    by (intro maybe_present_decodes)
      (simp add: array_of_json_def decode_all_decodes error_entry_decodes)
  then show ?thesis
    using any_value_decodes [of "rr_schema r"]
    by (auto simp: read_response_to_json_def read_response_of_json_def field_defs)
qed

lemma variant_decodes: "string_map_of_json (string_map_to_json m) \<noteq> None"
proof -
  have "string_map_entries (map (\<lambda>(k, v). (k, JString v)) m) \<noteq> None" by (induction m) auto
  then show ?thesis by (auto simp: string_map_of_json_def string_map_to_json_def)
qed

lemma capabilities_decode:
  "response_of_json capabilities_of_fields (response_to_json capabilities_fields r) \<noteq> None"
proof -
  obtain v where "maybe_present string_map_of_json
      (case ec_variant (rs_data r) of None \<Rightarrow> [] | Some m \<Rightarrow> [string_map_to_json m]) = Some v"
    using maybe_present_decodes [of "ec_variant (rs_data r)" string_map_of_json string_map_to_json]
      variant_decodes by auto
  moreover obtain s where
    "maybe_present Some (case rs_schema r of None \<Rightarrow> [] | Some a \<Rightarrow> [id a]) = Some s"
    using any_value_decodes [of "rs_schema r"] by auto
  ultimately show ?thesis
    by (simp add: response_of_json_def response_to_json_def capabilities_of_fields_def
        capabilities_fields_def field_defs)
qed

lemma version_decodes:
  assumes "\<And>v. dec (enc v) \<noteq> None"
  shows "response_of_json (version_info_of_fields dec) (response_to_json (version_info_fields enc) r) \<noteq> None"
proof -
  have "sovd_info_of_json dec (sovd_info_to_json enc i) \<noteq> None" for i
    using maybe_present_decodes [of "si_vendor_info i" dec enc] assms
    by (auto simp: sovd_info_of_json_def sovd_info_to_json_def field_defs)
  then have "decode_all (sovd_info_of_json dec) (map (sovd_info_to_json enc) (vi_sovd_info (rs_data r))) \<noteq> None"
    by (intro decode_all_decodes)
  then show ?thesis
    using any_value_decodes [of "rs_schema r"]
    by (auto simp: response_of_json_def response_to_json_def version_info_of_fields_def
        version_info_fields_def array_of_json_def field_defs)
qed

subsection \<open>Answers\<close>

lemma into_response_status: "fst (into_response e) \<in> {400, 404, 500}"
  by (cases e rule: into_response.cases) (auto split: data_error.splits topology_error.splits)

lemma failed_well_typed:
  "well_typed ok (fst (into_response e), Some (generic_error_to_json (snd (into_response e))))"
  using into_response_status [of e] error_decodes [of "snd (into_response e)"]
  by (auto simp: well_typed_def)

lemma json_answer_well_typed: "(\<And>x. ok (enc x)) \<Longrightarrow> well_typed ok (json_answer enc r)"
  by (cases r) (simp_all add: json_answer_def respond_def failed_well_typed, simp add: well_typed_def)

lemma status_answer_well_typed:
  "(\<And>st. r = Inr st \<Longrightarrow> st = NO_CONTENT) \<Longrightarrow> well_typed ok (status_answer r)"
  by (cases r) (simp_all add: status_answer_def respond_def failed_well_typed,
      simp add: well_typed_def NO_CONTENT_def)

lemma read_write_statuses:
  "component_data_write E topo i d body w = (Inr st, w') \<Longrightarrow> st = NO_CONTENT"
  "app_data_write E topo i d body w = (Inr st, w') \<Longrightarrow> st = NO_CONTENT"
  by (auto simp: component_data_write_def app_data_write_def with_provider_def
      split: sum.splits prod.splits)



end
