(* ===== verification/Mcp.thy ===== *)
theory Mcp
  imports Remote
begin

text \<open>
  The MCP server of \<open>src/opensovd-cli/mcp/src/main.rs\<close>: three listing tools, a prompt, and the
  topology resource, all over the REST client.  Reading the resource joins three listing requests
  that run concurrently, so it is a step relation: in each step the server answers one of the
  requests that are still pending, or the world moves by itself.  The MCP library's result and
  error constructors are kept as constructors; texts of foreign errors are parameters.
\<close>

subsection \<open>Errors\<close>

text \<open>\<open>Display\<close> of the client's error; \<open>'t\<close> is the record of the texts of foreign errors.\<close>

record ('ue, 'he, 'je, 'hy, 'se) error_texts =
  et_status :: "nat \<Rightarrow> string"
  et_debug_error :: "generic_error option \<Rightarrow> string"
  et_http :: "'he \<Rightarrow> string"
  et_hyper :: "'hy \<Rightarrow> string"
  et_service :: "'se \<Rightarrow> string"
  et_json :: "'je \<Rightarrow> string"
  et_uri :: "'ue \<Rightarrow> string"

fun client_error_display ::
  "('ue, 'he, 'je, 'hy, 'se) error_texts \<Rightarrow> ('ue, 'he, 'je, 'hy, 'se) client_error \<Rightarrow> string" where
  "client_error_display T (ApiError status error) =
     ''server error '' @ et_status T status @ '': '' @ et_debug_error T error"
| "client_error_display T (Http e) = ''http error: '' @ et_http T e"
| "client_error_display T (Hyper e) = ''hyper error: '' @ et_hyper T e"
| "client_error_display T (Service e) = ''service error: '' @ et_service T e"
| "client_error_display T (Json e) = ''json error: '' @ et_json T e"
| "client_error_display T (ClientInvalidUri e) = ''invalid uri: '' @ et_uri T e"

datatype mcp_error = InternalError string | ResourceNotFound string

subsection \<open>Tools\<close>

text \<open>\<open>CallToolResult::structured\<close>.\<close>

datatype call_tool_result = Structured json

text \<open>
  The libraries of the client with the error texts and the JSON error of a body that has no
  listing in it; the server state is the client, the routers being generated.
\<close>

record ('uri, 'ue, 'he, 'je, 'hy, 'se) mcp_library =
  ml_http :: "('uri, 'ue, 'he, 'je) http_library"
  ml_json_error :: 'je
  ml_texts :: "('ue, 'he, 'je, 'hy, 'se) error_texts"

record ('w, 'uri, 'se) mcp_server =
  mcp_client :: "('w, 'uri, 'se) client"

definition mcp_server_new :: "('w, 'uri, 'se) client \<Rightarrow> ('w, 'uri, 'se) mcp_server" where
  "mcp_server_new client = \<lparr> mcp_client = client \<rparr>"

definition mcp_request ::
  "('uri, 'ue, 'he, 'je, 'hy, 'se) mcp_library \<Rightarrow> ('w, 'uri, 'se) mcp_server \<Rightarrow> read_request \<Rightarrow>
     ('w, (mcp_error, entities_response) result) action" where
  "mcp_request M self req w =
     (let (r, w') = request_send (ml_http M) (mcp_client self)
            (decode_listing (ml_http M) (ml_json_error M)) req w
      in (map_err (\<lambda>e. InternalError (client_error_display (ml_texts M) e)) r, w'))"

text \<open>\<open>serde_json::to_value\<close> does not fail on a response, whose keys are strings.\<close>

definition structured_listing :: "entities_response \<Rightarrow> call_tool_result" where
  "structured_listing response =
     Structured (response_to_json (items_fields entity_reference_to_json) response)"

definition tool_list_components ::
  "('uri, 'ue, 'he, 'je, 'hy, 'se) mcp_library \<Rightarrow> ('w, 'uri, 'se) mcp_server \<Rightarrow>
     ('w, (mcp_error, call_tool_result) result) action" where
  "tool_list_components M self w =
     (let (r, w') = mcp_request M self (request_schema True list_components) w
      in (map_ok structured_listing r, w'))"

definition tool_list_areas ::
  "('uri, 'ue, 'he, 'je, 'hy, 'se) mcp_library \<Rightarrow> ('w, 'uri, 'se) mcp_server \<Rightarrow>
     ('w, (mcp_error, call_tool_result) result) action" where
  "tool_list_areas M self w =
     (let (r, w') = mcp_request M self (request_schema True list_areas) w
      in (map_ok structured_listing r, w'))"

definition tool_list_apps ::
  "('uri, 'ue, 'he, 'je, 'hy, 'se) mcp_library \<Rightarrow> ('w, 'uri, 'se) mcp_server \<Rightarrow>
     ('w, (mcp_error, call_tool_result) result) action" where
  "tool_list_apps M self w =
     (let (r, w') = mcp_request M self (request_schema True list_apps) w
      in (map_ok structured_listing r, w'))"

subsection \<open>Prompt, information and resources\<close>

definition newline :: string where
  "newline = [CHR 0x0A]"

record prompt_result =
  pr_description :: "string option"
  pr_messages :: "(string \<times> string) list"

definition explore_topology :: prompt_result where
  "explore_topology = \<lparr>
     pr_description =
       Some ''Explore the vehicle diagnostic topology exposed by the SOVD server.'',
     pr_messages = [(''user'', ''Read the sovd://topology resource, then:'' @ newline
       @ ''1. List components'' @ newline @ ''2. List areas'' @ newline
       @ ''3. List apps and their hosting relationships'' @ newline
       @ ''4. Summarize the vehicle's diagnostic topology'')] \<rparr>"

definition TOPOLOGY_URI :: string where
  "TOPOLOGY_URI = ''sovd://topology''"

record raw_resource =
  raw_uri :: string
  raw_name :: string
  raw_description :: "string option"
  raw_mime_type :: "string option"

definition list_resources :: "raw_resource list" where
  "list_resources = [\<lparr> raw_uri = TOPOLOGY_URI, raw_name = ''Vehicle Topology'',
     raw_description =
       Some ''Snapshot of the SOVD entity hierarchy: components, areas, and apps.'',
     raw_mime_type = Some ''text/plain'' \<rparr>]"

text \<open>\<open>writeln!\<close> appends its text and a newline.\<close>

definition writeln :: "string \<Rightarrow> string \<Rightarrow> string" where
  "writeln buffer line = buffer @ line @ newline"

definition write_entities :: "entity_reference list \<Rightarrow> string \<Rightarrow> string" where
  "write_entities es buffer =
     fold (\<lambda>e b. writeln b (''- '' @ er_name e @ '' (id: '' @ er_id e @ '')'')) es buffer"

definition topology_text ::
  "entity_reference list \<Rightarrow> entity_reference list \<Rightarrow> entity_reference list \<Rightarrow> string" where
  "topology_text comps ars aps =
     (let t0 = writeln [] (''# Vehicle Topology'' @ newline);
          t1 = writeln t0 (''## Components ('' @ show_nat (length comps) @ '')'' @ newline);
          t2 = write_entities comps t1;
          t3 = writeln t2 (newline @ ''## Areas ('' @ show_nat (length ars) @ '')'' @ newline);
          t4 = write_entities ars t3;
          t5 = writeln t4 (newline @ ''## Apps ('' @ show_nat (length aps) @ '')'' @ newline)
      in write_entities aps t5)"

subsection \<open>Reading the topology resource\<close>

type_synonym listing_result = "(mcp_error, entities_response) result"

record 'w topology_read =
  tr_world :: 'w
  tr_components :: "listing_result option"
  tr_areas :: "listing_result option"
  tr_apps :: "listing_result option"

definition read_start :: "'w \<Rightarrow> 'w topology_read" where
  "read_start w = \<lparr> tr_world = w, tr_components = None, tr_areas = None, tr_apps = None \<rparr>"

text \<open>
  A request is answered at one moment, by one call of the service; \<open>env\<close> is what else may happen
  to the world meanwhile.
\<close>

inductive read_step ::
  "('uri, 'ue, 'he, 'je, 'hy, 'se) mcp_library \<Rightarrow> ('w, 'uri, 'se) mcp_server \<Rightarrow>
     ('w \<Rightarrow> 'w \<Rightarrow> bool) \<Rightarrow> 'w topology_read \<Rightarrow> 'w topology_read \<Rightarrow> bool"
  for M self env where
  read_components:
    "tr_components st = None \<Longrightarrow> mcp_request M self list_components (tr_world st) = (r, w) \<Longrightarrow>
       read_step M self env st (st\<lparr>tr_world := w, tr_components := Some r\<rparr>)"
| read_areas:
    "tr_areas st = None \<Longrightarrow> mcp_request M self list_areas (tr_world st) = (r, w) \<Longrightarrow>
       read_step M self env st (st\<lparr>tr_world := w, tr_areas := Some r\<rparr>)"
| read_apps:
    "tr_apps st = None \<Longrightarrow> mcp_request M self list_apps (tr_world st) = (r, w) \<Longrightarrow>
       read_step M self env st (st\<lparr>tr_world := w, tr_apps := Some r\<rparr>)"
| read_moves:
    "env (tr_world st) w \<Longrightarrow> read_step M self env st (st\<lparr>tr_world := w\<rparr>)"

text \<open>
  \<open>try_join!\<close>: all three values, or the error of a request that has failed, whatever the others
  have come to.
\<close>

inductive joined ::
  "'w topology_read \<Rightarrow>
     (mcp_error, entities_response \<times> entities_response \<times> entities_response) result \<Rightarrow> bool" where
  joined_all:
    "tr_components st = Some (Inr c) \<Longrightarrow> tr_areas st = Some (Inr ar) \<Longrightarrow> tr_apps st = Some (Inr ap) \<Longrightarrow>
       joined st (Inr (c, ar, ap))"
| joined_components: "tr_components st = Some (Inl e) \<Longrightarrow> joined st (Inl e)"
| joined_areas: "tr_areas st = Some (Inl e) \<Longrightarrow> joined st (Inl e)"
| joined_apps: "tr_apps st = Some (Inl e) \<Longrightarrow> joined st (Inl e)"

text \<open>A text with its URI, \<open>ResourceContents::text\<close>.\<close>

type_synonym resource_contents = "string \<times> string"

inductive read_resource ::
  "('uri, 'ue, 'he, 'je, 'hy, 'se) mcp_library \<Rightarrow> ('w, 'uri, 'se) mcp_server \<Rightarrow>
     ('w \<Rightarrow> 'w \<Rightarrow> bool) \<Rightarrow> string \<Rightarrow> 'w \<Rightarrow>
     (mcp_error, resource_contents list) result \<Rightarrow> 'w \<Rightarrow> bool"
  for M self env where
  unknown_resource:
    "uri \<noteq> TOPOLOGY_URI \<Longrightarrow>
       read_resource M self env uri w (Inl (ResourceNotFound (''unknown resource: '' @ uri))) w"
| topology_resource:
    "(read_step M self env)\<^sup>*\<^sup>* (read_start w) st \<Longrightarrow> joined st r \<Longrightarrow>
       read_resource M self env TOPOLOGY_URI w
         (map_ok (\<lambda>(c, ar, ap). [(topology_text (items (rs_data c)) (items (rs_data ar))
            (items (rs_data ap)), TOPOLOGY_URI)]) r) (tr_world st)"

end
