(* ===== verification/Mcp_Properties.thy ===== *)
theory Mcp_Properties
  imports Mcp Remote_Properties
begin

text \<open>
  The properties of the MCP server over the gateway's handlers: its tools relay the server's
  listings, and reading the topology resource ends and shows the topology.
\<close>

subsection \<open>The server with its topology\<close>

text \<open>The topology is shared state of the server: it is part of the world a client talks to.\<close>

definition hosted ::
  "('mc, 'ma, 'mr, 's, 'w, 'set) route_env \<Rightarrow> query_library \<Rightarrow> ('v \<Rightarrow> json) \<Rightarrow> 'v option \<Rightarrow>
     'i request_parts \<Rightarrow> http_method \<Rightarrow> string \<Rightarrow> json option \<Rightarrow>
     ('mc, 'ma, 'mr, 's) topology_state \<times> 'w \<Rightarrow> answer \<times> ('mc, 'ma, 'mr, 's) topology_state \<times> 'w" where
  "hosted E Q enc vendor parts meth target body world =
     (let (topo, w) = world; (a, w') = serve_request E Q enc vendor topo parts meth target body w
      in (a, (topo, w')))"

abbreviation plain_entities :: "bool \<Rightarrow> entities_query" where
  "plain_entities b \<equiv> \<lparr> eq_include_schema = b, eq_tags = [] \<rparr>"

subsection \<open>Texts\<close>

definition entity_lines :: "(string \<times> string) list \<Rightarrow> string" where
  "entity_lines es = concat (map (\<lambda>(n, i). ''- '' @ n @ '' (id: '' @ i @ '')'' @ newline) es)"

lemma write_entities_lines:
  "write_entities es b = b @ entity_lines (map (\<lambda>e. (er_name e, er_id e)) es)"
  by (induction es arbitrary: b) (simp_all add: write_entities_def entity_lines_def writeln_def)

text \<open>The text of names and ids, section by section.\<close>

definition topology_sections ::
  "(string \<times> string) list \<Rightarrow> (string \<times> string) list \<Rightarrow> (string \<times> string) list \<Rightarrow> string" where
  "topology_sections comps ars aps =
     ''# Vehicle Topology'' @ newline @ newline
     @ ''## Components ('' @ show_nat (length comps) @ '')'' @ newline @ newline @ entity_lines comps
     @ newline @ ''## Areas ('' @ show_nat (length ars) @ '')'' @ newline @ newline @ entity_lines ars
     @ newline @ ''## Apps ('' @ show_nat (length aps) @ '')'' @ newline @ newline @ entity_lines aps"

lemma topology_text_sections:
  "topology_text comps ars aps = topology_sections (map (\<lambda>e. (er_name e, er_id e)) comps)
     (map (\<lambda>e. (er_name e, er_id e)) ars) (map (\<lambda>e. (er_name e, er_id e)) aps)"
  by (simp add: topology_text_def write_entities_lines writeln_def topology_sections_def Let_def)

abbreviation component_names where
  "component_names L topo \<equiv> map (\<lambda>e. (component_name e, component_id e)) (components L topo)"

abbreviation area_names where
  "area_names L topo \<equiv> map (\<lambda>e. (area_name e, area_id e)) (areas L topo)"

abbreviation app_names where
  "app_names L topo \<equiv> map (\<lambda>e. (app_name e, app_id e)) (apps L topo)"

lemma listings_of_names:
  "\<exists>x. component_list E topo parts (plain_entities b) = Inr x \<and>
     map (\<lambda>e. (er_name e, er_id e)) (items (rs_data x)) = component_names (env_containers E) topo"
  "\<exists>x. area_list E topo parts (plain_entities b) = Inr x \<and>
     map (\<lambda>e. (er_name e, er_id e)) (items (rs_data x)) = area_names (env_containers E) topo"
  "\<exists>x. app_list E topo parts (plain_entities b) = Inr x \<and>
     map (\<lambda>e. (er_name e, er_id e)) (items (rs_data x)) = app_names (env_containers E) topo"
  by (simp_all add: component_list_def area_list_def app_list_def entities_response_of_def Let_def
      tags_match_def comp_def component_reference_def area_reference_def app_reference_def)

subsection \<open>One request\<close>

lemmas mcp_lists = list_components_def list_areas_def list_apps_def

lemma mcp_request_listing:
  assumes "client_link (ml_http M) base target" and "hc_base_uri (mcp_client self) = base"
    and "hc_http (mcp_client self) = over_http (ml_http M) target srv"
    and "target_ok (build_uri_query_string (rd_path req) (schema_query (rd_with_schema req)))"
    and "rs_schema x \<noteq> Some JNull"
    and "\<And>body. srv GET (build_uri_query_string (rd_path req) (schema_query (rd_with_schema req))) body w =
      (listing_answer (Inr x), w)"
  shows "mcp_request M self req w = (Inr x, w)"
  unfolding mcp_request_def by (subst client_listing [OF assms(1-4,6)]) (use assms(5) in auto)

text \<open>The three listings, at a server that answers like the routes at \<open>topo\<close>.\<close>

lemma mcp_listings:
  assumes "client_link (ml_http M) base target" and "query_laws Q"
    and "hc_base_uri (mcp_client self) = base"
    and "hc_http (mcp_client self) = over_http (ml_http M) target srv"
    and "\<And>t body a. serve_request E Q enc vendor topo parts GET t body v = (a, v) \<Longrightarrow>
      srv GET t body w = (a, w)"
    and "b \<Longrightarrow> env_schema E ''Entities'' \<noteq> JNull"
  shows "component_list E topo parts (plain_entities b) = Inr x \<Longrightarrow>
      mcp_request M self (request_schema b list_components) w = (Inr x, w)"
    and "area_list E topo parts (plain_entities b) = Inr x \<Longrightarrow>
      mcp_request M self (request_schema b list_areas) w = (Inr x, w)"
    and "app_list E topo parts (plain_entities b) = Inr x \<Longrightarrow>
      mcp_request M self (request_schema b list_apps) w = (Inr x, w)"
proof -
  have schema: "eq_include_schema (plain_entities b) \<Longrightarrow> env_schema E ''Entities'' \<noteq> JNull"
    using assms(6) by simp
  note intros = mcp_request_listing [OF assms(1,3,4)] listing_schema [OF schema] assms(5)
  note facts = mcp_lists request_schema_def listing_target_ok listings_served [OF assms(2)]
  show "component_list E topo parts (plain_entities b) = Inr x \<Longrightarrow>
      mcp_request M self (request_schema b list_components) w = (Inr x, w)"
    by (intro intros(1,2,5)) (simp_all add: facts)
  show "area_list E topo parts (plain_entities b) = Inr x \<Longrightarrow>
      mcp_request M self (request_schema b list_areas) w = (Inr x, w)"
    by (intro intros(1,3,5)) (simp_all add: facts)
  show "app_list E topo parts (plain_entities b) = Inr x \<Longrightarrow>
      mcp_request M self (request_schema b list_apps) w = (Inr x, w)"
    by (intro intros(1,4,5)) (simp_all add: facts)
qed

subsection \<open>Tools\<close>

text \<open>
  Each listing tool relays the server: over a connection that carries URIs and JSON
  faithfully, its structured value is the JSON body of the server's own answer to the listing
  with its schema, and the world is left alone.
\<close>

theorem mcp_tools_relay_listings:
  assumes "client_link (ml_http M) base target" and "query_laws Q"
    and "hc_base_uri (mcp_client self) = base"
    and "hc_http (mcp_client self) =
      over_http (ml_http M) target (serve_request E Q enc vendor topo parts)"
    and "env_schema E ''Entities'' \<noteq> JNull"
  shows "(\<exists>j. listing_answer (component_list E topo parts (plain_entities True)) = (200, Some j) \<and>
      tool_list_components M self w = (Inr (Structured j), w)) \<and>
    (\<exists>j. listing_answer (area_list E topo parts (plain_entities True)) = (200, Some j) \<and>
      tool_list_areas M self w = (Inr (Structured j), w)) \<and>
    (\<exists>j. listing_answer (app_list E topo parts (plain_entities True)) = (200, Some j) \<and>
      tool_list_apps M self w = (Inr (Structured j), w))"
proof -
  note relay = mcp_listings [OF assms(1-4), where v = w and w = w and b = True]
  show ?thesis
    using listings_of_names(1) [of E topo parts True] listings_of_names(2) [of E topo parts True]
      listings_of_names(3) [of E topo parts True] assms(5)
    by (auto simp: tool_list_components_def tool_list_areas_def tool_list_apps_def relay
        structured_listing_def json_answer_def respond_def)
qed

subsection \<open>The topology resource\<close>

lemma unknown_resource_iff:
  "uri \<noteq> TOPOLOGY_URI \<Longrightarrow> read_resource M self env uri w r w' \<longleftrightarrow>
     r = Inl (ResourceNotFound (''unknown resource: '' @ uri)) \<and> w' = w"
  by (rule iffI, erule read_resource.cases, simp_all)
    (use unknown_resource [of uri M self env w] in simp)

inductive_cases read_stepE: "read_step M self env st st'"
inductive_cases joinedE: "joined st r"
inductive_cases topology_resourceE: "read_resource M self env TOPOLOGY_URI w r w'"

text \<open>How many of the three requests are still pending.\<close>

definition pending :: "'w topology_read \<Rightarrow> nat" where
  "pending st = (if tr_components st = None then 1 else 0) + (if tr_areas st = None then 1 else 0)
     + (if tr_apps st = None then 1 else 0)"

lemma read_step_pending:
  "read_step M self (\<lambda>_ _. False) st st' \<Longrightarrow> pending st = Suc (pending st')"
  by (erule read_stepE) (simp_all add: pending_def)

lemma read_steps_pending:
  "((read_step M self (\<lambda>_ _. False)) ^^ n) st st' \<Longrightarrow> pending st = n + pending st'"
  by (induction n arbitrary: st') (auto dest: read_step_pending)

lemma read_step_progress:
  assumes "pending st > 0"
  shows "\<exists>st'. read_step M self env st st' \<and> pending st = Suc (pending st')"
proof -
  consider "tr_components st = None" | "tr_areas st = None" | "tr_apps st = None"
    using assms by (auto simp: pending_def split: if_split_asm)
  then show ?thesis
  proof cases
    case 1
    show ?thesis
      by (rule exI, rule conjI, rule read_components [OF 1 surjective_pairing])
        (simp add: pending_def 1)
  next
    case 2
    show ?thesis
      by (rule exI, rule conjI, rule read_areas [OF 2 surjective_pairing])
        (simp add: pending_def 2)
  next
    case 3
    show ?thesis
      by (rule exI, rule conjI, rule read_apps [OF 3 surjective_pairing])
        (simp add: pending_def 3)
  qed
qed

lemma reads_complete: "\<exists>st'. (read_step M self env)\<^sup>*\<^sup>* st st' \<and> pending st' = 0"
proof (induction "pending st" arbitrary: st)
  case 0
  then show ?case by auto
next
  case (Suc n)
  then obtain st1 where "read_step M self env st st1" "pending st = Suc (pending st1)"
    using read_step_progress [of st M self env] by auto
  with Suc show ?case
    by (metis converse_rtranclp_into_rtranclp nat.inject)
qed

lemma complete_joined:
  assumes "pending st = 0"
  shows "\<exists>r. joined st r"
proof -
  obtain c ar ap where all: "tr_components st = Some c" "tr_areas st = Some ar" "tr_apps st = Some ap"
    using assms by (auto simp: pending_def split: if_split_asm)
  then show ?thesis
    by (cases c; cases ar; cases ap) (blast intro: joined.intros)+
qed

lemma joins_complete: "\<exists>st' r. (read_step M self env)\<^sup>*\<^sup>* st st' \<and> joined st' r"
  using reads_complete [of M self env st] complete_joined by blast

lemma resource_outcome: "\<exists>r w'. read_resource M self env uri w r w'"
proof (cases "uri = TOPOLOGY_URI")
  case True
  then show ?thesis
    using joins_complete [of M self env "read_start w"] topology_resource [of M self env w] by blast
next
  case False
  then show ?thesis
    using unknown_resource [of uri M self env w] by blast
qed

lemma runs_exist:
  "n \<le> pending st \<Longrightarrow> \<exists>st'. ((read_step M self (\<lambda>_ _. False)) ^^ n) st st'"
proof (induction n)
  case 0
  then show ?case by auto
next
  case (Suc n)
  then obtain st1 where st1: "((read_step M self (\<lambda>_ _. False)) ^^ n) st st1" by auto
  with Suc.prems have "pending st1 > 0" using read_steps_pending [OF st1] by simp
  with st1 show ?case
    using read_step_progress [of st1 M self "\<lambda>_ _. False"] by (auto simp: relcompp_apply)
qed


text \<open>A part of the join that has been answered shows a topology with the property \<open>P\<close>.\<close>

definition shown ::
  "('t \<Rightarrow> bool) \<Rightarrow> ('t \<Rightarrow> (route_error, entities_response) result) \<Rightarrow> listing_result option \<Rightarrow> bool" where
  "shown P list_of part \<longleftrightarrow> (\<forall>r. part = Some r \<longrightarrow> (\<exists>t x. P t \<and> list_of t = Inr x \<and> r = Inr x))"

lemma shown_simps [simp]:
  "shown P list_of None"
  "shown P list_of (Some (Inr x)) \<longleftrightarrow> (\<exists>t. P t \<and> list_of t = Inr x)"
  "\<not> shown P list_of (Some (Inl e))"
  by (auto simp: shown_def)

definition read_ok where
  "read_ok P E parts st \<longleftrightarrow> P (fst (tr_world st)) \<and>
     shown P (\<lambda>t. component_list E t parts (plain_entities False)) (tr_components st) \<and>
     shown P (\<lambda>t. area_list E t parts (plain_entities False)) (tr_areas st) \<and>
     shown P (\<lambda>t. app_list E t parts (plain_entities False)) (tr_apps st)"


lemma hosted_requests:
  assumes "client_link (ml_http M) base target" and "query_laws Q"
    and "hc_base_uri (mcp_client self) = base"
    and "hc_http (mcp_client self) = over_http (ml_http M) target (hosted E Q enc vendor parts)"
    and "component_list E t parts (plain_entities False) = Inr c"
    and "area_list E t parts (plain_entities False) = Inr ar"
    and "app_list E t parts (plain_entities False) = Inr ap"
  shows "mcp_request M self list_components (t, v) = (Inr c, (t, v))"
    and "mcp_request M self list_areas (t, v) = (Inr ar, (t, v))"
    and "mcp_request M self list_apps (t, v) = (Inr ap, (t, v))"
proof -
  have served: "hosted E Q enc vendor parts GET target body (t, v) = (a, (t, v))"
    if "serve_request E Q enc vendor t parts GET target body v = (a, v)" for target body a
    using that by (simp add: hosted_def)
  have plain: "request_schema False list_components = list_components"
    "request_schema False list_areas = list_areas" "request_schema False list_apps = list_apps"
    by (simp_all add: request_schema_def mcp_lists)
  note listing = mcp_listings [OF assms(1-4) served, where b = False, simplified plain]
  show "mcp_request M self list_components (t, v) = (Inr c, (t, v))"
    and "mcp_request M self list_areas (t, v) = (Inr ar, (t, v))"
    and "mcp_request M self list_apps (t, v) = (Inr ap, (t, v))"
    using listing assms(5-7) by simp_all
qed

lemma read_ok_step:
  assumes "client_link (ml_http M) base target" and "query_laws Q"
    and "hc_base_uri (mcp_client self) = base"
    and "hc_http (mcp_client self) = over_http (ml_http M) target (hosted E Q enc vendor parts)"
    and "\<And>t v t' v'. P t \<Longrightarrow> env (t, v) (t', v') \<Longrightarrow> P t'"
    and "read_step M self env st st'" and "read_ok P E parts st"
  shows "read_ok P E parts st'"
proof -
  obtain t v where world: "tr_world st = (t, v)" by fastforce
  obtain c ar ap where lists: "component_list E t parts (plain_entities False) = Inr c"
    "area_list E t parts (plain_entities False) = Inr ar"
    "app_list E t parts (plain_entities False) = Inr ap"
    using listings_of_names [of E t parts False] by blast
  note requests = hosted_requests [OF assms(1-4) lists, of v]
  from assms(6) show ?thesis
  proof cases
    case (read_moves w)
    then show ?thesis
      using assms(5) [of t v "fst w" "snd w"] assms(7) world by (simp add: read_ok_def)
  qed (use assms(7) world requests lists in \<open>auto simp: read_ok_def\<close>)
qed

lemma read_ok_steps:
  assumes "client_link (ml_http M) base target" and "query_laws Q"
    and "hc_base_uri (mcp_client self) = base"
    and "hc_http (mcp_client self) = over_http (ml_http M) target (hosted E Q enc vendor parts)"
    and "\<And>t v t' v'. P t \<Longrightarrow> env (t, v) (t', v') \<Longrightarrow> P t'"
    and "(read_step M self env)\<^sup>*\<^sup>* (read_start w) st" and "P (fst w)"
  shows "read_ok P E parts st"
  using assms(6)
proof (induction rule: rtranclp_induct)
  case base
  then show ?case using assms(7) by (simp add: read_ok_def read_start_def)
next
  case (step st1 st2)
  show ?case by (rule read_ok_step [OF assms(1-5) step.hyps(2) step.IH])
qed

text \<open>
  C24: The topology resource shows the topology: over a faithful connection to the server's
  routes every outcome is the text whose sections list the names and ids of components, areas
  and apps in the topology's order, never an error, in whatever order the three requests are
  answered.  If the topology may change meanwhile, each section is that of a topology the server
  had (one with every property the changes keep), not necessarily the same one.  Any other URI
  is an unknown resource, reported without a request.
\<close>

theorem mcp_resource_shows_topology:
  assumes "client_link (ml_http M) base target" and "query_laws Q"
    and "hc_base_uri (mcp_client self) = base"
    and "hc_http (mcp_client self) = over_http (ml_http M) target (hosted E Q enc vendor parts)"
    and "\<And>t v t' v'. P t \<Longrightarrow> env (t, v) (t', v') \<Longrightarrow> P t'"
    and "P (fst w)"
  shows "(\<forall>r w'. read_resource M self env TOPOLOGY_URI w r w' \<longrightarrow> P (fst w') \<and>
      (\<exists>tc ta tp. P tc \<and> P ta \<and> P tp \<and>
        r = Inr [(topology_sections (component_names (env_containers E) tc)
          (area_names (env_containers E) ta) (app_names (env_containers E) tp), TOPOLOGY_URI)])) \<and>
    (\<forall>uri r w'. uri \<noteq> TOPOLOGY_URI \<longrightarrow> read_resource M self env uri w r w' \<longleftrightarrow>
      r = Inl (ResourceNotFound (''unknown resource: '' @ uri)) \<and> w' = w)"
proof (intro conjI allI impI)
  fix r w'
  assume "read_resource M self env TOPOLOGY_URI w r w'"
  then obtain st j where run: "(read_step M self env)\<^sup>*\<^sup>* (read_start w) st" "joined st j" "w' = tr_world st"
    and r: "r = map_ok (\<lambda>(c, ar, ap). [(topology_text (items (rs_data c)) (items (rs_data ar))
            (items (rs_data ap)), TOPOLOGY_URI)]) j"
    by (rule topology_resourceE) auto
  have ok: "read_ok P E parts st"
    by (rule read_ok_steps [where P = P and env = env, OF assms(1-5) run(1) assms(6)])
  then show "P (fst w')" using run(3) by (simp add: read_ok_def)
  from run(2) ok obtain c ar ap tc ta tp where parts: "j = Inr (c, ar, ap)" "P tc" "P ta" "P tp"
    "component_list E tc parts (plain_entities False) = Inr c"
    "area_list E ta parts (plain_entities False) = Inr ar"
    "app_list E tp parts (plain_entities False) = Inr ap"
    by (cases rule: joined.cases) (auto simp: read_ok_def)
  show "\<exists>tc ta tp. P tc \<and> P ta \<and> P tp \<and>
      r = Inr [(topology_sections (component_names (env_containers E) tc)
        (area_names (env_containers E) ta) (app_names (env_containers E) tp), TOPOLOGY_URI)]"
    using parts listings_of_names(1) [of E tc parts False]
      listings_of_names(2) [of E ta parts False] listings_of_names(3) [of E tp parts False]
    by (intro exI [of _ tc] exI [of _ ta] exI [of _ tp]) (simp add: r topology_text_sections)
qed (simp_all add: unknown_resource_iff)


text \<open>
  The resource calls its text a snapshot, but a topology change between the requests shows in
  some sections only.
\<close>

theorem mcp_topology_is_no_snapshot:
  assumes "client_link (ml_http M) base target" and "query_laws Q"
    and "hc_base_uri (mcp_client self) = base"
    and "hc_http (mcp_client self) = over_http (ml_http M) target (hosted E Q enc vendor parts)"
    and "env (t0, v) (t1, v)"
  shows "read_resource M self env TOPOLOGY_URI (t0, v)
    (Inr [(topology_sections (component_names (env_containers E) t0)
       (area_names (env_containers E) t1) (app_names (env_containers E) t1), TOPOLOGY_URI)]) (t1, v)"
proof -
  obtain c ar0 ap0 where lists0: "component_list E t0 parts (plain_entities False) = Inr c"
    "area_list E t0 parts (plain_entities False) = Inr ar0"
    "app_list E t0 parts (plain_entities False) = Inr ap0"
    and names0: "map (\<lambda>e. (er_name e, er_id e)) (items (rs_data c)) =
      component_names (env_containers E) t0"
    using listings_of_names [of E t0 parts False] by blast
  obtain c1 ar ap where lists1: "component_list E t1 parts (plain_entities False) = Inr c1"
    "area_list E t1 parts (plain_entities False) = Inr ar"
    "app_list E t1 parts (plain_entities False) = Inr ap"
    and names1: "map (\<lambda>e. (er_name e, er_id e)) (items (rs_data ar)) = area_names (env_containers E) t1"
      "map (\<lambda>e. (er_name e, er_id e)) (items (rs_data ap)) = app_names (env_containers E) t1"
    using listings_of_names [of E t1 parts False] by blast
  note requests0 = hosted_requests [OF assms(1-4) lists0, of v]
  note requests1 = hosted_requests [OF assms(1-4) lists1, of v]
  let ?s0 = "read_start (t0, v)"
  let ?s1 = "?s0\<lparr>tr_world := (t0, v), tr_components := Some (Inr c)\<rparr>"
  let ?s2 = "?s1\<lparr>tr_world := (t1, v)\<rparr>"
  let ?s3 = "?s2\<lparr>tr_world := (t1, v), tr_areas := Some (Inr ar)\<rparr>"
  let ?s4 = "?s3\<lparr>tr_world := (t1, v), tr_apps := Some (Inr ap)\<rparr>"
  have "read_step M self env ?s0 ?s1"
    by (rule read_components) (simp_all add: read_start_def requests0)
  moreover have "read_step M self env ?s1 ?s2"
    by (rule read_moves) (simp add: assms(5))
  moreover have "read_step M self env ?s2 ?s3"
    by (rule read_areas) (simp_all add: read_start_def requests1)
  moreover have "read_step M self env ?s3 ?s4"
    by (rule read_apps) (simp_all add: read_start_def requests1)
  ultimately have "(read_step M self env)\<^sup>*\<^sup>* ?s0 ?s4"
    by (meson converse_rtranclp_into_rtranclp r_into_rtranclp)
  moreover have "joined ?s4 (Inr (c, ar, ap))"
    by (rule joined_all) simp_all
  ultimately have "read_resource M self env TOPOLOGY_URI (t0, v)
      (map_ok (\<lambda>(c, ar, ap). [(topology_text (items (rs_data c)) (items (rs_data ar))
         (items (rs_data ap)), TOPOLOGY_URI)]) (Inr (c, ar, ap))) (tr_world ?s4)"
    by (rule topology_resource)
  then show ?thesis
    by (simp add: topology_text_sections names0 names1)
qed

definition sample_mcp_library :: "(string, unit, unit, unit, unit, unit) mcp_library" where
  "sample_mcp_library = \<lparr> ml_http = text_library, ml_json_error = (),
     ml_texts = \<lparr> et_status = show_nat, et_debug_error = (\<lambda>_. []), et_http = (\<lambda>_. []),
       et_hyper = (\<lambda>_. []), et_service = (\<lambda>_. []), et_json = (\<lambda>_. []), et_uri = (\<lambda>_. []) \<rparr> \<rparr>"

definition sample_mcp_server :: "(json list_topology \<times> json, string, unit) mcp_server" where
  "sample_mcp_server = mcp_server_new \<lparr> hc_base_uri = ''http://ecu/sovd/v1'',
     hc_http = over_http text_library text_target
       (hosted sample_data_env plain_query vendor_info_to_json None sample_parts) \<rparr>"

lemma sample_names:
  "component_names (env_containers sample_data_env) sample_data_topology = [(''ECU'', ''ecu'')]"
  "area_names (env_containers sample_data_env) sample_data_topology = []"
  "app_names (env_containers sample_data_env) sample_data_topology = []"
  by (simp_all add: sample_data_env_def sample_data_topology_def add_component_def topology_write_def
      insert_component_def components_def areas_def apps_def topology_state_new_def
      list_containers_def alist_map_def component_builder_defs entity_ref_defs Let_def)

theorem mcp_resource_shows_topology_witness:
  "\<exists>w'. read_resource sample_mcp_library sample_mcp_server (\<lambda>_ _. False) TOPOLOGY_URI
      (sample_data_topology, JNull)
      (Inr [(topology_sections [(''ECU'', ''ecu'')] [] [], TOPOLOGY_URI)]) w'"
proof -
  obtain r w' where out: "read_resource sample_mcp_library sample_mcp_server (\<lambda>_ _. False) TOPOLOGY_URI
      (sample_data_topology, JNull) r w'"
    using resource_outcome [of sample_mcp_library sample_mcp_server "\<lambda>_ _. False" TOPOLOGY_URI
        "(sample_data_topology, JNull)"] by blast
  have "client_link (ml_http sample_mcp_library) ''http://ecu/sovd/v1'' text_target"
    "hc_base_uri (mcp_client sample_mcp_server) = ''http://ecu/sovd/v1''"
    "hc_http (mcp_client sample_mcp_server) = over_http (ml_http sample_mcp_library) text_target
       (hosted sample_data_env plain_query vendor_info_to_json None sample_parts)"
    by (simp_all add: sample_mcp_library_def sample_mcp_server_def mcp_server_new_def
        text_link.client_link_axioms)
  from mcp_resource_shows_topology [where P = "\<lambda>t. t = sample_data_topology" and
      env = "\<lambda>_ _. False" and w = "(sample_data_topology, JNull)",
      OF this(1) plain_query.query_laws_axioms this(2,3), THEN conjunct1, rule_format, OF _ _ out]
  have "r = Inr [(topology_sections [(''ECU'', ''ecu'')] [] [], TOPOLOGY_URI)]"
    by (simp add: sample_names)
  with out show ?thesis by blast
qed

theorem mcp_tools_relay_listings_witness:
  "\<exists>j. tool_list_components sample_mcp_library (mcp_server_new sample_remote_client) JNull =
     (Inr (Structured j), JNull)"
  using mcp_tools_relay_listings [where M = sample_mcp_library and
      self = "mcp_server_new sample_remote_client" and
      base = "''http://ecu/sovd/v1''" and target = text_target and Q = plain_query and
      E = sample_data_env and enc = vendor_info_to_json and vendor = None and
      topo = sample_data_topology and parts = sample_parts and w = JNull]
    text_link.client_link_axioms plain_query.query_laws_axioms
  by (auto simp: sample_mcp_library_def sample_remote_client_def mcp_server_new_def
      sample_data_env_def schema_fallback_def)

end
