(* ===== verification/Unit.thy ===== *)
theory Unit
  imports Complex_Main Wire "HOL-Library.Word" "HOL-Library.Countable"
begin

text \<open>
  SOVD units (\<open>src/opensovd-extra/src/unit.rs\<close>): physical dimensions with \<open>i8\<close> exponents, kept as
  signed 8-bit words, and units with \<open>f64\<close> conversion factors, with their JSON forms.  A finite
  \<open>f64\<close> is its exact rational value (the two zeros, which Rust compares equal, are one); the
  comparisons of \<open>is_one\<close> and \<open>is_zero_f64\<close> are exact on these, as the subtraction they make is
  exact wherever its result is below the epsilon and rounding is monotone elsewhere.
\<close>

subsection \<open>Decimal text of integers\<close>

definition show_int :: "int \<Rightarrow> string" where
  "show_int i = (if i < 0 then CHR ''-'' # show_nat (nat (- i)) else show_nat (nat i))"

definition digit_of :: "char \<Rightarrow> nat option" where
  "digit_of c = (let n = of_char c in if 48 \<le> n \<and> n \<le> 57 then Some (n - 48) else None)"

fun digits_value :: "nat \<Rightarrow> string \<Rightarrow> nat option" where
  "digits_value acc [] = Some acc"
| "digits_value acc (c # cs) =
     (case digit_of c of None \<Rightarrow> None | Some d \<Rightarrow> digits_value (10 * acc + d) cs)"

text \<open>
  The integer a JSON number stands for: \<open>serde_json\<close> reads a number with a fraction or an
  exponent, and a negative zero, as a float, which an integer field refuses.
\<close>

definition nat_of_text :: "string \<Rightarrow> nat option" where
  "nat_of_text s = (if s = [] then None else digits_value 0 s)"

definition int_of_text :: "string \<Rightarrow> int option" where
  "int_of_text s =
     (case s of
        [] \<Rightarrow> None
      | c # cs \<Rightarrow>
          if c = CHR ''-'' then
            (case nat_of_text cs of None \<Rightarrow> None
             | Some n \<Rightarrow> if n = 0 then None else Some (- int n))
          else map_option int (nat_of_text s))"

lemma digit_of_char: "d < 10 \<Longrightarrow> digit_of (digit_char d) = Some d"
proof -
  assume "d < 10"
  then have "d \<in> {0, 1, 2, 3, 4, 5, 6, 7, 8, 9}" by auto
  then show ?thesis by (auto simp: digit_of_def digit_char_def)
qed

lemma digits_value_snoc:
  "digits_value acc (s @ [c]) =
     (case digits_value acc s of None \<Rightarrow> None | Some n \<Rightarrow> map_option (\<lambda>d. 10 * n + d) (digit_of c))"
  by (induction s arbitrary: acc) (auto split: option.split)

lemma digits_value_show: "digits_value 0 (show_nat n) = Some n"
proof (induction n rule: show_nat.induct)
  case (1 n)
  show ?case
  proof (cases "n < 10")
    case True
    then show ?thesis by (subst show_nat.simps) (simp add: digit_of_char)
  next
    case False
    then have "digits_value 0 (show_nat (n div 10)) = Some (n div 10)" using 1 by simp
    then show ?thesis
      using False by (subst show_nat.simps) (simp add: digits_value_snoc digit_of_char)
  qed
qed

lemma nat_of_text_show [simp]: "nat_of_text (show_nat n) = Some n"
  by (simp add: nat_of_text_def digits_value_show)

lemma show_nat_unsigned: "hd (show_nat n) \<noteq> CHR ''-''"
proof -
  obtain c cs where cs: "show_nat n = c # cs" by (cases "show_nat n") simp_all
  have "digit_of c \<noteq> None"
    using digits_value_show [of n] cs by (auto split: option.splits)
  moreover have "digit_of (CHR ''-'') = None" by (simp add: digit_of_def)
  ultimately show ?thesis using cs by auto
qed

lemma int_of_text_show [simp]: "int_of_text (show_int i) = Some i"
proof (cases "i < 0")
  case True
  then show ?thesis by (simp add: int_of_text_def show_int_def)
next
  case False
  obtain c cs where "show_nat (nat i) = c # cs" by (cases "show_nat (nat i)") simp_all
  then show ?thesis
    using False show_nat_unsigned [of "nat i"] nat_of_text_show [of "nat i"]
    by (simp add: int_of_text_def show_int_def del: nat_of_text_show)
qed

subsection \<open>Physical dimensions\<close>

type_synonym i8 = "8 word"

record physical_dimension =
  pd_id :: "string option"
  pd_length :: i8
  pd_mass :: i8
  pd_time :: i8
  pd_current :: i8
  pd_temperature :: i8
  pd_molar_amount :: i8
  pd_luminous_intensity :: i8
  pd_plane_angle :: i8

definition is_zero :: "i8 \<Rightarrow> bool" where
  "is_zero v \<longleftrightarrow> v = 0"

definition dimension_default :: physical_dimension where
  "dimension_default = \<lparr> pd_id = None, pd_length = 0, pd_mass = 0, pd_time = 0, pd_current = 0,
     pd_temperature = 0, pd_molar_amount = 0, pd_luminous_intensity = 0, pd_plane_angle = 0 \<rparr>"

definition VOLTAGE :: physical_dimension where
  "VOLTAGE = dimension_default\<lparr>pd_length := 2, pd_mass := 1, pd_time := - 3, pd_current := - 1\<rparr>"

definition TEMPERATURE :: physical_dimension where
  "TEMPERATURE = dimension_default\<lparr>pd_temperature := 1\<rparr>"

definition TIME :: physical_dimension where
  "TIME = dimension_default\<lparr>pd_time := 1\<rparr>"

definition SPEED :: physical_dimension where
  "SPEED = dimension_default\<lparr>pd_length := 1, pd_time := - 1\<rparr>"

definition LENGTH_const :: physical_dimension where
  "LENGTH_const = dimension_default\<lparr>pd_length := 1\<rparr>"

definition dimension_with_id :: "string \<Rightarrow> physical_dimension \<Rightarrow> physical_dimension" where
  "dimension_with_id i d = d\<lparr>pd_id := Some i\<rparr>"

definition skip_zero :: "string \<Rightarrow> i8 \<Rightarrow> (string \<times> json) list" where
  "skip_zero field v = (if is_zero v then [] else [(field, JNumber (show_int (sint v)))])"

definition dimension_to_json :: "physical_dimension \<Rightarrow> json" where
  "dimension_to_json d = JObject
     (skip_none ''id'' JString (pd_id d)
      @ skip_zero ''length'' (pd_length d)
      @ skip_zero ''mass'' (pd_mass d)
      @ skip_zero ''time'' (pd_time d)
      @ skip_zero ''current'' (pd_current d)
      @ skip_zero ''temperature'' (pd_temperature d)
      @ skip_zero ''molar_amount'' (pd_molar_amount d)
      @ skip_zero ''luminous_intensity'' (pd_luminous_intensity d)
      @ skip_zero ''plane_angle'' (pd_plane_angle d))"

text \<open>A field with \<open>#[serde(default)]\<close>.\<close>

definition defaulted ::
  "'a \<Rightarrow> (string \<times> json) list \<Rightarrow> string \<Rightarrow> (json \<Rightarrow> 'a option) \<Rightarrow> 'a option" where
  "defaulted d f field dec =
     (if entries_of f field = [] then Some d else present dec (entries_of f field))"

definition i8_of_json :: "json \<Rightarrow> i8 option" where
  "i8_of_json j =
     (case j of
        JNumber s \<Rightarrow>
          (case int_of_text s of None \<Rightarrow> None
           | Some n \<Rightarrow> if - 128 \<le> n \<and> n \<le> 127 then Some (word_of_int n) else None)
      | _ \<Rightarrow> None)"

definition dimension_of_json :: "json \<Rightarrow> physical_dimension option" where
  "dimension_of_json j =
     (case j of
        JObject f \<Rightarrow> do {
          i \<leftarrow> optional f ''id'' json_string;
          l \<leftarrow> defaulted 0 f ''length'' i8_of_json;
          m \<leftarrow> defaulted 0 f ''mass'' i8_of_json;
          t \<leftarrow> defaulted 0 f ''time'' i8_of_json;
          c \<leftarrow> defaulted 0 f ''current'' i8_of_json;
          te \<leftarrow> defaulted 0 f ''temperature'' i8_of_json;
          mo \<leftarrow> defaulted 0 f ''molar_amount'' i8_of_json;
          li \<leftarrow> defaulted 0 f ''luminous_intensity'' i8_of_json;
          pa \<leftarrow> defaulted 0 f ''plane_angle'' i8_of_json;
          Some \<lparr> pd_id = i, pd_length = l, pd_mass = m, pd_time = t, pd_current = c,
            pd_temperature = te, pd_molar_amount = mo, pd_luminous_intensity = li,
            pd_plane_angle = pa \<rparr> }
      | _ \<Rightarrow> None)"

lemma sint_i8: "- 128 \<le> sint (v :: i8)" "sint (v :: i8) \<le> 127"
  using sint_greater_eq [of v] sint_less [of v] by simp_all

lemma i8_of_show [simp]: "i8_of_json (JNumber (show_int (sint v))) = Some v"
  using sint_i8 [of v] by (simp add: i8_of_json_def)

lemma entries_of_skip_zero [simp]:
  "entries_of (skip_zero f v) k =
     (if f = k \<and> v \<noteq> 0 then [JNumber (show_int (sint v))] else [])"
  by (simp add: skip_zero_def is_zero_def)

lemma dimension_json_roundtrip: "dimension_of_json (dimension_to_json d) = Some d"
  by (cases d) (simp add: dimension_of_json_def dimension_to_json_def field_defs defaulted_def)

subsection \<open>Units\<close>

datatype f64 = Finite rat | Infinite bool | Not_a_number

record unit_of_measure =
  un_display_name :: string
  un_reference :: "string option"
  un_factor_si_to_unit :: f64
  un_offset_si_to_unit :: f64
  un_physical_dimension :: "physical_dimension option"

definition f64_epsilon :: rat where
  "f64_epsilon = 1 / 2 ^ 52"

definition one_f64 :: f64 where
  "one_f64 = Finite 1"

definition is_one :: "f64 \<Rightarrow> bool" where
  "is_one v = (case v of Finite q \<Rightarrow> \<bar>q - 1\<bar> < f64_epsilon | _ \<Rightarrow> False)"

definition is_zero_f64 :: "f64 \<Rightarrow> bool" where
  "is_zero_f64 v = (case v of Finite q \<Rightarrow> \<bar>q\<bar> < f64_epsilon | _ \<Rightarrow> False)"

definition unit_new :: "string \<Rightarrow> unit_of_measure" where
  "unit_new name = \<lparr> un_display_name = name, un_reference = None, un_factor_si_to_unit = Finite 1,
     un_offset_si_to_unit = Finite 0, un_physical_dimension = None \<rparr>"

definition unit_with_dimension :: "physical_dimension \<Rightarrow> unit_of_measure \<Rightarrow> unit_of_measure" where
  "unit_with_dimension d u = u\<lparr>un_physical_dimension := Some d\<rparr>"

definition unit_with_factor :: "f64 \<Rightarrow> unit_of_measure \<Rightarrow> unit_of_measure" where
  "unit_with_factor q u = u\<lparr>un_factor_si_to_unit := q\<rparr>"

definition unit_with_offset :: "f64 \<Rightarrow> unit_of_measure \<Rightarrow> unit_of_measure" where
  "unit_with_offset q u = u\<lparr>un_offset_si_to_unit := q\<rparr>"

text \<open>
  The texts \<open>serde_json\<close> gives to finite floats and the floats it reads from number texts are
  parameters; a float that is not finite becomes \<open>null\<close>, and \<open>null\<close> is not read as a float.
\<close>

record float_texts =
  ft_show :: "rat \<Rightarrow> string"
  ft_read :: "string \<Rightarrow> rat option"

text \<open>The finite values of the format.\<close>

definition f64_value :: "rat \<Rightarrow> bool" where
  "f64_value q \<longleftrightarrow>
     (\<exists>m e. q = of_int m * 2 powi e \<and> \<bar>m\<bar> < 2 ^ 53 \<and> - 1074 \<le> e \<and> e \<le> 971)"

locale float_text_laws =
  fixes T :: float_texts
  assumes read_show: "f64_value q \<Longrightarrow> ft_read T (ft_show T q) = Some q"

definition f64_to_json :: "float_texts \<Rightarrow> f64 \<Rightarrow> json" where
  "f64_to_json T v = (case v of Finite q \<Rightarrow> JNumber (ft_show T q) | _ \<Rightarrow> JNull)"

definition f64_of_json :: "float_texts \<Rightarrow> json \<Rightarrow> f64 option" where
  "f64_of_json T j = (case j of JNumber s \<Rightarrow> map_option Finite (ft_read T s) | _ \<Rightarrow> None)"

definition unit_to_json :: "float_texts \<Rightarrow> unit_of_measure \<Rightarrow> json" where
  "unit_to_json T u = JObject
     ([(''display_name'', JString (un_display_name u))]
      @ skip_none ''reference'' JString (un_reference u)
      @ (if is_one (un_factor_si_to_unit u) then []
         else [(''factor_si_to_unit'', f64_to_json T (un_factor_si_to_unit u))])
      @ (if is_zero_f64 (un_offset_si_to_unit u) then []
         else [(''offset_si_to_unit'', f64_to_json T (un_offset_si_to_unit u))])
      @ skip_none ''physical_dimension'' dimension_to_json (un_physical_dimension u))"

definition unit_of_json :: "float_texts \<Rightarrow> json \<Rightarrow> unit_of_measure option" where
  "unit_of_json T j =
     (case j of
        JObject f \<Rightarrow> do {
          n \<leftarrow> required f ''display_name'' json_string;
          r \<leftarrow> optional f ''reference'' json_string;
          k \<leftarrow> defaulted one_f64 f ''factor_si_to_unit'' (f64_of_json T);
          c \<leftarrow> defaulted (Finite 0) f ''offset_si_to_unit'' (f64_of_json T);
          d \<leftarrow> optional f ''physical_dimension'' dimension_of_json;
          Some \<lparr> un_display_name = n, un_reference = r, un_factor_si_to_unit = k,
            un_offset_si_to_unit = c, un_physical_dimension = d \<rparr> }
      | _ \<Rightarrow> None)"

text \<open>What a unit is read back as: values within the epsilon of a default become the default.\<close>

definition normalized :: "unit_of_measure \<Rightarrow> unit_of_measure" where
  "normalized u = u\<lparr>
     un_factor_si_to_unit :=
       (if is_one (un_factor_si_to_unit u) then one_f64 else un_factor_si_to_unit u),
     un_offset_si_to_unit :=
       (if is_zero_f64 (un_offset_si_to_unit u) then Finite 0 else un_offset_si_to_unit u)\<rparr>"

definition finite_f64 :: "f64 \<Rightarrow> bool" where
  "finite_f64 v = (case v of Finite q \<Rightarrow> f64_value q | _ \<Rightarrow> False)"

lemma dimension_json_object: "dimension_to_json d \<noteq> JNull"
  by (simp add: dimension_to_json_def)

context float_text_laws
begin

lemma f64_roundtrip: "finite_f64 v \<Longrightarrow> f64_of_json T (f64_to_json T v) = Some v"
  by (simp add: finite_f64_def f64_of_json_def f64_to_json_def read_show split: f64.splits)

lemma f64_not_finite: "v = Infinite b \<or> v = Not_a_number \<Longrightarrow> f64_of_json T (f64_to_json T v) = None"
  by (auto simp: f64_of_json_def f64_to_json_def)

lemma unit_roundtrip:
  assumes "finite_f64 (un_factor_si_to_unit u)" and "finite_f64 (un_offset_si_to_unit u)"
  shows "unit_of_json T (unit_to_json T u) = Some (normalized u)"
  using assms by (cases u) (simp add: unit_of_json_def unit_to_json_def field_defs defaulted_def
      normalized_def f64_roundtrip dimension_json_roundtrip dimension_json_object)

end

text \<open>Numbering the rationals in unary meets the law.\<close>

definition unary_floats :: float_texts where
  "unary_floats = \<lparr> ft_show = (\<lambda>q. replicate (to_nat q) CHR ''1''),
     ft_read = (\<lambda>s. Some (from_nat (length s))) \<rparr>"

interpretation unary_floats: float_text_laws unary_floats
  by unfold_locales (simp add: unary_floats_def)

subsection \<open>Properties\<close>

definition exponents :: "physical_dimension \<Rightarrow> (string \<times> i8) list" where
  "exponents d = [(''length'', pd_length d), (''mass'', pd_mass d), (''time'', pd_time d),
     (''current'', pd_current d), (''temperature'', pd_temperature d),
     (''molar_amount'', pd_molar_amount d), (''luminous_intensity'', pd_luminous_intensity d),
     (''plane_angle'', pd_plane_angle d)]"

lemma i8_of_int_text:
  "i8_of_json (JNumber (show_int n)) =
     (if - 128 \<le> n \<and> n \<le> 127 then Some (word_of_int n) else None)"
  by (simp add: i8_of_json_def)

lemma sint_i8_of_int: "- 128 \<le> n \<Longrightarrow> n \<le> 127 \<Longrightarrow> sint (word_of_int n :: i8) = n"
  by (simp add: sint_sbintrunc' signed_take_bit_int_eq_self)

text \<open>
  C34: A physical dimension survives its JSON form, with all eight exponents at any \<open>i8\<close> value,
  the most negative included; the JSON lists exactly the exponents that are not zero; and reading
  an exponent accepts an integer exactly when it lies between -128 and 127, without wrapping,
  the exponents that are not given being zero.
\<close>

theorem dimension_exponents_are_exact:
  "dimension_of_json (dimension_to_json d) = Some d \<and>
   dimension_to_json d = JObject (skip_none ''id'' JString (pd_id d) @
     map (\<lambda>(k, v). (k, JNumber (show_int (sint v)))) (filter (\<lambda>(_, v). v \<noteq> 0) (exponents d))) \<and>
   list_all (\<lambda>(k, _). \<forall>n.
     (case dimension_of_json (JObject [(k, JNumber (show_int n))]) of
        None \<Rightarrow> n < - 128 \<or> 127 < n
      | Some d' \<Rightarrow> - 128 \<le> n \<and> n \<le> 127 \<and>
          map (\<lambda>(k', v). (k', sint v)) (exponents d') =
            map (\<lambda>(k', _). (k', if k' = k then n else 0)) (exponents d))) (exponents d)"
proof (intro conjI)
  show "list_all (\<lambda>(k, _). \<forall>n.
     (case dimension_of_json (JObject [(k, JNumber (show_int n))]) of
        None \<Rightarrow> n < - 128 \<or> 127 < n
      | Some d' \<Rightarrow> - 128 \<le> n \<and> n \<le> 127 \<and>
          map (\<lambda>(k', v). (k', sint v)) (exponents d') =
            map (\<lambda>(k', _). (k', if k' = k then n else 0)) (exponents d))) (exponents d)"
    by (auto simp: exponents_def dimension_of_json_def field_defs defaulted_def i8_of_int_text
        sint_i8_of_int)
  show "dimension_of_json (dimension_to_json d) = Some d"
    by (rule dimension_json_roundtrip)
qed (simp add: dimension_to_json_def exponents_def skip_zero_def is_zero_def)


lemma f64_value_int: "\<bar>m\<bar> < 2 ^ 53 \<Longrightarrow> f64_value (of_int m)"
  unfolding f64_value_def by (intro exI [of _ m] exI [of _ 0]) simp


end
