(* ===== verification/Mocks.thy ===== *)
theory Mocks
  imports Data_Routes Providers Topology_Properties
begin

text \<open>
  The mock topology of \<open>src/opensovd-mocks/src/lib.rs\<close>, which the gateway serves with
  \<open>--mock\<close>: five data providers of constants, two components, three apps and two areas, put
  together with the builders and the write guard.  \<open>S\<close> gives the JSON schema of the value
  envelope of a Rust type; a failing \<open>unwrap\<close> is \<open>None\<close>.
\<close>

subsection \<open>Building the providers\<close>

definition mock_read ::
  "(string \<Rightarrow> json option) \<Rightarrow> string \<Rightarrow> string \<Rightarrow> data_category \<Rightarrow> string \<Rightarrow> json \<Rightarrow>
     'w data_provider_builder option \<Rightarrow> 'w data_provider_builder option" where
  "mock_read S ident name category type v b =
     (case constant_new Inr (S type) v of
        Inl _ \<Rightarrow> None
      | Inr c \<Rightarrow> map_option (builder_read_data Inr ident name category (constant_readable c)) b)"

definition mock_builder ::
  "('w data_provider_builder option \<Rightarrow> 'w data_provider_builder option) list \<Rightarrow>
     'w data_provider_builder option" where
  "mock_builder steps = fold (\<lambda>f b. f b) steps (Some builder_new)"

definition mock_provider ::
  "(string, 'w resource_entry, 'm) index_map \<Rightarrow>
     ('w data_provider_builder option \<Rightarrow> 'w data_provider_builder option) list \<Rightarrow>
     'w data_provider option" where
  "mock_provider M steps = Option.bind (mock_builder steps) (\<lambda>b.
     case builder_build M b of Inl _ \<Rightarrow> None | Inr m \<Rightarrow> Some (built_data_provider M m))"

definition ecu_steps ::
  "(string \<Rightarrow> json option) \<Rightarrow> ('w data_provider_builder option \<Rightarrow> 'w data_provider_builder option) list" where
  "ecu_steps S =
    [mock_read S ''voltage'' ''Battery Voltage'' CurrentData ''f64'' (JNumber ''12.6''),
     map_option (builder_groups [''power'']),
     map_option (builder_tags [''sensor'']),
     mock_read S ''temperature'' ''Engine Temperature'' CurrentData ''f64'' (JNumber ''85.0''),
     map_option (builder_groups [''thermal'']),
     map_option (builder_tags [''sensor'']),
     mock_read S ''sw.version'' ''Software Version'' IdentData ''&str'' (JString ''2.1.0''),
     mock_read S ''sw.build_date'' ''Build Date'' IdentData ''&str'' (JString ''2025-12-15''),
     mock_read S ''sw.sha1'' ''Git SHA1'' IdentData ''&str'' (JString ''b5d022b''),
     mock_read S ''hw.version'' ''Hardware Version'' IdentData ''&str'' (JString ''1.0''),
     mock_read S ''hw.revision'' ''Hardware Revision'' IdentData ''&str'' (JString ''A''),
     mock_read S ''hw.sn'' ''Hardware Serial Number'' IdentData ''&str'' (JString ''ECU-HW-001-2025'')]"

definition gateway_steps ::
  "(string \<Rightarrow> json option) \<Rightarrow> ('w data_provider_builder option \<Rightarrow> 'w data_provider_builder option) list" where
  "gateway_steps S =
    [mock_read S ''sw.version'' ''Software Version'' IdentData ''&str'' (JString ''0.1.0-mock''),
     mock_read S ''sw.build_date'' ''Build Date'' IdentData ''&str'' (JString ''2026-01-01''),
     mock_read S ''sw.sha1'' ''Git SHA1'' IdentData ''&str'' (JString ''a4c011a''),
     mock_read S ''hw.version'' ''Hardware Version'' IdentData ''&str'' (JString ''1.0''),
     mock_read S ''hw.revision'' ''Hardware Revision'' IdentData ''&str'' (JString ''B''),
     mock_read S ''hw.sn'' ''Hardware Serial Number'' IdentData ''&str'' (JString ''GW-HW-001-2025''),
     mock_read S ''uptime'' ''System Uptime'' CurrentData ''u64'' (JNumber ''3600'')]"

definition engine_control_steps ::
  "(string \<Rightarrow> json option) \<Rightarrow> ('w data_provider_builder option \<Rightarrow> 'w data_provider_builder option) list" where
  "engine_control_steps S =
    [mock_read S ''app.version'' ''Application Version'' IdentData ''&str'' (JString ''3.2.1''),
     mock_read S ''app.status'' ''Application Status'' CurrentData ''&str'' (JString ''running''),
     mock_read S ''fuel_injection.rate'' ''Fuel Injection Rate'' CurrentData ''f64'' (JNumber ''2.5''),
     map_option (builder_tags [''sensor''])]"

definition diagnostics_steps ::
  "(string \<Rightarrow> json option) \<Rightarrow> ('w data_provider_builder option \<Rightarrow> 'w data_provider_builder option) list" where
  "diagnostics_steps S =
    [mock_read S ''app.version'' ''Application Version'' IdentData ''&str'' (JString ''1.0.5''),
     mock_read S ''active_connections'' ''Active Diagnostic Connections'' CurrentData ''u32'' (JNumber ''3''),
     mock_read S ''messages_per_second'' ''Message Throughput'' CurrentData ''u32'' (JNumber ''150'')]"

definition ota_steps ::
  "(string \<Rightarrow> json option) \<Rightarrow> ('w data_provider_builder option \<Rightarrow> 'w data_provider_builder option) list" where
  "ota_steps S =
    [mock_read S ''app.version'' ''Application Version'' IdentData ''&str'' (JString ''2.0.0''),
     mock_read S ''update_available'' ''Update Available'' CurrentData ''bool'' (JBool False),
     mock_read S ''last_check'' ''Last Update Check'' CurrentData ''&str'' (JString ''2026-01-28T10:00:00Z'')]"

subsection \<open>Entities and the topology\<close>

definition mock_ecu :: "'w data_provider \<Rightarrow> 'w component" where
  "mock_ecu provider = component_with_data_provider provider
     (component_with_area_id ''powertrain''
       (component_with_metadata (hash_map_from [(''variant'', ''v2''), (''manufacturer'', ''ACME'')])
         (component_with_tags [''powertrain'', ''critical'']
           (component_with_translation_id ''ecu.name''
             (component_new ''ecu'' ''Engine Control Unit'')))))"

definition mock_gateway :: "'w data_provider \<Rightarrow> 'w component" where
  "mock_gateway provider = component_with_data_provider provider
     (component_with_area_id ''network''
       (component_with_metadata (hash_map_from [(''firmware'', ''1.2.3'')])
         (component_with_tags [''network''] (component_new ''gateway'' ''Vehicle Gateway''))))"

definition mock_engine_control :: "'w data_provider \<Rightarrow> 'w app" where
  "mock_engine_control provider = app_with_data_provider provider
     (app_with_area_id ''powertrain''
       (app_with_metadata (hash_map_from [(''app_type'', ''realtime''), (''priority'', ''high'')])
         (app_with_tags [''powertrain'', ''critical'']
           (app_with_translation_id ''app.engine_control.name''
             (app_new ''engine_control'' ''Engine Control Application'' ''ecu'')))))"

definition mock_diagnostics :: "'w data_provider \<Rightarrow> 'w app" where
  "mock_diagnostics provider = app_with_data_provider provider
     (app_with_area_id ''network''
       (app_with_tags [''network'', ''service'']
         (app_new ''diagnostics'' ''Diagnostic Services'' ''gateway'')))"

definition mock_ota_manager :: "'w data_provider \<Rightarrow> 'w app" where
  "mock_ota_manager provider = app_with_data_provider provider
     (app_with_metadata (hash_map_from [(''update_channel'', ''stable'')])
       (app_with_tags [''system'', ''infrastructure'']
         (app_with_translation_id ''app.ota.name''
           (app_new ''ota_manager'' ''OTA Update Manager'' ''gateway''))))"

definition mock_powertrain :: "'w area" where
  "mock_powertrain = area_with_tags [''domain''] (area_new ''powertrain'' ''Powertrain Domain'')"

definition mock_network :: "'w area" where
  "mock_network = area_with_tags [''domain''] (area_new ''network'' ''Network Domain'')"

definition create_mock_topology ::
  "('mc, 'ma, 'mr, 's, 'w) containers \<Rightarrow> (string, 'w resource_entry, 'm) index_map \<Rightarrow>
     (string \<Rightarrow> json option) \<Rightarrow> ('mc, 'ma, 'mr, 's) topology_state option" where
  "create_mock_topology L M S =
     (case (mock_provider M (ecu_steps S), mock_provider M (gateway_steps S),
            mock_provider M (engine_control_steps S), mock_provider M (diagnostics_steps S),
            mock_provider M (ota_steps S)) of
        (Some ecu_provider, Some gateway_provider, Some engine_control_provider,
         Some diagnostics_provider, Some ota_provider) \<Rightarrow>
          Some (wg_state (run_ops L
            [AddComponent (mock_ecu ecu_provider), AddComponent (mock_gateway gateway_provider),
             AddApp (mock_engine_control engine_control_provider),
             AddApp (mock_diagnostics diagnostics_provider), AddApp (mock_ota_manager ota_provider),
             AddArea mock_powertrain, AddArea mock_network]
            (topology_write (topology_state_new L))))
      | _ \<Rightarrow> None)"

subsection \<open>Its values\<close>

text \<open>The owner, the data id and the value of every resource.\<close>

definition component_values :: "(string \<times> string \<times> json) list" where
  "component_values =
    [(''ecu'', ''voltage'', JNumber ''12.6''),
     (''ecu'', ''temperature'', JNumber ''85.0''),
     (''ecu'', ''sw.version'', JString ''2.1.0''),
     (''ecu'', ''sw.build_date'', JString ''2025-12-15''),
     (''ecu'', ''sw.sha1'', JString ''b5d022b''),
     (''ecu'', ''hw.version'', JString ''1.0''),
     (''ecu'', ''hw.revision'', JString ''A''),
     (''ecu'', ''hw.sn'', JString ''ECU-HW-001-2025''),
     (''gateway'', ''sw.version'', JString ''0.1.0-mock''),
     (''gateway'', ''sw.build_date'', JString ''2026-01-01''),
     (''gateway'', ''sw.sha1'', JString ''a4c011a''),
     (''gateway'', ''hw.version'', JString ''1.0''),
     (''gateway'', ''hw.revision'', JString ''B''),
     (''gateway'', ''hw.sn'', JString ''GW-HW-001-2025''),
     (''gateway'', ''uptime'', JNumber ''3600'')]"

definition app_values :: "(string \<times> string \<times> json) list" where
  "app_values =
    [(''engine_control'', ''app.version'', JString ''3.2.1''),
     (''engine_control'', ''app.status'', JString ''running''),
     (''engine_control'', ''fuel_injection.rate'', JNumber ''2.5''),
     (''diagnostics'', ''app.version'', JString ''1.0.5''),
     (''diagnostics'', ''active_connections'', JNumber ''3''),
     (''diagnostics'', ''messages_per_second'', JNumber ''150''),
     (''ota_manager'', ''app.version'', JString ''2.0.0''),
     (''ota_manager'', ''update_available'', JBool False),
     (''ota_manager'', ''last_check'', JString ''2026-01-28T10:00:00Z'')]"

definition values_of_owner :: "string \<Rightarrow> (string \<times> string \<times> json) list \<Rightarrow> (string \<times> json) list" where
  "values_of_owner c vs = map snd (filter (\<lambda>(i, _). i = c) vs)"

lemma mock_read_Some [simp]:
  "mock_read S i n c ty v (Some b) = Some (builder_read_data Inr i n c
     (constant_readable \<lparr> const_value = JObject [(''value'', v)], const_stored_schema = S ty \<rparr>) b)"
  by (simp add: mock_read_def constant_new_def sovd_value_new_def sovd_value_to_json_def Let_def)

text \<open>A provider of constants: each id reads as its value and refuses writes.\<close>

definition provides :: "'w data_provider \<Rightarrow> (string \<times> json) list \<Rightarrow> bool" where
  "provides p vs \<longleftrightarrow> list_all (\<lambda>(d, v). \<forall>w.
     dp_read p d False w = (Inr \<lparr> d_data = JObject [(''value'', v)], d_schema = None \<rparr>, w) \<and>
     (\<forall>body. dp_write p d body w = (Inl ReadOnly, w))) vs"

text \<open>The entry of a constant.\<close>

definition constant_entry :: "json \<Rightarrow> 'w resource_entry \<Rightarrow> bool" where
  "constant_entry v e \<longleftrightarrow>
     dr_read (re_resource e) = (\<lambda>w. (Inr (JObject [(''value'', v)]), w)) \<and>
     dr_write (re_resource e) = (\<lambda>body w. (Inl ReadOnly, w))"

lemma mock_provider_provides:
  assumes "ordered_map M"
    and "case mock_builder steps of None \<Rightarrow> False | Some b \<Rightarrow> distinct (map entry_id b) \<and>
      list_all (\<lambda>(d, v). \<exists>e. find (\<lambda>e. entry_id e = d) b = Some e \<and> constant_entry v e) vs"
  shows "\<exists>p. mock_provider M steps = Some p \<and> provides p vs"
proof -
  obtain b where b: "mock_builder steps = Some b" "distinct (map entry_id b)"
    and reads: "list_all (\<lambda>(d, v). \<exists>e. find (\<lambda>e. entry_id e = d) b = Some e \<and> constant_entry v e) vs"
    using assms(2) by (auto split: option.splits)
  obtain m where m: "builder_build M b = Inr m"
    using build_Inr_iff [OF assms(1), of b] b(2) by auto
  have "dp_read (built_data_provider M m) d False w =
      (Inr \<lparr> d_data = JObject [(''value'', v)], d_schema = None \<rparr>, w) \<and>
    dp_write (built_data_provider M m) d body w = (Inl ReadOnly, w)"
    if member: "(d, v) \<in> set vs" for d v w body
  proof -
    obtain e where "find (\<lambda>e. entry_id e = d) b = Some e" "constant_entry v e"
      using bspec [OF reads [unfolded list_all_iff] member] by auto
    then show ?thesis
      using build_iter(3) [OF assms(1) m, of d]
      by (simp add: built_data_provider_def built_read_def built_write_def constant_entry_def)
  qed
  then show ?thesis
    using b(1) m by (auto simp: mock_provider_def provides_def list_all_iff)
qed

lemma constant_read [simp]:
  "dr_read (read_only_adapter Inr (constant_readable c)) = (\<lambda>w. (Inr (const_value c), w))"
  "dr_write (read_only_adapter Inr (constant_readable c)) = (\<lambda>body w. (Inl ReadOnly, w))"
  by (simp_all add: read_only_adapter_def serialized_read_def constant_readable_def fun_eq_iff)

lemmas mock_steps_defs = constant_entry_def mock_builder_def ecu_steps_def gateway_steps_def
  engine_control_steps_def diagnostics_steps_def ota_steps_def

lemma ecu_provides:
  assumes "ordered_map M"
  shows "\<exists>p. mock_provider M (ecu_steps S) = Some p \<and>
    provides p (values_of_owner ''ecu'' component_values)"
  by (rule mock_provider_provides [OF assms])
    (simp add: mock_steps_defs builder_defs update_last_def values_of_owner_def component_values_def)

lemma gateway_provides:
  assumes "ordered_map M"
  shows "\<exists>p. mock_provider M (gateway_steps S) = Some p \<and>
    provides p (values_of_owner ''gateway'' component_values)"
  by (rule mock_provider_provides [OF assms])
    (simp add: mock_steps_defs builder_defs update_last_def values_of_owner_def component_values_def)

lemma engine_control_provides:
  assumes "ordered_map M"
  shows "\<exists>p. mock_provider M (engine_control_steps S) = Some p \<and>
    provides p (values_of_owner ''engine_control'' app_values)"
  by (rule mock_provider_provides [OF assms])
    (simp add: mock_steps_defs builder_defs update_last_def values_of_owner_def app_values_def)

lemma diagnostics_provides:
  assumes "ordered_map M"
  shows "\<exists>p. mock_provider M (diagnostics_steps S) = Some p \<and>
    provides p (values_of_owner ''diagnostics'' app_values)"
  by (rule mock_provider_provides [OF assms])
    (simp add: mock_steps_defs builder_defs update_last_def values_of_owner_def app_values_def)

lemma ota_provides:
  assumes "ordered_map M"
  shows "\<exists>p. mock_provider M (ota_steps S) = Some p \<and>
    provides p (values_of_owner ''ota_manager'' app_values)"
  by (rule mock_provider_provides [OF assms])
    (simp add: mock_steps_defs builder_defs update_last_def values_of_owner_def app_values_def)

subsection \<open>Properties\<close>

abbreviation mock_ops where
  "mock_ops pe pg pc pd po \<equiv> [AddComponent (mock_ecu pe), AddComponent (mock_gateway pg),
     AddApp (mock_engine_control pc), AddApp (mock_diagnostics pd), AddApp (mock_ota_manager po),
     AddArea mock_powertrain, AddArea mock_network]"

lemmas mock_entities = mock_ecu_def mock_gateway_def mock_engine_control_def mock_diagnostics_def
  mock_ota_manager_def mock_powertrain_def mock_network_def

lemma mock_fields [simp]:
  "component_id (mock_ecu p) = ''ecu''" "component_id (mock_gateway p) = ''gateway''"
  "app_id (mock_engine_control p) = ''engine_control''" "app_id (mock_diagnostics p) = ''diagnostics''"
  "app_id (mock_ota_manager p) = ''ota_manager''"
  "area_id mock_powertrain = ''powertrain''" "area_id mock_network = ''network''"
  "component_area_id (mock_ecu p) = Some ''powertrain''"
  "component_area_id (mock_gateway p) = Some ''network''"
  "app_area_id (mock_engine_control p) = Some ''powertrain''"
  "app_area_id (mock_diagnostics p) = Some ''network''" "app_area_id (mock_ota_manager p) = None"
  "app_component_id (mock_engine_control p) = Some ''ecu''"
  "app_component_id (mock_diagnostics p) = Some ''gateway''"
  "app_component_id (mock_ota_manager p) = Some ''gateway''"
  "component_data_provider (mock_ecu p) = Some p" "component_data_provider (mock_gateway p) = Some p"
  "app_data_provider (mock_engine_control p) = Some p" "app_data_provider (mock_diagnostics p) = Some p"
  "app_data_provider (mock_ota_manager p) = Some p"
  by (simp_all add: mock_entities component_builder_defs app_builder_defs area_builder_defs
      entity_ref_defs)

lemma mock_ops_ok: "list_all op_ok (mock_ops pe pg pc pd po)"
  by (simp add: mock_entities component_ok_def app_ok_def area_ok_def component_builder_defs
      app_builder_defs area_builder_defs entity_ref_defs)

definition mock_state where
  "mock_state L pe pg pc pd po =
     wg_state (run_ops L (mock_ops pe pg pc pd po) (topology_write (topology_state_new L)))"

lemma mock_topology_built:
  assumes "ordered_map M"
  obtains pe pg pc pd po where
    "create_mock_topology L M S = Some (mock_state L pe pg pc pd po)"
    "provides pe (values_of_owner ''ecu'' component_values)"
    "provides pg (values_of_owner ''gateway'' component_values)"
    "provides pc (values_of_owner ''engine_control'' app_values)"
    "provides pd (values_of_owner ''diagnostics'' app_values)"
    "provides po (values_of_owner ''ota_manager'' app_values)"
proof -
  obtain pe pg pc pd po where built: "mock_provider M (ecu_steps S) = Some pe"
    "mock_provider M (gateway_steps S) = Some pg" "mock_provider M (engine_control_steps S) = Some pc"
    "mock_provider M (diagnostics_steps S) = Some pd" "mock_provider M (ota_steps S) = Some po"
    and provide: "provides pe (values_of_owner ''ecu'' component_values)"
    "provides pg (values_of_owner ''gateway'' component_values)"
    "provides pc (values_of_owner ''engine_control'' app_values)"
    "provides pd (values_of_owner ''diagnostics'' app_values)"
    "provides po (values_of_owner ''ota_manager'' app_values)"
    using ecu_provides [OF assms, of S] gateway_provides [OF assms, of S]
      engine_control_provides [OF assms, of S] diagnostics_provides [OF assms, of S]
      ota_provides [OF assms, of S] by blast
  moreover have "create_mock_topology L M S = Some (mock_state L pe pg pc pd po)"
    by (simp add: create_mock_topology_def built mock_state_def del: run_ops.simps)
  ultimately show thesis using that by blast
qed

context topology_containers
begin

lemma mock_entries:
  "component_entries L (mock_state L pe pg pc pd po) =
     [(''ecu'', mock_ecu pe), (''gateway'', mock_gateway pg)]"
  "app_entries L (mock_state L pe pg pc pd po) =
     [(''engine_control'', mock_engine_control pc), (''diagnostics'', mock_diagnostics pd),
      (''ota_manager'', mock_ota_manager po)]"
  "area_entries L (mock_state L pe pg pc pd po) =
     [(''powertrain'', mock_powertrain), (''network'', mock_network)]"
  by (simp_all add: mock_state_def guard_defs topology_write_def Let_def)

lemma mock_stable:
  "ops_stable L (mock_ops pe pg pc pd po) (topology_write (topology_state_new L))"
  by (simp add: guard_defs topology_write_def get_component_entries get_app_entries Let_def)

lemmas mock_exact = exact_queries [OF run_new_wf [OF mock_ops_ok]
  run_new_exact [OF mock_ops_ok mock_stable], folded mock_state_def]

end

text \<open>
  Building the mock topology does not panic, whatever the containers' implementation: no
  data id is used twice.  The topology has the two components, three apps and two areas in this
  order, the apps are on their hosts and in their areas, the app without an area has none, and
  the data routes read each of the 15 component and 9 app resources as its constant in the value
  envelope and refuse to write it, leaving the world alone.
\<close>

theorem mock_topology_is_served:
  assumes "topology_containers L" and "ordered_map M" and "env_containers E = L"
  shows "\<exists>topo. create_mock_topology L M S = Some topo \<and>
    map component_id (components L topo) = [''ecu'', ''gateway''] \<and>
    map app_id (apps L topo) = [''engine_control'', ''diagnostics'', ''ota_manager''] \<and>
    map area_id (areas L topo) = [''powertrain'', ''network''] \<and>
    map app_id (apps_of_component L topo ''ecu'') = [''engine_control''] \<and>
    map app_id (apps_of_component L topo ''gateway'') = [''diagnostics'', ''ota_manager''] \<and>
    map component_id (components_of_area L topo ''powertrain'') = [''ecu''] \<and>
    map app_id (apps_of_area L topo ''network'') = [''diagnostics''] \<and>
    area_of_app L topo ''ota_manager'' = Inr None \<and>
    list_all (\<lambda>(i, d, v). \<forall>w.
      component_data_read E topo i d (Inr \<lparr> rq_include_schema = False \<rparr>) w =
        (Inr \<lparr> rr_id = d, rr_data = JObject [(''value'', v)], rr_errors = None, rr_schema = None \<rparr>, w) \<and>
      (\<forall>body. component_data_write E topo i d body w = (Inl (DataFailure ReadOnly), w)))
      component_values \<and>
    list_all (\<lambda>(i, d, v). \<forall>w.
      app_data_read E topo i d (Inr \<lparr> rq_include_schema = False \<rparr>) w =
        (Inr \<lparr> rr_id = d, rr_data = JObject [(''value'', v)], rr_errors = None, rr_schema = None \<rparr>, w) \<and>
      (\<forall>body. app_data_write E topo i d body w = (Inl (DataFailure ReadOnly), w)))
      app_values"
proof -
  obtain pe pg pc pd po where created: "create_mock_topology L M S = Some (mock_state L pe pg pc pd po)"
    and provide: "provides pe (values_of_owner ''ecu'' component_values)"
    "provides pg (values_of_owner ''gateway'' component_values)"
    "provides pc (values_of_owner ''engine_control'' app_values)"
    "provides pd (values_of_owner ''diagnostics'' app_values)"
    "provides po (values_of_owner ''ota_manager'' app_values)"
    using mock_topology_built [OF assms(2)] by metis
  define topo where "topo = mock_state L pe pg pc pd po"
  note entries = topology_containers.mock_entries [OF assms(1), of pe pg pc pd po, folded topo_def]
  note listings = topology_containers.listings_entries [OF assms(1)] entries
  note relations = topology_containers.mock_exact [OF assms(1), of pe pg pc pd po, folded topo_def]
  have component_reads: "list_all (\<lambda>(i, d, v). \<forall>w.
      component_data_read E topo i d (Inr \<lparr> rq_include_schema = False \<rparr>) w =
        (Inr \<lparr> rr_id = d, rr_data = JObject [(''value'', v)], rr_errors = None, rr_schema = None \<rparr>, w) \<and>
      (\<forall>body. component_data_write E topo i d body w = (Inl (DataFailure ReadOnly), w)))
      component_values"
    using provide(1,2)
    by (simp add: component_values_def values_of_owner_def provides_def component_data_read_def
        component_data_write_def with_query_def with_provider_def component_provider_def assms(3) read_response_of_def
        topology_containers.get_component_entries [OF assms(1)] entries)
  have app_reads: "list_all (\<lambda>(i, d, v). \<forall>w.
      app_data_read E topo i d (Inr \<lparr> rq_include_schema = False \<rparr>) w =
        (Inr \<lparr> rr_id = d, rr_data = JObject [(''value'', v)], rr_errors = None, rr_schema = None \<rparr>, w) \<and>
      (\<forall>body. app_data_write E topo i d body w = (Inl (DataFailure ReadOnly), w)))
      app_values"
    using provide(3-5)
    by (simp add: app_values_def values_of_owner_def provides_def app_data_read_def
        app_data_write_def with_query_def with_provider_def app_provider_def assms(3) read_response_of_def
        topology_containers.get_app_entries [OF assms(1)] entries)
  show ?thesis
    using created [folded topo_def] component_reads app_reads
    by (intro exI [of _ topo])
      (simp add: listings relations topology_containers.relations_entries [OF assms(1)])
qed

theorem mock_topology_is_served_witness:
  "\<exists>topo. create_mock_topology list_containers
      (alist_map :: (string, unit resource_entry, (string \<times> unit resource_entry) list) index_map)
      (\<lambda>_. None) = Some topo \<and>
    map app_id (apps_of_component list_containers topo ''gateway'') = [''diagnostics'', ''ota_manager'']"
  using mock_topology_is_served [OF lists.topology_containers_axioms alist.ordered_map_axioms, where
      E = "\<lparr> env_containers = list_containers, env_percent = plain_encoding,
        env_schema = (\<lambda>_. JNull) \<rparr>" and S = "\<lambda>_. None"]
  by auto

end
