(* ===== verification/Logging.thy ===== *)
theory Logging
  imports Prelude "HOL-Library.Word"
begin

text \<open>
  The logging the binaries share (\<open>src/opensovd-cli/lib/src\<close>): the compact format of a log line
  and the fields the HTTP trace layer records in the span of a request.  Time stamps, formatted
  fields and the classifier of the trace layer come from libraries: the stamps and fields are
  arguments, and a 5xx response or a service error is a failure, as documented.
\<close>

subsection \<open>Log lines\<close>

datatype log_level = LevelError | LevelWarn | LevelInfo | LevelDebug | LevelTrace

fun level_letter :: "log_level \<Rightarrow> string" where
  "level_letter LevelError = ''E''"
| "level_letter LevelWarn = ''W''"
| "level_letter LevelInfo = ''I''"
| "level_letter LevelDebug = ''D''"
| "level_letter LevelTrace = ''T''"

text \<open>\<open>FormattedFields\<close> is an extension of the span that may be missing.\<close>

record log_span =
  sp_name :: string
  sp_fields :: "string option"

record log_event =
  ev_level :: log_level
  ev_target :: string

text \<open>
  Writing to the buffer does not fail; formatting the fields of the event may, which ends the
  line early.
\<close>

definition span_fields :: "log_span \<Rightarrow> string" where
  "span_fields span =
     (case sp_fields span of
        None \<Rightarrow> []
      | Some f \<Rightarrow> if f = [] then [] else '' '' @ f)"

definition format_event ::
  "string \<Rightarrow> log_span list option \<Rightarrow> (unit, string) result \<Rightarrow> log_event \<Rightarrow>
     (unit, string) result" where
  "format_event now scope body event =
     (let prefix = now @ '' '' @ level_letter (ev_level event) @ '' '' @ ev_target event @ '' ''
      in case scope of
           Some spans \<Rightarrow>
             map_ok (\<lambda>f. prefix @ concat (map (\<lambda>s. sp_name s @ '': '') spans) @ f
                 @ concat (map span_fields spans) @ [CHR 0x0A]) body
         | None \<Rightarrow> map_ok (\<lambda>f. prefix @ f @ [CHR 0x0A]) body)"

lemma empty_scope: "format_event now (Some []) body event = format_event now None body event"
  by (simp add: format_event_def Let_def)

lemma level_letter_inject: "level_letter l = level_letter l' \<longleftrightarrow> l = l'"
  by (cases l; cases l') simp_all

lemma one_line:
  assumes "format_event now scope body event = Inr line"
    and "CHR 0x0A \<notin> set now" and "CHR 0x0A \<notin> set (ev_target event)"
    and "\<And>f. body = Inr f \<Longrightarrow> CHR 0x0A \<notin> set f"
    and "\<And>spans s. scope = Some spans \<Longrightarrow> s \<in> set spans \<Longrightarrow>
      CHR 0x0A \<notin> set (sp_name s) \<and> (\<forall>f. sp_fields s = Some f \<longrightarrow> CHR 0x0A \<notin> set f)"
  shows "\<exists>l. line = l @ [CHR 0x0A] \<and> CHR 0x0A \<notin> set l"
proof -
  have letter: "CHR 0x0A \<notin> set (level_letter l)" for l by (cases l) simp_all
  have "CHR 0x0A \<notin> set (span_fields s)" if "scope = Some spans" "s \<in> set spans" for spans s
    using assms(5) [OF that] by (auto simp: span_fields_def split: option.split)
  then show ?thesis
    using assms letter
    by (cases body) (auto simp: format_event_def Let_def split: option.splits)
qed

subsection \<open>Request spans\<close>

record duration =
  du_secs :: "64 word"
  du_nanos :: "32 word"

text \<open>\<open>Duration::as_micros\<close>, a \<open>u128\<close> that holds every such value.\<close>

definition as_micros :: "duration \<Rightarrow> nat" where
  "as_micros d = unat (du_secs d) * 1000000 + unat (du_nanos d) div 1000"

definition duration_ok :: "duration \<Rightarrow> bool" where
  "duration_ok d \<longleftrightarrow> du_nanos d < 1000000000"

record http_span =
  hs_method :: string
  hs_uri :: string
  hs_status :: "16 word option"
  hs_latency_us :: "64 word option"
  hs_error :: "string option"

definition make_span :: "string \<Rightarrow> string \<Rightarrow> http_span" where
  "make_span meth uri = \<lparr> hs_method = meth, hs_uri = uri, hs_status = None, hs_latency_us = None,
     hs_error = None \<rparr>"

text \<open>\<open>u64::try_from(latency.as_micros()).unwrap_or(u64::MAX)\<close>.\<close>

definition saturated_micros :: "duration \<Rightarrow> 64 word" where
  "saturated_micros latency =
     (let us = as_micros latency in if us < 2 ^ 64 then word_of_nat us else - 1)"

definition on_response :: "16 word \<Rightarrow> duration \<Rightarrow> http_span \<Rightarrow> http_span" where
  "on_response status latency span =
     span\<lparr>hs_status := Some status, hs_latency_us := Some (saturated_micros latency)\<rparr>"

datatype failure_class = StatusCode "16 word" | ServiceError string

definition on_failure ::
  "(failure_class \<Rightarrow> string) \<Rightarrow> failure_class \<Rightarrow> duration \<Rightarrow> http_span \<Rightarrow> http_span" where
  "on_failure show_failure error latency span =
     (let span = span\<lparr>hs_latency_us := Some (saturated_micros latency)\<rparr>;
          span = (case error of StatusCode status \<Rightarrow> span\<lparr>hs_status := Some status\<rparr> | _ \<Rightarrow> span)
      in span\<lparr>hs_error := Some (show_failure error)\<rparr>)"

text \<open>
  What the trace layer does with the outcome of a request: a response is reported, and one with a
  server error then as a failure as well; an error of the service is a failure.
\<close>

definition traced ::
  "(failure_class \<Rightarrow> string) \<Rightarrow> (string, 16 word) result \<Rightarrow> duration \<Rightarrow> http_span \<Rightarrow> http_span" where
  "traced show_failure outcome latency span =
     (case outcome of
        Inr status \<Rightarrow>
          (let span = on_response status latency span
           in if 500 \<le> status \<and> status < 600
              then on_failure show_failure (StatusCode status) latency span else span)
      | Inl e \<Rightarrow> on_failure show_failure (ServiceError e) latency span)"

lemma as_micros_bound: "duration_ok d \<Longrightarrow> as_micros d < 2 ^ 64 * 1000000"
proof -
  assume "duration_ok d"
  then have "unat (du_nanos d) < 1000000000"
    unfolding duration_ok_def word_less_nat_alt by simp
  moreover have "unat (du_secs d) < 2 ^ 64" using unsigned_less [of "du_secs d"] by simp
  ultimately show ?thesis unfolding as_micros_def by simp
qed

text \<open>
  The span of a finished request: its latency in microseconds, saturated at the largest 64-bit
  value and never wrapped, the status of a response, and an error text exactly for failures.
\<close>

theorem request_span_is_complete:
  "(\<exists>us. hs_latency_us (traced show_failure outcome latency (make_span meth uri)) = Some us \<and>
      unat us = min (as_micros latency) (2 ^ 64 - 1)) \<and>
   hs_status (traced show_failure outcome latency (make_span meth uri)) =
     (case outcome of Inr status \<Rightarrow> Some status | Inl _ \<Rightarrow> None) \<and>
   (hs_error (traced show_failure outcome latency (make_span meth uri)) = None \<longleftrightarrow>
     (\<exists>status. outcome = Inr status \<and> \<not> (500 \<le> status \<and> status < 600)))"
proof -
  have "unat (saturated_micros d) = min (as_micros d) (2 ^ 64 - 1)" for d
  proof (cases "as_micros d < 2 ^ 64")
    case True
    then show ?thesis by (simp add: saturated_micros_def unsigned_of_nat take_bit_nat_eq_self)
  next
    case False
    then show ?thesis by (simp add: saturated_micros_def unsigned_minus_1_eq_mask mask_eq_exp_minus_1)
  qed
  then show ?thesis
    by (cases outcome) (auto simp: traced_def on_response_def on_failure_def make_span_def Let_def)
qed

end
