(* ===== verification/Client_Example.thy ===== *)
theory Client_Example
  imports Remote_Properties Logging
begin

text \<open>
  The command-line client of \<open>src/examples/client/src/client.rs\<close>: its choice of a connection, the
  requests it makes one after the other, and the lines it prints.  Standard output is the list
  of lines printed so far, kept beside the world the requests act on; an error ends the program
  where it occurs, after the lines printed before it.
\<close>

subsection \<open>Programs that print\<close>

type_synonym ('w, 'e, 'a) program = "string list \<times> 'w \<Rightarrow> ('e, 'a) result \<times> string list \<times> 'w"

definition await_call :: "('w, ('e, 'a) result) action \<Rightarrow> ('w, 'e, 'a) program" where
  "await_call call s = (let (r, w') = call (snd s) in (r, fst s, w'))"

definition print_lines :: "string list \<Rightarrow> ('w, 'e, unit) program" where
  "print_lines ls s = (Inr (), fst s @ ls, snd s)"

definition then_do ::
  "('w, 'e, 'a) program \<Rightarrow> ('a \<Rightarrow> ('w, 'e, 'b) program) \<Rightarrow> ('w, 'e, 'b) program" where
  "then_do p f s = (case p s of (Inl e, s') \<Rightarrow> (Inl e, s') | (Inr a, s') \<Rightarrow> f a s')"

lemma program_simps [simp]:
  "then_do (await_call call) f (ls, w) =
     (case call w of (Inl e, w') \<Rightarrow> (Inl e, ls, w') | (Inr a, w') \<Rightarrow> f a (ls, w'))"
  "then_do (print_lines ls') f' (ls, w) = f' () (ls @ ls', w)"
  "print_lines ls' (ls, w) = (Inr (), ls @ ls', w)"
  by (simp_all add: then_do_def await_call_def print_lines_def Let_def split: prod.split sum.split)

lemma then_do_assoc [simp]: "then_do (then_do p f) g = then_do p (\<lambda>a. then_do (f a) g)"
  by (rule ext) (simp add: then_do_def split: prod.split sum.split)

subsection \<open>The report\<close>

definition item_line :: "string \<Rightarrow> string \<Rightarrow> string \<Rightarrow> string" where
  "item_line label ident name = label @ '': '' @ ident @ '' ('' @ name @ '')''"

text \<open>\<open>de_entities\<close> and \<open>de_data\<close> are \<open>serde_json::from_slice\<close> at the types of the two listings.\<close>

definition client_run where
  "client_run H P client de_entities de_data =
     then_do (await_call (request_send H client de_entities list_components)) (\<lambda>components.
     then_do (print_lines (map (\<lambda>c. item_line ''component'' (er_id c) (er_name c))
       (items (rs_data components)))) (\<lambda>_.
     then_do (case items (rs_data components) of
         [] \<Rightarrow> print_lines []
       | first # _ \<Rightarrow>
           then_do (await_call (request_send H client de_data
             (handle_component_list_data (client_component P (er_id first))))) (\<lambda>data.
           print_lines (map (\<lambda>d. item_line ''  data'' (md_id d) (md_name d))
             (items (rs_data data))))) (\<lambda>_.
     then_do (await_call (request_send H client de_entities list_apps)) (\<lambda>apps.
     then_do (print_lines (map (\<lambda>a. item_line ''app'' (er_id a) (er_name a))
       (items (rs_data apps)))) (\<lambda>_.
     then_do (await_call (request_send H client de_entities list_areas)) (\<lambda>areas.
     print_lines (map (\<lambda>a. item_line ''area'' (er_id a) (er_name a))
       (items (rs_data areas)))))))))"

subsection \<open>The connection\<close>

record client_cli =
  cc_url :: string
  cc_unix_socket :: "string option"

definition client_cli_default :: client_cli where
  "client_cli_default = \<lparr> cc_url = ''http://localhost:7690/sovd/v1'', cc_unix_socket = None \<rparr>"

datatype 'e client_main_error =
    ConnectFailure client_builder_error
  | UnsupportedAbstract
  | RunFailure 'e

text \<open>
  \<open>linux\<close> says whether the target is Linux.  \<open>hyper_unix\<close> and \<open>hyper_http\<close> are the legacy client
  over the two kinds of connector, \<open>trace\<close> the trace layer and \<open>stack\<close> the stacking of layers.
\<close>

definition client_example_connect where
  "client_example_connect linux H hyper_unix hyper_http apply_layer stack trace http_connector
     identity_layer cli =
     (case cc_unix_socket cli of
        Some socket \<Rightarrow>
          (case strip_prefix ''@'' socket of
             Some name \<Rightarrow>
               if linux then
                 map_err ConnectFailure (client_connect_unix_abstract H hyper_unix apply_layer
                   http_connector identity_layer (cc_url cli) name)
               else Inl UnsupportedAbstract
           | None \<Rightarrow>
               map_err ConnectFailure (client_connect_unix H hyper_unix apply_layer http_connector
                 identity_layer (cc_url cli) socket))
      | None \<Rightarrow>
          map_err ConnectFailure
            (and_then (client_builder_base_uri H (cc_url cli)
               (client_builder_new http_connector identity_layer)) (\<lambda>builder.
             client_builder_build hyper_http apply_layer
               (client_builder_layer stack trace builder))))"

definition client_example_main where
  "client_example_main connected H P de_entities de_data s =
     (case connected of
        Inl e \<Rightarrow> (Inl e, s)
      | Inr client \<Rightarrow>
          (let (r, s') = client_run H P client de_entities de_data s
           in (map_err RunFailure r, s')))"

text \<open>The fields the trace layer of the example records; a failure is logged, not recorded.\<close>

definition client_make_span :: "string \<Rightarrow> string \<Rightarrow> http_span" where
  "client_make_span meth url = \<lparr> hs_method = meth, hs_uri = url, hs_status = None,
     hs_latency_us = None, hs_error = None \<rparr>"

definition client_on_response :: "16 word \<Rightarrow> duration \<Rightarrow> http_span \<Rightarrow> http_span" where
  "client_on_response status latency span =
     (let span = span\<lparr>hs_status := Some status\<rparr>
      in span\<lparr>hs_latency_us := Some (saturated_micros latency)\<rparr>)"

definition client_on_failure :: "failure_class \<Rightarrow> duration \<Rightarrow> http_span \<Rightarrow> http_span" where
  "client_on_failure ec latency span =
     (let span = span\<lparr>hs_latency_us := Some (saturated_micros latency)\<rparr>
      in case ec of
           StatusCode status \<Rightarrow> span\<lparr>hs_status := Some status\<rparr>
         | ServiceError _ \<Rightarrow> span)"

subsection \<open>What it prints\<close>

lemma request_plain: "request_schema False list_components = list_components"
  "request_schema False list_apps = list_apps" "request_schema False list_areas = list_areas"
  "request_schema False (handle_component_list_data h) = handle_component_list_data h"
  by (simp_all add: request_schema_def handle_defs)

lemma unfiltered_listings:
  "component_list E topo parts (all_entities False) = Inr (entities_response_of E (all_entities False)
     (map (component_reference (env_percent E) (versioned_uri parts)) (components (env_containers E) topo)))"
  "app_list E topo parts (all_entities False) = Inr (entities_response_of E (all_entities False)
     (map (app_reference (env_percent E) (versioned_uri parts)) (apps (env_containers E) topo)))"
  "area_list E topo parts (all_entities False) = Inr (entities_response_of E (all_entities False)
     (map (area_reference (env_percent E) (versioned_uri parts)) (areas (env_containers E) topo)))"
  by (simp_all add: component_list_def app_list_def area_list_def tags_match_def Let_def)

lemma remote_data_list:
  assumes "client_link H base target" and "query_laws Q" and "percent_encoder P"
    and "hc_base_uri self = base"
    and "hc_http self = over_http H target (serve_request E Q enc vendor topo parts)"
    and "i \<noteq> []"
  shows "request_send H self (decode_items H metadata_dto_of_json err)
      (handle_component_list_data (client_component P i)) w =
      arrives (component_data_list E topo i (all_data False) w)"
proof -
  have decodes: "response_of_json (items_of_fields metadata_dto_of_json)
      (response_to_json (items_fields metadata_dto_to_json) x) = Some x"
    if "fst (component_data_list E topo i (all_data False) w) = Inr x" for x
    using that
    by (intro items_response_roundtrip; auto simp: component_data_list_def with_query_def
        with_provider_def metadata_item_def then_some_def split: sum.splits prod.splits if_split_asm)+
  note answers = endpoint_steps query_laws.read_plain_queries [OF assms(2)] with_body_def
  have "request_send H self (decode_items H metadata_dto_of_json err)
      (request_schema False (handle_component_list_data (client_component P i))) w =
      arrives (component_data_list E topo i (all_data False) w)"
    unfolding request_send_schema arrives_def
    by (rule remote_read [OF assms(1,4,5) percent_encoder.handle_targets_ok(1) [OF assms(3)]
          percent_encoder.handle_paths_without_query(1) [OF assms(3)]
          percent_encoder.component_resource_calls(1) [OF assms(3,6)], where b = False])
      (simp add: answers, erule decodes)
  then show ?thesis by (simp add: request_plain)
qed

text \<open>The lines a topology is reported in.\<close>

definition component_lines :: "'w component list \<Rightarrow> string list" where
  "component_lines cs = map (\<lambda>c. item_line ''component'' (component_id c) (component_name c)) cs"

definition rest_lines :: "'w app list \<Rightarrow> 'w area list \<Rightarrow> string list" where
  "rest_lines aps ars =
     map (\<lambda>a. item_line ''app'' (app_id a) (app_name a)) aps @
     map (\<lambda>a. item_line ''area'' (area_id a) (area_name a)) ars"

definition data_lines :: "metadata_dto list \<Rightarrow> string list" where
  "data_lines ds = map (\<lambda>d. item_line ''  data'' (md_id d) (md_name d)) ds"

text \<open>
  C23: Connected to a server, the example reports the server's topology: a line for every component,
  app and area in the order the topology has them, and after the components the data of the first
  one as its provider lists it.  When the provider fails, the example ends with the server's
  error after the lines of the components, with no further request.
\<close>

theorem client_example_reports_topology:
  assumes "client_link H base target" and "query_laws Q" and "percent_encoder P"
    and "hc_base_uri self = base"
    and "hc_http self = over_http H target (serve_request E Q enc vendor topo parts)"
    and "\<forall>c \<in> set (components (env_containers E) topo). component_id c \<noteq> []"
  shows "client_run H P self (decode_listing H err) (decode_items H metadata_dto_of_json err)
      (printed, w) =
    (let cs = components (env_containers E) topo;
         rest = rest_lines (apps (env_containers E) topo) (areas (env_containers E) topo)
     in case cs of
          [] \<Rightarrow> (Inr (), printed @ rest, w)
        | c # _ \<Rightarrow>
            (case component_data_list E topo (component_id c) (all_data False) w of
               (Inl e, w') \<Rightarrow> (Inl (remote_error e), printed @ component_lines cs, w')
             | (Inr ds, w') \<Rightarrow>
                 (Inr (), printed @ component_lines cs @ data_lines (items (rs_data ds)) @ rest, w')))"
proof -
  note listing = remote_listings [OF assms(1-5), where b = False, unfolded request_plain
      unfiltered_listings, simplified]
  show ?thesis
  proof (cases "components (env_containers E) topo")
    case Nil
    then show ?thesis
      by (simp add: client_run_def listing arrives_def entities_response_of_def rest_lines_def
          app_reference_def area_reference_def comp_def Let_def)
  next
    case (Cons c cs)
    then have "component_id c \<noteq> []" using assms(6) by simp
    note data = remote_data_list [OF assms(1-5) this, of err]
    show ?thesis
      by (cases "component_data_list E topo (component_id c) (all_data False) w")
        (simp add: client_run_def listing data arrives_def entities_response_of_def Cons
          component_lines_def data_lines_def rest_lines_def component_reference_def
          app_reference_def area_reference_def comp_def Let_def split: sum.split)
  qed
qed

theorem client_example_reports_topology_witness:
  "client_run text_library plain_encoding sample_remote_client (decode_listing text_library ())
      (decode_items text_library metadata_dto_of_json ()) ([], JNull) =
    (Inr () :: ((unit, unit, unit, unit, unit) client_error, unit) result,
     [''component: ecu (ECU)'', ''  data: ver (Version)'', ''  data: reg (Register)''], JNull)"
proof -
  let ?ecu = "component_with_data_provider (built_data_provider alist_map sample_resources)
    (component_new ''ecu'' ''ECU'')"
  have client: "hc_base_uri sample_remote_client = ''http://ecu/sovd/v1''"
    "hc_http sample_remote_client = over_http text_library text_target
       (serve_request sample_data_env plain_query vendor_info_to_json None sample_data_topology
          sample_parts)"
    by (simp_all add: sample_remote_client_def)
  have env: "env_containers sample_data_env = list_containers" by (simp add: sample_data_env_def)
  have listings: "components list_containers sample_data_topology = [?ecu]"
    "apps list_containers sample_data_topology = []" "areas list_containers sample_data_topology = []"
    by (simp_all add: sample_data_topology_def add_component_def topology_write_def
        lists.listings_entries component_builder_defs entity_ref_defs Let_def)
  have ecu: "component_id ?ecu = ''ecu''" "component_name ?ecu = ''ECU''"
    by (simp_all add: component_builder_defs entity_ref_defs)
  have "component_data_list sample_data_env sample_data_topology ''ecu'' (all_data False) JNull =
      (Inr \<lparr> rs_data = \<lparr> items = map metadata_item (map re_metadata sample_builder) \<rparr>,
         rs_schema = None \<rparr>, JNull)"
    by (simp add: component_data_list_def with_query_def with_provider_def component_provider_def
        sample_data_lookup component_builder_defs built_data_provider_def built_list_def
        alist_map_def sample_resources_def sample_builder_eval matches_filter_def query_filter_def
        unwrap_or_default_def)
  moreover have "\<forall>c \<in> set (components (env_containers sample_data_env) sample_data_topology).
      component_id c \<noteq> []"
    by (simp add: env listings ecu)
  ultimately show ?thesis
    using client_example_reports_topology [OF text_link.client_link_axioms
        plain_query.query_laws_axioms plain.percent_encoder_axioms client, of "()" "[]" JNull]
    by (simp add: env listings ecu component_lines_def data_lines_def rest_lines_def item_line_def
        sample_builder_eval metadata_item_def)
qed

text \<open>
  The connection is the one the arguments ask for: a socket path with a leading @ names an
  abstract socket, whose address starts with a null byte, any other path a socket file, and
  only a connection without a socket passes the trace layer.
\<close>

theorem client_example_connection:
  assumes "client_example_connect linux H hyper_unix hyper_http apply_layer stack trace
      http_connector identity_layer cli = Inr client"
  shows "hl_parse_uri H (cc_url cli) = Inr (hc_base_uri client)"
    and "hc_http client = (case cc_unix_socket cli of
        None \<Rightarrow> apply_layer (stack trace identity_layer) (hyper_http http_connector)
      | Some socket \<Rightarrow> apply_layer identity_layer (hyper_unix
          (case strip_prefix ''@'' socket of
             Some name \<Rightarrow> Abstract (CHR 0x00 # name) | None \<Rightarrow> SocketPath socket)))"
    and "\<not> linux \<Longrightarrow> cc_unix_socket cli \<noteq> Some (CHR ''@'' # name)"
  using assms
  by (auto simp: client_example_connect_def client_connect_unix_abstract_def
      client_connect_unix_def client_builder_base_uri_def client_builder_build_def
      client_builder_connector_def client_builder_layer_def client_builder_new_def
      unix_connector_abstract_name_def unix_connector_new_def map_err_def and_then_Inr_iff
      map_ok_Inr_iff Let_def split: option.splits sum.splits if_splits)

text \<open>
  Both outcomes of a request leave its latency in the span, and never an error; a response is
  recorded as the server's own trace layer records it.
\<close>

lemma client_span_fields:
  "hs_latency_us (client_on_failure ec latency span) = Some (saturated_micros latency)"
  "hs_error (client_on_failure ec latency (client_make_span meth url)) = None"
  "client_on_response status latency span = on_response status latency span"
  by (cases ec; simp add: client_on_failure_def client_make_span_def client_on_response_def
      on_response_def)+

end
