(* ===== verification/Linux_Example.thy ===== *)
theory Linux_Example
  imports Data_Routes Provider_Properties Topology_Properties Text Complex_Main
    "HOL-Library.Word"
begin

text \<open>
  The Linux component of \<open>src/examples/server/simple/simple.rs\<close>: identification data read once
  from \<open>/etc/os-release\<close>, and three resources that are read anew on every request, the uptime and
  the CPU and memory usage.  The file system, the clock and \<open>sysinfo::System\<close> are parts of the
  world a read observes (record \<open>linux_host\<close>); \<open>f64\<close> arithmetic is a parameter, of which the locale
  \<open>float_laws\<close> states what bounds the memory usage.
\<close>

subsection \<open>The os-release file\<close>

definition OS_RELEASE_FALLBACK :: string where
  "OS_RELEASE_FALLBACK =
     ''NAME=Fedora Linux'' @ [line_feed] @
     ''VERSION=43 (Workstation Edition)'' @ [line_feed] @
     ''ID=fedora'' @ [line_feed] @
     ''VERSION_ID=43'' @ [line_feed] @
     ''PRETTY_NAME=Fedora Linux 43 (Workstation Edition)''"

text \<open>\<open>content\<close> is what reading the file yields.\<close>

definition insert_assignment ::
  "string \<Rightarrow> (string \<rightharpoonup> string) \<Rightarrow> (string \<rightharpoonup> string)" where
  "insert_assignment line m =
     (case split_once (CHR ''='') line of
        Some (key, v) \<Rightarrow> m(key \<mapsto> trim_matches (CHR 0x22) v)
      | None \<Rightarrow> m)"

definition parse_os_release :: "('io, string) result \<Rightarrow> (string \<rightharpoonup> string)" where
  "parse_os_release content =
     (let content = (case content of Inl _ \<Rightarrow> OS_RELEASE_FALLBACK | Inr c \<Rightarrow> c)
      in fold insert_assignment (str_lines content) Map.empty)"

subsection \<open>Live resources\<close>

record ('w, 'io, 'i, 'g, 'f) linux_host =
  lh_read_to_string :: "string \<Rightarrow> ('w, ('io, string) result) action"
  lh_elapsed_secs :: "'i \<Rightarrow> ('w, 'f) action"
  lh_refresh_cpu_usage :: "'w \<Rightarrow> 'w"
  lh_global_cpu_usage :: "'w \<Rightarrow> 'g"
  lh_refresh_memory :: "'w \<Rightarrow> 'w"
  lh_total_memory :: "'w \<Rightarrow> 64 word"
  lh_used_memory :: "'w \<Rightarrow> 64 word"

record ('g, 'f) float_library =
  fl_parse :: "string \<Rightarrow> 'f option"
  fl_of_f32 :: "'g \<Rightarrow> 'f"
  fl_of_u64 :: "64 word \<Rightarrow> 'f"
  fl_zero :: 'f
  fl_hundred :: 'f
  fl_less :: "'f \<Rightarrow> 'f \<Rightarrow> bool"
  fl_div :: "'f \<Rightarrow> 'f \<Rightarrow> 'f"
  fl_mult :: "'f \<Rightarrow> 'f \<Rightarrow> 'f"

text \<open>
  \<open>Uptime\<close> holds the instant the program started, \<open>CpuUsage\<close> and \<open>MemoryUsage\<close> the system behind a
  mutex; a poisoned mutex is used all the same, so locking always gives the system.
\<close>

definition uptime_read ::
  "('w, 'io, 'i, 'g, 'f) linux_host \<Rightarrow> ('g, 'f) float_library \<Rightarrow> 'i \<Rightarrow>
     ('w, 'f sovd_value) data_action" where
  "uptime_read H F started w =
     (let (content, w') = lh_read_to_string H ''/proc/uptime'' w;
          first = (case content of Inl _ \<Rightarrow> None
            | Inr c \<Rightarrow> (case split_whitespace c of [] \<Rightarrow> None | v # _ \<Rightarrow> fl_parse F v))
      in case first of
           Some seconds \<Rightarrow> (Inr (sovd_value_new seconds), w')
         | None \<Rightarrow>
             (let (seconds, w'') = lh_elapsed_secs H started w'
              in (Inr (sovd_value_new seconds), w'')))"

definition cpu_usage_read ::
  "('w, 'io, 'i, 'g, 'f) linux_host \<Rightarrow> ('g, 'f) float_library \<Rightarrow> ('w, 'f sovd_value) data_action" where
  "cpu_usage_read H F w =
     (let w' = lh_refresh_cpu_usage H w
      in (Inr (sovd_value_new (fl_of_f32 F (lh_global_cpu_usage H w'))), w'))"

definition memory_usage_read ::
  "('w, 'io, 'i, 'g, 'f) linux_host \<Rightarrow> ('g, 'f) float_library \<Rightarrow> ('w, 'f sovd_value) data_action" where
  "memory_usage_read H F w =
     (let w' = lh_refresh_memory H w;
          total = fl_of_u64 F (lh_total_memory H w');
          used = fl_of_u64 F (lh_used_memory H w');
          pct = (if fl_less F (fl_zero F) total
                 then fl_mult F (fl_div F used total) (fl_hundred F) else fl_zero F)
      in (Inr (sovd_value_new pct), w'))"

text \<open>What bounds the memory usage: conversion, division and multiplication round monotonically.\<close>

locale float_laws =
  fixes F :: "('g, 'f) float_library"
    and le :: "'f \<Rightarrow> 'f \<Rightarrow> bool"
    and one :: 'f
  assumes of_u64_mono: "a \<le> b \<Longrightarrow> le (fl_of_u64 F a) (fl_of_u64 F b)"
    and of_u64_0: "fl_of_u64 F 0 = fl_zero F"
    and div_unit: "le (fl_zero F) x \<Longrightarrow> le x y \<Longrightarrow> fl_less F (fl_zero F) y \<Longrightarrow>
      le (fl_zero F) (fl_div F x y) \<and> le (fl_div F x y) one"
    and mult_unit: "le (fl_zero F) x \<Longrightarrow> le x one \<Longrightarrow>
      le (fl_zero F) (fl_mult F x (fl_hundred F)) \<and> le (fl_mult F x (fl_hundred F)) (fl_hundred F)"
    and zero_le: "le (fl_zero F) (fl_zero F)" "le (fl_zero F) (fl_hundred F)"
begin

lemma usage_in_range:
  assumes "lh_used_memory H (lh_refresh_memory H w) \<le> lh_total_memory H (lh_refresh_memory H w)"
    and "memory_usage_read H F w = (Inr v, w')"
  shows "le (fl_zero F) (sv_value v) \<and> le (sv_value v) (fl_hundred F)"
proof -
  let ?w = "lh_refresh_memory H w"
  have "le (fl_zero F) (fl_of_u64 F (lh_used_memory H ?w))"
    using of_u64_mono [of 0 "lh_used_memory H ?w"] by (simp add: of_u64_0)
  then have unit: "le (fl_zero F) (fl_div F (fl_of_u64 F (lh_used_memory H ?w))
        (fl_of_u64 F (lh_total_memory H ?w))) \<and>
      le (fl_div F (fl_of_u64 F (lh_used_memory H ?w)) (fl_of_u64 F (lh_total_memory H ?w))) one"
    if "fl_less F (fl_zero F) (fl_of_u64 F (lh_total_memory H ?w))"
    using div_unit [OF _ of_u64_mono [OF assms(1)] that] by simp
  show ?thesis
    using assms(2) mult_unit unit zero_le
    by (auto simp: memory_usage_read_def sovd_value_new_def Let_def split: if_splits)
qed

end

text \<open>Exact arithmetic is an instance.\<close>

definition exact_floats :: "(string \<Rightarrow> rat option) \<Rightarrow> (rat, rat) float_library" where
  "exact_floats parse =
     \<lparr> fl_parse = parse, fl_of_f32 = (\<lambda>x. x), fl_of_u64 = (\<lambda>n. of_nat (unat n)), fl_zero = 0,
       fl_hundred = 100, fl_less = (<), fl_div = (/), fl_mult = (*) \<rparr>"

lemma rat_of_word_mono: "rat_of_nat (unat a) \<le> rat_of_nat (unat b)" if "a \<le> b" for a b :: "64 word"
  by (simp only: of_nat_le_iff word_le_nat_alt [symmetric] that)

interpretation exact_floats: float_laws "exact_floats parse" "(\<le>)" 1
  using rat_of_word_mono by unfold_locales (simp_all add: exact_floats_def)

subsection \<open>The provider and its component\<close>

text \<open>
  \<open>main\<close> up to the component.  \<open>None\<close> is the panic of indexing the map with a missing key; \<open>S\<close>
  gives the schema of the value envelope of a Rust type and \<open>ser\<close> the JSON of an \<open>f64\<close>.
\<close>

datatype linux_error = LinuxConstant constant_error | LinuxBuild build_error

definition attempt ::
  "('e, 'a) result option \<Rightarrow> ('a \<Rightarrow> ('e, 'b) result option) \<Rightarrow> ('e, 'b) result option" where
  "attempt r f = (case r of None \<Rightarrow> None | Some (Inl e) \<Rightarrow> Some (Inl e) | Some (Inr a) \<Rightarrow> f a)"

definition os_constant ::
  "(string \<rightharpoonup> string) \<Rightarrow> (string \<Rightarrow> json option) \<Rightarrow> string \<Rightarrow> string \<Rightarrow> string \<Rightarrow>
     'w data_provider_builder \<Rightarrow> (linux_error, 'w data_provider_builder) result option" where
  "os_constant os S ident name key b =
     map_option (\<lambda>v.
       map_ok (\<lambda>c. builder_read_data Inr ident name IdentData (constant_readable c) b)
         (map_err LinuxConstant (constant_new (\<lambda>s. Inr (JString s)) (S ''String'') v))) (os key)"

definition live_resource ::
  "('f \<Rightarrow> json) \<Rightarrow> (string \<Rightarrow> json option) \<Rightarrow> string \<Rightarrow> string \<Rightarrow> ('w, 'f sovd_value) data_action \<Rightarrow>
     'w data_provider_builder \<Rightarrow> 'w data_provider_builder" where
  "live_resource ser S ident name read b =
     builder_read_data (sovd_value_to_json (\<lambda>x. Inr (ser x))) ident name SysInfo
       \<lparr> rd_schema = S ''f64'', rd_read = read \<rparr> b"

definition linux_builder ::
  "('w, 'io, 'i, 'g, 'f) linux_host \<Rightarrow> ('g, 'f) float_library \<Rightarrow> ('f \<Rightarrow> json) \<Rightarrow>
     (string \<Rightarrow> json option) \<Rightarrow> 'i \<Rightarrow> (string \<rightharpoonup> string) \<Rightarrow>
     (linux_error, 'w data_provider_builder) result option" where
  "linux_builder H F ser S started os =
     attempt (os_constant os S ''os.version'' ''OS Version'' ''VERSION_ID'' builder_new) (\<lambda>b.
     attempt (os_constant os S ''os.name'' ''OS Name'' ''NAME'' b) (\<lambda>b.
     attempt (os_constant os S ''os.pretty_name'' ''OS Pretty Name'' ''PRETTY_NAME'' b) (\<lambda>b.
     attempt (os_constant os S ''os.id'' ''OS Identifier'' ''ID'' b) (\<lambda>b.
       Some (Inr
        (live_resource ser S ''mem.usage'' ''Memory Usage'' (memory_usage_read H F)
        (live_resource ser S ''cpu.usage'' ''CPU Usage'' (cpu_usage_read H F)
        (live_resource ser S ''os.uptime'' ''System Uptime'' (uptime_read H F started) b))))))))"

definition linux_component ::
  "(string, 'w resource_entry, 'm) index_map \<Rightarrow> ('w, 'io, 'i, 'g, 'f) linux_host \<Rightarrow>
     ('g, 'f) float_library \<Rightarrow> ('f \<Rightarrow> json) \<Rightarrow> (string \<Rightarrow> json option) \<Rightarrow> 'i \<Rightarrow>
     (string \<rightharpoonup> string) \<Rightarrow> (linux_error, 'w component) result option" where
  "linux_component M H F ser S started os =
     attempt (linux_builder H F ser S started os) (\<lambda>b.
     attempt (Some (map_err LinuxBuild (builder_build M b))) (\<lambda>resources.
       map_option (\<lambda>name. Inr (component_with_data_provider (built_data_provider M resources)
         (component_new ''linux'' name))) (os ''PRETTY_NAME'')))"

definition linux_topology ::
  "('mc, 'ma, 'mr, 's, 'w) containers \<Rightarrow> 'w component \<Rightarrow> ('mc, 'ma, 'mr, 's) topology_state" where
  "linux_topology L linux =
     wg_state (add_component L linux (topology_write (topology_state_new L)))"

subsection \<open>Parsing\<close>

text \<open>An assignment as os-release files write them: key, whether the value is quoted, value.\<close>

type_synonym assignment = "string \<times> bool \<times> string"

definition assignment_line :: "assignment \<Rightarrow> string" where
  "assignment_line = (\<lambda>(k, quoted, v).
     k @ CHR ''='' # (if quoted then CHR 0x22 # v @ [CHR 0x22] else v))"

definition assignment_ok :: "assignment \<Rightarrow> bool" where
  "assignment_ok = (\<lambda>(k, quoted, v).
     CHR ''='' \<notin> set k \<and> line_feed \<notin> set k \<and> line_feed \<notin> set v \<and>
     (v = [] \<or> hd v \<noteq> CHR 0x22 \<and> last v \<noteq> CHR 0x22) \<and>
     (quoted \<or> v = [] \<or> last v \<noteq> carriage_return))"

lemma assignment_is_line: "assignment_ok e \<Longrightarrow> is_line (assignment_line e)"
  by (cases e) (auto simp: assignment_ok_def assignment_line_def is_line_def split: if_splits)

lemma insert_assignment_line:
  "assignment_ok (k, quoted, v) \<Longrightarrow> insert_assignment (assignment_line (k, quoted, v)) m = m(k \<mapsto> v)"
  by (simp add: insert_assignment_def assignment_line_def assignment_ok_def split_once_first
      trim_matches_wrapped trim_matches_plain)

lemma fold_assignments:
  "list_all assignment_ok es \<Longrightarrow> fold insert_assignment (map assignment_line es) m k =
     (case map_of (rev (map (\<lambda>(k, _, v). (k, v)) es)) k of None \<Rightarrow> m k | Some v \<Rightarrow> Some v)"
proof (induction es arbitrary: m)
  case Nil
  then show ?case by simp
next
  case (Cons e es)
  obtain k' quoted v where e: "e = (k', quoted, v)" by (cases e)
  with Cons show ?case
    by (simp add: insert_assignment_line map_add_def split: option.split)
qed

subsection \<open>The resources\<close>

lemma os_constant_present [simp]:
  "os key = None \<Longrightarrow> os_constant os S i n key b = None"
  "os key = Some v \<Longrightarrow> os_constant os S i n key b = Some (Inr (builder_read_data Inr i n IdentData
     (constant_readable \<lparr> const_value = JObject [(''value'', JString v)],
        const_stored_schema = S ''String'' \<rparr>) b))"
  by (simp_all add: os_constant_def constant_new_def sovd_value_new_def sovd_value_to_json_def
      Let_def)

lemma attempt_simps [simp]:
  "attempt None f = None" "attempt (Some (Inr a)) f = f a" "attempt (Some (Inl e)) f = Some (Inl e)"
  by (simp_all add: attempt_def)

definition os_keys :: "string list" where
  "os_keys = [''VERSION_ID'', ''NAME'', ''PRETTY_NAME'', ''ID'']"

lemma constant_serves [simp]:
  "dr_read (read_only_adapter Inr (constant_readable c)) w = (Inr (const_value c), w)"
  by (simp add: read_only_adapter_def serialized_read_def constant_readable_def)

text \<open>A live resource answers the value its read gives, in the envelope.\<close>

definition live_entry ::
  "('f \<Rightarrow> json) \<Rightarrow> (string \<Rightarrow> json option) \<Rightarrow> string \<Rightarrow> string \<Rightarrow> ('w, 'f sovd_value) data_action \<Rightarrow>
     'w resource_entry" where
  "live_entry ser S ident name read = hd (live_resource ser S ident name read [])"

lemma live_resource_entry: "live_resource ser S i n read b = b @ [live_entry ser S i n read]"
  by (simp add: live_entry_def live_resource_def builder_read_data_def)

lemma live_entry_simps [simp]:
  "entry_id (live_entry ser S i n read) = i"
  "read w = (Inr v, w') \<Longrightarrow>
     dr_read (re_resource (live_entry ser S i n read)) w =
       (Inr (JObject [(''value'', ser (sv_value v))]), w')"
  "dr_write (re_resource (live_entry ser S i n read)) j w = (Inl ReadOnly, w)"
  by (simp_all add: live_entry_def live_resource_def builder_read_data_def read_only_adapter_def
      serialized_read_def sovd_value_to_json_def)

definition constant_entry ::
  "(string \<Rightarrow> json option) \<Rightarrow> string \<Rightarrow> string \<Rightarrow> string \<Rightarrow> 'w resource_entry" where
  "constant_entry S ident name v = hd (builder_read_data Inr ident name IdentData
     (constant_readable \<lparr> const_value = JObject [(''value'', JString v)],
        const_stored_schema = S ''String'' \<rparr>) [])"

lemma constant_resource_entry:
  "builder_read_data Inr i n IdentData (constant_readable \<lparr> const_value =
     JObject [(''value'', JString v)], const_stored_schema = S ''String'' \<rparr>) b =
   b @ [constant_entry S i n v]"
  by (simp add: constant_entry_def builder_read_data_def)

lemma constant_entry_simps [simp]:
  "entry_id (constant_entry S i n v) = i"
  "dr_read (re_resource (constant_entry S i n v)) w = (Inr (JObject [(''value'', JString v)]), w)"
  "dr_write (re_resource (constant_entry S i n v)) j w = (Inl ReadOnly, w)"
  by (simp_all add: constant_entry_def builder_read_data_def)
    (simp add: read_only_adapter_def)

lemma linux_builder_entries:
  assumes "os ''VERSION_ID'' = Some ver" and "os ''NAME'' = Some nm"
    and "os ''PRETTY_NAME'' = Some pretty" and "os ''ID'' = Some i"
  shows "linux_builder H F ser S started os = Some (Inr
    [constant_entry S ''os.version'' ''OS Version'' ver, constant_entry S ''os.name'' ''OS Name'' nm,
     constant_entry S ''os.pretty_name'' ''OS Pretty Name'' pretty,
     constant_entry S ''os.id'' ''OS Identifier'' i,
     live_entry ser S ''os.uptime'' ''System Uptime'' (uptime_read H F started),
     live_entry ser S ''cpu.usage'' ''CPU Usage'' (cpu_usage_read H F),
     live_entry ser S ''mem.usage'' ''Memory Usage'' (memory_usage_read H F)])"
  by (simp add: linux_builder_def assms constant_resource_entry live_resource_entry builder_new_def)

lemma linux_builder_panics:
  assumes "key \<in> set os_keys" and "os key = None"
  shows "linux_builder H F ser S started os = None"
  using assms
  by (cases "os ''VERSION_ID''"; cases "os ''NAME''"; cases "os ''PRETTY_NAME''"; cases "os ''ID''")
    (auto simp: linux_builder_def os_keys_def)

lemma linux_component_built:
  assumes "ordered_map M" and "os ''VERSION_ID'' = Some ver" and "os ''NAME'' = Some nm"
    and "os ''PRETTY_NAME'' = Some pretty" and "os ''ID'' = Some i"
  obtains b m where "linux_builder H F ser S started os = Some (Inr b)"
    and "builder_build M b = Inr m"
    and "linux_component M H F ser S started os =
      Some (Inr (component_with_data_provider (built_data_provider M m)
        (component_new ''linux'' pretty)))"
proof -
  obtain b where b: "linux_builder H F ser S started os = Some (Inr b)"
    and distinct: "distinct (map entry_id b)"
    using linux_builder_entries [OF assms(2-5), of H F ser S started] by simp
  then obtain m where "builder_build M b = Inr m"
    using build_Inr_iff [OF assms(1), of b] by auto
  with b that assms(4) show ?thesis by (simp add: linux_component_def)
qed

text \<open>The routes reach the provider of the component.\<close>

lemma linux_routes:
  assumes "topology_containers L" and "env_containers E = L"
    and "c = component_with_data_provider p (component_new ''linux'' name)"
  shows "component_data_read E (linux_topology L c) ''linux'' d (Inr q) w =
      with_provider (Inr p) (\<lambda>p. dp_read p d (rq_include_schema q)) (read_response_of d) w"
    and "component_data_write E (linux_topology L c) ''linux'' d body w =
      with_provider (Inr p) (\<lambda>p. dp_write p d (wr_data body)) (\<lambda>_. NO_CONTENT) w"
  using topology_containers.get_component_entries [OF assms(1), of "linux_topology L c" "''linux''"]
    topology_containers.insert_component_entries(1) [OF assms(1), of "''linux''" c
      "topology_state_new L"] topology_containers.entries_new(1) [OF assms(1)]
  by (simp_all add: component_data_read_def component_data_write_def with_query_def
      component_provider_def assms(2,3) linux_topology_def add_component_def topology_write_def
      component_builder_defs entity_ref_defs Let_def)

subsection \<open>Properties\<close>

text \<open>
  An os-release file of assignments, quoted or not, is read back as the assignments it was
  written from; where a key is assigned twice the later one counts.
\<close>

theorem os_release_roundtrip:
  assumes "list_all assignment_ok es"
  shows "parse_os_release (Inr (unlines (map assignment_line es))) =
    map_of (rev (map (\<lambda>(k, _, v). (k, v)) es))"
proof -
  have "str_lines (unlines (map assignment_line es)) = map assignment_line es"
    using assms by (intro str_lines_unlines) (auto simp: list_all_iff assignment_is_line)
  then show ?thesis
    by (simp add: parse_os_release_def fold_assignments [OF assms] fun_eq_iff split: option.split)
qed

text \<open>
  The program gets as far as its component exactly when the file names the version, the name, the
  pretty name and the id of the system; a file without one of them, which is a valid
  os-release file, makes it panic.
\<close>

theorem linux_example_needs_identification:
  assumes "ordered_map M"
  shows "linux_component M H F ser S started os = None \<longleftrightarrow> (\<exists>key \<in> set os_keys. os key = None)"
    and "\<not> (\<exists>key \<in> set os_keys. os key = None) \<longrightarrow>
      (\<exists>c. linux_component M H F ser S started os = Some (Inr c))"
proof -
  have built: "\<exists>c. linux_component M H F ser S started os = Some (Inr c)"
    if "\<not> (\<exists>key \<in> set os_keys. os key = None)"
  proof -
    from that obtain ver nm pretty i where "os ''VERSION_ID'' = Some ver" "os ''NAME'' = Some nm"
      "os ''PRETTY_NAME'' = Some pretty" "os ''ID'' = Some i"
      by (auto simp: os_keys_def)
    then show ?thesis by (rule linux_component_built [OF assms, of os]) blast
  qed
  moreover have "linux_component M H F ser S started os = None" if "\<exists>key \<in> set os_keys. os key = None"
    using that linux_builder_panics [of _ os H F ser S started]
    by (auto simp: linux_component_def)
  ultimately show "linux_component M H F ser S started os = None \<longleftrightarrow>
      (\<exists>key \<in> set os_keys. os key = None)"
    and "\<not> (\<exists>key \<in> set os_keys. os key = None) \<longrightarrow>
      (\<exists>c. linux_component M H F ser S started os = Some (Inr c))"
    by (metis option.distinct(1))+
qed

text \<open>The fallback text identifies a system; a minimal file does not.\<close>

lemma fallback_identifies:
  "list_all (\<lambda>key. parse_os_release (Inl e) key \<noteq> None) os_keys"
  by (simp add: parse_os_release_def OS_RELEASE_FALLBACK_def insert_assignment_def os_keys_def
      trim_matches_def)

definition rolling_release :: "(unit, string) result" where
  "rolling_release = Inr (unlines
     [''NAME=Arch Linux'', ''PRETTY_NAME=Arch Linux'', ''ID=arch'', ''BUILD_ID=rolling''])"

lemma rolling_release_panics:
  assumes "ordered_map M"
  shows "linux_component M H F ser S started (parse_os_release rolling_release) = None"
proof (rule linux_example_needs_identification(1) [OF assms, THEN iffD2])
  have "parse_os_release rolling_release ''VERSION_ID'' = None"
    by (simp add: rolling_release_def parse_os_release_def unlines_def insert_assignment_def)
  then show "\<exists>key \<in> set os_keys. parse_os_release rolling_release key = None"
    by (auto simp: os_keys_def)
qed

abbreviation linux_value :: "string \<Rightarrow> json \<Rightarrow> read_response" where
  "linux_value d v \<equiv>
     \<lparr> rr_id = d, rr_data = JObject [(''value'', v)], rr_errors = None, rr_schema = None \<rparr>"

definition linux_ids :: "string list" where
  "linux_ids = [''os.version'', ''os.name'', ''os.pretty_name'', ''os.id'', ''os.uptime'',
     ''cpu.usage'', ''mem.usage'']"

lemma uptime_read_cases:
  "lh_read_to_string H ''/proc/uptime'' w = (Inr (t @ CHR '' '' # rest), w1) \<Longrightarrow> plain_word t \<Longrightarrow>
     t \<noteq> [] \<Longrightarrow> fl_parse F t = Some s \<Longrightarrow>
     uptime_read H F started w = (Inr (sovd_value_new s), w1)"
  "lh_read_to_string H ''/proc/uptime'' w = (Inl e, w1) \<Longrightarrow> lh_elapsed_secs H started w1 = (s, w2) \<Longrightarrow>
     uptime_read H F started w = (Inr (sovd_value_new s), w2)"
  using first_word [of t "CHR '' ''" rest] by (auto simp: uptime_read_def)

lemma linux_resources:
  assumes "ordered_map M" and "linux_builder H F ser S started os = Some (Inr b)"
    and "builder_build M b = Inr m"
    and "os ''VERSION_ID'' = Some ver" and "os ''NAME'' = Some nm"
    and "os ''PRETTY_NAME'' = Some pretty" and "os ''ID'' = Some i"
  shows "find_resource M m d = map_of
    [(''os.version'', constant_entry S ''os.version'' ''OS Version'' ver),
     (''os.name'', constant_entry S ''os.name'' ''OS Name'' nm),
     (''os.pretty_name'', constant_entry S ''os.pretty_name'' ''OS Pretty Name'' pretty),
     (''os.id'', constant_entry S ''os.id'' ''OS Identifier'' i),
     (''os.uptime'', live_entry ser S ''os.uptime'' ''System Uptime'' (uptime_read H F started)),
     (''cpu.usage'', live_entry ser S ''cpu.usage'' ''CPU Usage'' (cpu_usage_read H F)),
     (''mem.usage'', live_entry ser S ''mem.usage'' ''Memory Usage'' (memory_usage_read H F))] d"
proof -
  have "b = [constant_entry S ''os.version'' ''OS Version'' ver, constant_entry S ''os.name'' ''OS Name'' nm,
     constant_entry S ''os.pretty_name'' ''OS Pretty Name'' pretty,
     constant_entry S ''os.id'' ''OS Identifier'' i,
     live_entry ser S ''os.uptime'' ''System Uptime'' (uptime_read H F started),
     live_entry ser S ''cpu.usage'' ''CPU Usage'' (cpu_usage_read H F),
     live_entry ser S ''mem.usage'' ''Memory Usage'' (memory_usage_read H F)]"
    using assms(2) linux_builder_entries [OF assms(4-7), of H F ser S started] by simp
  then show ?thesis by (simp add: build_iter(3) [OF assms(1,3)])
qed

text \<open>
  C37: The Linux component serves its host: the identification is what os-release says, the uptime
  is the first word of \<open>/proc/uptime\<close> at the time of the request, or the time since the program
  started when there is no such file, the CPU usage is the one after a refresh, without memory
  the memory usage is zero, and no resource can be written.
\<close>

theorem linux_component_serves_host:
  assumes "topology_containers L" and "env_containers E = L" and "ordered_map M"
    and "os ''VERSION_ID'' = Some ver" and "os ''NAME'' = Some nm"
    and "os ''PRETTY_NAME'' = Some pretty" and "os ''ID'' = Some i"
    and "linux_component M H F ser S started os = Some (Inr c)"
  defines "reads d w \<equiv> component_data_read E (linux_topology L c) ''linux'' d
      (Inr \<lparr> rq_include_schema = False \<rparr>) w"
  shows "reads ''os.version'' w = (Inr (linux_value ''os.version'' (JString ver)), w) \<and>
    reads ''os.name'' w = (Inr (linux_value ''os.name'' (JString nm)), w) \<and>
    reads ''os.pretty_name'' w = (Inr (linux_value ''os.pretty_name'' (JString pretty)), w) \<and>
    reads ''os.id'' w = (Inr (linux_value ''os.id'' (JString i)), w) \<and>
    (\<forall>t rest s w1. lh_read_to_string H ''/proc/uptime'' w = (Inr (t @ CHR '' '' # rest), w1) \<and>
       plain_word t \<and> t \<noteq> [] \<and> fl_parse F t = Some s \<longrightarrow>
       reads ''os.uptime'' w = (Inr (linux_value ''os.uptime'' (ser s)), w1)) \<and>
    (\<forall>e s w1 w2. lh_read_to_string H ''/proc/uptime'' w = (Inl e, w1) \<and>
       lh_elapsed_secs H started w1 = (s, w2) \<longrightarrow>
       reads ''os.uptime'' w = (Inr (linux_value ''os.uptime'' (ser s)), w2)) \<and>
    (let w1 = lh_refresh_cpu_usage H w in reads ''cpu.usage'' w =
       (Inr (linux_value ''cpu.usage'' (ser (fl_of_f32 F (lh_global_cpu_usage H w1)))), w1)) \<and>
    (let w1 = lh_refresh_memory H w in
       \<not> fl_less F (fl_zero F) (fl_of_u64 F (lh_total_memory H w1)) \<longrightarrow>
       reads ''mem.usage'' w = (Inr (linux_value ''mem.usage'' (ser (fl_zero F))), w1)) \<and>
    (\<forall>d body. component_data_write E (linux_topology L c) ''linux'' d body w =
       (Inl (DataFailure (if d \<in> set linux_ids then ReadOnly else DataNotFound d)), w))"
proof -
  obtain b m where b: "linux_builder H F ser S started os = Some (Inr b)"
    and m: "builder_build M b = Inr m"
    and c: "c = component_with_data_provider (built_data_provider M m) (component_new ''linux'' pretty)"
    by (rule linux_component_built [OF assms(3-7), of H F ser S started]) (use assms(8) in simp)
  note resources = linux_resources [OF assms(3) b m assms(4-7)]
  note routes = linux_routes [OF assms(1,2) c] with_provider_def built_data_provider_def
    read_response_of_def
  have const: "reads d w = (Inr (linux_value d (JString v)), w)"
    if "find_resource M m d = Some (constant_entry S d n v)" for d n v
    using that by (simp add: reads_def routes built_read_def)
  have live: "reads d w = (Inr (linux_value d (ser (sv_value v))), w')"
    if "find_resource M m d = Some (live_entry ser S d n read)" and "read w = (Inr v, w')"
    for d n read v w'
    using that by (simp add: reads_def routes built_read_def)
  have "component_data_write E (linux_topology L c) ''linux'' d body w =
      (Inl (DataFailure (if d \<in> set linux_ids then ReadOnly else DataNotFound d)), w)" for d body
    by (simp add: routes built_write_def resources linux_ids_def)
  moreover have "reads ''os.version'' w = (Inr (linux_value ''os.version'' (JString ver)), w)"
    "reads ''os.name'' w = (Inr (linux_value ''os.name'' (JString nm)), w)"
    "reads ''os.pretty_name'' w = (Inr (linux_value ''os.pretty_name'' (JString pretty)), w)"
    "reads ''os.id'' w = (Inr (linux_value ''os.id'' (JString i)), w)"
    by (rule const, simp add: resources)+
  moreover have "reads ''os.uptime'' w = (Inr (linux_value ''os.uptime'' (ser s)), w1)"
    if "lh_read_to_string H ''/proc/uptime'' w = (Inr (t @ CHR '' '' # rest), w1)"
      "plain_word t" "t \<noteq> []" "fl_parse F t = Some s" for t rest s w1
    using live [of "''os.uptime''" "''System Uptime''" "uptime_read H F started"
        "sovd_value_new s" w1] uptime_read_cases(1) [OF that]
    by (simp add: resources sovd_value_new_def)
  moreover have "reads ''os.uptime'' w = (Inr (linux_value ''os.uptime'' (ser s)), w2)"
    if "lh_read_to_string H ''/proc/uptime'' w = (Inl e, w1)"
      "lh_elapsed_secs H started w1 = (s, w2)" for e s w1 w2
    using live [of "''os.uptime''" "''System Uptime''" "uptime_read H F started"
        "sovd_value_new s" w2] uptime_read_cases(2) [OF that]
    by (simp add: resources sovd_value_new_def)
  moreover have "let w1 = lh_refresh_cpu_usage H w in reads ''cpu.usage'' w =
      (Inr (linux_value ''cpu.usage'' (ser (fl_of_f32 F (lh_global_cpu_usage H w1)))), w1)"
    using live [of "''cpu.usage''" "''CPU Usage''" "cpu_usage_read H F"]
    by (simp add: resources cpu_usage_read_def sovd_value_new_def Let_def)
  moreover have "let w1 = lh_refresh_memory H w in
      \<not> fl_less F (fl_zero F) (fl_of_u64 F (lh_total_memory H w1)) \<longrightarrow>
      reads ''mem.usage'' w = (Inr (linux_value ''mem.usage'' (ser (fl_zero F))), w1)"
    using live [of "''mem.usage''" "''Memory Usage''" "memory_usage_read H F"]
    by (simp add: resources memory_usage_read_def sovd_value_new_def Let_def)
  ultimately show ?thesis by blast
qed

definition sample_host :: "(unit, unit, unit, rat, rat) linux_host" where
  "sample_host =
     \<lparr> lh_read_to_string = (\<lambda>path w. (if path = ''/proc/uptime'' then Inr ''7 9'' else Inl (), w)),
       lh_elapsed_secs = (\<lambda>_ w. (1, w)), lh_refresh_cpu_usage = (\<lambda>w. w),
       lh_global_cpu_usage = (\<lambda>_. 25), lh_refresh_memory = (\<lambda>w. w),
       lh_total_memory = (\<lambda>_. 8), lh_used_memory = (\<lambda>_. 2) \<rparr>"

definition sample_floats :: "(rat, rat) float_library" where
  "sample_floats = exact_floats (\<lambda>s. if s = ''7'' then Some 7 else None)"

definition sample_float_json :: "rat \<Rightarrow> json" where
  "sample_float_json x = JNumber (if x = 7 then ''7'' else if x = 25 then ''25'' else ''0'')"

definition sample_linux_env where
  "sample_linux_env = \<lparr> env_containers = list_containers, env_percent = plain_encoding,
     env_schema = (\<lambda>_. JNull) \<rparr>"

theorem linux_component_serves_host_witness:
  "\<exists>c. linux_component alist_map sample_host sample_floats sample_float_json (\<lambda>_. None) ()
      (parse_os_release (Inl ())) = Some (Inr c) \<and>
    component_data_read sample_linux_env (linux_topology list_containers c) ''linux'' ''os.id''
      (Inr \<lparr> rq_include_schema = False \<rparr>) () = (Inr (linux_value ''os.id'' (JString ''fedora'')), ()) \<and>
    component_data_read sample_linux_env (linux_topology list_containers c) ''linux'' ''os.uptime''
      (Inr \<lparr> rq_include_schema = False \<rparr>) () = (Inr (linux_value ''os.uptime'' (JNumber ''7'')), ())"
proof -
  let ?os = "parse_os_release (Inl () :: (unit, string) result)"
  have keys: "?os ''VERSION_ID'' = Some ''43''" "?os ''NAME'' = Some ''Fedora Linux''"
    "?os ''PRETTY_NAME'' = Some ''Fedora Linux 43 (Workstation Edition)''"
    "?os ''ID'' = Some ''fedora''"
    by (simp_all add: parse_os_release_def OS_RELEASE_FALLBACK_def insert_assignment_def
        trim_matches_def)
  obtain c where c: "linux_component alist_map sample_host sample_floats sample_float_json
      (\<lambda>_. None) () ?os = Some (Inr c)"
    by (rule linux_component_built [OF alist.ordered_map_axioms keys]) blast
  have env: "env_containers sample_linux_env = list_containers" by (simp add: sample_linux_env_def)
  have uptime: "lh_read_to_string sample_host ''/proc/uptime'' () = (Inr (''7'' @ CHR '' '' # ''9''), ())"
    "plain_word ''7''" "fl_parse sample_floats ''7'' = Some 7" "sample_float_json 7 = JNumber ''7''"
    by (simp_all add: sample_host_def plain_word_def sample_floats_def exact_floats_def
        sample_float_json_def)
  show ?thesis
    using c linux_component_serves_host [OF lists.topology_containers_axioms env
        alist.ordered_map_axioms keys c, of "()"] uptime
    by (intro exI [of _ c] conjI) (simp, simp, metis list.distinct(1))
qed

end
