(* ===== verification/Example_Servers.thy ===== *)
theory Example_Servers
  imports Linux_Example Gateway_Properties Tls
begin

text \<open>
  The example servers (\<open>src/examples/server\<close>): each puts a listener, a topology and the trace layer
  together with the server's builder, \<open>auth\<close> with token authentication and a policy and the token
  it prints, \<open>mtls\<close> with client certificates, \<open>systemd\<close> on the socket it is handed, \<open>simple\<close> with
  the Linux component.
\<close>

subsection \<open>What surrounds them\<close>

record ('io, 'tcp, 'fd, 'topo, 'l, 'sd) example_parts =
  ep_bind :: "string \<Rightarrow> ('io, 'tcp) result"
  ep_listen_fds :: "('io, 'fd list) result"
  ep_from_raw_fd :: "'fd \<Rightarrow> ('io, 'tcp) result"
  ep_tcp_local_addr :: "'tcp \<Rightarrow> ('io, string) result"
  ep_notify_ready :: "('io, unit) result"
  ep_uri_path :: "string \<Rightarrow> string option"
  ep_mock_topology :: 'topo
  ep_default_topology :: 'topo
  ep_trace_layer :: 'l
  ep_shutdown :: 'sd
  ep_server_version :: string

datatype ('io, 'enc) example_error =
    ExampleIo 'io
  | ExampleBuilder builder_error
  | ExamplePolicy string
  | ExampleEncoding 'enc
  | NoSystemdSocket
  | ExampleLinux linux_error

text \<open>\<open>Server::builder()\<close>.\<close>

definition example_builder ::
  "('r, 'l, 'w, 'e, 'i, 'b) routing_library \<Rightarrow> ('io, 'tcp, 'fd, 'topo, 'l, 'sd) example_parts \<Rightarrow>
     (('tcp, 'unix) listener, 'sd, vendor_info, ('w, 'i, unit) authenticator,
      ('w, 'i, unit) authorizer, 'topo, unit, 'l, ('w, 'e, 'i, 'b) service, tls_config)
     server_builder" where
  "example_builder A G =
     server_builder_new (ep_server_version G) (ep_shutdown G) (ep_default_topology G) (tw_identity A)"

definition simple_server where
  "simple_server A G topology =
     and_then (map_err ExampleIo (ep_bind G ''127.0.0.1:7690'')) (\<lambda>listener.
     and_then (map_err ExampleBuilder (with_base_uri (ep_uri_path G)
       ''http://127.0.0.1:7690/sovd'' (example_builder A G))) (\<lambda>builder.
     map_err ExampleBuilder (server_builder_build
       (with_layer A (ep_trace_layer G)
       (with_topology topology
       (with_listener (Tcp listener) builder))))))"

text \<open>The main function of \<open>simple\<close> up to serving; \<open>None\<close> is its panic.\<close>

definition simple_main where
  "simple_main A G L M H F ser S started os_release =
     map_option
       (\<lambda>linux. and_then (map_err ExampleLinux linux) (\<lambda>linux.
          simple_server A G (linux_topology L linux)))
       (linux_component M H F ser S started (parse_os_release os_release))"

definition mtls_config :: tls_config where
  "mtls_config = with_client_ca ''gen/certs/ca.crt''
     (tls_config_new ''gen/certs/server.crt'' ''gen/certs/server.key'')"

definition mtls_server where
  "mtls_server A G =
     and_then (map_err ExampleIo (ep_bind G ''127.0.0.1:8443'')) (\<lambda>listener.
     and_then (map_err ExampleBuilder (with_base_uri (ep_uri_path G)
       ''https://127.0.0.1:8443/sovd'' (with_tls mtls_config
         (with_listener (Tcp listener) (example_builder A G))))) (\<lambda>builder.
     map_err ExampleBuilder (server_builder_build
       (with_layer A (ep_trace_layer G)
       (with_topology (ep_mock_topology G) builder)))))"

text \<open>
  \<open>from_raw_fd\<close>, \<open>set_nonblocking\<close> and \<open>from_std\<close> together take over the descriptor; readiness is
  announced before serving, and a failure to announce it ends the program.
\<close>

definition systemd_server where
  "systemd_server A G =
     and_then (map_err ExampleIo (ep_listen_fds G)) (\<lambda>fds.
     and_then (case fds of [] \<Rightarrow> Inl NoSystemdSocket | fd # _ \<Rightarrow> Inr fd) (\<lambda>fd.
     and_then (map_err ExampleIo (ep_from_raw_fd G fd)) (\<lambda>listener.
     and_then (map_err ExampleIo (ep_tcp_local_addr G listener)) (\<lambda>addr.
     and_then (map_err ExampleBuilder (with_base_uri (ep_uri_path G)
       ''http://127.0.0.1:0/sovd'' (example_builder A G))) (\<lambda>builder.
     and_then (map_err ExampleBuilder (server_builder_build
       (with_layer A (ep_trace_layer G)
       (with_topology (ep_mock_topology G)
       (with_listener (Tcp listener) builder))))) (\<lambda>server.
     and_then (map_err ExampleIo (ep_notify_ready G)) (\<lambda>_. Inr server)))))))"

subsection \<open>Tokens\<close>

definition EXAMPLE_SECRET :: string where
  "EXAMPLE_SECRET = ''example-secret-change-in-production''"

definition EXAMPLE_ISSUER :: string where
  "EXAMPLE_ISSUER = ''OpenSOVD''"

definition saturating_add :: "64 word \<Rightarrow> 64 word \<Rightarrow> 64 word" where
  "saturating_add a b = (if unat a + unat b < 2 ^ 64 then a + b else - 1)"

text \<open>
  \<open>encode_token\<close> is \<open>jsonwebtoken::encode\<close> with the header of an algorithm and the encoding key of
  a secret; the clock is read twice.
\<close>

definition make_token ::
  "('alg, 'key) jsonwebtoken \<Rightarrow> ('alg \<Rightarrow> claims \<Rightarrow> string \<Rightarrow> ('enc, string) result) \<Rightarrow>
     64 word \<Rightarrow> 64 word \<Rightarrow> string \<Rightarrow> string \<Rightarrow> ('enc, string) result" where
  "make_token J encode_token now now' secret issuer =
     (let claims = \<lparr> cl_sub = ''demo@example.com'', cl_exp = saturating_add now 86400,
            cl_iat = Some now', cl_iss = Some issuer, cl_roles = [''reader''], cl_scope = None \<rparr>
      in encode_token (jl_hs512 J) claims secret)"

text \<open>The server of \<open>auth\<close>, with the token that is printed before serving.\<close>

definition auth_server where
  "auth_server A G J R rego_policy rego_data encode_token now now' =
     (let jwt = jwt_authenticator_new J HS512 EXAMPLE_SECRET EXAMPLE_ISSUER in
     and_then (map_err ExamplePolicy (regorus_authorizer_new R [(''policy'', Inr rego_policy)]
       [Inr rego_data])) (\<lambda>rego.
     and_then (map_err ExampleIo (ep_bind G ''127.0.0.1:8080'')) (\<lambda>listener.
     and_then (map_err ExampleBuilder (with_base_uri (ep_uri_path G)
       ''http://127.0.0.1:8080/sovd'' (example_builder A G))) (\<lambda>builder.
     and_then (map_err ExampleBuilder (server_builder_build
       (with_layer A (ep_trace_layer G)
       (with_authorizer (regorus_authorize R rego)
       (with_authenticator (jwt_authenticate J jwt)
       (with_topology (ep_mock_topology G)
       (with_listener (Tcp listener) builder))))))) (\<lambda>server.
     and_then (map_err ExampleEncoding (make_token J encode_token now now' EXAMPLE_SECRET
       EXAMPLE_ISSUER)) (\<lambda>token. Inr (server, token)))))))"

subsection \<open>Accepting the printed token\<close>

text \<open>
  A token encoded under HS512 verifies with the decoding key of its secret until it expires;
  \<open>clock\<close> is the time of verification.
\<close>

locale token_encoder = jwt_library J
  for J :: "('alg, 'key) jsonwebtoken" +
  fixes encode_token :: "'alg \<Rightarrow> claims \<Rightarrow> string \<Rightarrow> ('enc, string) result"
    and clock :: "64 word"
  assumes encoded_verifies: "encode_token (jl_hs512 J) c secret = Inr t \<Longrightarrow> clock \<le> cl_exp c \<Longrightarrow>
      jl_verified J (jl_hs512 J) (jl_from_secret J secret) t = Some c"
begin

lemma made_token_authenticates:
  assumes "make_token J encode_token now now' secret issuer = Inr token"
    and "clock \<le> saturating_add now 86400"
    and "rp_header_text parts ''authorization'' = Some (''Bearer '' @ token)"
  shows "\<exists>c. jwt_authenticate J (jwt_authenticator_new J HS512 secret issuer) parts w = (Inr c, w) \<and>
    cl_roles c = [''reader''] \<and> cl_iss c = Some issuer \<and> cl_iat c = Some now'"
proof -
  let ?c = "\<lparr> cl_sub = ''demo@example.com'', cl_exp = saturating_add now 86400,
    cl_iat = Some now', cl_iss = Some issuer, cl_roles = [''reader''], cl_scope = None \<rparr>"
  have "jl_verified J (jl_hs512 J) (jl_from_secret J secret) token = Some ?c"
    using assms(1,2) by (intro encoded_verifies) (simp_all add: make_token_def)
  then have "jwt_authenticate J (jwt_authenticator_new J HS512 secret issuer) parts w = (Inr ?c, w)"
    using assms(3) by (simp add: authenticate_Inr_iff configured_key_def configured_algorithm_def)
  then show ?thesis by (intro exI [of _ ?c]) simp
qed

end

lemma saturating_add_bound: "unat (saturating_add a b) = min (unat a + unat b) (2 ^ 64 - 1)"
proof (cases "unat a + unat b < 2 ^ 64")
  case True
  then show ?thesis by (simp add: saturating_add_def unat_add_lem [symmetric])
next
  case False
  then show ?thesis by (simp add: saturating_add_def unsigned_minus_1_eq_mask mask_eq_exp_minus_1)
qed

text \<open>A one-token table whose encoder answers that token is an instance.\<close>

definition printed_claims :: claims where
  "printed_claims = \<lparr> cl_sub = ''demo@example.com'', cl_exp = 86401, cl_iat = Some 1,
     cl_iss = Some EXAMPLE_ISSUER, cl_roles = [''reader''], cl_scope = None \<rparr>"

definition printing_encoder :: "jwt_algorithm \<Rightarrow> claims \<Rightarrow> string \<Rightarrow> (unit, string) result" where
  "printing_encoder a c secret = (if c = printed_claims then Inr ''t0k3n'' else Inl ())"

interpretation printing: token_encoder "token_table [(''t0k3n'', printed_claims)]" printing_encoder clock
  by unfold_locales (auto simp: token_table_def printing_encoder_def split: if_splits)

subsection \<open>Properties\<close>

text \<open>The server of the authentication example, as the builder leaves it.\<close>

lemma auth_server_fields:
  assumes "auth_server A G J R rego_policy rego_data encode_token now now' = Inr (server, token)"
  shows "\<exists>rego. regorus_authorizer_new R [(''policy'', Inr rego_policy)] [Inr rego_data] = Inr rego \<and>
    sv_authenticator server =
      jwt_authenticate J (jwt_authenticator_new J HS512 EXAMPLE_SECRET EXAMPLE_ISSUER) \<and>
    sv_authorizer server = regorus_authorize R rego \<and>
    sv_layer server = tw_stack A (ep_trace_layer G) (tw_identity A)"
    and "make_token J encode_token now now' EXAMPLE_SECRET EXAMPLE_ISSUER = Inr token"
  using assms
  by (auto simp: auth_server_def and_then_Inr_iff server_builder_defs server_builder_build_def
      example_builder_def server_builder_new_def split: option.splits)

text \<open>
  The authentication example lets in what it advertises and nothing else: until a day after it
  was made the printed token authenticates as a reader of this issuer, and a request without a
  verified token is answered 401 below the trace layer, whatever the routes do.
\<close>

theorem auth_example_accepts_its_token:
  assumes "routing_library A" and "token_encoder J encode_token clock"
    and "auth_server A G J R rego_policy rego_data encode_token now now' = Inr (server, token)"
    and "snd (serve A Y build_tls routes server) =
      (Inr sv :: (('io, 'te) serve_error, ('tcp, 'unix, 'tl, 'r) served) result)"
  defines "authn \<equiv> jwt_authenticate J (jwt_authenticator_new J HS512 EXAMPLE_SECRET EXAMPLE_ISSUER)"
  shows "(unat clock \<le> unat now + 86400 \<and>
      rp_header_text parts ''authorization'' = Some (''Bearer '' @ token) \<longrightarrow>
      (\<exists>c. authn parts w = (Inr c, w) \<and> cl_roles c = [''reader''] \<and>
         cl_iss c = Some EXAMPLE_ISSUER)) \<and>
    (\<exists>authz inner. ax_call A (served_router sv) =
        tw_layer A (ep_trace_layer G) (authorized_service authn authz inner) \<and>
      (fst (authn parts w) = Inl Unauthenticated \<longrightarrow>
       authorized_service authn authz inner (parts, body) w =
         (Inr \<lparr> hr_status = 401, hr_body = None \<rparr>, w)))"
proof -
  have unexpired: "clock \<le> saturating_add now 86400" if "unat clock \<le> unat now + 86400"
    using that unsigned_less [where w = clock and 'a = nat] by (simp add: word_le_nat_alt saturating_add_bound)
  have token: "\<exists>c. authn parts w = (Inr c, w) \<and> cl_roles c = [''reader''] \<and>
      cl_iss c = Some EXAMPLE_ISSUER"
    if "unat clock \<le> unat now + 86400"
      "rp_header_text parts ''authorization'' = Some (''Bearer '' @ token)"
    using token_encoder.made_token_authenticates [OF assms(2) auth_server_fields(2) [OF assms(3)]
        unexpired [OF that(1)] that(2), of w] unfolding authn_def by auto
  obtain rego where fields: "sv_authenticator server = authn"
    "sv_authorizer server = regorus_authorize R rego"
    "sv_layer server = tw_stack A (ep_trace_layer G) (tw_identity A)"
    using auth_server_fields(1) [OF assms(3)] unfolding authn_def by blast
  have "ax_call A (served_router sv) = tw_layer A (ep_trace_layer G)
      (authorized_service authn (regorus_authorize R rego)
        (ax_call A (unprotected_router A (routes (sv_vendor_info server) (sv_topology server))
          (normalize_base (sv_base server)) (sv_services server))))"
    unfolding serve_router [OF assms(4)] routing_library.build_router_call [OF assms(1)] fields
    by (simp add: routing_library.layer_stack [OF assms(1)] routing_library.layer_identity [OF assms(1)])
  moreover have "authorized_service authn authz inner (parts, body) w =
      (Inr \<lparr> hr_status = 401, hr_body = None \<rparr>, w)"
    if "fst (authn parts w) = Inl Unauthenticated" for authz inner
    using that by (cases "authn parts w")
      (auto simp: authorized_service_cases authn_def dest: authenticate_failure)
  ultimately show ?thesis using token by blast
qed

text \<open>
  The mTLS example never serves in the clear: what it serves is the TLS listener built for its
  certificate, key and client authority, over the socket it bound.
\<close>

theorem mtls_example_serves_tls_only:
  assumes "mtls_server A G = Inr server" and "snd (serve A Y build_tls routes server) = Inr sv"
  shows "\<exists>l tl r. ep_bind G ''127.0.0.1:8443'' = Inr l \<and> build_tls mtls_config l = Inr tl \<and>
      sv = ServeTls tl r"
    and "has_client_ca mtls_config"
proof -
  obtain l where l: "ep_bind G ''127.0.0.1:8443'' = Inr l" and fields:
    "sv_listener server = Tcp l" "sv_tls_config server = Some mtls_config"
    using assms(1)
    by (auto simp: mtls_server_def and_then_Inr_iff server_builder_defs server_builder_build_def
        split: option.splits)
  then show "\<exists>l tl r. ep_bind G ''127.0.0.1:8443'' = Inr l \<and> build_tls mtls_config l = Inr tl \<and>
      sv = ServeTls tl r"
    using assms(2) by (auto simp: serve_def Let_def and_then_Inr_iff map_ok_Inr_iff)
  show "has_client_ca mtls_config" by (simp add: mtls_config_def with_client_ca_def has_client_ca_def)
qed

text \<open>
  The systemd example serves the first socket it is handed, and only after its readiness was
  announced; without a socket it ends with an error.
\<close>

theorem systemd_example_serves_first_socket:
  "systemd_server A G = Inr server \<Longrightarrow>
     (\<exists>fd fds l. ep_listen_fds G = Inr (fd # fds) \<and> ep_from_raw_fd G fd = Inr l \<and>
        sv_listener server = Tcp l \<and> sv_topology server = ep_mock_topology G \<and>
        ep_notify_ready G = Inr ())"
  "ep_listen_fds G = Inr [] \<Longrightarrow> systemd_server A G = Inl NoSystemdSocket"
proof -
  show "ep_listen_fds G = Inr [] \<Longrightarrow> systemd_server A G = Inl NoSystemdSocket"
    by (simp add: systemd_server_def)
  assume server: "systemd_server A G = Inr server"
  then obtain fds where fds: "ep_listen_fds G = Inr fds"
    by (auto simp: systemd_server_def and_then_Inr_iff)
  show "\<exists>fd fds l. ep_listen_fds G = Inr (fd # fds) \<and> ep_from_raw_fd G fd = Inr l \<and>
      sv_listener server = Tcp l \<and> sv_topology server = ep_mock_topology G \<and>
      ep_notify_ready G = Inr ()"
    using server fds
    by (cases fds) (auto simp: systemd_server_def and_then_Inr_iff server_builder_defs
        server_builder_build_def split: option.splits)
qed

text \<open>
  The simple example serves the topology with the Linux component of the file it read, and only
  that; it panics exactly when the file misses an identification.
\<close>

theorem simple_example_serves_linux:
  assumes "ordered_map M"
  shows "simple_main A G L M H F ser S started content = Some (Inr server) \<Longrightarrow>
      (\<exists>c l. linux_component M H F ser S started (parse_os_release content) = Some (Inr c) \<and>
         ep_bind G ''127.0.0.1:7690'' = Inr l \<and> sv_listener server = Tcp l \<and>
         sv_topology server = linux_topology L c)"
    and "simple_main A G L M H F ser S started content = None \<longleftrightarrow>
      (\<exists>key \<in> set os_keys. parse_os_release content key = None)"
  using linux_example_needs_identification(1) [OF assms, of H F ser S started]
  by (auto simp: simple_main_def simple_server_def and_then_Inr_iff map_err_Inr_iff
      server_builder_defs server_builder_build_def split: option.splits)

end
