(* ===== verification/Programs.thy ===== *)
theory Programs
  imports Gateway Mcp Logging
begin

text \<open>
  What the binaries do around their parts: setting up tracing and waiting for a shutdown signal
  (\<open>src/opensovd-cli/lib/src/lib.rs\<close>, \<open>default_shutdown_signal\<close> of the server), the \<open>main\<close> functions of
  the gateway and the MCP server with their exit codes, what the MCP server says of itself, the
  connection information and the opaque body of the server, and the schemas of the two string
  newtypes of the models.  A panic is \<open>None\<close>.
\<close>

subsection \<open>Tracing\<close>

datatype log_sink = Stderr | LogFile string

record 'f subscriber =
  su_sink :: log_sink
  su_ansi :: "bool option"
  su_filter :: 'f

text \<open>
  \<open>from_env\<close> is \<open>EnvFilter::try_from_default_env()\<close> and \<open>new_filter\<close> the conversion of a text;
  \<open>su_ansi\<close> is \<open>None\<close> where the library's default is left.
\<close>

definition env_filter :: "('fe, 'f) result \<Rightarrow> (string \<Rightarrow> 'f) \<Rightarrow> string \<Rightarrow> 'f" where
  "env_filter from_env new_filter default_filter =
     (case from_env of Inr f \<Rightarrow> f | Inl _ \<Rightarrow> new_filter default_filter)"

text \<open>\<open>init()\<close> sets the process-wide subscriber and panics when there is one.\<close>

definition subscriber_init ::
  "'f subscriber \<Rightarrow> 'f subscriber option \<Rightarrow> 'f subscriber option option" where
  "subscriber_init s installed = (case installed of None \<Rightarrow> Some (Some s) | Some _ \<Rightarrow> None)"

definition init_tracing ::
  "(string \<Rightarrow> ('io, unit) result) \<Rightarrow> ('fe, 'f) result \<Rightarrow> (string \<Rightarrow> 'f) \<Rightarrow> string \<Rightarrow> string option \<Rightarrow>
     'f subscriber option \<Rightarrow> (('io, unit) result \<times> 'f subscriber option) option" where
  "init_tracing create from_env new_filter default_filter log_file installed =
     (let filter = env_filter from_env new_filter default_filter
      in case log_file of
           Some path \<Rightarrow>
             (case create path of
                Inl e \<Rightarrow> Some (Inl e, installed)
              | Inr _ \<Rightarrow>
                  map_option (\<lambda>g. (Inr (), g)) (subscriber_init
                    \<lparr> su_sink = LogFile path, su_ansi = Some False, su_filter = filter \<rparr> installed))
         | None \<Rightarrow>
             map_option (\<lambda>g. (Inr (), g)) (subscriber_init
               \<lparr> su_sink = Stderr, su_ansi = None, su_filter = filter \<rparr> installed))"

subsection \<open>Shutdown\<close>

text \<open>
  The two branches of \<open>select!\<close> and what happens to them: \<open>ctrl_c\<close> completes, with an error or
  not, or a SIGTERM is received.  A completed \<open>ctrl_c\<close> that does not match \<open>Ok(())\<close> disables its
  branch.  \<open>None\<close> is still waiting.
\<close>

datatype 'io signal_event = CtrlC "('io, unit) result" | SigTerm

datatype signal_name = SIGINT | SIGTERM

fun wait_for_signal :: "bool \<Rightarrow> 'io signal_event list \<Rightarrow> signal_name option" where
  "wait_for_signal ctrl_c_enabled [] = None"
| "wait_for_signal ctrl_c_enabled (CtrlC (Inr _) # es) =
     (if ctrl_c_enabled then Some SIGINT else wait_for_signal ctrl_c_enabled es)"
| "wait_for_signal ctrl_c_enabled (CtrlC (Inl _) # es) = wait_for_signal False es"
| "wait_for_signal ctrl_c_enabled (SigTerm # es) = Some SIGTERM"

text \<open>Installing the SIGTERM handler is expected to succeed: \<open>None\<close> is the panic.\<close>

definition shutdown_signal ::
  "('io, unit) result \<Rightarrow> 'io signal_event list \<Rightarrow> signal_name option option" where
  "shutdown_signal install events =
     (case install of Inl _ \<Rightarrow> None | Inr _ \<Rightarrow> Some (wait_for_signal True events))"

definition default_shutdown_signal ::
  "('io, unit) result \<Rightarrow> 'io signal_event list \<Rightarrow> signal_name option option" where
  "default_shutdown_signal install events =
     (case install of Inl _ \<Rightarrow> None | Inr _ \<Rightarrow> Some (wait_for_signal True events))"

lemma sigterm_always_ends_waiting:
  "SigTerm \<in> set events \<Longrightarrow> wait_for_signal enabled events \<noteq> None"
  by (induction enabled events rule: wait_for_signal.induct) auto

lemma waiting_goes_on:
  "wait_for_signal True events = None \<longleftrightarrow>
     SigTerm \<notin> set events \<and> (events = [] \<or> (\<exists>e. hd events = CtrlC (Inl e)))"
proof -
  have disabled: "wait_for_signal False es = None \<longleftrightarrow> SigTerm \<notin> set es" for es :: "'a signal_event list"
    by (induction "False" es rule: wait_for_signal.induct) auto
  show ?thesis
    by (cases "(True, events)" rule: wait_for_signal.cases) (auto simp: disabled)
qed

subsection \<open>Main functions\<close>

datatype exit_code = SUCCESS | FAILURE

text \<open>
  The lines written to standard error and the exit code.  \<open>initialized\<close> is what \<open>init_tracing\<close>
  answers, \<open>run_cli\<close> what running the program does, \<open>display\<close> and \<open>debug\<close> the texts of the errors.
\<close>

definition gateway_main ::
  "('io \<Rightarrow> string) \<Rightarrow> ('e \<Rightarrow> string) \<Rightarrow> (string \<Rightarrow> (('io, unit) result \<times> 'f subscriber option) option) \<Rightarrow>
     (cli \<Rightarrow> ('e, 'r) result) \<Rightarrow> cli \<Rightarrow> (string list \<times> exit_code) option" where
  "gateway_main display debug initialize run_cli cli =
     map_option (\<lambda>(initialized, _).
       (case initialized of
          Inl e \<Rightarrow> ([''Failed to initialize tracing: '' @ display e], FAILURE)
        | Inr _ \<Rightarrow>
            (case run_cli cli of
               Inl e \<Rightarrow> ([''Error: '' @ debug e], FAILURE)
             | Inr _ \<Rightarrow> ([], SUCCESS))))
       (initialize ''gw=info,srv=info,tower_http=debug,axum=trace'')"

record open_sovd_info =
  oi_version :: string
  oi_sha1 :: string
  oi_build_date :: string
  oi_name :: string

text \<open>The version, commit and date are fixed when the binary is built.\<close>

definition VENDOR_INFO :: "string \<Rightarrow> string \<Rightarrow> string \<Rightarrow> open_sovd_info" where
  "VENDOR_INFO pkg_version commit_sha build_date =
     \<lparr> oi_version = pkg_version, oi_sha1 = commit_sha, oi_build_date = build_date,
       oi_name = ''OpenSOVD'' \<rparr>"

definition open_sovd_info_to_json :: "open_sovd_info \<Rightarrow> json" where
  "open_sovd_info_to_json i = JObject
     [(''version'', JString (oi_version i)), (''sha1'', JString (oi_sha1 i)),
      (''build_date'', JString (oi_build_date i)), (''name'', JString (oi_name i))]"

definition VERSION_STRING :: "string \<Rightarrow> string \<Rightarrow> string \<Rightarrow> string" where
  "VERSION_STRING pkg_version commit_sha build_date =
     pkg_version @ '' ('' @ commit_sha @ '' '' @ build_date @ '')''"

subsection \<open>The MCP server as a program\<close>

record mcp_cli =
  mc_log :: string
  mc_url :: string

definition mcp_cli_default :: mcp_cli where
  "mcp_cli_default = \<lparr> mc_log = ''mcp.log'', mc_url = ''http://localhost:7690/sovd/v1'' \<rparr>"

record mcp_info =
  mi_name :: string
  mi_version :: string
  mi_description :: "string option"
  mi_instructions :: "string option"
  mi_tools :: bool
  mi_resources :: bool
  mi_prompts :: bool

definition get_info :: "string \<Rightarrow> string \<Rightarrow> mcp_info" where
  "get_info pkg_version pkg_description =
     \<lparr> mi_name = ''opensovd-mcp'', mi_version = pkg_version, mi_description = Some pkg_description,
       mi_instructions = Some (''OpenSOVD MCP server for vehicle diagnostics. ''
         @ ''Base URI: /sovd/v1. ''
         @ ''Entity hierarchy: Areas > Components > Apps > Functions. ''
         @ ''Each entity may expose: data, faults, operations, configurations, ''
         @ ''bulk-data, locks, and modes. ''
         @ ''Use the topology resource to explore the vehicle.''),
       mi_tools = True, mi_resources = True, mi_prompts = True \<rparr>"

datatype ('ce, 'se) mcp_serve_error = ConnectError 'ce | StartError 'se

datatype mcp_winner = ServiceStopped | ShutdownRequested

text \<open>
  \<open>start\<close> serves over standard input and output; \<open>winner\<close> is the branch of \<open>select!\<close> that completes
  first.  The result says whether the service's token was cancelled.
\<close>

definition mcp_serve ::
  "(string \<Rightarrow> ('ce, ('w, 'uri, 'x) client) result) \<Rightarrow>
     (('w, 'uri, 'x) mcp_server \<Rightarrow> ('se, unit) result) \<Rightarrow> mcp_winner \<Rightarrow> string \<Rightarrow>
     (('ce, 'se) mcp_serve_error, bool) result" where
  "mcp_serve connect start winner url =
     and_then (map_err ConnectError (connect url)) (\<lambda>client.
     and_then (map_err StartError (start (mcp_server_new client))) (\<lambda>_.
     Inr (case winner of ServiceStopped \<Rightarrow> False | ShutdownRequested \<Rightarrow> True)))"

definition mcp_main ::
  "('io \<Rightarrow> string) \<Rightarrow> ('e \<Rightarrow> string) \<Rightarrow>
     (string \<Rightarrow> string option \<Rightarrow> (('io, unit) result \<times> 'f subscriber option) option) \<Rightarrow>
     (string \<Rightarrow> ('e, 'r) result) \<Rightarrow> mcp_cli \<Rightarrow> (string list \<times> exit_code) option" where
  "mcp_main display debug initialize serve_url cli =
     map_option (\<lambda>(initialized, _).
       (case initialized of
          Inl e \<Rightarrow> ([''Failed to initialize tracing: '' @ display e], FAILURE)
        | Inr _ \<Rightarrow>
            (case serve_url (mc_url cli) of
               Inl e \<Rightarrow> ([''Error: '' @ debug e], FAILURE)
             | Inr _ \<Rightarrow> ([], SUCCESS))))
       (initialize ''info'' (Some (mc_log cli)))"

subsection \<open>Connections and bodies\<close>

record 'sa tcp_connect_info =
  tci_remote_addr :: 'sa

record ('ua, 'cred) uds_connect_info =
  uci_peer_addr :: "'ua option"
  uci_peer_cred :: "'cred option"

datatype ('sa, 'ua, 'cred) connect_info =
    ConnTcp "'sa tcp_connect_info"
  | ConnUds "('ua, 'cred) uds_connect_info"

definition result_ok :: "('e, 'a) result \<Rightarrow> 'a option" where
  "result_ok r = (case r of Inl _ \<Rightarrow> None | Inr a \<Rightarrow> Some a)"

text \<open>One function per listener; the arguments are what the accepted stream answers.\<close>

definition connect_info_tcp :: "'sa \<Rightarrow> ('sa, 'ua, 'cred) connect_info" where
  "connect_info_tcp remote_addr = ConnTcp \<lparr> tci_remote_addr = remote_addr \<rparr>"

definition connect_info_uds ::
  "('io, 'ua) result \<Rightarrow> ('io, 'cred) result \<Rightarrow> ('sa, 'ua, 'cred) connect_info" where
  "connect_info_uds peer_addr peer_cred =
     ConnUds \<lparr> uci_peer_addr = result_ok peer_addr, uci_peer_cred = result_ok peer_cred \<rparr>"

definition connect_info_tls :: "'sa \<Rightarrow> ('sa, 'ua, 'cred) connect_info" where
  "connect_info_tls remote_addr = ConnTcp \<lparr> tci_remote_addr = remote_addr \<rparr>"

text \<open>The opaque body: a wrapped body polled through its own operations.\<close>

datatype 'a poll = Pending | Ready 'a

record ('b, 'err, 'frame, 'hint) body_operations =
  bo_poll_frame :: "'b \<Rightarrow> ('err, 'frame) result option poll \<times> 'b"
  bo_size_hint :: "'b \<Rightarrow> 'hint"
  bo_is_end_stream :: "'b \<Rightarrow> bool"

datatype 'b opaque_body = Body 'b

definition body_new :: "('c \<Rightarrow> 'b) \<Rightarrow> 'c \<Rightarrow> 'b opaque_body" where
  "body_new axum_new body = Body (axum_new body)"

definition body_wrap :: "'b \<Rightarrow> 'b opaque_body" where
  "body_wrap body = Body body"

fun body_poll_frame ::
  "('b, 'err, 'frame, 'hint) body_operations \<Rightarrow> ('err \<Rightarrow> 'boxed) \<Rightarrow> 'b opaque_body \<Rightarrow>
     ('boxed, 'frame) result option poll \<times> 'b opaque_body" where
  "body_poll_frame Ops into (Body b) =
     (let (p, b') = bo_poll_frame Ops b
      in (case p of Pending \<Rightarrow> Pending | Ready f \<Rightarrow> Ready (map_option (map_err into) f), Body b'))"

fun body_size_hint :: "('b, 'err, 'frame, 'hint) body_operations \<Rightarrow> 'b opaque_body \<Rightarrow> 'hint" where
  "body_size_hint Ops (Body b) = bo_size_hint Ops b"

fun body_is_end_stream :: "('b, 'err, 'frame, 'hint) body_operations \<Rightarrow> 'b opaque_body \<Rightarrow> bool" where
  "body_is_end_stream Ops (Body b) = bo_is_end_stream Ops b"

subsection \<open>Schemas of the string newtypes\<close>

definition uri_reference_schema_name :: string where
  "uri_reference_schema_name = ''UriReference''"

definition uri_reference_json_schema :: json where
  "uri_reference_json_schema =
     JObject [(''type'', JString ''string''), (''format'', JString ''uri-reference'')]"

definition json_pointer_schema_name :: string where
  "json_pointer_schema_name = ''JsonPointer''"

definition json_pointer_json_schema :: json where
  "json_pointer_json_schema =
     JObject [(''type'', JString ''string''), (''format'', JString ''json-pointer'')]"

subsection \<open>Properties\<close>

text \<open>
  A set-up that fails leaves the subscriber as it was and writes no log; one that succeeds
  installs the filter of the environment if it has one; a second set-up panics.
\<close>

lemma init_tracing_outcome:
  assumes "init_tracing create from_env new_filter default_filter log_file installed = Some (r, installed')"
  shows "case r of
      Inl e \<Rightarrow> installed' = installed \<and> (\<exists>path. log_file = Some path \<and> create path = Inl e)
    | Inr _ \<Rightarrow> installed = None \<and> (\<exists>s. installed' = Some s \<and>
        su_filter s = (case from_env of Inr f \<Rightarrow> f | Inl _ \<Rightarrow> new_filter default_filter) \<and>
        su_sink s = (case log_file of None \<Rightarrow> Stderr | Some path \<Rightarrow> LogFile path))"
  using assms
  by (cases r) (auto simp: init_tracing_def subscriber_init_def env_filter_def Let_def
      split: option.splits sum.splits)

text \<open>
  The exit code tells whether the program ran: a failure is always explained on standard error,
  and the MCP server, whose standard output is its transport, logs to its file only.
\<close>

theorem exit_codes_are_explained:
  assumes "gateway_main display debug initialize run_cli cli = Some (texts, code)"
  shows "(code = SUCCESS \<longleftrightarrow> texts = []) \<and>
    (code = SUCCESS \<longleftrightarrow> (\<exists>r. run_cli cli = Inr r) \<and>
       (\<exists>g. initialize ''gw=info,srv=info,tower_http=debug,axum=trace'' = Some (Inr (), g)))"
proof -
  obtain r g where "initialize ''gw=info,srv=info,tower_http=debug,axum=trace'' = Some (r, g)"
    using assms by (auto simp: gateway_main_def)
  then show ?thesis
    using assms by (cases r; cases "run_cli cli") (auto simp: gateway_main_def)
qed

theorem mcp_logs_to_its_file:
  assumes "mcp_main display debug (\<lambda>f log.
      init_tracing create from_env new_filter f log None) serve_url cli = Some (texts, code)"
  shows "(code = SUCCESS \<longleftrightarrow> texts = []) \<and>
    (code = SUCCESS \<longleftrightarrow> create (mc_log cli) = Inr () \<and> (\<exists>r. serve_url (mc_url cli) = Inr r)) \<and>
    (\<forall>s. init_tracing create from_env new_filter ''info'' (Some (mc_log cli)) None =
       Some (Inr (), Some s) \<longrightarrow> su_sink s = LogFile (mc_log cli))"
  using assms
  by (cases "create (mc_log cli)"; cases "serve_url (mc_url cli)")
    (auto simp: mcp_main_def init_tracing_def subscriber_init_def Let_def)

end
