(* ===== verification/Gateway_System.thy ===== *)
theory Gateway_System
  imports Gateway_Properties Service Mocks
begin

text \<open>
  The gateway as a whole: the router of \<open>src/opensovd-server/src/routes/mod.rs\<close> as a service, nested
  below the base path of the URL, protected by the token authentication of
  \<open>src/opensovd-cli/gateway/src/main.rs\<close> and serving the mock topology, from the command line to
  the body of the response.
\<close>

subsection \<open>The router as a service\<close>

definition method_of :: "string \<Rightarrow> http_method option" where
  "method_of s = (if s = ''GET'' then Some GET else if s = ''PUT'' then Some PUT else None)"

text \<open>The handlers the table selects for a whole path, with their path parameters.\<close>

definition route_calls :: "http_method \<Rightarrow> string \<Rightarrow> (endpoint \<times> string list) list" where
  "route_calls meth path =
     (let segs = target_segments path
      in map (\<lambda>(_, ps, h). (h, path_params ps segs))
           (filter (\<lambda>(me, ps, _). me = meth \<and> path_matches ps segs) router))"

lemma route_calls_below_version:
  "route_calls meth (CHR ''/'' # API_VERSION @ CHR ''/'' # path) = calls router meth (CHR ''/'' # path)"
  by (simp add: route_calls_def calls_def target_segments_def path_segments_def API_VERSION_def
      split: prod.splits)

text \<open>
  \<open>routes::router\<close> as the service it is: a request carries its query and its JSON body beside its
  parts.
\<close>

definition routes_router ::
  "('mc, 'ma, 'mr, 's, 'w, 'set) route_env \<Rightarrow> query_library \<Rightarrow> ('v \<Rightarrow> json) \<Rightarrow> 'v option \<Rightarrow>
     ('mc, 'ma, 'mr, 's) topology_state \<Rightarrow> ('w, 'e, 'i, string \<times> json option) service" where
  "routes_router E Q enc vendor_info topology req w =
     (let (parts, query, body) = req;
          (a, w') =
            (case Option.bind (method_of (rp_method parts))
               (\<lambda>meth. case route_calls meth (rp_path parts) of [] \<Rightarrow> None | c # _ \<Rightarrow> Some c) of
               Some (endpoint, args) \<Rightarrow>
                 endpoint_answer E Q enc vendor_info topology parts query body endpoint args w
             | None \<Rightarrow>
                 ((if route_calls GET (rp_path parts) = [] \<and> route_calls PUT (rp_path parts) = []
                   then 404 else 405, None), w))
      in (Inr \<lparr> hr_status = fst a, hr_body = snd a \<rparr>, w'))"

subsection \<open>Nesting\<close>

text \<open>
  axum's documented \<open>nest\<close>: a request below the prefix reaches the nested router without it;
  merging with an empty router changes nothing.
\<close>

locale nesting_library = routing_library A
  for A :: "('r, 'l, 'w, 'e, 'i, 'b) routing_library" +
  assumes nest_below: "rp_path parts = path @ CHR ''/'' # rest \<Longrightarrow>
      ax_call A (ax_nest A path inner (ax_new A)) (parts, b) w =
        ax_call A inner (parts\<lparr>rp_path := CHR ''/'' # rest\<rparr>, b) w"
    and merge_new: "ax_call A (ax_merge A inner (ax_new A)) = ax_call A inner"

definition base_prefix :: "string \<Rightarrow> string" where
  "base_prefix base = (case normalize_base base of None \<Rightarrow> [] | Some path \<Rightarrow> path)"

context nesting_library
begin

lemma unprotected_below:
  assumes "rp_path parts = base_prefix base @ CHR ''/'' # rest"
  shows "ax_call A (unprotected_router A inner (normalize_base base) []) (parts, b) w =
    ax_call A inner (parts\<lparr>rp_path := CHR ''/'' # rest\<rparr>, b) w"
proof (cases "normalize_base base")
  case None
  then show ?thesis
    using assms by (cases parts) (simp add: unprotected_router_def merge_new base_prefix_def)
next
  case (Some path)
  then show ?thesis
    using assms by (simp add: unprotected_router_def base_prefix_def nest_below [of parts path])
qed

end

text \<open>Routers that are their services, nested by the prefix of the path, meet the laws.\<close>

definition path_routing ::
  "(('w, 'e, 'i, 'b) service, ('w, 'e, 'i, 'b) service \<Rightarrow> ('w, 'e, 'i, 'b) service, 'w, 'e, 'i, 'b)
     routing_library" where
  "path_routing = plain_routing\<lparr>
     ax_nest := (\<lambda>path inner r req w.
       (case strip_prefix path (rp_path (fst req)) of
          Some (c # rest) \<Rightarrow>
            if c = CHR ''/'' then inner ((fst req)\<lparr>rp_path := CHR ''/'' # rest\<rparr>, snd req) w
            else r req w
        | _ \<Rightarrow> r req w))\<rparr>"

lemma strip_prefix_append [simp]: "strip_prefix p (p @ s) = Some s"
  by (simp only: strip_prefix_Some_iff)

interpretation path_routing: nesting_library path_routing
  by unfold_locales (simp_all add: path_routing_def plain_routing_def)

subsection \<open>Paths of data resources\<close>

definition plain_segment :: "string \<Rightarrow> bool" where
  "plain_segment s \<longleftrightarrow> s \<noteq> [] \<and> CHR ''/'' \<notin> set s \<and> CHR ''?'' \<notin> set s \<and> CHR ''%'' \<notin> set s"

lemma percent_decode_plain_segment: "CHR ''%'' \<notin> set s \<Longrightarrow> percent_decode s = s"
  by (induction s rule: percent_decode.induct) auto

lemma data_target_segments:
  assumes "plain_segment i" and "plain_segment d"
  shows "target_segments (''/v1/components/'' @ i @ ''/data/'' @ d) =
      [''v1'', ''components'', i, ''data'', d]"
    and "target_segments (''/v1/apps/'' @ i @ ''/data/'' @ d) = [''v1'', ''apps'', i, ''data'', d]"
proof -
  have whole: "takeWhile (\<lambda>c. c \<noteq> CHR ''?'') (s @ i @ ''/data/'' @ d) = s @ i @ ''/data/'' @ d"
    if "CHR ''?'' \<notin> set s" for s
    using assms that by (intro no_query) (auto simp: plain_segment_def)
  have rest: "split_at_slash (i @ ''/data/'' @ d) = (i, [''data'', d])"
    using assms split_at_slash_append [of i "''/data/'' @ d"] by (simp add: plain_segment_def)
  show "target_segments (''/v1/components/'' @ i @ ''/data/'' @ d) =
      [''v1'', ''components'', i, ''data'', d]"
    unfolding target_segments_def by (subst whole) (simp_all add: path_segments_def rest [simplified])
  show "target_segments (''/v1/apps/'' @ i @ ''/data/'' @ d) = [''v1'', ''apps'', i, ''data'', d]"
    unfolding target_segments_def by (subst whole) (simp_all add: path_segments_def rest [simplified])
qed

lemma data_route_calls:
  assumes "plain_segment i" and "plain_segment d"
  shows "route_calls GET (''/v1/components/'' @ i @ ''/data/'' @ d) = [(ComponentDataRead, [i, d])]"
    and "route_calls PUT (''/v1/components/'' @ i @ ''/data/'' @ d) = [(ComponentDataWrite, [i, d])]"
    and "route_calls GET (''/v1/apps/'' @ i @ ''/data/'' @ d) = [(AppDataRead, [i, d])]"
    and "route_calls PUT (''/v1/apps/'' @ i @ ''/data/'' @ d) = [(AppDataWrite, [i, d])]"
proof -
  note facts = route_calls_def data_target_segments [OF assms] router_defs
    percent_decode_plain_segment
  have segments: "i \<noteq> []" "d \<noteq> []" "CHR ''%'' \<notin> set i" "CHR ''%'' \<notin> set d"
    using assms by (simp_all add: plain_segment_def)
  show "route_calls GET (''/v1/components/'' @ i @ ''/data/'' @ d) = [(ComponentDataRead, [i, d])]"
    "route_calls PUT (''/v1/components/'' @ i @ ''/data/'' @ d) = [(ComponentDataWrite, [i, d])]"
    unfolding facts(1,2) Let_def by (simp_all add: facts(4-) segments)
  show "route_calls GET (''/v1/apps/'' @ i @ ''/data/'' @ d) = [(AppDataRead, [i, d])]"
    "route_calls PUT (''/v1/apps/'' @ i @ ''/data/'' @ d) = [(AppDataWrite, [i, d])]"
    unfolding facts(1,3) Let_def by (simp_all add: facts(4-) segments)
qed

subsection \<open>Answers\<close>

text \<open>The token of a request verifies under the configuration of the command line.\<close>

definition token_accepted ::
  "('alg, 'key) jsonwebtoken \<Rightarrow> (string \<Rightarrow> ('b64, string) result) \<Rightarrow> auth_args \<Rightarrow>
     'i request_parts \<Rightarrow> bool" where
  "token_accepted J base64_decode auth parts \<longleftrightarrow>
     (\<exists>algo key secret t c. aa_jwt_key auth = Some secret \<and> base64_decode secret = Inr key \<and>
        jwt_algorithm_from_str (aa_jwt_algo auth) = Inr algo \<and>
        rp_header_text parts ''authorization'' = Some (''Bearer '' @ t) \<and>
        jl_verified J (configured_algorithm J algo) (configured_key J algo key) t = Some c \<and>
        (cl_iss c = None \<or> cl_iss c = Some (aa_jwt_issuer auth)))"

text \<open>The JSON body of a value that was read.\<close>

definition value_answer :: "string \<Rightarrow> json \<Rightarrow> http_response" where
  "value_answer d v = \<lparr> hr_status = 200, hr_body = Some (JObject
     [(''id'', JString d), (''data'', JObject [(''value'', v)])]) \<rparr>"

text \<open>The answer to a write of a constant.\<close>

definition read_only_answer :: http_response where
  "read_only_answer = \<lparr> hr_status = 400, hr_body = Some (generic_error_to_json
     (generic_error_new ErrorResponse ''read only'')) \<rparr>"

lemma mock_values_plain:
  "(i, d, v) \<in> set component_values \<Longrightarrow> plain_segment i \<and> plain_segment d"
  "(i, d, v) \<in> set app_values \<Longrightarrow> plain_segment i \<and> plain_segment d"
  by (auto simp: component_values_def app_values_def plain_segment_def)

text \<open>Requests for a data resource of the mock topology, at the routes' own router.\<close>

lemma mock_resource_answers:
  assumes "topology_containers (env_containers E)" and "ordered_map M" and "query_laws Q"
    and "create_mock_topology (env_containers E) M Sch = Some topo"
  shows "(i, d, v) \<in> set component_values \<Longrightarrow> rp_method parts = ''GET'' \<Longrightarrow>
      routes_router E Q enc vendor topo
        (parts\<lparr>rp_path := ''/v1/components/'' @ i @ ''/data/'' @ d\<rparr>, [], body) w =
      (Inr (value_answer d v), w)"
    and "(i, d, v) \<in> set component_values \<Longrightarrow> rp_method parts = ''PUT'' \<Longrightarrow>
      Option.bind body write_request_of_json = Some b \<Longrightarrow>
      routes_router E Q enc vendor topo
        (parts\<lparr>rp_path := ''/v1/components/'' @ i @ ''/data/'' @ d\<rparr>, [], body) w =
      (Inr read_only_answer, w)"
    and "(i, d, v) \<in> set app_values \<Longrightarrow> rp_method parts = ''GET'' \<Longrightarrow>
      routes_router E Q enc vendor topo
        (parts\<lparr>rp_path := ''/v1/apps/'' @ i @ ''/data/'' @ d\<rparr>, [], body) w =
      (Inr (value_answer d v), w)"
    and "(i, d, v) \<in> set app_values \<Longrightarrow> rp_method parts = ''PUT'' \<Longrightarrow>
      Option.bind body write_request_of_json = Some b \<Longrightarrow>
      routes_router E Q enc vendor topo
        (parts\<lparr>rp_path := ''/v1/apps/'' @ i @ ''/data/'' @ d\<rparr>, [], body) w =
      (Inr read_only_answer, w)"
proof -
  have reads: "component_data_read E topo i d (Inr \<lparr> rq_include_schema = False \<rparr>) w =
        (Inr \<lparr> rr_id = d, rr_data = JObject [(''value'', v)], rr_errors = None, rr_schema = None \<rparr>, w) \<and>
      component_data_write E topo i d b w = (Inl (DataFailure ReadOnly), w)"
    if "(i, d, v) \<in> set component_values"
    using mock_topology_is_served [OF assms(1,2) refl, where S = Sch] assms(4) that
    by (fastforce simp: list_all_iff)
  have app_reads: "app_data_read E topo i d (Inr \<lparr> rq_include_schema = False \<rparr>) w =
        (Inr \<lparr> rr_id = d, rr_data = JObject [(''value'', v)], rr_errors = None, rr_schema = None \<rparr>, w) \<and>
      app_data_write E topo i d b w = (Inl (DataFailure ReadOnly), w)"
    if "(i, d, v) \<in> set app_values"
    using mock_topology_is_served [OF assms(1,2) refl, where S = Sch] assms(4) that
    by (fastforce simp: list_all_iff)
  note answers = routes_router_def method_of_def acting_def json_answer_def respond_def
    read_response_to_json_def skip_none_def value_answer_def query_laws.read_plain_queries [OF assms(3)]
    with_body_def status_answer_def read_only_answer_def bind_eq_Some_conv
  show "(i, d, v) \<in> set component_values \<Longrightarrow> rp_method parts = ''GET'' \<Longrightarrow>
      routes_router E Q enc vendor topo
        (parts\<lparr>rp_path := ''/v1/components/'' @ i @ ''/data/'' @ d\<rparr>, [], body) w =
      (Inr (value_answer d v), w)"
    using data_route_calls(1) [of i d, simplified] mock_values_plain(1) [of i d v] reads
    by (simp add: answers)
  show "(i, d, v) \<in> set component_values \<Longrightarrow> rp_method parts = ''PUT'' \<Longrightarrow>
      Option.bind body write_request_of_json = Some b \<Longrightarrow>
      routes_router E Q enc vendor topo
        (parts\<lparr>rp_path := ''/v1/components/'' @ i @ ''/data/'' @ d\<rparr>, [], body) w =
      (Inr read_only_answer, w)"
    using data_route_calls(2) [of i d, simplified] mock_values_plain(1) [of i d v] reads
    by (auto simp: answers)
  show "(i, d, v) \<in> set app_values \<Longrightarrow> rp_method parts = ''GET'' \<Longrightarrow>
      routes_router E Q enc vendor topo
        (parts\<lparr>rp_path := ''/v1/apps/'' @ i @ ''/data/'' @ d\<rparr>, [], body) w =
      (Inr (value_answer d v), w)"
    using data_route_calls(3) [of i d, simplified] mock_values_plain(2) [of i d v] app_reads
    by (simp add: answers)
  show "(i, d, v) \<in> set app_values \<Longrightarrow> rp_method parts = ''PUT'' \<Longrightarrow>
      Option.bind body write_request_of_json = Some b \<Longrightarrow>
      routes_router E Q enc vendor topo
        (parts\<lparr>rp_path := ''/v1/apps/'' @ i @ ''/data/'' @ d\<rparr>, [], body) w =
      (Inr read_only_answer, w)"
    using data_route_calls(4) [of i d, simplified] mock_values_plain(2) [of i d v] app_reads
    by (auto simp: answers)
qed

text \<open>What the gateway serves: its routes below the base path, behind the configured tokens.\<close>

lemma gateway_router_call:
  assumes "nesting_library A" and "aa_jwt_key (cli_auth cli) = Some secret"
    and "aa_policy (cli_auth cli) = []" and "co_origins (cli_cors cli) = []"
    and "cli_serve_dir cli = None" and "cli_mock cli"
    and "\<And>s. tw_layer A (gp_trace_layer G) s = s" and "\<And>s. tw_layer A (gp_option_layer G None) s = s"
    and "gp_url G (cli_url cli) = Some (u, Some authority)" and "gp_uri_path G u = Some base"
    and "run J R b64 rd serve_open (gateway_serve A S K G Y build_tls routes) cli =
      (Inr sv :: (('b64, 'io, 'te) gateway_error, ('tcp, 'unix, 'tl, 'r) served) result)"
  shows "\<exists>algo key. jwt_algorithm_from_str (aa_jwt_algo (cli_auth cli)) = Inr algo \<and>
    b64 secret = Inr key \<and>
    ax_call A (served_router sv) =
      authorized_service
        (jwt_authenticate J (jwt_authenticator_new J algo key (aa_jwt_issuer (cli_auth cli)))) allow_all
        (ax_call A (unprotected_router A (routes (Some (gp_vendor_info G)) (gp_mock_topology G))
          (normalize_base base) []))"
proof -
  have rl: "routing_library A" using assms(1) by (rule nesting_library.axioms)
  obtain algo key where algo: "jwt_algorithm_from_str (aa_jwt_algo (cli_auth cli)) = Inr algo"
    and key: "b64 secret = Inr key"
    and serve: "gateway_serve A S K G Y build_tls routes cli
      (jwt_authenticate J (jwt_authenticator_new J algo key (aa_jwt_issuer (cli_auth cli)))) allow_all =
      (Inr sv :: (('b64, 'io, 'te) gateway_error, ('tcp, 'unix, 'tl, 'r) served) result)"
    using assms(2,3,11) by (auto simp: run_def create_jwt_authenticator_def and_then_Inr_iff)
  obtain server where server: "gateway_server A S K G cli
      (jwt_authenticate J (jwt_authenticator_new J algo key (aa_jwt_issuer (cli_auth cli)))) allow_all =
      (Inr server :: (('b64, 'io, 'te) gateway_error, _) result)"
    and sv: "snd (serve A Y build_tls routes server) = Inr sv"
    using serve by (auto simp: gateway_serve_def and_then_Inr_iff)
  note fields = gateway_server_Inr [OF server]
  have "cors_of K cli = Inr None" using assms(4) by (simp add: cors_of_def create_cors_layer_def Let_def)
  moreover have "extra_services G cli = []" using assms(5) by (simp add: extra_services_def)
  ultimately have "sv_layer server = tw_stack A (gp_option_layer G None)
      (tw_stack A (gp_trace_layer G) (tw_identity A))" "sv_base server = base"
    "sv_services server = []"
    using fields(3,4) assms(9,10) by auto
  then have "ax_call A (served_router sv) = authorized_service
        (jwt_authenticate J (jwt_authenticator_new J algo key (aa_jwt_issuer (cli_auth cli)))) allow_all
        (ax_call A (unprotected_router A (routes (Some (gp_vendor_info G)) (gp_mock_topology G))
          (normalize_base base) []))"
    unfolding serve_router [OF sv] routing_library.build_router_call [OF rl]
    using fields(1,2,5,7) assms(6-8)
    by (simp add: routing_library.layer_stack [OF rl] routing_library.layer_identity [OF rl])
  with algo key show ?thesis by blast
qed

lemma authenticated_call:
  fixes w :: 'w and parts :: "claims request_parts"
  assumes "jwt_library J" and "aa_jwt_key auth = Some secret" and "decode secret = Inr key"
    and "jwt_algorithm_from_str (aa_jwt_algo auth) = Inr algo"
    and inner: "\<And>c. inner (parts\<lparr>rp_identity := Some c\<rparr>, body) w = (Inr answer, w)"
  shows "authorized_service
      (jwt_authenticate J (jwt_authenticator_new J algo key (aa_jwt_issuer auth))) allow_all
      inner (parts, body) w =
    (Inr (if token_accepted J decode auth parts then answer else \<lparr> hr_status = 401, hr_body = None \<rparr>), w)"
proof -
  define a :: "('w, claims, claims) authenticator" where
    "a = jwt_authenticate J (jwt_authenticator_new J algo key (aa_jwt_issuer auth))"
  have accepted: "token_accepted J decode auth parts \<longleftrightarrow> (\<exists>c. a parts w = (Inr c, w))"
    using assms(2-4) unfolding a_def jwt_library.authenticate_Inr_iff [OF assms(1)]
    by (auto simp: token_accepted_def)
  have failed: "e = Unauthenticated \<and> w' = w" if "a parts w = (Inl e, w')" for e w'
    using that unfolding a_def by (rule authenticate_failure)
  have passed: "w' = w" if "a parts w = (Inr c, w')" for c w'
    using that unfolding a_def jwt_library.authenticate_Inr_iff [OF assms(1)] by blast
  show ?thesis
  proof (cases "fst (a parts w)")
    case (Inl e)
    then have "a parts w = (Inl Unauthenticated, w)"
      using failed [of e "snd (a parts w)"] by (simp add: prod_eq_iff)
    then show ?thesis
      using accepted unfolding a_def [symmetric] by (simp add: authorized_service_cases)
  next
    case (Inr c)
    then have "a parts w = (Inr c, w)"
      using passed [of c "snd (a parts w)"] by (simp add: prod_eq_iff)
    then show ?thesis
      using accepted inner unfolding a_def [symmetric]
      by (simp add: authorized_service_cases allow_all_def)
  qed
qed

subsection \<open>Properties\<close>


definition mock_gateway_parts ::
  "'topo \<Rightarrow> ('topo, ((nat, unit, claims, string \<times> json option) service \<Rightarrow>
     (nat, unit, claims, string \<times> json option) service), (string, string, string) cors_view,
     (nat, unit, claims, string \<times> json option) service, vendor_info, unit) gateway_parts" where
  "mock_gateway_parts topo = \<lparr> gp_url = (\<lambda>_. Some (''/sovd'', Some ''localhost:7690'')),
     gp_uri_path = Some, gp_mock_topology = topo, gp_default_topology = topo,
     gp_trace_layer = (\<lambda>s. s), gp_option_layer = (\<lambda>_ s. s),
     gp_serve_dir = (\<lambda>_. ax_new path_routing),
     gp_vendor_info = \<lparr> ve_version = ''0.1.0'', ve_name = ''OpenSOVD'' \<rparr>, gp_shutdown = (),
     gp_server_version = ''0.1.0'' \<rparr>"

definition mock_cli :: cli where
  "mock_cli = (sample_cli (sample_auth (Some ''secret'') []))\<lparr>cli_mock := True,
     cli_cors := \<lparr> co_origins = [], co_methods = [], co_headers = [], co_credentials = False,
       co_max_age = None \<rparr>\<rparr>"

definition mock_env ::
  "((string \<times> nat component) list, (string \<times> nat app) list, (string \<times> nat area) list, string list,
    nat, char \<Rightarrow> bool) route_env" where
  "mock_env = \<lparr> env_containers = list_containers, env_percent = plain_encoding,
     env_schema = (\<lambda>_. JNull) \<rparr>"

type_synonym mock_topology_state =
  "((string \<times> nat component) list, (string \<times> nat app) list, (string \<times> nat area) list, string list)
     topology_state"

type_synonym mock_service = "(nat, unit, claims, string \<times> json option) service"

definition mock_serve ::
  "mock_topology_state \<Rightarrow> cli \<Rightarrow> (nat, claims, claims) authenticator \<Rightarrow>
     (nat, claims, claims) authorizer \<Rightarrow>
     ((unit, string, unit) gateway_error, (unit, unit, unit, mock_service) served) result" where
  "mock_serve topo = gateway_serve path_routing sample_os plain_cors (mock_gateway_parts topo)
     sample_sockets (\<lambda>_ _. Inl () :: (unit, unit) result)
     (\<lambda>v t. routes_router mock_env plain_query vendor_info_to_json v t)"

lemma mock_arguments [simp]:
  "cli_auth mock_cli = sample_auth (Some ''secret'') []" "co_origins (cli_cors mock_cli) = []"
  "cli_serve_dir mock_cli = None" "cli_mock mock_cli"
  by (simp_all add: mock_cli_def sample_cli_def)

lemma mock_serves:
  "\<exists>r. mock_serve topo mock_cli authn authz = Inr (ServeUnix () r)"
  by (simp add: mock_serve_def mock_gateway_parts_def gateway_serve_def sample_gateway mock_cli_def
      create_cors_layer_def Let_def serve_def sample_sockets_def local_addr_def)


end
