(* ===== verification/Topology_Tests.thy ===== *)
theory Topology_Tests
  imports Topology_Properties
begin

text \<open>
  The unit tests of \<open>src/opensovd-core/src/topology.rs\<close> (module \<open>tests\<close>) as statements about the
  model.  Each test is a definition that makes the calls of the test function and answers its
  assertions; the containers and the lock stay parameters, so that the test suite is proved to
  pass for every implementation that meets their laws.
\<close>

subsection \<open>Calls and assertions\<close>

text \<open>One temporary or block that holds the write guard: its calls, then its \<open>Drop\<close>.\<close>

definition write_calls ::
  "('mc, 'ma, 'mr, 's, 'w) containers \<Rightarrow> ('l, 'tx) sync_primitives \<Rightarrow> 'w topology_op list \<Rightarrow>
     (('mc, 'ma, 'mr, 's) topology_state, 'l, 'tx) topology_inner \<Rightarrow>
     (('mc, 'ma, 'mr, 's) topology_state, 'l, 'tx) topology_inner" where
  "write_calls L Y ops topology =
     (let t = run_ops L ops (topology_write (ti_state topology))
      in topology\<lparr>ti_state := wg_state t, ti_events := guard_drop Y (wg_pending t) (ti_events topology)\<rparr>)"

text \<open>\<open>assert_eq!(x.unwrap().id(), id)\<close> on a result, and on the option in a result.\<close>

definition found_with :: "('a \<Rightarrow> 'b) \<Rightarrow> 'b \<Rightarrow> ('e, 'a) result \<Rightarrow> bool" where
  "found_with f v r = (case r of Inl _ \<Rightarrow> False | Inr a \<Rightarrow> f a = v)"

definition relates_to :: "('a \<Rightarrow> 'b) \<Rightarrow> 'b \<Rightarrow> ('e, 'a option) result \<Rightarrow> bool" where
  "relates_to f v r = (case r of Inr (Some a) \<Rightarrow> f a = v | _ \<Rightarrow> False)"

definition relates_to_nothing :: "('e, 'a option) result \<Rightarrow> bool" where
  "relates_to_nothing r = (case r of Inr None \<Rightarrow> True | _ \<Rightarrow> False)"

definition is_err :: "('e, 'a) result \<Rightarrow> bool" where
  "is_err r = (case r of Inl _ \<Rightarrow> True | Inr _ \<Rightarrow> False)"

definition is_not_found :: "(topology_error, 'a) result \<Rightarrow> bool" where
  "is_not_found r = (case r of Inl (TopologyNotFound _) \<Rightarrow> True | _ \<Rightarrow> False)"

text \<open>What a receiver that subscribed at \<open>before\<close> has not read yet.\<close>

definition unread ::
  "('l, 'tx) sync_primitives \<Rightarrow> ('t, 'l, 'tx) topology_inner \<Rightarrow> ('t, 'l, 'tx) topology_inner \<Rightarrow>
     topology_event list" where
  "unread Y before topology =
     drop (length (bc_sent Y (ti_events before))) (bc_sent Y (ti_events topology))"

subsection \<open>The tests\<close>

definition test_topology_empty ::
  "('mc, 'ma, 'mr, 's, 'w) containers \<Rightarrow> ('l, 'tx) sync_primitives \<Rightarrow> bool" where
  "test_topology_empty L Y =
     (let t0 = topology_new L Y
      in length (components L (ti_state t0)) = 0)"

definition test_topology_get_component ::
  "('mc, 'ma, 'mr, 's, 'w) containers \<Rightarrow> ('l, 'tx) sync_primitives \<Rightarrow> bool" where
  "test_topology_get_component L Y =
     (let t0 = topology_new L Y;
          t1 = write_calls L Y [AddComponent (component_new ''ecu'' ''ECU'')] t0
      in found_with component_id ''ecu'' (get_component L (ti_state t1) ''ecu''))"

definition test_topology_get_nonexistent ::
  "('mc, 'ma, 'mr, 's, 'w) containers \<Rightarrow> ('l, 'tx) sync_primitives \<Rightarrow> bool" where
  "test_topology_get_nonexistent L Y =
     (let t0 = topology_new L Y
      in is_err (get_component L (ti_state t0) ''nonexistent''))"

definition test_topology_list ::
  "('mc, 'ma, 'mr, 's, 'w) containers \<Rightarrow> ('l, 'tx) sync_primitives \<Rightarrow> bool" where
  "test_topology_list L Y =
     (let t0 = topology_new L Y;
          t1 = write_calls L Y [AddComponent (component_new ''ecu1'' ''ECU 1''),
            AddComponent (component_new ''ecu2'' ''ECU 2'')] t0
      in length (components L (ti_state t1)) = 2)"

definition test_topology_clone ::
  "('mc, 'ma, 'mr, 's, 'w) containers \<Rightarrow> ('l, 'tx) sync_primitives \<Rightarrow> bool" where
  "test_topology_clone L Y =
     (let t0 = topology_new L Y;
          t1 = write_calls L Y [AddComponent (component_new ''ecu'' ''ECU'')] t0
      in found_with component_id ''ecu'' (get_component L (ti_state t1) ''ecu''))"

definition test_topology_subscribe_add_remove ::
  "('mc, 'ma, 'mr, 's, 'w) containers \<Rightarrow> ('l, 'tx) sync_primitives \<Rightarrow> bool" where
  "test_topology_subscribe_add_remove L Y =
     (let t0 = topology_new L Y;
          t1 = write_calls L Y [AddComponent (component_new ''ecu1'' ''ECU 1'')] t0;
          t2 = write_calls L Y [RemoveComponent ''ecu1''] t1
      in unread Y t0 t1 = [Added (entity_ref_component ''ecu1'')] \<and>
         unread Y t1 t2 = [Removed (entity_ref_component ''ecu1'')])"

definition test_add_areas ::
  "('mc, 'ma, 'mr, 's, 'w) containers \<Rightarrow> ('l, 'tx) sync_primitives \<Rightarrow> bool" where
  "test_add_areas L Y =
     (let t0 = topology_new L Y;
          t1 = write_calls L Y [AddArea (area_new ''powertrain'' ''Powertrain Domain''),
            AddArea (area_new ''network'' ''Network Domain'')] t0
      in length (areas L (ti_state t1)) = 2 \<and>
         found_with area_id ''powertrain'' (get_area L (ti_state t1) ''powertrain'') \<and>
         found_with area_id ''network'' (get_area L (ti_state t1) ''network''))"

definition test_remove_areas ::
  "('mc, 'ma, 'mr, 's, 'w) containers \<Rightarrow> ('l, 'tx) sync_primitives \<Rightarrow> bool" where
  "test_remove_areas L Y =
     (let t0 = topology_new L Y;
          t1 = write_calls L Y [AddArea (area_new ''powertrain'' ''Powertrain Domain''),
            AddArea (area_new ''network'' ''Network Domain'')] t0;
          t2 = write_calls L Y [RemoveArea ''powertrain''] t1
      in length (areas L (ti_state t2)) = 1 \<and>
         is_err (get_area L (ti_state t2) ''powertrain''))"

definition test_add_overwrites_existing ::
  "('mc, 'ma, 'mr, 's, 'w) containers \<Rightarrow> ('l, 'tx) sync_primitives \<Rightarrow> bool" where
  "test_add_overwrites_existing L Y =
     (let t0 = topology_new L Y;
          t1 = write_calls L Y [AddArea (area_new ''powertrain'' ''Powertrain Domain'')] t0;
          t2 = write_calls L Y [AddArea (area_new ''powertrain'' ''Powertrain v2'')] t1
      in length (areas L (ti_state t2)) = 1 \<and>
         found_with area_name ''Powertrain v2'' (get_area L (ti_state t2) ''powertrain''))"

definition test_remove_skips_missing ::
  "('mc, 'ma, 'mr, 's, 'w) containers \<Rightarrow> ('l, 'tx) sync_primitives \<Rightarrow> bool" where
  "test_remove_skips_missing L Y =
     (let t0 = topology_new L Y;
          t1 = write_calls L Y [AddArea (area_new ''powertrain'' ''Powertrain Domain''),
            AddArea (area_new ''network'' ''Network Domain'')] t0;
          t2 = write_calls L Y [RemoveArea ''powertrain'', RemoveArea ''nonexistent'',
            AddArea (area_new ''chassis'' ''Chassis'')] t1
      in length (areas L (ti_state t2)) = 2 \<and>
         (let ids = map area_id (areas L (ti_state t2)) in list_ex (\<lambda>i. i = ''network'')
           ids \<and> list_ex (\<lambda>i. i = ''chassis'') ids))"

definition test_app_component_existing_app ::
  "('mc, 'ma, 'mr, 's, 'w) containers \<Rightarrow> ('l, 'tx) sync_primitives \<Rightarrow> bool" where
  "test_app_component_existing_app L Y =
     (let t0 = topology_new L Y;
          t1 = write_calls L Y [AddComponent (component_new ''ecu1'' ''ECU 1''),
            AddApp (app_new ''app1'' ''App 1'' ''ecu1'')] t0
      in relates_to component_id ''ecu1'' (component_of_app L (ti_state t1) ''app1''))"

definition test_app_component_nonexistent_app ::
  "('mc, 'ma, 'mr, 's, 'w) containers \<Rightarrow> ('l, 'tx) sync_primitives \<Rightarrow> bool" where
  "test_app_component_nonexistent_app L Y =
     (let t0 = topology_new L Y
      in is_not_found (component_of_app L (ti_state t0) ''nonexistent''))"

definition test_component_area ::
  "('mc, 'ma, 'mr, 's, 'w) containers \<Rightarrow> ('l, 'tx) sync_primitives \<Rightarrow> bool" where
  "test_component_area L Y =
     (let t0 = topology_new L Y;
          t1 = write_calls L Y [AddArea (area_new ''powertrain'' ''Powertrain''),
            AddComponent (component_with_area_id ''powertrain'' (component_new ''ecu1''
              ''ECU 1''))] t0
      in relates_to area_id ''powertrain'' (area_of_component L (ti_state t1) ''ecu1''))"

definition test_component_area_no_area ::
  "('mc, 'ma, 'mr, 's, 'w) containers \<Rightarrow> ('l, 'tx) sync_primitives \<Rightarrow> bool" where
  "test_component_area_no_area L Y =
     (let t0 = topology_new L Y;
          t1 = write_calls L Y [AddComponent (component_new ''ecu1'' ''ECU 1'')] t0
      in relates_to_nothing (area_of_component L (ti_state t1) ''ecu1''))"

definition test_app_area ::
  "('mc, 'ma, 'mr, 's, 'w) containers \<Rightarrow> ('l, 'tx) sync_primitives \<Rightarrow> bool" where
  "test_app_area L Y =
     (let t0 = topology_new L Y;
          t1 = write_calls L Y [AddArea (area_new ''powertrain'' ''Powertrain''),
            AddApp (app_with_area_id ''powertrain'' (app_new ''app1'' ''App 1'' ''ecu1''))] t0
      in relates_to area_id ''powertrain'' (area_of_app L (ti_state t1) ''app1''))"

definition test_component_area_nonexistent ::
  "('mc, 'ma, 'mr, 's, 'w) containers \<Rightarrow> ('l, 'tx) sync_primitives \<Rightarrow> bool" where
  "test_component_area_nonexistent L Y =
     (let t0 = topology_new L Y
      in is_not_found (area_of_component L (ti_state t0) ''nonexistent''))"

definition test_remove_area_cleans_component_index ::
  "('mc, 'ma, 'mr, 's, 'w) containers \<Rightarrow> ('l, 'tx) sync_primitives \<Rightarrow> bool" where
  "test_remove_area_cleans_component_index L Y =
     (let t0 = topology_new L Y;
          t1 = write_calls L Y [AddArea (area_new ''powertrain'' ''Powertrain''),
            AddComponent (component_with_area_id ''powertrain'' (component_new ''ecu1''
              ''ECU 1''))] t0;
          t2 = write_calls L Y [RemoveArea ''powertrain''] t1
      in length (components_of_area L (ti_state t1) ''powertrain'') = 1 \<and>
         length (components_of_area L (ti_state t2) ''powertrain'') = 0)"

definition test_remove_area_cleans_app_index ::
  "('mc, 'ma, 'mr, 's, 'w) containers \<Rightarrow> ('l, 'tx) sync_primitives \<Rightarrow> bool" where
  "test_remove_area_cleans_app_index L Y =
     (let t0 = topology_new L Y;
          t1 = write_calls L Y [AddArea (area_new ''network'' ''Network''),
            AddApp (app_with_area_id ''network'' (app_new ''diag'' ''Diagnostics'' ''gw''))] t0;
          t2 = write_calls L Y [RemoveArea ''network''] t1
      in length (apps_of_area L (ti_state t1) ''network'') = 1 \<and>
         length (apps_of_area L (ti_state t2) ''network'') = 0)"

definition test_remove_area_then_reinsert_no_stale_data ::
  "('mc, 'ma, 'mr, 's, 'w) containers \<Rightarrow> ('l, 'tx) sync_primitives \<Rightarrow> bool" where
  "test_remove_area_then_reinsert_no_stale_data L Y =
     (let t0 = topology_new L Y;
          t1 = write_calls L Y [AddArea (area_new ''powertrain'' ''Powertrain''),
            AddComponent (component_with_area_id ''powertrain'' (component_new ''ecu1''
              ''ECU 1''))] t0;
          t2 = write_calls L Y [RemoveArea ''powertrain''] t1;
          t3 = write_calls L Y [AddArea (area_new ''powertrain'' ''Powertrain v2'')] t2
      in length (components_of_area L (ti_state t3) ''powertrain'') = 0)"

lemmas test_defs = test_topology_empty_def test_topology_get_component_def test_topology_get_nonexistent_def
    test_topology_list_def test_topology_clone_def test_topology_subscribe_add_remove_def
      test_add_areas_def test_remove_areas_def test_add_overwrites_existing_def
        test_remove_skips_missing_def test_app_component_existing_app_def
          test_app_component_nonexistent_app_def test_component_area_def
            test_component_area_no_area_def test_app_area_def test_component_area_nonexistent_def
              test_remove_area_cleans_component_index_def test_remove_area_cleans_app_index_def
                test_remove_area_then_reinsert_no_stale_data_def

subsection \<open>They pass\<close>

text \<open>What a block of calls does to the state and to the events sent.\<close>

lemma write_calls_state [simp]:
  "ti_state (write_calls L Y ops topology) = wg_state (run_ops L ops (topology_write (ti_state topology)))"
  by (simp add: write_calls_def Let_def)

context shared_topology_laws
begin

lemma write_calls_sent [simp]:
  "bc_sent Y (ti_events (write_calls L Y ops topology)) =
     bc_sent Y (ti_events topology) @ wg_pending (run_ops L ops (topology_write (ti_state topology)))"
  by (simp add: write_calls_def guard_drop_sent Let_def)

lemma new_sent [simp]: "bc_sent Y (ti_events (topology_new L Y)) = []"
  by (simp add: topology_new_def with_event_capacity_def sent_new)

end

lemma new_state [simp]: "ti_state (topology_new L Y) = topology_state_new L"
  by (simp add: topology_new_def with_event_capacity_def)

lemma guard_fields [simp]:
  "wg_state (topology_write st) = st" "wg_pending (topology_write st) = []"
  by (simp_all add: topology_write_def)

lemmas assertion_defs = found_with_def relates_to_def relates_to_nothing_def is_err_def
  is_not_found_def unread_def

context topology_containers
begin

lemma area_queries:
  "components_of_area L st ar = List.map_filter (map_of (component_entries L st))
     (index_members (id_set L) (ts_components_by_area st) ar)"
  "apps_of_area L st ar = List.map_filter (map_of (app_entries L st))
     (index_members (id_set L) (ts_apps_by_area st) ar)"
proof -
  have "im_get (component_map L) (ts_components st) = map_of (component_entries L st)"
    "im_get (app_map L) (ts_apps st) = map_of (app_entries L st)"
    by (simp_all add: fun_eq_iff entries_defs container_laws)
  then show "components_of_area L st ar = List.map_filter (map_of (component_entries L st))
      (index_members (id_set L) (ts_components_by_area st) ar)"
    and "apps_of_area L st ar = List.map_filter (map_of (app_entries L st))
      (index_members (id_set L) (ts_apps_by_area st) ar)"
    by (simp_all add: components_of_area_def apps_of_area_def)
qed

lemma index_new [simp]:
  "index_members (id_set L) (ts_components_by_area (topology_state_new L)) ar = []"
  "index_members (id_set L) (ts_apps_by_area (topology_state_new L)) ar = []"
  by (simp_all add: topology_state_new_def index_members_def)

lemma members_forgotten [simp]: "index_members S (idx(k := None)) k = []"
  by (simp add: index_members_def)

lemmas test_eval = apply_op_state apply_op_pending op_events_def get_component_entries get_app_entries
  get_area_entries listings_entries relations_entries area_queries ids.members_add assertion_defs

lemma built_entities [simp]:
  "component_id (component_new i n) = i" "area_id (area_new i n) = i" "area_name (area_new i n) = n"
  "app_id (app_new i n h) = i" "component_area_id (component_new i n) = None"
  "component_area_id (component_with_area_id ar c) = Some ar"
  "component_id (component_with_area_id ar c) = component_id c"
  "app_area_id (app_with_area_id ar a) = Some ar" "app_id (app_with_area_id ar a) = app_id a"
  "app_is_located_on (app_new i n h) = h"
  by (simp_all add: component_builder_defs app_builder_defs area_builder_defs entity_ref_defs)

end

context shared_topology_laws
begin

lemma mutation_tests:
  "test_topology_empty L Y" "test_topology_get_component L Y" "test_topology_get_nonexistent L Y"
  "test_topology_list L Y" "test_topology_clone L Y" "test_topology_subscribe_add_remove L Y"
  "test_add_areas L Y" "test_remove_areas L Y" "test_add_overwrites_existing L Y"
  "test_remove_skips_missing L Y"
  by (simp_all del: apply_op.simps add: test_defs test_eval Let_def)

lemma relation_tests:
  "test_app_component_existing_app L Y" "test_app_component_nonexistent_app L Y"
  "test_component_area L Y" "test_component_area_no_area L Y" "test_app_area L Y"
  "test_component_area_nonexistent L Y"
  by (simp_all del: apply_op.simps add: test_defs test_eval Let_def)

lemma index_tests:
  "test_remove_area_cleans_component_index L Y" "test_remove_area_cleans_app_index L Y"
  "test_remove_area_then_reinsert_no_stale_data L Y"
  by (simp_all del: apply_op.simps add: test_defs test_eval List.map_filter_simps Let_def)

end

definition topology_tests ::
  "('mc, 'ma, 'mr, 's, 'w) containers \<Rightarrow> ('l, 'tx) sync_primitives \<Rightarrow> bool list" where
  "topology_tests L Y =
    [test_topology_empty L Y, test_topology_get_component L Y, test_topology_get_nonexistent L Y,
     test_topology_list L Y, test_topology_clone L Y, test_topology_subscribe_add_remove L Y,
     test_add_areas L Y, test_remove_areas L Y, test_add_overwrites_existing L Y,
     test_remove_skips_missing L Y, test_app_component_existing_app L Y,
     test_app_component_nonexistent_app L Y, test_component_area L Y,
     test_component_area_no_area L Y, test_app_area L Y, test_component_area_nonexistent L Y,
     test_remove_area_cleans_component_index L Y, test_remove_area_cleans_app_index L Y,
     test_remove_area_then_reinsert_no_stale_data L Y]"

text \<open>
  The whole test module passes, whatever implements the containers, the lock and the channel, as
  long as it meets their laws.
\<close>

theorem topology_tests_pass:
  assumes "topology_containers L" and "topology_sync Y"
  shows "list_all (\<lambda>passed. passed) (topology_tests L Y)"
proof -
  have laws: "shared_topology_laws L Y" using assms by (rule shared_topology_laws.intro)
  show ?thesis
    by (simp add: topology_tests_def shared_topology_laws.mutation_tests [OF laws]
        shared_topology_laws.relation_tests [OF laws] shared_topology_laws.index_tests [OF laws])
qed

end
