(* ===== verification/Provider_Tests.thy ===== *)
theory Provider_Tests
  imports Mocks
begin

text \<open>
  The unit tests of the provider builder (\<open>src/opensovd-providers/src/data/builder.rs\<close>), of the
  trait's default methods (\<open>src/opensovd-core/src/data.rs\<close>) and of the entity references
  (\<open>src/opensovd-core/src/entity/mod.rs\<close>) as statements about the model: each definition makes the
  calls of a test function and answers its assertions.  The map that holds the resources stays a
  parameter, as do the schemas of Rust types.
\<close>

subsection \<open>Calls and assertions\<close>

text \<open>The result of a call, unwrapped, and a provider built, unwrapped.\<close>

definition unwrapped :: "('e, 'a) result \<times> 'w \<Rightarrow> ('a \<Rightarrow> bool) \<Rightarrow> bool" where
  "unwrapped outcome holds = (case fst outcome of Inl _ \<Rightarrow> False | Inr a \<Rightarrow> holds a)"

definition with_built ::
  "(string, 'w resource_entry, 'm) index_map \<Rightarrow>
     ('w data_provider_builder option \<Rightarrow> 'w data_provider_builder option) list \<Rightarrow>
     ('w data_provider \<Rightarrow> bool) \<Rightarrow> bool" where
  "with_built M steps holds = (case mock_provider M steps of None \<Rightarrow> False | Some p \<Rightarrow> holds p)"

definition first_id :: "metadata list \<Rightarrow> string option" where
  "first_id ms = (case ms of [] \<Rightarrow> None | m # _ \<Rightarrow> Some (m_id m))"

subsection \<open>The builder\<close>

definition test_build_with_constant ::
  "(string, 'w resource_entry, 'm) index_map \<Rightarrow> (string \<Rightarrow> json option) \<Rightarrow> 'w \<Rightarrow> bool" where
  "test_build_with_constant M S w =
     with_built M
       [mock_read S ''sw.version'' ''Software Version'' IdentData ''&str'' (JString ''1.0.0'')]
       (\<lambda>provider.
         unwrapped (dp_read provider ''sw.version'' False w) (\<lambda>result. d_data result =
           JObject [(''value'', JString ''1.0.0'')] \<and> d_schema result = None))"

definition test_build_with_schema ::
  "(string, 'w resource_entry, 'm) index_map \<Rightarrow> (string \<Rightarrow> json option) \<Rightarrow> 'w \<Rightarrow> bool" where
  "test_build_with_schema M S w =
     with_built M
       [mock_read S ''sw.version'' ''Software Version'' IdentData ''&str'' (JString ''1.0.0'')]
       (\<lambda>provider.
         unwrapped (dp_read provider ''sw.version'' True w) (\<lambda>result. d_data result =
           JObject [(''value'', JString ''1.0.0'')] \<and> d_schema result \<noteq> None))"

definition test_list_resources ::
  "(string, 'w resource_entry, 'm) index_map \<Rightarrow> (string \<Rightarrow> json option) \<Rightarrow> 'w \<Rightarrow> bool" where
  "test_list_resources M S w =
     with_built M
       [mock_read S ''sw.version'' ''Software Version'' IdentData ''&str'' (JString ''1.0.0''),
        mock_read S ''system.uptime'' ''System Uptime'' SysInfo ''u64'' (JNumber ''12345''),
        map_option (builder_tags [''monitoring''])]
       (\<lambda>provider.
         unwrapped (dp_list provider data_filter_default w) (\<lambda>items. length items = 2))"

definition test_filter_by_category ::
  "(string, 'w resource_entry, 'm) index_map \<Rightarrow> (string \<Rightarrow> json option) \<Rightarrow> 'w \<Rightarrow> bool" where
  "test_filter_by_category M S w =
     with_built M
       [mock_read S ''sw.version'' ''Software Version'' IdentData ''&str'' (JString ''1.0.0''),
        mock_read S ''system.uptime'' ''System Uptime'' SysInfo ''u64'' (JNumber ''12345'')]
       (\<lambda>provider.
         unwrapped (dp_list provider (data_filter_default\<lparr>df_categories :=
           [''identData'']\<rparr>) w) (\<lambda>items. length items = 1 \<and> first_id items =
             Some ''sw.version''))"

definition test_filter_by_tags ::
  "(string, 'w resource_entry, 'm) index_map \<Rightarrow> (string \<Rightarrow> json option) \<Rightarrow> 'w \<Rightarrow> bool" where
  "test_filter_by_tags M S w =
     with_built M
       [mock_read S ''sw.version'' ''Software Version'' IdentData ''&str'' (JString ''1.0.0''),
        mock_read S ''system.uptime'' ''System Uptime'' SysInfo ''u64'' (JNumber ''12345''),
        map_option (builder_tags [''monitoring''])]
       (\<lambda>provider.
         unwrapped (dp_list provider (data_filter_default\<lparr>df_tags :=
           [''monitoring'']\<rparr>) w) (\<lambda>items. length items = 1 \<and> first_id items =
             Some ''system.uptime''))"

definition test_filter_by_groups ::
  "(string, 'w resource_entry, 'm) index_map \<Rightarrow> (string \<Rightarrow> json option) \<Rightarrow> 'w \<Rightarrow> bool" where
  "test_filter_by_groups M S w =
     with_built M
       [mock_read S ''sw.version'' ''Software Version'' IdentData ''&str'' (JString ''1.0.0''),
        map_option (builder_groups [''info'']),
        mock_read S ''system.uptime'' ''System Uptime'' SysInfo ''u64'' (JNumber ''12345''),
        map_option (builder_groups [''monitoring''])]
       (\<lambda>provider.
         unwrapped (dp_list provider (data_filter_default\<lparr>df_groups := [''info'']\<rparr>)
           w) (\<lambda>items. length items = 1 \<and> first_id items = Some ''sw.version''))"

definition test_not_found ::
  "(string, 'w resource_entry, 'm) index_map \<Rightarrow> (string \<Rightarrow> json option) \<Rightarrow> 'w \<Rightarrow> bool" where
  "test_not_found M S w =
     with_built M
       []
       (\<lambda>provider.
         (case fst (dp_read provider ''nonexistent'' False w) of Inl (DataNotFound _)
           \<Rightarrow> True | _ \<Rightarrow> False))"

definition test_read_only_write_fails ::
  "(string, 'w resource_entry, 'm) index_map \<Rightarrow> (string \<Rightarrow> json option) \<Rightarrow> 'w \<Rightarrow> bool" where
  "test_read_only_write_fails M S w =
     with_built M
       [mock_read S ''sw.version'' ''Software Version'' IdentData ''&str'' (JString ''1.0.0'')]
       (\<lambda>provider.
         fst (dp_write provider ''sw.version'' (JObject [(''value'',
           JString ''2.0.0'')]) w) = Inl ReadOnly)"

definition test_categories_override ::
  "(string, 'w resource_entry, 'm) index_map \<Rightarrow> (string \<Rightarrow> json option) \<Rightarrow> 'w \<Rightarrow> bool" where
  "test_categories_override M S w =
     with_built M
       [mock_read S ''sw.version'' ''Software Version'' IdentData ''&str'' (JString ''1.0.0''),
        mock_read S ''hw.version'' ''Hardware Version'' IdentData ''&str'' (JString ''2.0.0''),
        mock_read S ''system.uptime'' ''System Uptime'' SysInfo ''u64'' (JNumber ''12345'')]
       (\<lambda>provider.
         unwrapped (dp_categories provider w) (\<lambda>categories. map cat_category categories =
           [''identData'', ''sysInfo'']))"

definition test_groups_override ::
  "(string, 'w resource_entry, 'm) index_map \<Rightarrow> (string \<Rightarrow> json option) \<Rightarrow> 'w \<Rightarrow> bool" where
  "test_groups_override M S w =
     with_built M
       [mock_read S ''sw.version'' ''Software Version'' IdentData ''&str'' (JString ''1.0.0''),
        map_option (builder_groups [''info'', ''core'']),
        mock_read S ''system.uptime'' ''System Uptime'' SysInfo ''u64'' (JNumber ''12345''),
        map_option (builder_groups [''monitoring''])]
       (\<lambda>provider.
         unwrapped (dp_groups provider None w) (\<lambda>groups. length groups = 3) \<and>
           unwrapped (dp_groups provider (Some ''identData'') w) (\<lambda>groups. length groups
             = 2 \<and> list_all (\<lambda>g. g_category g = ''identData'') groups))"

definition test_tags_override ::
  "(string, 'w resource_entry, 'm) index_map \<Rightarrow> (string \<Rightarrow> json option) \<Rightarrow> 'w \<Rightarrow> bool" where
  "test_tags_override M S w =
     with_built M
       [mock_read S ''sw.version'' ''Software Version'' IdentData ''&str'' (JString ''1.0.0''),
        map_option (builder_tags [''info'', ''version'']),
        mock_read S ''system.uptime'' ''System Uptime'' SysInfo ''u64'' (JNumber ''12345''),
        map_option (builder_tags [''info'', ''monitoring''])]
       (\<lambda>provider.
         unwrapped (dp_tags provider w) (\<lambda>tags. length tags = 3 \<and> (let tag_ids = map
           t_id tags in list_ex (\<lambda>t. t = ''info'') tag_ids \<and> list_ex (\<lambda>t. t
             = ''version'') tag_ids \<and> list_ex (\<lambda>t. t = ''monitoring'') tag_ids)))"

definition test_duplicate_resource_id ::
  "(string, 'w resource_entry, 'm) index_map \<Rightarrow> (string \<Rightarrow> json option) \<Rightarrow> bool" where
  "test_duplicate_resource_id M S =
     (case mock_builder
         [mock_read S ''duplicate.id'' ''Duplicate'' IdentData ''&str'' (JString ''first''),
          mock_read S ''duplicate.id'' ''Duplicate'' IdentData ''&str'' (JString ''second'')] of
        None \<Rightarrow> False
      | Some builder \<Rightarrow>
          (case builder_build M builder of
             Inl (DuplicateResourceId i) \<Rightarrow> i = ''duplicate.id''
           | _ \<Rightarrow> False))"

lemmas builder_test_defs = test_build_with_constant_def test_build_with_schema_def test_list_resources_def
    test_filter_by_category_def test_filter_by_tags_def test_filter_by_groups_def
      test_not_found_def test_read_only_write_fails_def test_categories_override_def
        test_groups_override_def test_tags_override_def

text \<open>A built provider holds what was registered, in order.\<close>

lemma with_built_holds:
  assumes "ordered_map M"
    and "case mock_builder steps of None \<Rightarrow> False | Some b \<Rightarrow> distinct (map entry_id b) \<and>
      (\<forall>m. im_values M m = b \<longrightarrow>
        (\<forall>i. find_resource M m i = find (\<lambda>e. entry_id e = i) b) \<longrightarrow> holds (built_data_provider M m))"
  shows "with_built M steps holds"
proof -
  obtain b where b: "mock_builder steps = Some b" "distinct (map entry_id b)"
    and holds: "\<And>m. im_values M m = b \<Longrightarrow>
      (\<And>i. find_resource M m i = find (\<lambda>e. entry_id e = i) b) \<Longrightarrow> holds (built_data_provider M m)"
    using assms(2) by (auto split: option.splits)
  obtain m where m: "builder_build M b = Inr m"
    using build_Inr_iff [OF assms(1), of b] b(2) by auto
  show ?thesis
    using holds [OF build_iter(1) [OF assms(1) m] build_iter(3) [OF assms(1) m]] b(1) m
    by (simp add: with_built_def mock_provider_def)
qed

lemmas provider_test_eval = mock_builder_def builder_defs update_last_def built_data_provider_def
  built_list_def built_read_def built_write_def built_categories_def built_groups_def
  built_tags_def unwrapped_def first_id_def matches_filter_def data_filter_default_def
  schema_or_null_def

lemma builder_tests_pass:
  assumes "ordered_map M"
  shows "test_build_with_constant M S w" "test_build_with_schema M S w"
    "test_list_resources M S w" "test_filter_by_category M S w" "test_filter_by_tags M S w"
    "test_filter_by_groups M S w" "test_not_found M S w" "test_read_only_write_fails M S w"
    "test_categories_override M S w" "test_groups_override M S w" "test_tags_override M S w"
  unfolding builder_test_defs
  by (rule with_built_holds [OF assms],
      simp add: provider_test_eval read_only_adapter_def serialized_read_def constant_readable_def)+

lemma duplicate_test_passes:
  fixes M :: "(string, 'w resource_entry, 'm) index_map"
  assumes "ordered_map M"
  shows "test_duplicate_resource_id M S"
proof -
  define b :: "'w data_provider_builder" where
    "b = builder_read_data Inr ''duplicate.id'' ''Duplicate'' IdentData (constant_readable
       \<lparr> const_value = JObject [(''value'', JString ''second'')], const_stored_schema = S ''&str'' \<rparr>)
     (builder_read_data Inr ''duplicate.id'' ''Duplicate'' IdentData (constant_readable
       \<lparr> const_value = JObject [(''value'', JString ''first'')], const_stored_schema = S ''&str'' \<rparr>)
       builder_new)"
  have ids: "map entry_id b = [''duplicate.id'', ''duplicate.id'']" by (simp add: b_def builder_defs)
  have "\<not> (\<exists>m. builder_build M b = Inr m)" unfolding build_Inr_iff [OF assms] ids by simp
  then obtain e where e: "builder_build M b = Inl e" by (cases "builder_build M b") auto
  obtain xs e' ys where split: "b = xs @ e' # ys" "e = DuplicateResourceId (entry_id e')"
    using build_spec [OF assms, of b] unfolding e sum.case by blast
  have "map entry_id xs @ entry_id e' # map entry_id ys = [''duplicate.id'', ''duplicate.id'']"
    using ids unfolding split(1) by simp
  then have "entry_id e' = ''duplicate.id''"
    by (auto simp: append_eq_Cons_conv Cons_eq_append_conv)
  with e split(2) show ?thesis
    by (simp add: test_duplicate_resource_id_def mock_builder_def flip: b_def)
qed

subsection \<open>The default methods of the trait\<close>

definition mock_list :: "metadata list \<Rightarrow> data_filter \<Rightarrow> ('w, metadata list) data_action" where
  "mock_list listed f w = (Inr listed, w)"

definition make_metadata :: "string \<Rightarrow> string \<Rightarrow> string list \<Rightarrow> metadata" where
  "make_metadata ident category groups =
     \<lparr> m_id = ident, m_name = ident, m_category = category, m_translation_id = None,
       m_groups = groups, m_tags = [], m_schema = None, m_is_readable = True,
       m_is_writable = False \<rparr>"

definition test_categories_returns_unique :: "'w \<Rightarrow> bool" where
  "test_categories_returns_unique w =
     unwrapped (default_categories (mock_list
       [make_metadata ''a'' ''currentData'' [], make_metadata ''b'' ''currentData'' [],
        make_metadata ''c'' ''identData'' []]) w)
     (\<lambda>cats. length cats = 2 \<and> list_ex (\<lambda>c. cat_category c = ''currentData'') cats \<and>
        list_ex (\<lambda>c. cat_category c = ''identData'') cats)"

definition test_groups_returns_unique :: "'w \<Rightarrow> bool" where
  "test_groups_returns_unique w =
     unwrapped (default_groups (mock_list
       [make_metadata ''a'' ''currentData'' [''front''],
        make_metadata ''b'' ''currentData'' [''front'', ''rear'']]) None w)
     (\<lambda>groups. length groups = 2 \<and> list_ex (\<lambda>g. g_id g = ''front'') groups \<and>
        list_ex (\<lambda>g. g_id g = ''rear'') groups)"

definition test_groups_filters_by_category :: "'w \<Rightarrow> bool" where
  "test_groups_filters_by_category w =
     unwrapped (default_groups (mock_list
       [make_metadata ''a'' ''currentData'' [''front''],
        make_metadata ''b'' ''identData'' [''rear'']]) (Some ''currentData'') w)
     (\<lambda>groups. length groups = 1 \<and> map g_id groups = [''front''])"

lemma default_method_tests_pass:
  "test_categories_returns_unique w" "test_groups_returns_unique w"
  "test_groups_filters_by_category w"
  by (simp_all add: test_categories_returns_unique_def test_groups_returns_unique_def
      test_groups_filters_by_category_def unwrapped_def default_categories_def default_groups_def
      mock_list_def make_metadata_def category_info_of_def group_info_of_def)

subsection \<open>Entities and references\<close>

definition test_component_entity :: bool where
  "test_component_entity =
     (let component = component_new ''test-id'' ''Test Component'' :: unit component
      in component_id component = ''test-id'' \<and> component_name component = ''Test Component'' \<and>
         component_tags component = [] \<and> component_metadata component = [])"

definition test_entity_ref_constructors :: bool where
  "test_entity_ref_constructors =
     (let comp = entity_ref_component ''ECU1''; app = entity_ref_app ''diag-app'';
          area = entity_ref_area ''zone-front''
      in ref_kind comp = KComponent \<and> ref_id comp = ''ECU1'' \<and>
         ref_kind app = KApp \<and> ref_id app = ''diag-app'' \<and>
         ref_kind area = KArea \<and> ref_id area = ''zone-front'')"

definition test_entity_ref_equality :: bool where
  "test_entity_ref_equality =
     (entity_ref_component ''a'' = entity_ref_component ''a'' \<and>
      entity_ref_component ''a'' \<noteq> entity_ref_component ''b'' \<and>
      entity_ref_component ''a'' \<noteq> entity_ref_app ''a'')"

definition test_entity_kind_display :: bool where
  "test_entity_kind_display =
     (entity_kind_display KComponent = ''component'' \<and> entity_kind_display KApp = ''app'' \<and>
      entity_kind_display KArea = ''area'')"

definition test_entity_ref_display :: bool where
  "test_entity_ref_display =
     (entity_ref_display (entity_ref_component ''ECU1'') =
        ''component '' @ [CHR 0x27] @ ''ECU1'' @ [CHR 0x27] \<and>
      entity_ref_display (entity_ref_app ''diag'') =
        ''app '' @ [CHR 0x27] @ ''diag'' @ [CHR 0x27] \<and>
      entity_ref_display (entity_ref_area ''zone'') =
        ''area '' @ [CHR 0x27] @ ''zone'' @ [CHR 0x27])"

definition test_component_entity_ref :: bool where
  "test_component_entity_ref =
     (let eid = component_entity_ref (component_new ''ecu1'' ''ECU 1'' :: unit component)
      in ref_kind eid = KComponent \<and> ref_id eid = ''ecu1'')"

definition test_app_entity_ref :: bool where
  "test_app_entity_ref =
     (let eid = app_entity_ref (app_new ''diag'' ''Diagnostics'' ''ecu1'' :: unit app)
      in ref_kind eid = KApp \<and> ref_id eid = ''diag'')"

definition test_area_entity_ref :: bool where
  "test_area_entity_ref =
     (let eid = area_entity_ref (area_new ''zone-front'' ''Front Zone'' :: unit area)
      in ref_kind eid = KArea \<and> ref_id eid = ''zone-front'')"

lemma entity_tests_pass:
  test_component_entity test_entity_ref_constructors test_entity_ref_equality
  test_entity_kind_display test_entity_ref_display test_component_entity_ref
  test_app_entity_ref test_area_entity_ref
  by (simp_all add: test_component_entity_def test_entity_ref_constructors_def
      test_entity_ref_equality_def test_entity_kind_display_def test_entity_ref_display_def
      test_component_entity_ref_def test_app_entity_ref_def test_area_entity_ref_def
      component_builder_defs app_builder_defs area_builder_defs entity_ref_defs
      entity_ref_display_def Let_def)

end
