(* ===== verification/Assertions.thy ===== *)
theory Assertions
  imports Models "HOL-Library.Sublist"
begin

text \<open>
  What the assertions of the repository's unit tests use of \<open>serde_json\<close> and of strings: the
  field and the elements of a JSON value, indexing, which answers null where there is nothing,
  and \<open>str::contains\<close>.
\<close>

fun json_field :: "string \<Rightarrow> json \<Rightarrow> json option" where
  "json_field key (JObject entries) = map_of entries key"
| "json_field key _ = None"

fun json_elements :: "json \<Rightarrow> json list" where
  "json_elements (JArray xs) = xs"
| "json_elements _ = []"

definition json_at :: "json \<Rightarrow> string \<Rightarrow> json" where
  "json_at j key = (case json_field key j of None \<Rightarrow> JNull | Some v \<Rightarrow> v)"

definition json_nth :: "json \<Rightarrow> nat \<Rightarrow> json" where
  "json_nth j n = (if n < length (json_elements j) then json_elements j ! n else JNull)"

fun text_of :: "json \<Rightarrow> string" where
  "text_of (JString s) = s"
| "text_of _ = []"

fun text_contains :: "string \<Rightarrow> string \<Rightarrow> bool" where
  "text_contains needle [] = (needle = [])"
| "text_contains needle (c # cs) = (prefix needle (c # cs) \<or> text_contains needle cs)"

text \<open>Response statuses of class 2xx.\<close>

definition success_status :: "nat \<Rightarrow> bool" where
  "success_status status \<longleftrightarrow> 200 \<le> status \<and> status < 300"

lemma json_at_entries:
  "json_at (JObject entries) key = (case entries_of entries key of [] \<Rightarrow> JNull | v # _ \<Rightarrow> v)"
proof -
  have "map_of entries key = (case entries_of entries key of [] \<Rightarrow> None | v # _ \<Rightarrow> Some v)"
    by (induction entries) auto
  then show ?thesis by (simp add: json_at_def split: list.splits)
qed

lemma text_contains_iff: "text_contains needle hay \<longleftrightarrow> sublist needle hay"
  by (induction hay) (auto simp: sublist_Cons_right)

lemma text_contains_append:
  "text_contains needle xs \<or> text_contains needle ys \<Longrightarrow> text_contains needle (xs @ ys)"
  by (auto simp: text_contains_iff intro: sublist_appendI sublist_order.order.trans
      [OF _ sublist_append_rightI] sublist_order.order.trans [OF _ sublist_append_leftI])

end
