(* ===== verification/Auth_Tests.thy ===== *)
theory Auth_Tests
  imports Auth_Properties Assertions
begin

text \<open>
  The unit tests of token authentication (\<open>src/opensovd-extra/src/auth/jwt.rs\<close>), of the policy
  authorizer (\<open>auth/rego.rs\<close>) and of the middleware (\<open>src/opensovd-server/src/auth.rs\<close>) as
  statements about the model.  Tokens are issued into a table that remembers algorithm, key and
  claims of each, and verified against the table and a clock with the library's leeway of a
  minute; the test policy is the function the Rego text defines.
\<close>

subsection \<open>Issued tokens\<close>

record issued =
  is_algorithm :: jwt_algorithm
  is_key :: string
  is_claims :: claims

definition unexpired :: "64 word \<Rightarrow> claims \<Rightarrow> bool" where
  "unexpired clock c \<longleftrightarrow> unat clock \<le> unat (cl_exp c) + 60"

definition verify_issued ::
  "64 word \<Rightarrow> (string \<times> issued) list \<Rightarrow> jwt_algorithm \<Rightarrow> string \<Rightarrow> string \<Rightarrow> claims option" where
  "verify_issued clock tokens a k t =
     (case map_of tokens t of
        None \<Rightarrow> None
      | Some i \<Rightarrow> if is_algorithm i = a \<and> is_key i = k \<and> unexpired clock (is_claims i)
          then Some (is_claims i) else None)"

definition issued_tokens ::
  "64 word \<Rightarrow> (string \<times> issued) list \<Rightarrow> (jwt_algorithm, string) jsonwebtoken" where
  "issued_tokens clock tokens =
     \<lparr> jl_hs512 = HS512, jl_rs512 = RS512, jl_from_secret = (\<lambda>k. k), jl_from_rsa_der = (\<lambda>k. k),
       jl_validation_new = (\<lambda>a. \<lparr> va_algorithm = a, va_validate_aud = True,
         va_required_spec_claims = [''exp''], va_iss = None \<rparr>),
       jl_decode = (\<lambda>t k v. case verify_issued clock tokens (va_algorithm v) k t of
           None \<Rightarrow> Inl ''InvalidToken''
         | Some c \<Rightarrow>
             if (case (va_iss v, cl_iss c) of (Some issuers, Some i) \<Rightarrow> i \<in> set issuers | _ \<Rightarrow> True)
                \<and> (''iss'' \<in> set (va_required_spec_claims v) \<longrightarrow> cl_iss c \<noteq> None)
             then Inr c else Inl ''InvalidIssuer''),
       jl_verified = verify_issued clock tokens \<rparr>"

interpretation issued: jwt_library "issued_tokens clock tokens"
  by unfold_locales (auto simp: issued_tokens_def split: option.splits)

subsection \<open>Token tests\<close>

definition TEST_ISSUER :: string where
  "TEST_ISSUER = ''OpenSOVD''"

definition valid_claims :: "64 word \<Rightarrow> claims" where
  "valid_claims now =
     \<lparr> cl_sub = ''user@example.com'', cl_exp = now + 3600, cl_iat = Some now,
       cl_iss = Some ''OpenSOVD'', cl_roles = [''reader'', ''admin''],
       cl_scope = Some ''read write'' \<rparr>"

text \<open>\<open>Request::builder()\<close> with an optional \<open>Authorization\<close> header.\<close>

definition request_with :: "string option \<Rightarrow> 'i request_parts" where
  "request_with header = \<lparr> rp_method = ''GET'', rp_path = ''/'',
     rp_header_text = (\<lambda>name. if name = ''authorization'' then header else None),
     rp_identity = None \<rparr>"

text \<open>Authenticating a request; \<open>token\<close> is the text the token of the given claims got.\<close>

definition authenticate_test ::
  "64 word \<Rightarrow> (string \<times> issued) list \<Rightarrow> jwt_algorithm \<Rightarrow> string \<Rightarrow> string option \<Rightarrow>
     (auth_error, claims) result" where
  "authenticate_test clock tokens algorithm key header =
     (let J = issued_tokens clock tokens
      in fst (jwt_authenticate J (jwt_authenticator_new J algorithm key TEST_ISSUER)
           (request_with header :: claims request_parts) ()))"

definition make_hs512_token :: "string \<Rightarrow> string \<Rightarrow> claims \<Rightarrow> string \<times> issued" where
  "make_hs512_token token secret claims =
     (token, \<lparr> is_algorithm = HS512, is_key = secret, is_claims = claims \<rparr>)"

definition make_rs512_token :: "string \<Rightarrow> string \<Rightarrow> claims \<Rightarrow> string \<times> issued" where
  "make_rs512_token token public_der claims =
     (token, \<lparr> is_algorithm = RS512, is_key = public_der, is_claims = claims \<rparr>)"

definition bearer :: "string \<Rightarrow> string option" where
  "bearer token = Some (''Bearer '' @ token)"

definition hs512_valid_token :: "64 word \<Rightarrow> string \<Rightarrow> string \<Rightarrow> bool" where
  "hs512_valid_token now secret token =
     (case authenticate_test now [make_hs512_token token secret (valid_claims now)] HS512 secret
        (bearer token) of
        Inl _ \<Rightarrow> False
      | Inr claims \<Rightarrow>
          cl_sub claims = ''user@example.com'' \<and> cl_roles claims = [''reader'', ''admin''])"

definition hs512_missing_header_returns_unauthenticated :: "64 word \<Rightarrow> string \<Rightarrow> bool" where
  "hs512_missing_header_returns_unauthenticated now secret =
     (authenticate_test now [] HS512 secret None = Inl Unauthenticated)"

definition hs512_invalid_token_returns_error :: "64 word \<Rightarrow> string \<Rightarrow> bool" where
  "hs512_invalid_token_returns_error now secret =
     (authenticate_test now [] HS512 secret (bearer ''not-a-valid-jwt'') = Inl Unauthenticated)"

definition hs512_expired_token_returns_error :: "64 word \<Rightarrow> string \<Rightarrow> string \<Rightarrow> bool" where
  "hs512_expired_token_returns_error now secret token =
     (let claims = (valid_claims now)\<lparr>cl_exp := 1\<rparr>
      in authenticate_test now [make_hs512_token token secret claims] HS512 secret (bearer token) =
           Inl Unauthenticated)"

definition hs512_wrong_secret_returns_error :: "64 word \<Rightarrow> string \<Rightarrow> string \<Rightarrow> bool" where
  "hs512_wrong_secret_returns_error now secret token =
     (authenticate_test now [make_hs512_token token secret (valid_claims now)] HS512
        ''different-secret'' (bearer token) = Inl Unauthenticated)"

definition rs512_valid_token :: "64 word \<Rightarrow> string \<Rightarrow> string \<Rightarrow> bool" where
  "rs512_valid_token now public_der token =
     (case authenticate_test now [make_rs512_token token public_der (valid_claims now)] RS512
        public_der (bearer token) of
        Inl _ \<Rightarrow> False
      | Inr claims \<Rightarrow>
          cl_sub claims = ''user@example.com'' \<and> cl_roles claims = [''reader'', ''admin''])"

definition rs512_expired_token_returns_error :: "64 word \<Rightarrow> string \<Rightarrow> string \<Rightarrow> bool" where
  "rs512_expired_token_returns_error now public_der token =
     (let claims = (valid_claims now)\<lparr>cl_exp := 1\<rparr>
      in authenticate_test now [make_rs512_token token public_der claims] RS512 public_der
           (bearer token) = Inl Unauthenticated)"

definition rs512_invalid_token_returns_error :: "64 word \<Rightarrow> string \<Rightarrow> bool" where
  "rs512_invalid_token_returns_error now public_der =
     (authenticate_test now [] RS512 public_der (bearer ''not-a-valid-jwt'') = Inl Unauthenticated)"

definition hs512_wrong_issuer_returns_error :: "64 word \<Rightarrow> string \<Rightarrow> string \<Rightarrow> bool" where
  "hs512_wrong_issuer_returns_error now secret token =
     (let claims = (valid_claims now)\<lparr>cl_iss := Some ''wrong-issuer''\<rparr>
      in authenticate_test now [make_hs512_token token secret claims] HS512 secret (bearer token) =
           Inl Unauthenticated)"

definition algorithm_display_test :: bool where
  "algorithm_display_test =
     (jwt_algorithm_display HS512 = ''HS512'' \<and> jwt_algorithm_display RS512 = ''RS512'')"

definition algorithm_parse_test :: bool where
  "algorithm_parse_test =
     (jwt_algorithm_from_str ''HS512'' = Inr HS512 \<and> jwt_algorithm_from_str ''RS512'' = Inr RS512 \<and>
      (case jwt_algorithm_from_str ''HS256'' of Inl _ \<Rightarrow> True | Inr _ \<Rightarrow> False))"

text \<open>
  They pass at any time in the range where an hour can be added and more than a minute has gone
  by since the epoch, for secrets of the 32 bytes the tests draw.
\<close>

lemma token_eval:
  "authenticate_test clock tokens algorithm key header =
     (case Option.bind header (strip_prefix ''Bearer '') of
        None \<Rightarrow> Inl Unauthenticated
      | Some t \<Rightarrow>
          (case verify_issued clock tokens algorithm key t of
             None \<Rightarrow> Inl Unauthenticated
           | Some c \<Rightarrow> if cl_iss c = None \<or> cl_iss c = Some TEST_ISSUER then Inr c
               else Inl Unauthenticated))"
  by (cases algorithm) (auto simp: authenticate_test_def jwt_authenticate_def
      jwt_authenticator_new_def issued_tokens_def request_with_def Let_def
      simp del: strip_prefix.simps split: option.splits)

lemma bearer_token [simp]: "Option.bind (bearer t) (strip_prefix ''Bearer '') = Some t"
  by (simp add: bearer_def)

lemmas token_test_defs = hs512_valid_token_def hs512_missing_header_returns_unauthenticated_def
  hs512_invalid_token_returns_error_def hs512_expired_token_returns_error_def
  hs512_wrong_secret_returns_error_def rs512_valid_token_def
  rs512_expired_token_returns_error_def rs512_invalid_token_returns_error_def
  hs512_wrong_issuer_returns_error_def algorithm_display_test_def algorithm_parse_test_def
  make_hs512_token_def make_rs512_token_def

lemma token_tests_pass:
  assumes "unat now + 3600 < 2 ^ 64" and "61 < unat now" and "length secret = 32"
  shows "hs512_valid_token now secret token" "hs512_missing_header_returns_unauthenticated now secret"
    "hs512_invalid_token_returns_error now secret" "hs512_expired_token_returns_error now secret token"
    "hs512_wrong_secret_returns_error now secret token" "rs512_valid_token now public_der token"
    "rs512_expired_token_returns_error now public_der token"
    "rs512_invalid_token_returns_error now public_der"
    "hs512_wrong_issuer_returns_error now secret token"
    algorithm_display_test algorithm_parse_test
proof -
  have "unat (now + 3600) = unat now + 3600"
    using assms(1) by (simp add: unat_add_lem [THEN iffD1])
  then have fresh: "unexpired now (valid_claims now)" by (simp add: unexpired_def valid_claims_def)
  have stale: "\<not> unexpired now ((valid_claims now)\<lparr>cl_exp := 1\<rparr>)"
    using assms(2) by (simp add: unexpired_def)
  have "secret \<noteq> ''different-secret''" using assms(3) by auto
  note eval = token_test_defs token_eval verify_issued_def TEST_ISSUER_def fresh stale this Let_def
  show "hs512_valid_token now secret token" "rs512_valid_token now public_der token"
    by (simp_all add: eval) (simp_all add: valid_claims_def)
  show "hs512_missing_header_returns_unauthenticated now secret"
    "hs512_invalid_token_returns_error now secret" "hs512_expired_token_returns_error now secret token"
    "hs512_wrong_secret_returns_error now secret token"
    "rs512_expired_token_returns_error now public_der token"
    "rs512_invalid_token_returns_error now public_der"
    by (simp_all add: eval)
  show "hs512_wrong_issuer_returns_error now secret token"
    by (simp add: eval)
  show algorithm_display_test algorithm_parse_test
    by (simp_all add: eval jwt_algorithm_from_str_def)
qed

subsection \<open>Policy tests\<close>

text \<open>
  The policy text of the tests, and what its two rules say of an input: a GET by a reader, or
  anything by an admin.  The engine holds the texts it was given and the input; a text that is
  not the policy is refused.
\<close>

definition POLICY :: string where
  \<open>POLICY = concat (map (\<lambda>l. CHR 0x0A # l)
    [''package sovd.authz'',
     ''import rego.v1'',
     [],
     ''default allow := false'',
     [],
     ''allow if {'',
     ''    input.method == "GET"'',
     ''    "reader" in input.identity.roles'',
     ''}'',
     [],
     ''allow if {'',
     ''    "admin" in input.identity.roles'',
     ''}''])
    @ [CHR 0x0A]\<close>

definition policy_allows :: "json \<Rightarrow> bool" where
  "policy_allows input =
     (let meth = json_field ''method'' input;
          roles = (case Option.bind (json_field ''identity'' input) (json_field ''roles'') of
            None \<Rightarrow> [] | Some r \<Rightarrow> json_elements r)
      in meth = Some (JString ''GET'') \<and> JString ''reader'' \<in> set roles \<or>
         JString ''admin'' \<in> set roles)"

definition policy_engine :: "(string list \<times> json, json) regorus" where
  "policy_engine =
     \<lparr> rg_new = ([], JNull),
       rg_add_policy = (\<lambda>name text (texts, input). if text = POLICY then Inr (texts @ [text], input)
         else Inl ''parse error''),
       rg_add_data = (\<lambda>v engine. Inr engine), rg_value_from_json_str = (\<lambda>_. Inr JNull),
       rg_value_from = (\<lambda>j. j), rg_set_input = (\<lambda>j (texts, _). (texts, j)),
       rg_eval_bool_query = (\<lambda>query _ (texts, input).
         if POLICY \<in> set texts then Inr (policy_allows input) else Inl ''undefined'') \<rparr>"

definition make_authorizer :: "(string, (string list \<times> json) regorus_authorizer) result" where
  "make_authorizer = regorus_authorizer_new policy_engine [(''test'', Inr POLICY)] []"

definition make_claims :: "string list \<Rightarrow> claims" where
  "make_claims roles = \<lparr> cl_sub = ''test-user'', cl_exp = 9999999999, cl_iat = None, cl_iss = None,
     cl_roles = roles, cl_scope = None \<rparr>"

definition make_parts :: "string \<Rightarrow> string \<Rightarrow> claims request_parts" where
  "make_parts meth uri = \<lparr> rp_method = meth, rp_path = uri, rp_header_text = (\<lambda>_. None),
     rp_identity = None \<rparr>"

definition authorize_test :: "string list \<Rightarrow> string \<Rightarrow> string \<Rightarrow> (auth_error, unit) result option" where
  "authorize_test roles meth uri =
     (case make_authorizer of
        Inl _ \<Rightarrow> None
      | Inr authz \<Rightarrow> Some (fst (regorus_authorize policy_engine authz (make_claims roles)
          (make_parts meth uri) ())))"

definition reader_get_allowed :: bool where
  "reader_get_allowed = (authorize_test [''reader''] ''GET'' ''/components'' = Some (Inr ()))"

definition reader_put_denied :: bool where
  "reader_put_denied =
     (authorize_test [''reader''] ''PUT'' ''/components/ecu/data/speed'' = Some (Inl Unauthorized))"

definition admin_put_allowed :: bool where
  "admin_put_allowed =
     (authorize_test [''admin''] ''PUT'' ''/components/ecu/data/speed'' = Some (Inr ()))"

definition no_roles_denied :: bool where
  "no_roles_denied = (authorize_test [] ''GET'' ''/components'' = Some (Inl Unauthorized))"

definition invalid_rego_content_errors :: bool where
  "invalid_rego_content_errors =
     (case regorus_authorizer_new policy_engine [(''bad'', Inr ''not valid rego {{{{'')] [] of
        Inl _ \<Rightarrow> True | Inr _ \<Rightarrow> False)"

lemma policy_tests_pass:
  reader_get_allowed reader_put_denied admin_put_allowed no_roles_denied
  invalid_rego_content_errors
  by (simp_all add: reader_get_allowed_def reader_put_denied_def admin_put_allowed_def
      no_roles_denied_def invalid_rego_content_errors_def authorize_test_def make_authorizer_def
      make_claims_def make_parts_def regorus_authorizer_new_def regorus_authorize_def
      policy_engine_def policy_input_def policy_allows_def POLICY_def auth_error_unauthorized_def
      Let_def)

subsection \<open>Middleware tests\<close>

text \<open>A route that answers 200, and the two layers as the tests stack them.\<close>

definition ok_route :: "(unit, unit, 'i, unit) service" where
  "ok_route req w = (Inr \<lparr> hr_status = 200, hr_body = Some (JString ''ok'') \<rparr>, w)"

definition oneshot ::
  "(unit, unit, 'i, unit) service \<Rightarrow> 'i request_parts \<Rightarrow> http_response option" where
  "oneshot app parts = (case fst (app (parts, ()) ()) of Inl _ \<Rightarrow> None | Inr r \<Rightarrow> Some r)"

definition reject_all :: "(unit, unit, unit) authorizer" where
  "reject_all identity parts w = (Inl auth_error_unauthorized, w)"

definition extract_bearer :: "(unit, 'x, string) authenticator" where
  "extract_bearer parts w =
     (and_then (ok_or Unauthenticated
        (Option.bind (rp_header_text parts ''authorization'') (strip_prefix ''Bearer '')))
        (\<lambda>_. Inr ''BearerClaims''), w)"

text \<open>A handler that takes the extractor as its argument.\<close>

definition with_identity :: "('i \<Rightarrow> string) \<Rightarrow> (unit, unit, 'i, unit) service" where
  "with_identity handler req w =
     (case identity_from_request_parts (fst req) of
        Inl e \<Rightarrow> (Inr (auth_into_response e), w)
      | Inr i \<Rightarrow> (Inr \<lparr> hr_status = 200, hr_body = Some (JString (handler i)) \<rparr>, w))"

definition authenticated_only ::
  "(unit, 'i, 'i) authenticator \<Rightarrow> (unit, unit, 'i, unit) service \<Rightarrow> (unit, unit, 'i, unit) service" where
  "authenticated_only a inner =
     authentication_call (authentication_layer_layer (authentication_layer_new a) inner)"

definition succeeds :: "http_response option \<Rightarrow> bool" where
  "succeeds r = (case r of None \<Rightarrow> False | Some r \<Rightarrow> success_status (hr_status r))"

definition test_noauth_allows_all :: bool where
  "test_noauth_allows_all =
     succeeds (oneshot (authorized_service no_auth allow_all ok_route) (request_with None))"

definition test_authorization_denied_returns_403_json :: bool where
  "test_authorization_denied_returns_403_json =
     (case oneshot (authorized_service no_auth reject_all ok_route) (request_with None) of
        None \<Rightarrow> False
      | Some response \<Rightarrow>
          hr_status response = 403 \<and>
          (case hr_body response of
             None \<Rightarrow> False
           | Some json \<Rightarrow>
               json_field ''error_code'' json = Some (JString ''insufficient-access-rights'') \<and>
               json_field ''message'' json = Some (JString ''insufficient access rights'')))"

definition test_bearer_authentication :: bool where
  "test_bearer_authentication =
     (let app = authorized_service extract_bearer allow_all ok_route
      in succeeds (oneshot app (request_with (bearer ''my-token''))) \<and>
         oneshot app (request_with None) = Some \<lparr> hr_status = 401, hr_body = None \<rparr>)"

definition test_identity_extractor :: bool where
  "test_identity_extractor =
     succeeds (oneshot (authenticated_only extract_bearer (with_identity (\<lambda>claims. claims)))
       (request_with (bearer ''my-token'')))"

definition test_identity_extractor_missing :: bool where
  "test_identity_extractor_missing =
     (map_option hr_status (oneshot (with_identity (\<lambda>claims :: string. ''unreachable''))
        (request_with None)) = Some 401)"

definition test_identity_extractor_noauth :: bool where
  "test_identity_extractor_noauth =
     succeeds (oneshot (authenticated_only no_auth (with_identity (\<lambda>_. ''ok''))) (request_with None))"

lemma middleware_tests_pass:
  test_noauth_allows_all test_authorization_denied_returns_403_json test_bearer_authentication
  test_identity_extractor test_identity_extractor_missing test_identity_extractor_noauth
  by (simp_all add: test_noauth_allows_all_def test_authorization_denied_returns_403_json_def
      test_bearer_authentication_def test_identity_extractor_def
      test_identity_extractor_missing_def test_identity_extractor_noauth_def succeeds_def success_status_def
      oneshot_def authorized_service_cases no_auth_def allow_all_def reject_all_def
      extract_bearer_def request_with_def bearer_def ok_route_def with_identity_def
      authenticated_only_def authentication_call_def authentication_layer_layer_def
      authentication_layer_new_def identity_from_request_parts_def auth_error_unauthorized_def
      generic_error_to_json_def skip_none_def Let_def)

end
