(* ===== verification/Model_Tests.thy ===== *)
theory Model_Tests
  imports Programs Unit Assertions
begin

text \<open>
  The unit tests of the models (\<open>src/opensovd-models/src/data.rs\<close>, \<open>types.rs\<close>), of units
  (\<open>src/opensovd-extra/src/unit.rs\<close>), of error responses (\<open>src/opensovd-server/src/routes/error.rs\<close>),
  of the server's base path, builder, TLS configuration and body (\<open>server.rs\<close>, \<open>tls.rs\<close>,
  \<open>body.rs\<close>), of the gateway's CORS layer (\<open>src/opensovd-cli/gateway/src/cors.rs\<close>) and of tracing
  and shutdown (\<open>src/opensovd-cli/lib/src/lib.rs\<close>) as statements about the model.
\<close>

subsection \<open>Models\<close>

definition test_data_category_conversion :: bool where
  "test_data_category_conversion =
     (data_category_from ''identData'' = IdentData \<and>
      data_category_from ''currentData'' = CurrentData \<and>
      data_category_from ''storedData'' = StoredData \<and>
      data_category_from ''sysInfo'' = SysInfo \<and>
      data_category_from ''x-custom'' = Custom ''x-custom'' \<and>
      data_category_as_str IdentData = ''identData'' \<and>
      data_category_as_str CurrentData = ''currentData'' \<and>
      data_category_as_str StoredData = ''storedData'' \<and>
      data_category_as_str SysInfo = ''sysInfo'' \<and>
      data_category_as_str (Custom ''x-custom'') = ''x-custom'')"

definition test_data_error :: bool where
  "test_data_error =
     (let not_found = data_error_dto_not_found ''voltage''; read_only = data_error_dto_read_only
      in dd_error_code not_found = ''not-found'' \<and>
         dd_message not_found = Some ''Data resource not found: voltage'' \<and>
         data_error_dto_display not_found = ''not-found'' \<and>
         dd_error_code read_only = ''read-only'' \<and>
         dd_message read_only = Some ''Data resource is read-only'' \<and>
         data_error_dto_display read_only = ''read-only'')"

definition test_data_query_to_filter :: bool where
  "test_data_query_to_filter =
     (let query = \<lparr> dq_groups = Some [''sensors''], dq_categories = Some [''currentData''],
            dq_tags = Some [''temperature''], dq_include_schema = True \<rparr>;
          dto = data_filter_from_query query
      in fd_groups dto = Some [''sensors''] \<and> fd_categories dto = Some [CurrentData] \<and>
         fd_tags dto = Some [''temperature''])"

definition uri_reference_schema_test :: bool where
  "uri_reference_schema_test =
     (json_at uri_reference_json_schema ''format'' = JString ''uri-reference'')"

definition json_pointer_schema_test :: bool where
  "json_pointer_schema_test =
     (json_at json_pointer_json_schema ''format'' = JString ''json-pointer'')"

lemma model_tests_pass:
  test_data_category_conversion test_data_error test_data_query_to_filter
  uri_reference_schema_test json_pointer_schema_test
  by (simp_all add: test_data_category_conversion_def test_data_error_def
      test_data_query_to_filter_def uri_reference_schema_test_def json_pointer_schema_test_def
      data_category_from_def data_error_dto_not_found_def data_error_dto_read_only_def
      data_error_dto_display_def data_filter_from_query_def json_at_def
      uri_reference_json_schema_def json_pointer_json_schema_def Let_def)

subsection \<open>Units\<close>

text \<open>The floats the literals \<open>3.6\<close> and \<open>-273.15\<close> denote.\<close>

definition float_3_6 :: rat where
  "float_3_6 = 8106479329266893 / 2251799813685248"

definition float_minus_273_15 :: rat where
  "float_minus_273_15 = - 2402652809016115 / 8796093022208"

lemma f64_value_fraction: "\<bar>m\<bar> < 2 ^ 53 \<Longrightarrow> k \<le> 1074 \<Longrightarrow> f64_value (of_int m / 2 ^ k)"
  unfolding f64_value_def
  by (intro exI [of _ m] exI [of _ "- int k"]) (simp add: power_int_minus divide_inverse)

lemma test_floats: "f64_value float_3_6" "f64_value float_minus_273_15"
  using f64_value_fraction [of 8106479329266893 51] f64_value_fraction [of "- 2402652809016115" 43]
  by (simp_all add: float_3_6_def float_minus_273_15_def)

text \<open>Comparing a JSON value with a float.\<close>

definition json_is_float :: "float_texts \<Rightarrow> json \<Rightarrow> rat \<Rightarrow> bool" where
  "json_is_float T j q \<longleftrightarrow> f64_of_json T j = Some (Finite q)"

definition unit_serializes_correctly :: "float_texts \<Rightarrow> bool" where
  "unit_serializes_correctly T =
     (let unit = unit_with_dimension (dimension_with_id ''speed'' SPEED)
            (unit_with_factor (Finite float_3_6) (unit_new ''km/h''));
          json = unit_to_json T unit
      in json_at json ''display_name'' = JString ''km/h'' \<and>
         json_is_float T (json_at json ''factor_si_to_unit'') float_3_6 \<and>
         json_field ''offset_si_to_unit'' json = None)"

definition unit_skips_factor_when_one :: "float_texts \<Rightarrow> bool" where
  "unit_skips_factor_when_one T =
     (let json = unit_to_json T (unit_new ''V'')
      in json_at json ''display_name'' = JString ''V'' \<and>
         json_field ''factor_si_to_unit'' json = None)"

definition physical_dimension_skips_zero_exponents :: bool where
  "physical_dimension_skips_zero_exponents =
     (let json = dimension_to_json (dimension_with_id ''voltage'' VOLTAGE)
      in json_at json ''length'' = JNumber (show_int 2) \<and>
         json_at json ''mass'' = JNumber (show_int 1) \<and>
         json_at json ''time'' = JNumber (show_int (- 3)) \<and>
         json_at json ''current'' = JNumber (show_int (- 1)) \<and>
         json_field ''temperature'' json = None)"

definition unit_deserializes_correctly :: "float_texts \<Rightarrow> bool" where
  "unit_deserializes_correctly T =
     (case unit_of_json T (JObject [(''display_name'', JString ''V'')]) of
        None \<Rightarrow> False
      | Some unit \<Rightarrow> un_display_name unit = ''V'' \<and> is_one (un_factor_si_to_unit unit) \<and>
          is_zero_f64 (un_offset_si_to_unit unit))"

definition unit_deserializes_with_factor :: "float_texts \<Rightarrow> bool" where
  "unit_deserializes_with_factor T =
     (case unit_of_json T (JObject [(''display_name'', JString ''km/h''),
          (''factor_si_to_unit'', JNumber ''3.6'')]) of
        None \<Rightarrow> False
      | Some unit \<Rightarrow> un_display_name unit = ''km/h'' \<and>
          (case un_factor_si_to_unit unit of
             Finite q \<Rightarrow> \<bar>q - float_3_6\<bar> < f64_epsilon | _ \<Rightarrow> False))"

definition unit_serializes_offset :: "float_texts \<Rightarrow> bool" where
  "unit_serializes_offset T =
     (let json = unit_to_json T (unit_with_offset (Finite float_minus_273_15) (unit_new ''deg C''))
      in json_is_float T (json_at json ''offset_si_to_unit'') float_minus_273_15 \<and>
         json_field ''factor_si_to_unit'' json = None)"

definition physical_dimension_deserializes_with_defaults :: bool where
  "physical_dimension_deserializes_with_defaults =
     (case dimension_of_json (JObject [(''id'', JString ''temperature''),
          (''temperature'', JNumber ''1'')]) of
        None \<Rightarrow> False
      | Some dimension \<Rightarrow> pd_id dimension = Some ''temperature'' \<and> pd_temperature dimension = 1 \<and>
          pd_length dimension = 0)"

lemma literal_texts: "f64_epsilon > 0" "int_of_text ''1'' = Some 1"
  by (simp_all add: f64_epsilon_def int_of_text_def nat_of_text_def digit_of_def)

text \<open>\<open>read_3_6\<close>: the text \<open>3.6\<close> is read as the float that the literal denotes.\<close>

lemma unit_tests_pass:
  assumes "float_text_laws T" and read_3_6: "ft_read T ''3.6'' = Some float_3_6"
  shows "unit_serializes_correctly T" "unit_skips_factor_when_one T"
    physical_dimension_skips_zero_exponents "unit_deserializes_correctly T"
    "unit_deserializes_with_factor T" "unit_serializes_offset T"
    physical_dimension_deserializes_with_defaults
proof -
  note reads = float_text_laws.read_show [OF assms(1) test_floats(1)]
    float_text_laws.read_show [OF assms(1) test_floats(2)]
  note setters = unit_new_def unit_with_dimension_def unit_with_factor_def unit_with_offset_def
    unit_to_json_def json_at_def json_is_float_def f64_to_json_def f64_of_json_def is_one_def
    is_zero_f64_def skip_none_def Let_def
  have far: "\<not> \<bar>float_3_6 - 1\<bar> < f64_epsilon" "\<not> \<bar>float_minus_273_15\<bar> < f64_epsilon"
    by (simp_all add: float_3_6_def float_minus_273_15_def f64_epsilon_def)
  show "unit_serializes_correctly T" "unit_skips_factor_when_one T" "unit_serializes_offset T"
    using reads far literal_texts(1)
    by (simp_all add: unit_serializes_correctly_def unit_skips_factor_when_one_def
        unit_serializes_offset_def setters)
  show "unit_deserializes_correctly T" "unit_deserializes_with_factor T"
    using read_3_6 literal_texts(1)
    by (simp_all add: unit_deserializes_correctly_def unit_deserializes_with_factor_def
        unit_of_json_def field_defs defaulted_def f64_of_json_def is_one_def is_zero_f64_def
        one_f64_def)
  show physical_dimension_skips_zero_exponents
    by (simp add: physical_dimension_skips_zero_exponents_def dimension_to_json_def json_at_def
        dimension_with_id_def VOLTAGE_def dimension_default_def skip_zero_def is_zero_def
        skip_none_def Let_def)
  show physical_dimension_deserializes_with_defaults
    by (simp add: physical_dimension_deserializes_with_defaults_def dimension_of_json_def
        field_defs defaulted_def i8_of_json_def literal_texts)
qed

subsection \<open>Error responses\<close>

text \<open>The status and the JSON body of an error's response.\<close>

definition error_response :: "route_error \<Rightarrow> nat \<times> json" where
  "error_response e = respond 200 (\<lambda>_ :: unit. JNull) (Inl e)"

definition test_error_entity_not_found :: bool where
  "test_error_entity_not_found =
     (let (status, json) = error_response (EntityNotFound ''test-component'')
      in status = 404 \<and> json_at json ''vendor_code'' = JString ''entity-not-found'' \<and>
         text_contains ''test-component'' (text_of (json_at json ''message'')))"

definition test_error_provider_not_available :: bool where
  "test_error_provider_not_available =
     (let (status, json) = error_response (ProviderNotAvailable ''data'')
      in status = 404 \<and> json_at json ''vendor_code'' = JString ''provider-not-available'')"

definition test_error_data_not_found :: bool where
  "test_error_data_not_found =
     (fst (error_response (DataFailure (DataNotFound ''voltage''))) = 404)"

definition test_error_data_read_only :: bool where
  "test_error_data_read_only = (fst (error_response (DataFailure ReadOnly)) = 400)"

definition test_error_data_internal :: bool where
  "test_error_data_internal =
     (let (status, json) = error_response (DataFailure (Internal ''lock poisoned''))
      in status = 500 \<and> json_at json ''message'' = JString ''An internal error occurred'' \<and>
         \<not> text_contains ''lock poisoned'' (text_of (json_at json ''message'')))"

definition test_error_topology_not_found :: bool where
  "test_error_topology_not_found =
     (let (status, json) =
        error_response (TopologyFailure (TopologyNotFound (entity_ref_area ''area-1'')))
      in status = 404 \<and> text_contains ''area-1'' (text_of (json_at json ''message'')))"

text \<open>A handler behind the \<open>WithRejection\<close> extractor; the query could not be read.\<close>

definition test_error_bad_query :: "string \<Rightarrow> bool" where
  "test_error_bad_query rejection =
     (let (status, json) = respond 200 JString
        (with_rejection (Inl rejection :: (string, bool) result) (\<lambda>_. Inr ''ok''))
      in status = 400 \<and> json_at json ''error_code'' = JString ''incomplete-request'' \<and>
         json_at json ''message'' = JString ''Bad request'')"

lemma error_tests_pass:
  test_error_entity_not_found test_error_provider_not_available test_error_data_not_found
  test_error_data_read_only test_error_data_internal test_error_topology_not_found
  "test_error_bad_query rejection"
  by (simp_all add: test_error_entity_not_found_def test_error_provider_not_available_def
      test_error_data_not_found_def test_error_data_read_only_def test_error_data_internal_def
      test_error_topology_not_found_def test_error_bad_query_def error_response_def respond_def
      with_rejection_def generic_error_to_json_def generic_error_with_vendor_code_def
      generic_error_new_def json_at_def skip_none_def entity_ref_display_def entity_ref_defs Let_def)

subsection \<open>Server, TLS and bodies\<close>

definition test_normalize_base :: bool where
  "test_normalize_base =
     (normalize_base [] = None \<and> normalize_base ''/'' = None \<and>
      normalize_base ''/sovd'' = Some ''/sovd'' \<and> normalize_base ''sovd'' = Some ''/sovd'')"

definition test_build_missing_listener :: "string \<Rightarrow> bool" where
  "test_build_missing_listener pkg_version =
     (case server_builder_build (server_builder_new pkg_version () () () ::
        (unit, unit, vendor_info, (unit, unit, unit) authenticator, (unit, unit, unit) authorizer,
         unit, unit, unit, unit, unit) server_builder) of
        Inl NoListener \<Rightarrow> True | _ \<Rightarrow> False)"

definition tls_config_no_client_ca :: bool where
  "tls_config_no_client_ca =
     (let cfg = tls_config_new ''/tmp/cert.pem'' ''/tmp/key.pem'' in \<not> has_client_ca cfg)"

definition tls_config_with_client_ca :: bool where
  "tls_config_with_client_ca =
     (let cfg = with_client_ca ''/tmp/ca.crt'' (tls_config_new ''/tmp/cert.pem'' ''/tmp/key.pem'')
      in has_client_ca cfg)"

definition tls_config_build_missing_file ::
  "('io, 'rustls, 'cert, 'pkey, 'store, 'ver, 'cfg) tls_library \<Rightarrow>
     ('sem, 'ch, 'c) handshake_primitives \<Rightarrow> 'tcp \<Rightarrow> bool" where
  "tls_config_build_missing_file T H listener =
     (let cfg = tls_config_new ''/nonexistent/cert.pem'' ''/nonexistent/key.pem''
      in case tls_config_build T H cfg listener of Inl (TlsIo _ _) \<Rightarrow> True | _ \<Rightarrow> False)"

text \<open>A full body as its remaining bytes, and collecting the frames of a body.\<close>

definition full_body :: "(string option, 'err, string, nat) body_operations" where
  "full_body = \<lparr>
     bo_poll_frame = (\<lambda>b. (Ready (map_option Inr b), None)),
     bo_size_hint = (\<lambda>b. case b of None \<Rightarrow> 0 | Some s \<Rightarrow> length s),
     bo_is_end_stream = (\<lambda>b. b = None) \<rparr>"

fun collect_body ::
  "nat \<Rightarrow> ('b, 'err, string, 'hint) body_operations \<Rightarrow> 'b opaque_body \<Rightarrow> string option" where
  "collect_body 0 Ops b = None"
| "collect_body (Suc n) Ops b =
     (case body_poll_frame Ops (\<lambda>e. e) b of
        (Ready None, _) \<Rightarrow> Some []
      | (Ready (Some (Inr frame)), b') \<Rightarrow> map_option ((@) frame) (collect_body n Ops b')
      | _ \<Rightarrow> None)"

definition body_delegates_to_inner :: bool where
  "body_delegates_to_inner =
     (let body = body_new (\<lambda>b. b) (Some ''hello'');
          Ops = (full_body :: (string option, string, string, nat) body_operations)
      in \<not> body_is_end_stream Ops body \<and> collect_body 2 Ops body = Some ''hello'')"

text \<open>\<open>missing\<close>: reading the certificate of the test fails.\<close>

lemma server_tests_pass:
  assumes missing: "fs_read T ''/nonexistent/cert.pem'' = Inl e"
  shows test_normalize_base "test_build_missing_listener pkg_version" tls_config_no_client_ca
    tls_config_with_client_ca "tls_config_build_missing_file T H listener" body_delegates_to_inner
  using missing
  by (simp_all add: test_normalize_base_def normalize_base_def test_build_missing_listener_def
      server_builder_build_def server_builder_new_def tls_config_no_client_ca_def
      tls_config_with_client_ca_def has_client_ca_def with_client_ca_def tls_config_new_def
      tls_config_build_missing_file_def tls_config_build_def tls_server_config_def load_certs_def
      read_file_def body_delegates_to_inner_def full_body_def body_new_def numeral_2_eq_2)

subsection \<open>CORS\<close>

definition fails_with ::
  "(string \<Rightarrow> string) \<Rightarrow> string \<Rightarrow> (cors_error, 'l option) result \<Rightarrow> bool" where
  "fails_with debug expected outcome =
     (case outcome of Inl err \<Rightarrow> text_contains expected (cors_error_text debug err) | Inr _ \<Rightarrow> False)"

definition test_empty_origins_returns_none :: "('l, 'hv, 'me, 'hn) cors_library \<Rightarrow> bool" where
  "test_empty_origins_returns_none K =
     (case create_cors_layer K [] [] [] False None of Inr None \<Rightarrow> True | _ \<Rightarrow> False)"

definition test_credentials_with_wildcard_origin_fails ::
  "('l, 'hv, 'me, 'hn) cors_library \<Rightarrow> (string \<Rightarrow> string) \<Rightarrow> bool" where
  "test_credentials_with_wildcard_origin_fails K debug =
     fails_with debug ''origins'' (create_cors_layer K [''*''] [] [] True None)"

definition test_credentials_with_wildcard_header_fails ::
  "('l, 'hv, 'me, 'hn) cors_library \<Rightarrow> (string \<Rightarrow> string) \<Rightarrow> bool" where
  "test_credentials_with_wildcard_header_fails K debug =
     fails_with debug ''headers''
       (create_cors_layer K [''http://example.com''] [] [''*''] True None)"

definition test_invalid_origin ::
  "('l, 'hv, 'me, 'hn) cors_library \<Rightarrow> (string \<Rightarrow> string) \<Rightarrow> bool" where
  "test_invalid_origin K debug =
     fails_with debug ''invalid CORS origin''
       (create_cors_layer K [CHR 0x00 # ''bad''] [] [] False None)"

definition test_invalid_method ::
  "('l, 'hv, 'me, 'hn) cors_library \<Rightarrow> (string \<Rightarrow> string) \<Rightarrow> bool" where
  "test_invalid_method K debug =
     fails_with debug ''invalid CORS method''
       (create_cors_layer K [''http://example.com''] [''NOT A METHOD''] [] False None)"

definition test_invalid_header ::
  "('l, 'hv, 'me, 'hn) cors_library \<Rightarrow> (string \<Rightarrow> string) \<Rightarrow> bool" where
  "test_invalid_header K debug =
     fails_with debug ''invalid CORS header''
       (create_cors_layer K [''http://example.com''] [] [''bad'' @ CHR 0x00 # ''header''] False None)"

text \<open>The parsers of the HTTP library refuse the texts the tests take to be invalid.\<close>

lemma cors_tests_pass:
  assumes "cors_parse_origin K (CHR 0x00 # ''bad'') = None"
    and "cors_parse_origin K ''http://example.com'' = Some origin"
    and "cors_parse_method K ''NOT A METHOD'' = None"
    and "cors_parse_header K (''bad'' @ CHR 0x00 # ''header'') = None"
  shows "test_empty_origins_returns_none K" "test_credentials_with_wildcard_origin_fails K debug"
    "test_credentials_with_wildcard_header_fails K debug" "test_invalid_origin K debug"
    "test_invalid_method K debug" "test_invalid_header K debug"
  using assms
  by (simp_all add: test_empty_origins_returns_none_def
      test_credentials_with_wildcard_origin_fails_def
      test_credentials_with_wildcard_header_fails_def test_invalid_origin_def
      test_invalid_method_def test_invalid_header_def fails_with_def create_cors_layer_def
      parse_all_def Let_def)

subsection \<open>Tracing and shutdown\<close>

definition init_tracing_fails_on_invalid_path ::
  "(string \<Rightarrow> ('io, unit) result) \<Rightarrow> ('fe, 'f) result \<Rightarrow> (string \<Rightarrow> 'f) \<Rightarrow> bool" where
  "init_tracing_fails_on_invalid_path create from_env new_filter =
     (case init_tracing create from_env new_filter ''info'' (Some ''/nonexistent/dir/test.log'')
        None of
        Some (Inl _, _) \<Rightarrow> True | _ \<Rightarrow> False)"

text \<open>The signal is raised while the function waits; it completes.\<close>

definition shutdown_signal_responds_to_sigterm :: bool where
  "shutdown_signal_responds_to_sigterm =
     (case shutdown_signal (Inr () :: (string, unit) result) [SigTerm] of
        Some (Some _) \<Rightarrow> True | _ \<Rightarrow> False)"

definition shutdown_signal_responds_to_sigint :: bool where
  "shutdown_signal_responds_to_sigint =
     (case shutdown_signal (Inr () :: (string, unit) result) [CtrlC (Inr ())] of
        Some (Some _) \<Rightarrow> True | _ \<Rightarrow> False)"

lemma program_tests_pass:
  assumes "create ''/nonexistent/dir/test.log'' = Inl e"
  shows "init_tracing_fails_on_invalid_path create from_env new_filter"
    shutdown_signal_responds_to_sigterm shutdown_signal_responds_to_sigint
  using assms
  by (simp_all add: init_tracing_fails_on_invalid_path_def init_tracing_def
      shutdown_signal_responds_to_sigterm_def shutdown_signal_responds_to_sigint_def
      shutdown_signal_def Let_def)

end
