(* ===== verification/Route_Tests.thy ===== *)
theory Route_Tests
  imports Service Mocks Assertions "HOL-Library.Word"
begin

text \<open>
  The unit tests of the routes as statements about the model: the version document
  (\<open>src/opensovd-server/src/routes/version.rs\<close>) and the discovery routes over the mock topology
  (\<open>src/opensovd-server/src/routes/entities/component.rs\<close>, \<open>app.rs\<close>, \<open>area.rs\<close>).  The containers,
  the percent-encoding, the query deserializer and the schemas stay parameters.
\<close>

subsection \<open>Requests\<close>

text \<open>\<open>Request::builder().uri(...)\<close> without headers, and the router of the module under test.\<close>

definition plain_request :: "unit request_parts" where
  "plain_request = \<lparr> rp_method = ''GET'', rp_path = ''/'', rp_header_text = (\<lambda>_. None),
     rp_identity = None \<rparr>"

definition get_version ::
  "('mc, 'ma, 'mr, 's, 'w, 'set) route_env \<Rightarrow> query_library \<Rightarrow> ('v \<Rightarrow> json) \<Rightarrow> 'v option \<Rightarrow>
     string \<Rightarrow> 'w \<Rightarrow> answer" where
  "get_version E Q enc vendor target w =
     (case dispatch version_routes GET (target_segments target) of
        h # _ \<Rightarrow> fst (endpoint_answer E Q enc vendor (topology_state_new (env_containers E))
          plain_request (target_query target) None h [] w)
      | [] \<Rightarrow> (404, None))"

definition get_mock ::
  "('mc, 'ma, 'mr, 's, 'w, 'set) route_env \<Rightarrow> (string, 'w resource_entry, 'm) index_map \<Rightarrow>
     (string \<Rightarrow> json option) \<Rightarrow> query_library \<Rightarrow> string \<Rightarrow> 'w \<Rightarrow> answer option" where
  "get_mock E M S Q target w = map_option (\<lambda>topo. fst (serve_request E Q (\<lambda>_. JNull)
     (None :: unit option) topo plain_request GET target None w))
     (create_mock_topology (env_containers E) M S)"

text \<open>A response is a success whose body satisfies the assertions.\<close>

definition succeeds_with :: "answer \<Rightarrow> (json \<Rightarrow> bool) \<Rightarrow> bool" where
  "succeeds_with a holds \<longleftrightarrow> success_status (fst a) \<and>
     (case snd a of None \<Rightarrow> False | Some json \<Rightarrow> holds json)"

definition mock_succeeds_with :: "answer option \<Rightarrow> (json \<Rightarrow> bool) \<Rightarrow> bool" where
  "mock_succeeds_with a holds = (case a of None \<Rightarrow> False | Some a \<Rightarrow> succeeds_with a holds)"

subsection \<open>Version document\<close>

definition test_version_info ::
  "('mc, 'ma, 'mr, 's, 'w, 'set) route_env \<Rightarrow> query_library \<Rightarrow> 'w \<Rightarrow> bool" where
  "test_version_info E Q w =
     succeeds_with (get_version E Q vendor_info_to_json None ''/version-info'' w) (\<lambda>json.
       json_at (json_nth (json_at json ''sovd_info'') 0) ''version'' = JString SOVD_VERSION \<and>
       json_at (json_nth (json_at json ''sovd_info'') 0) ''vendor_info'' = JNull \<and>
       json_field ''schema'' json = None)"

text \<open>Only the generator answers whether a schema is an object, so that is its argument.\<close>

definition test_version_info_with_schema ::
  "('mc, 'ma, 'mr, 's, 'w, 'set) route_env \<Rightarrow> query_library \<Rightarrow> 'w \<Rightarrow> bool" where
  "test_version_info_with_schema E Q w =
     succeeds_with
       (get_version E Q vendor_info_to_json None ''/version-info?include-schema=true'' w) (\<lambda>json.
       case json_at json ''schema'' of JObject _ \<Rightarrow> True | _ \<Rightarrow> False)"

definition test_version_info_invalid_query_param ::
  "('mc, 'ma, 'mr, 's, 'w, 'set) route_env \<Rightarrow> query_library \<Rightarrow> 'w \<Rightarrow> bool" where
  "test_version_info_invalid_query_param E Q w =
     (case get_version E Q vendor_info_to_json None ''/version-info?include-schema=bad'' w of
        (status, Some json) \<Rightarrow> status = 400 \<and>
          json_at json ''error_code'' = JString ''incomplete-request'' \<and>
          json_at json ''message'' = JString ''Bad request''
      | _ \<Rightarrow> False)"

record custom_vendor =
  cv_product :: string
  cv_build :: "32 word"

definition custom_vendor_to_json :: "custom_vendor \<Rightarrow> json" where
  "custom_vendor_to_json v = JObject
     [(''product'', JString (cv_product v)), (''build'', JNumber (show_nat (unat (cv_build v))))]"

definition test_version_info_with_custom_vendor_schema ::
  "('mc, 'ma, 'mr, 's, 'w, 'set) route_env \<Rightarrow> query_library \<Rightarrow> 'w \<Rightarrow> bool" where
  "test_version_info_with_custom_vendor_schema E Q w =
     succeeds_with (get_version E Q custom_vendor_to_json
         (Some \<lparr> cv_product = ''SOVD'', cv_build = 42 \<rparr>) ''/version-info?include-schema=true'' w)
       (\<lambda>json.
         let info = json_at (json_nth (json_at json ''sovd_info'') 0) ''vendor_info'';
             schema = json_at json ''schema'';
             vendor_def = json_at (json_at schema ''$defs'') ''CustomVendor'';
             properties = json_at vendor_def ''properties''
         in json_at info ''product'' = JString ''SOVD'' \<and>
            json_at info ''build'' = JNumber (show_nat 42) \<and>
            json_at schema ''$schema'' = JString ''https://json-schema.org/draft/2020-12/schema'' \<and>
            json_at schema ''title'' = JString ''VersionInfo'' \<and>
            json_at vendor_def ''type'' = JString ''object'' \<and>
            json_at (json_at properties ''product'') ''type'' = JString ''string'' \<and>
            json_at (json_at properties ''build'') ''type'' = JString ''integer'' \<and>
            json_at (json_at properties ''build'') ''format'' = JString ''uint32'')"

text \<open>What the schema generator answers for the document with this vendor type.\<close>

definition custom_vendor_schema :: json where
  "custom_vendor_schema = JObject
     [(''$schema'', JString ''https://json-schema.org/draft/2020-12/schema''),
      (''title'', JString ''VersionInfo''),
      (''$defs'', JObject [(''CustomVendor'', JObject
         [(''type'', JString ''object''),
          (''properties'', JObject
             [(''product'', JObject [(''type'', JString ''string'')]),
              (''build'', JObject
                 [(''type'', JString ''integer''), (''format'', JString ''uint32'')])])])])]"

lemma version_targets:
  "target_segments ''/version-info'' = [''version-info'']" "target_query ''/version-info'' = []"
  "target_segments ''/version-info?include-schema=true'' = [''version-info'']"
  "target_query ''/version-info?include-schema=true'' = ''include-schema=true''"
  "target_segments ''/version-info?include-schema=bad'' = [''version-info'']"
  "target_query ''/version-info?include-schema=bad'' = ''include-schema=bad''"
  by (simp_all add: target_segments_def target_query_def path_segments_def)

lemmas version_eval = get_version_def version_targets dispatch_def version_routes_def
  version_info_def with_rejection_def read_version_query_def flag_of_def values_of_def
  json_answer_def respond_def response_to_json_def version_info_fields_def sovd_info_to_json_def
  json_at_def json_nth_def succeeds_with_def success_status_def skip_none_def then_some_def
  generic_error_to_json_def generic_error_new_def

text \<open>
  They pass with any deserializer that reads the pairs of a query, the last one when the schema
  of the document is the given one.
\<close>

lemma version_tests_pass:
  assumes "query_laws Q" and bad: "ql_pairs Q ''include-schema=bad'' = [(''include-schema'', ''bad'')]"
    and object: "env_schema E ''VersionInfo'' = custom_vendor_schema"
  shows "test_version_info E Q w" "test_version_info_with_schema E Q w"
    "test_version_info_invalid_query_param E Q w"
    "test_version_info_with_custom_vendor_schema E Q w"
proof -
  note pairs = query_laws.no_pairs [OF assms(1)] query_laws.flag_pair [OF assms(1)] bad
  note eval = version_eval pairs object custom_vendor_schema_def Let_def
  show "test_version_info E Q w"
    by (simp add: test_version_info_def eval)
  show "test_version_info_with_schema E Q w"
    by (simp add: test_version_info_with_schema_def eval)
  show "test_version_info_invalid_query_param E Q w"
    by (simp add: test_version_info_invalid_query_param_def eval)
  show "test_version_info_with_custom_vendor_schema E Q w"
    by (simp add: test_version_info_with_custom_vendor_schema_def custom_vendor_to_json_def eval)
qed

subsection \<open>Discovery over the mock topology\<close>

definition test_component_capabilities_ecu ::
  "('mc, 'ma, 'mr, 's, 'w, 'set) route_env \<Rightarrow> (string, 'w resource_entry, 'm) index_map \<Rightarrow>
     (string \<Rightarrow> json option) \<Rightarrow> query_library \<Rightarrow> 'w \<Rightarrow> bool" where
  "test_component_capabilities_ecu E M S Q w =
     mock_succeeds_with (get_mock E M S Q ''/components/ecu'' w) (\<lambda>json.
       json_at json ''id'' = JString ''ecu'' \<and>
       json_at json ''name'' = JString ''Engine Control Unit'' \<and>
       json_at json ''hosts'' = JString ''http://localhost/sovd/v1/components/ecu/hosts'' \<and>
       json_at json ''belongs-to'' = JString ''http://localhost/sovd/v1/components/ecu/belongs-to'' \<and>
       json_at json ''data'' = JString ''http://localhost/sovd/v1/components/ecu/data'')"

definition test_component_list ::
  "('mc, 'ma, 'mr, 's, 'w, 'set) route_env \<Rightarrow> (string, 'w resource_entry, 'm) index_map \<Rightarrow>
     (string \<Rightarrow> json option) \<Rightarrow> query_library \<Rightarrow> 'w \<Rightarrow> bool" where
  "test_component_list E M S Q w =
     mock_succeeds_with (get_mock E M S Q ''/components'' w) (\<lambda>json.
       let entries = json_at json ''items''
       in length (json_elements entries) = 2 \<and>
          json_at (json_nth entries 0) ''id'' = JString ''ecu'' \<and>
          json_at (json_nth entries 0) ''name'' = JString ''Engine Control Unit'' \<and>
          json_at (json_nth entries 0) ''href'' = JString ''http://localhost/sovd/v1/components/ecu'')"

definition test_app_capabilities_engine_control ::
  "('mc, 'ma, 'mr, 's, 'w, 'set) route_env \<Rightarrow> (string, 'w resource_entry, 'm) index_map \<Rightarrow>
     (string \<Rightarrow> json option) \<Rightarrow> query_library \<Rightarrow> 'w \<Rightarrow> bool" where
  "test_app_capabilities_engine_control E M S Q w =
     mock_succeeds_with (get_mock E M S Q ''/apps/engine_control'' w) (\<lambda>json.
       json_at json ''id'' = JString ''engine_control'' \<and>
       json_at json ''name'' = JString ''Engine Control Application'' \<and>
       json_at json ''is-located-on'' = JString ''http://localhost/sovd/v1/components/ecu'' \<and>
       json_at json ''belongs-to'' = JString ''http://localhost/sovd/v1/apps/engine_control/belongs-to'' \<and>
       json_at json ''data'' = JString ''http://localhost/sovd/v1/apps/engine_control/data'')"

definition test_app_list ::
  "('mc, 'ma, 'mr, 's, 'w, 'set) route_env \<Rightarrow> (string, 'w resource_entry, 'm) index_map \<Rightarrow>
     (string \<Rightarrow> json option) \<Rightarrow> query_library \<Rightarrow> 'w \<Rightarrow> bool" where
  "test_app_list E M S Q w =
     mock_succeeds_with (get_mock E M S Q ''/apps'' w) (\<lambda>json.
       let entries = json_at json ''items''
       in length (json_elements entries) = 3 \<and>
          json_at (json_nth entries 0) ''id'' = JString ''engine_control'' \<and>
          json_at (json_nth entries 0) ''name'' = JString ''Engine Control Application'' \<and>
          json_at (json_nth entries 0) ''href'' = JString ''http://localhost/sovd/v1/apps/engine_control'')"

definition test_area_capabilities_powertrain ::
  "('mc, 'ma, 'mr, 's, 'w, 'set) route_env \<Rightarrow> (string, 'w resource_entry, 'm) index_map \<Rightarrow>
     (string \<Rightarrow> json option) \<Rightarrow> query_library \<Rightarrow> 'w \<Rightarrow> bool" where
  "test_area_capabilities_powertrain E M S Q w =
     mock_succeeds_with (get_mock E M S Q ''/areas/powertrain'' w) (\<lambda>json.
       json_at json ''id'' = JString ''powertrain'' \<and>
       json_at json ''name'' = JString ''Powertrain Domain'' \<and>
       json_at json ''contains'' = JString ''http://localhost/sovd/v1/areas/powertrain/contains'')"

definition test_area_list ::
  "('mc, 'ma, 'mr, 's, 'w, 'set) route_env \<Rightarrow> (string, 'w resource_entry, 'm) index_map \<Rightarrow>
     (string \<Rightarrow> json option) \<Rightarrow> query_library \<Rightarrow> 'w \<Rightarrow> bool" where
  "test_area_list E M S Q w =
     mock_succeeds_with (get_mock E M S Q ''/areas'' w) (\<lambda>json.
       let entries = json_at json ''items''
       in length (json_elements entries) = 2 \<and>
          json_at (json_nth entries 0) ''id'' = JString ''powertrain'' \<and>
          json_at (json_nth entries 0) ''name'' = JString ''Powertrain Domain'' \<and>
          json_at (json_nth entries 0) ''href'' = JString ''http://localhost/sovd/v1/areas/powertrain'')"

lemma mock_calls:
  "calls router GET ''/components'' = [(ComponentList, [])]"
  "calls router GET ''/components/ecu'' = [(ComponentCapabilities, [''ecu''])]"
  "calls router GET ''/apps'' = [(AppList, [])]"
  "calls router GET ''/apps/engine_control'' = [(AppCapabilities, [''engine_control''])]"
  "calls router GET ''/areas'' = [(AreaList, [])]"
  "calls router GET ''/areas/powertrain'' = [(AreaCapabilities, [''powertrain''])]"
  by (simp_all add: calls_def target_segments_def path_segments_def router_defs)

lemma mock_queries:
  "target_query ''/components'' = []" "target_query ''/components/ecu'' = []"
  "target_query ''/apps'' = []" "target_query ''/apps/engine_control'' = []"
  "target_query ''/areas'' = []" "target_query ''/areas/powertrain'' = []"
  by (simp_all add: target_query_def)

text \<open>The request without a \<open>Host\<close> header is answered with links to \<open>localhost\<close>.\<close>

lemma plain_base: "versioned_uri plain_request = ''http://localhost/sovd/v1''"
  by (simp add: uri_defs plain_request_def)

context percent_encoder
begin

lemma mock_segments:
  "encode_path_segment P ''ecu'' = ''ecu''" "encode_path_segment P ''engine_control'' = ''engine_control''"
  "encode_path_segment P ''powertrain'' = ''powertrain''"
  by (simp_all add: encode_path_segment_def encode_bytes path_segment_set)

end

lemma mock_builder_fields [simp]:
  "component_name (mock_ecu p) = ''Engine Control Unit''"
  "app_name (mock_engine_control p) = ''Engine Control Application''"
  "area_name mock_powertrain = ''Powertrain Domain''"
  by (simp_all add: mock_entities component_builder_defs app_builder_defs area_builder_defs)

lemmas mock_eval = get_mock_def serve_request_def mock_calls mock_queries capabilities_answer_def
  entities_answer_def read_capabilities_query_def read_entities_query_def flag_of_def values_of_def
  with_rejection_def json_answer_def respond_def response_to_json_def capabilities_fields_def
  items_fields_def entity_reference_to_json_def capabilities_response_of_def
  entities_response_of_def entity_capabilities_default_def component_reference_def app_reference_def
  area_reference_def tags_match_def uri_to_json_def mock_succeeds_with_def succeeds_with_def
  success_status_def json_at_entries json_nth_def

lemma mock_tests_pass:
  assumes "topology_containers (env_containers E)" and "percent_encoder (env_percent E)"
    and "ordered_map M" and "query_laws Q"
  shows "test_component_capabilities_ecu E M S Q w" "test_component_list E M S Q w"
    "test_app_capabilities_engine_control E M S Q w" "test_app_list E M S Q w"
    "test_area_capabilities_powertrain E M S Q w" "test_area_list E M S Q w"
proof -
  obtain pe pg pc pd po where created: "create_mock_topology (env_containers E) M S =
      Some (mock_state (env_containers E) pe pg pc pd po)"
    using mock_topology_built [OF assms(3)] by metis
  note entries = topology_containers.mock_entries [OF assms(1), of pe pg pc pd po]
  note reads = topology_containers.listings_entries [OF assms(1)]
    topology_containers.get_component_entries [OF assms(1)]
    topology_containers.get_app_entries [OF assms(1)]
    topology_containers.get_area_entries [OF assms(1)]
  note eval = mock_eval created entries reads plain_base percent_encoder.mock_segments [OF assms(2)]
    query_laws.no_pairs [OF assms(4)]
  show "test_component_capabilities_ecu E M S Q w"
    by (simp add: test_component_capabilities_ecu_def component_capabilities_def eval)
  show "test_app_capabilities_engine_control E M S Q w"
    by (simp add: test_app_capabilities_engine_control_def app_capabilities_def eval)
  show "test_area_capabilities_powertrain E M S Q w"
    by (simp add: test_area_capabilities_powertrain_def area_capabilities_def eval)
  show "test_component_list E M S Q w"
    by (simp add: test_component_list_def component_list_def eval)
  show "test_app_list E M S Q w"
    by (simp add: test_app_list_def app_list_def eval)
  show "test_area_list E M S Q w"
    by (simp add: test_area_list_def area_list_def eval)
qed

end
