(* ===== verification/Mcp_Tests.thy ===== *)
theory Mcp_Tests
  imports Mcp_Properties Assertions
begin

text \<open>
  The unit tests of the MCP server (\<open>src/opensovd-cli/mcp/src/main.rs\<close>) as statements about the
  model: the client is connected to a connector that answers expected URIs, and the tools, the
  prompt and the resource are called.  Where a test searches the text of a JSON value, the
  statement searches its strings.
\<close>

subsection \<open>The connector\<close>

text \<open>
  Expected targets and the body each returns with status 200; \<open>unexpected\<close> is what any other
  request gets.
\<close>

definition mock_connector ::
  "answer \<Rightarrow> (string \<times> json) list \<Rightarrow> http_method \<Rightarrow> string \<Rightarrow> json option \<Rightarrow> 'w \<Rightarrow> answer \<times> 'w" where
  "mock_connector unexpected expectations meth target body w =
     ((case map_of expectations target of Some j \<Rightarrow> (200, Some j) | None \<Rightarrow> unexpected), w)"

definition mock_client ::
  "('uri, 'ue, 'he, 'je) http_library \<Rightarrow> 'uri \<Rightarrow> ('uri \<Rightarrow> string) \<Rightarrow>
     (http_method \<Rightarrow> string \<Rightarrow> json option \<Rightarrow> unit \<Rightarrow> answer \<times> unit) \<Rightarrow> (unit, 'uri, 'se) client" where
  "mock_client H base target connector =
     \<lparr> hc_base_uri = base, hc_http = over_http H target connector \<rparr>"

definition test_entity :: "string \<Rightarrow> string \<Rightarrow> string \<Rightarrow> entity_reference" where
  "test_entity collection i name =
     \<lparr> er_id = i, er_name = name, er_translation_id = None,
       er_href = UriReference (''/sovd/v1/'' @ collection @ ''/'' @ i), er_tags = None \<rparr>"

text \<open>An \<open>Items\<close> value, which a listing without a schema is read from.\<close>

definition listing_of :: "entity_reference list \<Rightarrow> entities_response" where
  "listing_of es = \<lparr> rs_data = \<lparr> items = es \<rparr>, rs_schema = None \<rparr>"

definition items_json :: "entity_reference list \<Rightarrow> json" where
  "items_json es = response_to_json (items_fields entity_reference_to_json) (listing_of es)"

fun json_texts :: "json \<Rightarrow> string list" where
  "json_texts (JString s) = [s]"
| "json_texts (JArray js) = concat (map json_texts js)"
| "json_texts (JObject members) = concat (map (\<lambda>m. fst m # json_texts (snd m)) members)"
| "json_texts _ = []"

definition shows_text :: "string \<Rightarrow> json \<Rightarrow> bool" where
  "shows_text needle j = list_ex (text_contains needle) (json_texts j)"

subsection \<open>Tests\<close>

definition list_resources_includes_topology :: bool where
  "list_resources_includes_topology =
     (length list_resources = 1 \<and> raw_uri (list_resources ! 0) = TOPOLOGY_URI \<and>
      raw_name (list_resources ! 0) = ''Vehicle Topology'')"

definition get_explore_topology_prompt :: bool where
  "get_explore_topology_prompt =
     (case pr_messages explore_topology of
        [] \<Rightarrow> False
      | (role, text) # _ \<Rightarrow> role = ''user'' \<and> text_contains ''topology'' text)"

definition tool_shows ::
  "(mcp_error, call_tool_result) result \<times> unit \<Rightarrow> string list \<Rightarrow> bool" where
  "tool_shows outcome texts =
     (case fst outcome of Inl _ \<Rightarrow> False
      | Inr (Structured j) \<Rightarrow> list_all (\<lambda>t. shows_text t j) texts)"

definition list_components_returns_json ::
  "('uri, 'ue, 'he, 'je, 'hy, 'se) mcp_library \<Rightarrow> 'uri \<Rightarrow> ('uri \<Rightarrow> string) \<Rightarrow> answer \<Rightarrow> bool" where
  "list_components_returns_json M base target unexpected =
     (let connector = mock_connector unexpected
            [(''/components?include-schema=true'',
              items_json [test_entity ''components'' ''ecu1'' ''Engine ECU''])];
          server = mcp_server_new (mock_client (ml_http M) base target connector)
      in tool_shows (tool_list_components M server ()) [''Engine ECU'', ''ecu1''])"

definition list_areas_returns_json ::
  "('uri, 'ue, 'he, 'je, 'hy, 'se) mcp_library \<Rightarrow> 'uri \<Rightarrow> ('uri \<Rightarrow> string) \<Rightarrow> answer \<Rightarrow> bool" where
  "list_areas_returns_json M base target unexpected =
     (let connector = mock_connector unexpected
            [(''/areas?include-schema=true'',
              items_json [test_entity ''areas'' ''powertrain'' ''Powertrain''])];
          server = mcp_server_new (mock_client (ml_http M) base target connector)
      in tool_shows (tool_list_areas M server ()) [''Powertrain'', ''powertrain''])"

definition list_apps_returns_json ::
  "('uri, 'ue, 'he, 'je, 'hy, 'se) mcp_library \<Rightarrow> 'uri \<Rightarrow> ('uri \<Rightarrow> string) \<Rightarrow> answer \<Rightarrow> bool" where
  "list_apps_returns_json M base target unexpected =
     (let connector = mock_connector unexpected
            [(''/apps?include-schema=true'',
              items_json [test_entity ''apps'' ''diag_app'' ''Diagnostic App''])];
          server = mcp_server_new (mock_client (ml_http M) base target connector)
      in tool_shows (tool_list_apps M server ()) [''Diagnostic App'', ''diag_app''])"

text \<open>The server whose topology resource is read.\<close>

definition topology_server ::
  "('uri, 'ue, 'he, 'je, 'hy, 'se) mcp_library \<Rightarrow> 'uri \<Rightarrow> ('uri \<Rightarrow> string) \<Rightarrow> answer \<Rightarrow>
     (unit, 'uri, 'se) mcp_server" where
  "topology_server M base target unexpected =
     mcp_server_new (mock_client (ml_http M) base target (mock_connector unexpected
       [(''/components'', items_json [test_entity ''components'' ''ecu1'' ''Engine ECU'']),
        (''/areas'', items_json [test_entity ''areas'' ''powertrain'' ''Powertrain'']),
        (''/apps'', items_json [])]))"

text \<open>Every outcome the read can have passes the assertions, and there is one.\<close>

definition read_topology_resource ::
  "('uri, 'ue, 'he, 'je, 'hy, 'se) mcp_library \<Rightarrow> 'uri \<Rightarrow> ('uri \<Rightarrow> string) \<Rightarrow> answer \<Rightarrow> bool" where
  "read_topology_resource M base target unexpected \<longleftrightarrow>
     (let server = topology_server M base target unexpected
      in (\<exists>r w. read_resource M server (\<lambda>_ _. False) TOPOLOGY_URI () r w) \<and>
         (\<forall>r w. read_resource M server (\<lambda>_ _. False) TOPOLOGY_URI () r w \<longrightarrow>
            (case r of
               Inr ((text, _) # _) \<Rightarrow>
                 text_contains ''Engine ECU'' text \<and> text_contains ''ecu1'' text \<and>
                 text_contains ''Powertrain'' text \<and> text_contains ''## Apps (0)'' text
             | _ \<Rightarrow> False)))"

subsection \<open>They pass\<close>

text \<open>One request that the connector expects.\<close>

lemma mock_listing:
  assumes "client_link (ml_http M) base target"
    and "map_of expectations (build_uri_query_string path (schema_query b)) = Some (items_json es)"
    and "path \<in> {''/components'', ''/areas'', ''/apps''}"
  shows "mcp_request M (mcp_server_new (mock_client (ml_http M) base target
      (mock_connector unexpected expectations))) \<lparr> rd_path = path, rd_with_schema = b \<rparr> w =
    (Inr (listing_of es), w)"
proof (rule mcp_request_listing [OF assms(1)])
  show "target_ok (build_uri_query_string (rd_path \<lparr> rd_path = path, rd_with_schema = b \<rparr>)
      (schema_query (rd_with_schema \<lparr> rd_path = path, rd_with_schema = b \<rparr>)))"
    using assms(3) listing_target_ok by auto
  show "mock_connector unexpected expectations GET
      (build_uri_query_string (rd_path \<lparr> rd_path = path, rd_with_schema = b \<rparr>)
        (schema_query (rd_with_schema \<lparr> rd_path = path, rd_with_schema = b \<rparr>))) body w =
    (listing_answer (Inr (listing_of es)), w)" for body
    using assms(2) by (simp add: mock_connector_def json_answer_def respond_def items_json_def)
qed (simp_all add: mcp_server_new_def mock_client_def listing_of_def)

lemmas mcp_test_eval = request_schema_def mcp_lists build_uri_query_string_def schema_query_def
  structured_listing_def tool_shows_def shows_text_def response_to_json_def items_fields_def
  listing_of_def entity_reference_to_json_def test_entity_def skip_none_def

lemma tool_tests_pass:
  assumes "client_link (ml_http M) base target"
  shows "list_components_returns_json M base target unexpected"
    "list_areas_returns_json M base target unexpected"
    "list_apps_returns_json M base target unexpected"
    list_resources_includes_topology get_explore_topology_prompt
proof -
  note listing = mock_listing [OF assms, where b = True]
  show "list_components_returns_json M base target unexpected"
    by (simp add: list_components_returns_json_def tool_list_components_def Let_def
        listing mcp_test_eval)
  show "list_areas_returns_json M base target unexpected"
    by (simp add: list_areas_returns_json_def tool_list_areas_def Let_def listing mcp_test_eval)
  show "list_apps_returns_json M base target unexpected"
    by (simp add: list_apps_returns_json_def tool_list_apps_def Let_def listing mcp_test_eval)
  show list_resources_includes_topology
    by (simp add: list_resources_includes_topology_def list_resources_def)
  show get_explore_topology_prompt
    by (simp add: get_explore_topology_prompt_def explore_topology_def newline_def)
qed

text \<open>The answers the three requests get, and what a join of them has answered.\<close>

definition answered :: "'w topology_read \<Rightarrow> bool" where
  "answered st \<longleftrightarrow>
     tr_components st \<in> {None, Some (Inr (listing_of
       [test_entity ''components'' ''ecu1'' ''Engine ECU'']))} \<and>
     tr_areas st \<in> {None, Some (Inr (listing_of
       [test_entity ''areas'' ''powertrain'' ''Powertrain'']))} \<and>
     tr_apps st \<in> {None, Some (Inr (listing_of []))}"

lemma topology_answers:
  assumes "client_link (ml_http M) base target"
  shows "mcp_request M (topology_server M base target unexpected) list_components w =
      (Inr (listing_of [test_entity ''components'' ''ecu1'' ''Engine ECU'']), w)"
    and "mcp_request M (topology_server M base target unexpected) list_areas w =
      (Inr (listing_of [test_entity ''areas'' ''powertrain'' ''Powertrain'']), w)"
    and "mcp_request M (topology_server M base target unexpected) list_apps w =
      (Inr (listing_of []), w)"
  unfolding topology_server_def mcp_lists
  by (rule mock_listing [OF assms]; simp add: build_uri_query_string_def schema_query_def)+

lemma answered_step:
  assumes "client_link (ml_http M) base target"
    and "read_step M (topology_server M base target unexpected) (\<lambda>_ _. False) st st'"
    and "answered st"
  shows "answered st'"
  using assms(2,3)
  by cases (simp_all add: answered_def topology_answers [OF assms(1)])

lemma topology_test_passes:
  assumes "client_link (ml_http M) base target"
  shows "read_topology_resource M base target unexpected"
proof -
  define server :: "(unit, 'a, 'f) mcp_server" where
    "server = topology_server M base target unexpected"
  have run: "answered st"
    if "(read_step M server (\<lambda>_ _. False))\<^sup>*\<^sup>* (read_start ()) st" for st
    using that
  proof induction
    case base
    then show ?case by (simp add: answered_def read_start_def)
  next
    case (step st st')
    then show ?case using answered_step [OF assms] by (simp add: server_def)
  qed
  have "case r of Inr ((text, _) # _) \<Rightarrow>
      text_contains ''Engine ECU'' text \<and> text_contains ''ecu1'' text \<and>
      text_contains ''Powertrain'' text \<and> text_contains ''## Apps (0)'' text | _ \<Rightarrow> False"
    if "read_resource M server (\<lambda>_ _. False) TOPOLOGY_URI () r w" for r w
    using that
  proof (rule topology_resourceE)
    fix st q
    assume "(read_step M server (\<lambda>_ _. False))\<^sup>*\<^sup>* (read_start ()) st" and "joined st q"
      and r: "r = map_ok (\<lambda>(c, ar, ap). [(topology_text (items (rs_data c)) (items (rs_data ar))
            (items (rs_data ap)), TOPOLOGY_URI)]) q"
    then have "q = Inr (listing_of [test_entity ''components'' ''ecu1'' ''Engine ECU''],
        listing_of [test_entity ''areas'' ''powertrain'' ''Powertrain''], listing_of [])"
      using run [of st] by (auto simp: answered_def elim!: joinedE)
    then show ?thesis
      by (simp add: r listing_of_def test_entity_def topology_text_sections topology_sections_def
          entity_lines_def newline_def show_nat.simps digit_char_def)
  qed
  then show ?thesis
    using resource_outcome [of M server "\<lambda>_ _. False" TOPOLOGY_URI "()"]
    unfolding read_topology_resource_def Let_def server_def by blast
qed

end
