(* ===== verification/Client_Tests.thy ===== *)
theory Client_Tests
  imports Remote_Properties Provider_Tests
begin

text \<open>
  The integration tests of the client (\<open>src/opensovd-client/tests\<close>) as statements about the
  model: each builds a client over a connector that expects one request and returns a given
  response, makes one call and checks its result.  The connector, a library of the tests, is a
  parameter; the locale \<open>mock_library\<close> says what the tests rely on.
\<close>

subsection \<open>Connectors\<close>

text \<open>One expectation of \<open>mock_http_connector\<close>; without a method it meets any.\<close>

record expectation =
  ex_method :: "http_method option"
  ex_uri :: string
  ex_status :: nat
  ex_body :: string

record ('uri, 'ue, 'he, 'je, 'set, 'l, 'conn, 'w, 'se) client_test_env =
  ct_http :: "('uri, 'ue, 'he, 'je) http_library"
  ct_percent :: "'set percent_encoding"
  ct_hyper :: "expectation \<Rightarrow> ('w, 'uri, 'se) http_service"
  ct_apply :: "'l \<Rightarrow> ('w, 'uri, 'se) http_service \<Rightarrow> ('w, 'uri, 'se) http_service"
  ct_stack :: "'l \<Rightarrow> 'l \<Rightarrow> 'l"
  ct_connector :: 'conn
  ct_identity :: 'l
  ct_json_error :: 'je

definition TEST_BASE :: string where
  "TEST_BASE = ''http://localhost/sovd/v1''"

definition scripted_client ::
  "('uri, 'ue, 'he, 'je, 'set, 'l, 'conn, 'w, 'se) client_test_env \<Rightarrow> expectation \<Rightarrow>
     (client_builder_error, ('w, 'uri, 'se) client) result" where
  "scripted_client C connector =
     and_then (client_builder_base_uri (ct_http C) TEST_BASE
       (client_builder_new (ct_connector C) (ct_identity C))) (\<lambda>b.
     client_builder_build (ct_hyper C) (ct_apply C) (client_builder_connector connector b))"

text \<open>A test of a client over an expectation; \<open>json!(...).to_string()\<close> is the text of the value.\<close>

definition with_mock where
  "with_mock C connector test = unwrapped (scripted_client C connector, ()) test"

text \<open>The result of a call of the client, unwrapped.\<close>

definition answers_with ::
  "('ue, 'he, 'je, unit, 'se, 'a) client_result \<times> 'w \<Rightarrow> ('a \<Rightarrow> bool) \<Rightarrow> bool" where
  "answers_with outcome holds = unwrapped outcome holds"

definition call_fails_with ::
  "('ue, 'he, 'je, unit, 'se, 'a) client_result \<times> 'w \<Rightarrow>
     (('ue, 'he, 'je, unit, 'se) client_error \<Rightarrow> bool) \<Rightarrow> bool" where
  "call_fails_with outcome holds = (case fst outcome of Inl e \<Rightarrow> holds e | Inr _ \<Rightarrow> False)"

definition expecting where
  "expecting C uri j = \<lparr> ex_method = None, ex_uri = uri, ex_status = 200,
     ex_body = bytes_of (ct_http C) (Some j) \<rparr>"

definition no_items :: json where
  "no_items = JObject [(''items'', JArray [])]"

definition no_items_with_schema :: json where
  "no_items_with_schema = JObject [(''items'', JArray []),
     (''schema'', JObject [(''type'', JString ''object'')])]"

definition no_entities :: "entity_reference items response \<Rightarrow> bool" where
  "no_entities result \<longleftrightarrow> items (rs_data result) = []"

definition schema_is_object :: "'a items response \<Rightarrow> bool" where
  "schema_is_object result \<longleftrightarrow> items (rs_data result) = [] \<and>
     rs_schema result = Some (JObject [(''type'', JString ''object'')])"

text \<open>Listings and collections, read as the types of the calls.\<close>

definition test_listing where
  "test_listing C uri j request holds w =
     with_mock C (expecting C uri j) (\<lambda>client.
       answers_with (request_send (ct_http C) client (decode_listing (ct_http C) (ct_json_error C))
         request w) holds)"

definition test_data_listing where
  "test_data_listing C uri j request holds w =
     with_mock C (expecting C uri j) (\<lambda>client.
       answers_with (request_send (ct_http C) client
         (decode_items (ct_http C) metadata_dto_of_json (ct_json_error C)) request w) holds)"

definition test_collection where
  "test_collection C dec uri path w =
     with_mock C (expecting C uri no_items) (\<lambda>client.
       answers_with (handle_get (ct_http C) client (decode_collection (ct_http C) dec (ct_json_error C))
         path w) (\<lambda>result. items result = []))"

subsection \<open>Entities\<close>

definition list_components_test where
  "list_components_test C w = test_listing C ''http://localhost/sovd/v1/components'' no_items
     list_components no_entities w"

definition list_components_with_schema where
  "list_components_with_schema C w =
     test_listing C ''http://localhost/sovd/v1/components?include-schema=true'' no_items_with_schema
       (request_schema True list_components) schema_is_object w"

definition component_hosts_test where
  "component_hosts_test C w = test_collection C entity_reference_of_json
     ''http://localhost/sovd/v1/components/ecu1/hosts''
     (handle_component_hosts (client_component (ct_percent C) ''ecu1'')) w"

definition component_belongs_to_test where
  "component_belongs_to_test C w = test_collection C entity_reference_of_json
     ''http://localhost/sovd/v1/components/ecu1/belongs-to''
     (handle_component_belongs_to (client_component (ct_percent C) ''ecu1'')) w"

definition list_apps_test where
  "list_apps_test C w =
     test_listing C ''http://localhost/sovd/v1/apps'' no_items list_apps no_entities w"

definition list_apps_with_schema where
  "list_apps_with_schema C w =
     test_listing C ''http://localhost/sovd/v1/apps?include-schema=true'' no_items_with_schema
       (request_schema True list_apps) schema_is_object w"

definition app_is_located_on_test where
  "app_is_located_on_test C w = test_collection C entity_reference_of_json
     ''http://localhost/sovd/v1/apps/diag/is-located-on''
     (handle_app_is_located_on (client_app (ct_percent C) ''diag'')) w"

definition app_belongs_to_test where
  "app_belongs_to_test C w = test_collection C entity_reference_of_json
     ''http://localhost/sovd/v1/apps/diag/belongs-to''
     (handle_app_belongs_to (client_app (ct_percent C) ''diag'')) w"

definition list_areas_test where
  "list_areas_test C w =
     test_listing C ''http://localhost/sovd/v1/areas'' no_items list_areas no_entities w"

definition list_areas_with_schema where
  "list_areas_with_schema C w =
     test_listing C ''http://localhost/sovd/v1/areas?include-schema=true'' no_items_with_schema
       (request_schema True list_areas) schema_is_object w"

definition area_contains_test where
  "area_contains_test C w = test_collection C entity_reference_of_json
     ''http://localhost/sovd/v1/areas/powertrain/contains''
     (handle_area_contains (client_area (ct_percent C) ''powertrain'')) w"

subsection \<open>Data\<close>

definition list_component_data where
  "list_component_data C w =
     test_data_listing C ''http://localhost/sovd/v1/components/ecu1/data'' no_items
       (handle_component_list_data (client_component (ct_percent C) ''ecu1''))
       (\<lambda>result. items (rs_data result) = []) w"

definition data_categories_test where
  "data_categories_test C w = test_collection C category_information_of_json
     ''http://localhost/sovd/v1/components/ecu1/data-categories''
     (handle_component_data_categories (client_component (ct_percent C) ''ecu1'')) w"

definition data_groups_test where
  "data_groups_test C w = test_collection C data_group_of_json
     ''http://localhost/sovd/v1/components/ecu1/data-groups''
     (handle_component_data_groups (client_component (ct_percent C) ''ecu1'')) w"

definition app_data_test where
  "app_data_test C w =
     test_data_listing C ''http://localhost/sovd/v1/apps/diag/data'' no_items
       (handle_app_list_data (client_app (ct_percent C) ''diag''))
       (\<lambda>result. items (rs_data result) = []) w"

definition list_data_with_schema where
  "list_data_with_schema C w =
     test_data_listing C ''http://localhost/sovd/v1/components/ecu1/data?include-schema=true''
       no_items_with_schema
       (request_schema True (handle_component_list_data (client_component (ct_percent C) ''ecu1'')))
       schema_is_object w"

definition test_read where
  "test_read C uri j request holds w =
     with_mock C (expecting C uri j) (\<lambda>client.
       answers_with (request_send (ct_http C) client
         (decode_as (ct_http C) read_response_of_json (ct_json_error C)) request w) holds)"

definition read_data where
  "read_data C w =
     test_read C ''http://localhost/sovd/v1/components/ecu1/data/voltage''
       (JObject [(''id'', JString ''voltage''), (''data'', JObject [(''value'', JNumber ''12.6'')])])
       (data_request_read (handle_component_data (ct_percent C) ''voltage''
          (client_component (ct_percent C) ''ecu1'')))
       (\<lambda>result. rr_id result = ''voltage'') w"

definition read_data_with_schema where
  "read_data_with_schema C w =
     test_read C ''http://localhost/sovd/v1/components/ecu1/data/voltage?include-schema=true''
       (JObject [(''id'', JString ''voltage''), (''data'', JObject [(''value'', JNumber ''12.6'')]),
         (''schema'', JObject [(''type'', JString ''number'')])])
       (request_schema True (data_request_read (handle_component_data (ct_percent C) ''voltage''
          (client_component (ct_percent C) ''ecu1''))))
       (\<lambda>result. rr_id result = ''voltage'' \<and>
          rr_schema result = Some (JObject [(''type'', JString ''number'')])) w"

definition write_data where
  "write_data C w =
     with_mock C \<lparr> ex_method = Some PUT,
         ex_uri = ''http://localhost/sovd/v1/components/ecu1/data/param1'', ex_status = 200,
         ex_body = [] \<rparr> (\<lambda>client.
       answers_with (case data_request_write Inr (JObject [(''value'', JNumber ''42'')])
           (handle_component_data (ct_percent C) ''param1'' (client_component (ct_percent C) ''ecu1'')) of
         Inl e \<Rightarrow> (Inl e, w)
       | Inr request \<Rightarrow> write_data_send (ct_http C) client request w) (\<lambda>_. True))"

subsection \<open>Paths, errors and layers\<close>

definition percent_encodes_path_segments where
  "percent_encodes_path_segments C w =
     test_data_listing C ''http://localhost/sovd/v1/components/ecu%2F1/data'' no_items
       (handle_component_list_data (client_component (ct_percent C) ''ecu/1''))
       (\<lambda>result. items (rs_data result) = []) w"

definition http_error_status where
  "http_error_status C w =
     with_mock C \<lparr> ex_method = None, ex_uri = ''http://localhost/sovd/v1/components'',
         ex_status = 404, ex_body = bytes_of (ct_http C) (Some (JObject
           [(''error_code'', JString ''vendor-specific''), (''message'', JString ''not found'')])) \<rparr>
       (\<lambda>client. call_fails_with (request_send (ct_http C) client
           (decode_listing (ct_http C) (ct_json_error C)) list_components w) (\<lambda>err.
         case err of ApiError status error \<Rightarrow> status = 404 \<and> error \<noteq> None | _ \<Rightarrow> False))"

text \<open>The builder calls of the two tests that add a layer.\<close>

definition layered_client where
  "layered_client C layer connector =
     and_then (client_builder_base_uri (ct_http C) TEST_BASE
       (client_builder_new (ct_connector C) (ct_identity C))) (\<lambda>b.
     client_builder_build (ct_hyper C) (ct_apply C)
       (client_builder_connector connector (client_builder_layer (ct_stack C) layer b)))"

definition with_layer_builds_client where
  "with_layer_builds_client C w =
     unwrapped (layered_client C (ct_identity C)
         (expecting C ''http://localhost/sovd/v1/components'' no_items), ()) (\<lambda>client.
       answers_with (request_send (ct_http C) client (decode_listing (ct_http C) (ct_json_error C))
         list_components w) no_entities)"

text \<open>\<open>serve_one\<close> answers one connection with its body; a server, seen from its peer.\<close>

definition serve_one :: "string \<Rightarrow> 'uri client_request \<Rightarrow> 'se client_response" where
  "serve_one body request = \<lparr> cs_status = 200, cs_body = Inr body \<rparr>"

definition lists_nothing where
  "lists_nothing C client w =
     answers_with (request_send (ct_http C) client (decode_listing (ct_http C) (ct_json_error C))
       list_components w) no_entities"

text \<open>\<open>hyper\<close> is the legacy client over a unix connector, \<open>path\<close> and \<open>name\<close> those of the test.\<close>

definition connect_unix_path where
  "connect_unix_path C hyper path w =
     unwrapped (client_connect_unix (ct_http C) hyper (ct_apply C) (ct_connector C) (ct_identity C)
       TEST_BASE path, ()) (\<lambda>client. lists_nothing C client w)"

definition connect_unix_abstract where
  "connect_unix_abstract C hyper name w =
     unwrapped (client_connect_unix_abstract (ct_http C) hyper (ct_apply C) (ct_connector C)
       (ct_identity C) TEST_BASE name, ()) (\<lambda>client. lists_nothing C client w)"

definition connect_unix_not_found where
  "connect_unix_not_found C hyper path w =
     unwrapped (client_connect_unix (ct_http C) hyper (ct_apply C) (ct_connector C) (ct_identity C)
       TEST_BASE path, ()) (\<lambda>client.
       call_fails_with (request_send (ct_http C) client (decode_listing (ct_http C) (ct_json_error C))
         list_components w) (\<lambda>err. case err of Service _ \<Rightarrow> True | _ \<Rightarrow> False))"

subsection \<open>The tests pass\<close>

text \<open>
  The base is read and shown as its text; a request that meets the expectation gets its
  response; the identity layer changes nothing.
\<close>

locale mock_library = client_link "ct_http C" base target + percent_encoder "ct_percent C"
  for C :: "('uri, 'ue, 'he, 'je, 'set, 'l, 'conn, 'w, 'se) client_test_env" and base :: 'uri
    and target :: "'uri \<Rightarrow> string" +
  assumes base_read: "hl_parse_uri (ct_http C) TEST_BASE = Inr base"
    and base_shown: "hl_display_uri (ct_http C) base = TEST_BASE"
    and meets: "ex_method e = None \<or> ex_method e = Some (cr_method req) \<Longrightarrow>
      hl_parse_uri (ct_http C) (ex_uri e) = Inr (cr_uri req) \<Longrightarrow>
      ct_hyper C e req w = (Inr \<lparr> cs_status = ex_status e, cs_body = Inr (ex_body e) \<rparr>, w)"
    and identity: "ct_apply C (ct_identity C) s = s"
    and stack_identity: "ct_apply C (ct_stack C (ct_identity C) (ct_identity C)) s = s"
begin

lemma scripted_client_built:
  "scripted_client C e = Inr \<lparr> hc_base_uri = base, hc_http = ct_hyper C e \<rparr>"
  "layered_client C (ct_identity C) e = Inr \<lparr> hc_base_uri = base, hc_http = ct_hyper C e \<rparr>"
  by (simp_all add: scripted_client_def layered_client_def client_builder_base_uri_def base_read
      client_builder_new_def client_builder_connector_def client_builder_layer_def
      client_builder_build_def identity stack_identity ok_or_def)

lemma mock_get:
  assumes "ex_method e = None" and "target_ok (build_uri_query_string path query)"
    and "ex_uri e = TEST_BASE @ build_uri_query_string path query"
    and "ex_body e = bytes_of (ct_http C) j"
  shows "client_get (ct_http C) \<lparr> hc_base_uri = base, hc_http = ct_hyper C e \<rparr> de path query w =
    (received (ct_http C) de (ex_status e, j), w)"
  using parse_extended [OF assms(2)] assms(1,3,4)
  by (auto simp: client_get_steps query_string_extends base_shown build_request meets received_def)

lemma mock_put:
  assumes "ex_method e = Some PUT" and "target_ok path" and "ex_uri e = TEST_BASE @ path"
    and "ex_body e = bytes_of (ct_http C) a"
  shows "client_put (ct_http C) \<lparr> hc_base_uri = base, hc_http = ct_hyper C e \<rparr> path [] j w =
    (received (ct_http C) (\<lambda>_. Inr ()) (ex_status e, a), w)"
  using parse_extended [OF assms(2)] assms(1,3,4) json_bytes [of j]
  by (auto simp: client_put_steps build_uri_query_string_def base_shown build_request meets
      received_def)

lemma received_values:
  "received (ct_http C) (decode_as (ct_http C) dec err) (200, Some j) =
     map_err Json (ok_or err (dec j))"
  "received (ct_http C) (\<lambda>_. Inr ()) (200, None) = Inr ()"
  "received (ct_http C) de (404, Some j) = Inl (ApiError 404 (generic_error_of_json j))"
  by (simp_all add: received_def is_success_def decode_as_def bytes_read_back parsed_error_def)

lemma test_segments:
  "encode (ct_percent C) ''ecu1'' = ''ecu1''" "encode (ct_percent C) ''diag'' = ''diag''"
  "encode (ct_percent C) ''powertrain'' = ''powertrain''"
  "encode (ct_percent C) ''voltage'' = ''voltage''" "encode (ct_percent C) ''param1'' = ''param1''"
  "encode (ct_percent C) ''ecu/1'' = ''ecu%2F1''"
  by (simp_all add: encode_def encode_bytes contains_non_alphanumeric percent_byte_def hex_digit_def)

lemma targets_ok:
  "list_all uri_char path \<Longrightarrow> target_ok (CHR ''/'' # path)"
  by (simp add: target_ok_def uri_char_def)

lemmas client_test_eval = with_mock_def unwrapped_def scripted_client_built answers_with_def call_fails_with_def
  expecting_def no_items_def no_items_with_schema_def no_entities_def schema_is_object_def
  test_segments handle_defs TEST_BASE_def schema_query_def build_uri_query_string_def
  received_values targets_ok uri_char_def ok_or_def items_of_json_def response_of_json_def
  items_of_fields_def read_response_of_json_def array_of_json_def field_defs

lemmas mock_gets = mock_get [where j = "Some j" for j]

lemma client_listing_tests_pass:
  "list_components_test C w" "list_components_with_schema C w" "list_apps_test C w"
  "list_apps_with_schema C w" "list_areas_test C w" "list_areas_with_schema C w"
  by (simp_all add: list_components_test_def list_components_with_schema_def list_apps_test_def
      list_apps_with_schema_def list_areas_test_def list_areas_with_schema_def test_listing_def
      request_send_def request_schema_def mock_gets client_test_eval)

lemma client_relation_tests_pass:
  "component_hosts_test C w" "component_belongs_to_test C w" "app_is_located_on_test C w"
  "app_belongs_to_test C w" "area_contains_test C w"
  by (simp_all add: component_hosts_test_def component_belongs_to_test_def
      app_is_located_on_test_def app_belongs_to_test_def area_contains_test_def test_collection_def
      handle_get_def mock_gets client_test_eval)

lemma client_data_tests_pass:
  "list_component_data C w" "data_categories_test C w" "data_groups_test C w" "app_data_test C w"
  "list_data_with_schema C w" "read_data C w" "read_data_with_schema C w" "write_data C w"
  "percent_encodes_path_segments C w"
  by (simp_all add: list_component_data_def data_categories_test_def data_groups_test_def
      app_data_test_def list_data_with_schema_def read_data_def read_data_with_schema_def
      write_data_def percent_encodes_path_segments_def test_data_listing_def test_collection_def
      test_read_def handle_get_def request_send_def request_schema_def data_request_read_def
      data_request_write_def write_data_send_def mock_gets mock_put [where a = None] bytes_of_def
      client_test_eval)

lemma client_error_and_layer_tests_pass: "http_error_status C w" "with_layer_builds_client C w"
  by (simp_all add: http_error_status_def with_layer_builds_client_def request_send_def mock_gets
      client_test_eval generic_error_of_json_def error_code_of_str_def
      error_code_list_def)

text \<open>
  Over the unix connector: \<open>net\<close> gives the peer bound at an address, and the client over a
  connector reports a failure to connect.
\<close>

lemma client_unix_tests_pass:
  assumes connected: "\<And>addr req w. hyper addr req w =
      (case unix_connector_call net addr (cr_uri req) of Inl e \<Rightarrow> (Inl e, w) | Inr peer \<Rightarrow> (Inr (peer req), w))"
    and path: "net path = Inr (serve_one (bytes_of (ct_http C) (Some no_items)))"
    and abstract: "net (CHR 0x00 # name) = Inr (serve_one (bytes_of (ct_http C) (Some no_items)))"
    and missing: "net missing_path = Inl e"
  shows "connect_unix_path C hyper path w" "connect_unix_abstract C hyper name w"
    "connect_unix_not_found C hyper missing_path w"
proof -
  have ok: "target_ok ''/components''" by (simp add: target_ok_def uri_char_def)
  then obtain u where u: "hl_parse_uri (ct_http C) (TEST_BASE @ ''/components'') = Inr u"
    using parse_extended [of "''/components''"] base_shown by auto
  note eval = client_connect_unix_def client_connect_unix_abstract_def client_builder_base_uri_def
    base_read client_builder_new_def client_builder_connector_def client_builder_build_def identity
    ok_or_def unwrapped_def lists_nothing_def request_send_def list_components_def schema_query_def
    build_uri_query_string_def client_get_steps base_shown u build_request connected
    unix_connector_call_def unix_connector_new_def unix_connector_abstract_name_def serve_one_def
    answers_with_def call_fails_with_def is_success_def decode_as_def bytes_read_back no_items_def
    response_of_json_def items_of_fields_def array_of_json_def field_defs no_entities_def
  show "connect_unix_path C hyper path w"
    using path by (simp add: connect_unix_path_def eval)
  show "connect_unix_abstract C hyper name w"
    using abstract by (simp add: connect_unix_abstract_def eval)
  show "connect_unix_not_found C hyper missing_path w"
    using missing by (simp add: connect_unix_not_found_def eval)
qed

end

text \<open>URIs as their text, and a connector that refuses a request it does not expect.\<close>

definition text_test_target :: "string \<Rightarrow> string" where
  "text_test_target u = drop (length TEST_BASE) u"

definition scripted_hyper :: "expectation \<Rightarrow> ('w, string, unit) http_service" where
  "scripted_hyper e req w =
     (if ex_method e \<in> {None, Some (cr_method req)} \<and> ex_uri e = cr_uri req
      then (Inr \<lparr> cs_status = ex_status e, cs_body = Inr (ex_body e) \<rparr>, w) else (Inl (), w))"

definition text_tests ::
  "(string, unit, unit, unit, char \<Rightarrow> bool, ('w, string, unit) http_service \<Rightarrow>
     ('w, string, unit) http_service, unit, 'w, unit) client_test_env" where
  "text_tests = \<lparr> ct_http = text_library, ct_percent = plain_encoding, ct_hyper = scripted_hyper,
     ct_apply = (\<lambda>l. l), ct_stack = (\<lambda>inner outer s. outer (inner s)), ct_connector = (),
     ct_identity = (\<lambda>s. s), ct_json_error = () \<rparr>"

lemma text_test_link: "client_link text_library TEST_BASE text_test_target"
  by unfold_locales (simp_all add: text_library_def text_test_target_def)

interpretation text_tests: mock_library text_tests TEST_BASE text_test_target
  by (intro mock_library.intro mock_library_axioms.intro)
    (simp_all add: text_tests_def text_test_link plain.percent_encoder_axioms scripted_hyper_def,
      simp_all add: text_library_def)

end
