(* ===== verification/Server_Tests.thy ===== *)
theory Server_Tests
  imports Gateway_System Route_Tests
begin

text \<open>
  The integration tests of the server (\<open>src/opensovd-server/tests/auth.rs\<close> and \<open>builder.rs\<close>) as
  statements about the model: each builds a server, serves it, sends one request to what is
  served and checks the response.  A failing \<open>unwrap\<close> is \<open>None\<close>.
\<close>

subsection \<open>Servers under test\<close>

text \<open>
  Binding, URI parsing, the default topology and the package version; \<open>ts_signal\<close> is the
  shutdown signal, a channel of the test.
\<close>

record ('io, 'tcp, 'topo, 'sd) test_server_parts =
  ts_bind :: "string \<Rightarrow> ('io, 'tcp) result"
  ts_uri_path :: "string \<Rightarrow> string option"
  ts_default_topology :: 'topo
  ts_version :: string
  ts_default_signal :: 'sd
  ts_signal :: 'sd

definition unwrap :: "('e, 'a) result \<Rightarrow> 'a option" where
  "unwrap r = (case r of Inl _ \<Rightarrow> None | Inr a \<Rightarrow> Some a)"

definition test_builder ::
  "('r, 'l, 'w, 'e, 'i, 'b) routing_library \<Rightarrow> ('io, 'tcp, 'topo, 'sd) test_server_parts \<Rightarrow>
     (('tcp, 'unix) listener, 'sd, vendor_info, ('w, 'i, unit) authenticator,
      ('w, 'i, unit) authorizer, 'topo, 'dp, 'l, ('w, 'e, 'i, 'b) service, tls_config)
     server_builder" where
  "test_builder A G =
     server_builder_new (ts_version G) (ts_default_signal G) (ts_default_topology G) (tw_identity A)"

text \<open>\<open>tests/common\<close>: the base path, topology and discovery providers a test asks for.\<close>

record ('topo, 'dp) test_server_builder =
  tb_base :: "string option"
  tb_topology :: "'topo option"
  tb_discovery :: "'dp list"

definition test_server_builder_default :: "('topo, 'dp) test_server_builder" where
  "test_server_builder_default = \<lparr> tb_base = None, tb_topology = None, tb_discovery = [] \<rparr>"

abbreviation no_discovery :: "('topo, unit) test_server_builder" where
  "no_discovery \<equiv> test_server_builder_default"

definition test_server_build ::
  "('r, 'l, 'w, 'e, unit, 'b) routing_library \<Rightarrow> ('io, 'tcp, 'topo, 'sd) test_server_parts \<Rightarrow>
     ('topo, 'dp) test_server_builder \<Rightarrow>
     (('tcp, 'unix) listener, 'sd, vendor_info, ('w, unit, unit) authenticator,
      ('w, unit, unit) authorizer, 'topo, 'dp, 'l, ('w, 'e, unit, 'b) service, tls_config) server option" where
  "test_server_build A G b =
     Option.bind (unwrap (ts_bind G ''127.0.0.1:0'')) (\<lambda>listener.
     let base = (case tb_base b of None \<Rightarrow> ''/sovd'' | Some u \<Rightarrow> u) in
     Option.bind (unwrap (with_base_uri (ts_uri_path G) base
       (with_listener (Tcp listener) (test_builder A G)))) (\<lambda>builder.
     let builder = with_shutdown (ts_signal G) builder;
         builder = (case tb_topology b of None \<Rightarrow> builder | Some t \<Rightarrow> with_topology t builder);
         builder = fold with_discovery (tb_discovery b) builder
     in unwrap (server_builder_build builder)))"

text \<open>A request without a body, and the response of what is served.\<close>

definition get_request :: "string \<Rightarrow> (string \<times> string) list \<Rightarrow> 'i request_parts" where
  "get_request path headers = \<lparr> rp_method = ''GET'', rp_path = path,
     rp_header_text = map_of headers, rp_identity = None \<rparr>"

lemma get_request_fields [simp]:
  "rp_method (get_request path headers) = ''GET''" "rp_path (get_request path headers) = path"
  "rp_header_text (get_request path headers) = map_of headers"
  by (simp_all add: get_request_def)

definition responds where
  "responds A S build_tls routes server request w holds =
     (case Option.bind server (\<lambda>server. unwrap (snd (serve A S build_tls routes server))) of
        None \<Rightarrow> False
      | Some sv \<Rightarrow>
          (case fst (ax_call A (served_router sv) (request, [], None) w) of
             Inl _ \<Rightarrow> False | Inr response \<Rightarrow> holds response))"

definition response_json :: "http_response \<Rightarrow> (json \<Rightarrow> bool) \<Rightarrow> bool" where
  "response_json response holds =
     (success_status (hr_status response) \<and>
      (case hr_body response of None \<Rightarrow> False | Some json \<Rightarrow> holds json))"

subsection \<open>Authentication\<close>

record role_claims =
  rc_role :: string

definition extract_bearer_role :: "('w, 'x, role_claims) authenticator" where
  "extract_bearer_role parts w =
     ((case rp_header_text parts ''authorization'' of
         None \<Rightarrow> Inl Unauthenticated
       | Some header \<Rightarrow>
           (case strip_prefix ''Bearer '' header of
              None \<Rightarrow> Inl Unauthenticated
            | Some token \<Rightarrow>
                if token = ''admin-token'' then Inr \<lparr> rc_role = ''admin'' \<rparr>
                else if token = ''user-token'' then Inr \<lparr> rc_role = ''user'' \<rparr>
                else Inl Unauthenticated)), w)"

definition require_admin :: "('w, 'x, role_claims) authorizer" where
  "require_admin identity parts w =
     (if rc_role identity = ''admin'' then (Inr (), w) else (Inl auth_error_unauthorized, w))"

definition auth_test_server ::
  "('r, 'l, 'w, 'e, role_claims, 'b) routing_library \<Rightarrow> ('io, 'tcp, 'topo, 'sd) test_server_parts \<Rightarrow>
     (('tcp, 'unix) listener, 'sd, vendor_info, ('w, role_claims, role_claims) authenticator,
      ('w, role_claims, role_claims) authorizer, 'topo, unit, 'l, ('w, 'e, role_claims, 'b) service,
      tls_config) server option" where
  "auth_test_server A G =
     Option.bind (unwrap (ts_bind G ''127.0.0.1:0'')) (\<lambda>listener.
     Option.bind (unwrap (with_base_uri (ts_uri_path G) ''/sovd''
       (with_listener (Tcp listener) (test_builder A G)))) (\<lambda>builder.
     unwrap (server_builder_build
       (with_authorizer require_admin
       (with_authenticator extract_bearer_role
       (with_shutdown (ts_signal G) builder))))))"

definition assert_forbidden :: "http_response \<Rightarrow> string \<Rightarrow> bool" where
  "assert_forbidden response error_code \<longleftrightarrow> hr_status response = 403 \<and>
     (case hr_body response of None \<Rightarrow> False
      | Some json \<Rightarrow> json_at json ''error_code'' = JString error_code)"

definition assert_unauthorized :: "http_response \<Rightarrow> bool" where
  "assert_unauthorized response \<longleftrightarrow> hr_status response = 401 \<and> hr_body response = None"

definition test_auth_missing_header_is_unauthorized where
  "test_auth_missing_header_is_unauthorized A G S build_tls routes w =
     responds A S build_tls routes (auth_test_server A G) (get_request ''/sovd/version-info'' []) w
       assert_unauthorized"

definition test_auth_rejects_non_admin where
  "test_auth_rejects_non_admin A G S build_tls routes w =
     responds A S build_tls routes (auth_test_server A G)
       (get_request ''/sovd/version-info'' [(''authorization'', ''Bearer user-token'')]) w
       (\<lambda>response. assert_forbidden response ''insufficient-access-rights'')"

definition test_auth_allows_admin where
  "test_auth_allows_admin A G S build_tls routes w =
     responds A S build_tls routes (auth_test_server A G)
       (get_request ''/sovd/version-info'' [(''authorization'', ''Bearer admin-token'')]) w
       (\<lambda>response. success_status (hr_status response))"

subsection \<open>Base paths\<close>

definition test_base_path_slash where
  "test_base_path_slash A G S build_tls routes w =
     responds A S build_tls routes
       (test_server_build A G (no_discovery\<lparr>tb_base := Some ''/''\<rparr>))
       (get_request ''/version-info'' []) w (\<lambda>response. success_status (hr_status response))"

definition test_base_path_with_slash where
  "test_base_path_with_slash A G S build_tls routes w =
     responds A S build_tls routes
       (test_server_build A G (no_discovery\<lparr>tb_base := Some ''/sovd''\<rparr>))
       (get_request ''/sovd/version-info'' []) w (\<lambda>response. success_status (hr_status response))"

subsection \<open>The topology behind the routes\<close>

definition test_topology_component_lookup where
  "test_topology_component_lookup A G L S build_tls routes w =
     (let topology = wg_state (run_ops L [AddComponent (component_new ''ECU'' ''Engine Control Unit'')]
            (topology_write (topology_state_new L)))
      in responds A S build_tls routes
        (test_server_build A G (no_discovery\<lparr>tb_topology := Some topology\<rparr>))
        (get_request ''/sovd/v1/components/ECU'' []) w (\<lambda>response. response_json response (\<lambda>json.
           json_at json ''id'' = JString ''ECU'' \<and>
           json_at json ''name'' = JString ''Engine Control Unit'')))"

definition lists_mock_items where
  "lists_mock_items A G L M S Y build_tls routes path n w =
     (case create_mock_topology L M S of
        None \<Rightarrow> False
      | Some topology \<Rightarrow>
          responds A Y build_tls routes
            (test_server_build A G (no_discovery\<lparr>tb_topology := Some topology\<rparr>))
            (get_request path []) w (\<lambda>response. response_json response (\<lambda>json.
               length (json_elements (json_at json ''items'')) = n)))"

definition test_list_components where
  "test_list_components A G L M S Y build_tls routes w =
     lists_mock_items A G L M S Y build_tls routes ''/sovd/v1/components'' 2 w"

definition test_list_apps where
  "test_list_apps A G L M S Y build_tls routes w =
     lists_mock_items A G L M S Y build_tls routes ''/sovd/v1/apps'' 3 w"

definition test_list_areas where
  "test_list_areas A G L M S Y build_tls routes w =
     lists_mock_items A G L M S Y build_tls routes ''/sovd/v1/areas'' 2 w"

text \<open>A provider whose stream has one item.\<close>

record 'w mock_discovery_provider =
  mdp_component :: "'w component"

definition mock_discover ::
  "'w mock_discovery_provider \<Rightarrow>
     ('o discovery_error, ('o discovery_error, 'w discovery_diff) result list) result" where
  "mock_discover self =
     (let entities = \<lparr> ecoll_components =
            [component_new (component_id (mdp_component self)) (component_name (mdp_component self))],
            ecoll_apps = [], ecoll_areas = [] \<rparr>
      in Inr [Inr ([], entities)])"

text \<open>
  The routes of the server read the shared topology as the discovery task left it after
  \<open>n\<close> items; the sleep of the test lets it handle the one there is.
\<close>

definition test_discovery_adds_component where
  "test_discovery_adds_component A G L sync merged n S build_tls routes w =
     (let provider = \<lparr> mdp_component = component_new ''discovered-ecu'' ''Discovered ECU'' \<rparr>;
          server = test_server_build A G (test_server_builder_default\<lparr>tb_discovery := [provider]\<rparr>);
          discovered = (\<lambda>server topology. ti_state (run_discovery L sync mock_discover
            (sv_discovery_providers server) merged n topology))
      in (case server of
            None \<Rightarrow> False
          | Some self \<Rightarrow>
              responds A S build_tls (\<lambda>vendor_info topology. routes vendor_info (discovered self topology))
                server (get_request ''/sovd/v1/components/discovered-ecu'' []) w
                (\<lambda>response. response_json response (\<lambda>json.
                   json_at json ''id'' = JString ''discovered-ecu'' \<and>
                   json_at json ''name'' = JString ''Discovered ECU''))))"

subsection \<open>The tests pass\<close>

text \<open>A server on a bound TCP listener without layers, services or TLS serves its routes.\<close>

lemma plain_server_responds:
  assumes "nesting_library A" and "sv_listener self = Tcp l" and "so_tcp_addr S l = Inr addr"
    and "sv_tls_config self = None" and "sv_layer self = tw_identity A" and "sv_services self = []"
    and "path = base_prefix (sv_base self) @ CHR ''/'' # rest"
  shows "responds A S build_tls routes (Some self) (get_request path headers) w holds \<longleftrightarrow>
    (case fst (authorized_service (sv_authenticator self) (sv_authorizer self)
        (\<lambda>(parts, b). ax_call A (routes (sv_vendor_info self) (sv_topology self))
          (parts\<lparr>rp_path := CHR ''/'' # rest\<rparr>, b)) (get_request path headers, [], None) w) of
       Inl _ \<Rightarrow> False | Inr response \<Rightarrow> holds response)"
proof -
  have rl: "routing_library A" using assms(1) by (rule nesting_library.axioms)
  have below: "ax_call A (unprotected_router A inner (normalize_base (sv_base self)) [])
      ((get_request path headers)\<lparr>rp_identity := x\<rparr>, b) w =
    ax_call A inner ((get_request path headers)\<lparr>rp_identity := x, rp_path := CHR ''/'' # rest\<rparr>, b) w"
    for inner x b w
    by (subst nesting_library.unprotected_below [OF assms(1)]) (simp_all add: get_request_def assms(7))
  show ?thesis
    by (auto simp: responds_def serve_def assms(2-6) local_addr_def unwrap_def
        routing_library.build_router_call [OF rl] routing_library.layer_identity [OF rl]
        authorized_service_cases below split: prod.split sum.split)
qed

lemmas server_fields = test_builder_def server_builder_new_def server_builder_defs
  server_builder_build_def ok_or_def unwrap_def

lemma auth_test_server_built:
  assumes "ts_bind G ''127.0.0.1:0'' = Inr l" and "ts_uri_path G ''/sovd'' = Some ''/sovd''"
  obtains self where "auth_test_server A G = Some self" "sv_listener self = Tcp l"
    "sv_tls_config self = None" "sv_layer self = tw_identity A" "sv_services self = []"
    "sv_base self = ''/sovd''" "sv_authenticator self = extract_bearer_role"
    "sv_authorizer self = require_admin"
  using assms that by (simp add: auth_test_server_def server_fields)

lemma version_route_calls: "route_calls GET ''/version-info'' = [(VersionDocument, [])]"
  by (simp add: route_calls_def target_segments_def path_segments_def router_defs)

lemma version_answers:
  assumes "query_laws Q"
  shows "fst (routes_router E Q enc v topo ((get_request p headers)
      \<lparr>rp_identity := i, rp_path := ''/version-info''\<rparr>, [], None) w) =
    Inr \<lparr> hr_status = 200, hr_body = snd (json_answer (response_to_json (version_info_fields enc))
      (version_info E v ((get_request p headers)\<lparr>rp_identity := i, rp_path := ''/version-info''\<rparr>)
        (Inr \<lparr> vq_include_schema = False \<rparr>))) \<rparr>"
  by (simp add: routes_router_def method_of_def version_route_calls read_version_query_def flag_of_def
      values_of_def query_laws.no_pairs [OF assms] version_info_def with_rejection_def
      json_answer_def respond_def Let_def)

text \<open>
  The laws the tests rest on: the libraries', and that binding, the address and the URIs of the
  tests are fine.
\<close>

lemma auth_tests_pass:
  fixes S :: "('tcp, 'unix, 'aio) socket_library"
  assumes "nesting_library A" and "query_laws Q"
    and "ts_bind G ''127.0.0.1:0'' = Inr l" and "ts_uri_path G ''/sovd'' = Some ''/sovd''"
    and "so_tcp_addr S l = Inr addr"
    and "\<And>v topo. ax_call A (routes v topo) = routes_router E Q enc v (state topo)"
  shows "test_auth_missing_header_is_unauthorized A G S build_tls routes w"
    and "test_auth_rejects_non_admin A G S build_tls routes w"
    and "test_auth_allows_admin A G S build_tls routes w"
proof -
  obtain self where self: "auth_test_server A G = Some self"
    "sv_listener self = (Tcp l :: ('tcp, 'unix) listener)"
    "sv_tls_config self = None" "sv_layer self = tw_identity A" "sv_services self = []"
    "sv_base self = ''/sovd''" "sv_authenticator self = extract_bearer_role"
    "sv_authorizer self = require_admin"
    using auth_test_server_built [OF assms(3,4)] .
  have path: "''/sovd/version-info'' = base_prefix (sv_base self) @ CHR ''/'' # ''version-info''"
    by (simp add: self base_prefix_def normalize_base_def)
  note responds = plain_server_responds [OF assms(1) self(2) assms(5) self(3-5) path]
  note eval = self(1) responds self(7,8) authorized_service_cases extract_bearer_role_def
  show "test_auth_missing_header_is_unauthorized A G S build_tls routes w"
    by (simp add: test_auth_missing_header_is_unauthorized_def eval assert_unauthorized_def)
  show "test_auth_rejects_non_admin A G S build_tls routes w"
    by (simp add: test_auth_rejects_non_admin_def eval require_admin_def
        auth_error_unauthorized_def assert_forbidden_def generic_error_to_json_def json_at_def Let_def)
  show "test_auth_allows_admin A G S build_tls routes w"
    by (simp add: test_auth_allows_admin_def eval require_admin_def assms(6)
        version_answers [OF assms(2)] success_status_def)
qed

lemma with_discoveries:
  "fold with_discovery ps b = b\<lparr>sb_discovery_providers := sb_discovery_providers b @ ps\<rparr>"
  by (induction ps arbitrary: b) (simp_all add: with_discovery_def)

lemma test_server_built:
  assumes "ts_bind G ''127.0.0.1:0'' = Inr l"
    and "ts_uri_path G (case tb_base b of None \<Rightarrow> ''/sovd'' | Some u \<Rightarrow> u) = Some p"
  obtains self where "test_server_build A G b = Some self" "sv_listener self = Tcp l"
    "sv_tls_config self = None" "sv_layer self = tw_identity A" "sv_services self = []"
    "sv_base self = p" "sv_authenticator self = no_auth" "sv_authorizer self = allow_all"
    "sv_topology self = (case tb_topology b of None \<Rightarrow> ts_default_topology G | Some t \<Rightarrow> t)"
    "sv_discovery_providers self = tb_discovery b"
  using assms that
  by (cases "tb_topology b") (simp_all add: test_server_build_def server_fields with_discoveries)

lemma open_service:
  "authorized_service no_auth allow_all inner (parts, b) w =
     inner (parts\<lparr>rp_identity := Some ()\<rparr>, b) w"
  by (simp add: authorized_service_cases no_auth_def allow_all_def)

text \<open>What a test server answers to a request below its base path.\<close>

lemma test_server_responds:
  fixes S :: "('tcp, 'unix, 'aio) socket_library"
  assumes "nesting_library A" and "ts_bind G ''127.0.0.1:0'' = Inr l"
    and "ts_uri_path G (case tb_base b of None \<Rightarrow> ''/sovd'' | Some u \<Rightarrow> u) = Some p"
    and "so_tcp_addr S l = Inr addr" and "path = base_prefix p @ CHR ''/'' # rest"
  shows "\<exists>self. test_server_build A G b = Some self \<and>
    sv_topology self = (case tb_topology b of None \<Rightarrow> ts_default_topology G | Some t \<Rightarrow> t) \<and>
    sv_discovery_providers self = tb_discovery b \<and>
    (\<forall>routes. responds A S build_tls routes (Some self) (get_request path headers) w holds \<longleftrightarrow>
      (case fst (ax_call A (routes (sv_vendor_info self) (sv_topology self))
          ((get_request path headers)\<lparr>rp_identity := Some (), rp_path := CHR ''/'' # rest\<rparr>, [], None) w) of
         Inl _ \<Rightarrow> False | Inr response \<Rightarrow> holds response))"
proof (rule test_server_built [where A = A, OF assms(2,3)])
  fix self
  assume self: "test_server_build A G b = Some self"
    "sv_listener self = (Tcp l :: ('tcp, 'unix) listener)"
    "sv_tls_config self = None" "sv_layer self = tw_identity A" "sv_services self = []"
    "sv_base self = p" "sv_authenticator self = no_auth" "sv_authorizer self = allow_all"
    "sv_topology self = (case tb_topology b of None \<Rightarrow> ts_default_topology G | Some t \<Rightarrow> t)"
    "sv_discovery_providers self = tb_discovery b"
  have path: "path = base_prefix (sv_base self) @ CHR ''/'' # rest" by (simp add: self assms(5))
  show ?thesis
    using self(1,9,10)
    by (auto simp: plain_server_responds [OF assms(1) self(2) assms(4) self(3-5) path] self(7,8) open_service)
qed

lemma base_path_tests_pass:
  assumes "nesting_library A" and "query_laws Q"
    and "ts_bind G ''127.0.0.1:0'' = Inr l" and "ts_uri_path G ''/'' = Some ''/''"
    and "ts_uri_path G ''/sovd'' = Some ''/sovd''" and "so_tcp_addr S l = Inr addr"
    and "\<And>v topo. ax_call A (routes v topo) = routes_router E Q enc v (state topo)"
  shows "test_base_path_slash A G S build_tls routes w"
    and "test_base_path_with_slash A G S build_tls routes w"
proof -
  note answers = assms(7) version_answers [OF assms(2)] success_status_def
  show "test_base_path_slash A G S build_tls routes w"
    using test_server_responds [OF assms(1,3) _ assms(6), where b = "no_discovery\<lparr>tb_base := Some ''/''\<rparr>"
        and p = "''/''" and path = "''/version-info''" and rest = "''version-info''" and w = w
        and headers = "[]" and build_tls = build_tls
        and holds = "\<lambda>response. success_status (hr_status response)"] assms(4)
    by (auto simp: test_base_path_slash_def base_prefix_def normalize_base_def answers)
  show "test_base_path_with_slash A G S build_tls routes w"
    using test_server_responds [OF assms(1,3) _ assms(6), where b = "no_discovery\<lparr>tb_base := Some ''/sovd''\<rparr>"
        and p = "''/sovd''" and path = "''/sovd/version-info''" and rest = "''version-info''" and w = w
        and headers = "[]" and build_tls = build_tls
        and holds = "\<lambda>response. success_status (hr_status response)"] assms(5)
    by (auto simp: test_base_path_with_slash_def base_prefix_def normalize_base_def answers)
qed

text \<open>Requests for a listing and for an entity, at the routes' own router.\<close>

lemma entity_route_calls:
  "route_calls GET ''/v1/components'' = [(ComponentList, [])]"
  "route_calls GET ''/v1/apps'' = [(AppList, [])]" "route_calls GET ''/v1/areas'' = [(AreaList, [])]"
  "route_calls GET ''/v1/components/ECU'' = [(ComponentCapabilities, [''ECU''])]"
  "route_calls GET ''/v1/components/discovered-ecu'' = [(ComponentCapabilities, [''discovered-ecu''])]"
  by (simp_all add: route_calls_def target_segments_def path_segments_def router_defs)

lemma component_answers:
  assumes "query_laws Q" and "topology_containers (env_containers E)"
    and "map_of (component_entries (env_containers E) topo) i = Some c"
    and "route_calls GET path = [(ComponentCapabilities, [i])]"
  shows "\<exists>rest. fst (routes_router E Q enc v topo ((get_request p headers)
      \<lparr>rp_identity := x, rp_path := path\<rparr>, [], None) w) =
    (Inr \<lparr> hr_status = 200, hr_body = Some (JObject
      ((''id'', JString i) # (''name'', JString (component_name c)) # rest)) \<rparr> ::
       ('e, http_response) result)"
  by (simp add: routes_router_def method_of_def assms(4) capabilities_answer_def
      read_capabilities_query_def flag_of_def values_of_def query_laws.no_pairs [OF assms(1)]
      with_rejection_def component_capabilities_def topology_containers.get_component_entries [OF assms(2)] assms(3)
      ok_or_def json_answer_def respond_def response_to_json_def capabilities_fields_def
      capabilities_response_of_def entity_capabilities_default_def Let_def)

lemma listing_tests_pass:
  fixes A :: "('r, 'l, 'w, 'e, unit, string \<times> json option) routing_library"
    and S :: "('tcp, 'unix, 'aio) socket_library"
  assumes "nesting_library A" and "query_laws Q" and "topology_containers (env_containers E)"
    and "ordered_map M" and "ts_bind G ''127.0.0.1:0'' = Inr l"
    and "ts_uri_path G ''/sovd'' = Some ''/sovd''" and "so_tcp_addr S l = Inr addr"
    and "\<And>v topo. ax_call A (routes v topo) = routes_router E Q enc v topo"
  shows "test_list_components A G (env_containers E) M schemas S build_tls routes w"
    and "test_list_apps A G (env_containers E) M schemas S build_tls routes w"
    and "test_list_areas A G (env_containers E) M schemas S build_tls routes w"
proof -
  obtain pe pg pc pd po where created: "create_mock_topology (env_containers E) M schemas =
      Some (mock_state (env_containers E) pe pg pc pd po)"
    using mock_topology_built [OF assms(4)] by metis
  let ?topo = "mock_state (env_containers E) pe pg pc pd po"
  note entries = topology_containers.mock_entries [OF assms(3), of pe pg pc pd po]
    topology_containers.listings_entries [OF assms(3)]
  have listed: "lists_mock_items A G (env_containers E) M schemas S build_tls routes path n w"
    if path: "path = ''/sovd/'' @ rest" and answer: "\<And>v (parts :: unit request_parts). rp_method parts = ''GET'' \<Longrightarrow>
      case fst (routes_router E Q enc v ?topo (parts\<lparr>rp_path := CHR ''/'' # rest\<rparr>, [], None) w) of
        Inl (e :: 'e) \<Rightarrow> False
      | Inr response \<Rightarrow> response_json response (\<lambda>j. length (json_elements (json_at j ''items'')) = n)"
    for path rest n
  proof -
    let ?holds = "\<lambda>response. response_json response
      (\<lambda>j. length (json_elements (json_at j ''items'')) = n)"
    obtain self where self: "test_server_build A G (no_discovery\<lparr>tb_topology := Some ?topo\<rparr>) = Some self"
      "sv_topology self = ?topo"
      and responds: "\<And>routes. responds A S build_tls routes (Some self) (get_request path []) w ?holds \<longleftrightarrow>
        (case fst (ax_call A (routes (sv_vendor_info self) (sv_topology self))
            ((get_request path [])\<lparr>rp_identity := Some (), rp_path := CHR ''/'' # rest\<rparr>, [], None) w) of
           Inl _ \<Rightarrow> False | Inr response \<Rightarrow> ?holds response)"
      using test_server_responds [OF assms(1,5) _ assms(7), where p = "''/sovd''" and path = path and
          rest = rest and b = "no_discovery\<lparr>tb_topology := Some ?topo\<rparr>" and w = w and headers = "[]"
          and build_tls = build_tls and holds = ?holds] path assms(6)
      by (auto simp: test_server_builder_default_def base_prefix_def normalize_base_def)
    show ?thesis
      using answer [of "(get_request path [])\<lparr>rp_identity := Some ()\<rparr>" "sv_vendor_info self"]
      by (simp add: lists_mock_items_def created self responds assms(8))
  qed
  note eval = routes_router_def method_of_def entity_route_calls response_json_def mock_eval entries
    query_laws.no_pairs [OF assms(2)] Let_def
  show "test_list_components A G (env_containers E) M schemas S build_tls routes w"
    unfolding test_list_components_def
    by (rule listed [of _ "''v1/components''"]) (simp_all add: component_list_def eval)
  show "test_list_apps A G (env_containers E) M schemas S build_tls routes w"
    unfolding test_list_apps_def
    by (rule listed [of _ "''v1/apps''"]) (simp_all add: app_list_def eval)
  show "test_list_areas A G (env_containers E) M schemas S build_tls routes w"
    unfolding test_list_areas_def
    by (rule listed [of _ "''v1/areas''"]) (simp_all add: area_list_def eval)
qed

text \<open>A component the topology has is answered with its id and name.\<close>

lemma component_test_responds:
  fixes A :: "('r, 'l, 'w, 'e, unit, string \<times> json option) routing_library"
    and S :: "('tcp, 'unix, 'aio) socket_library"
  assumes "nesting_library A" and "query_laws Q" and "topology_containers (env_containers E)"
    and "ts_bind G ''127.0.0.1:0'' = Inr l" and "tb_base b = None"
    and "ts_uri_path G ''/sovd'' = Some ''/sovd''" and "so_tcp_addr S l = Inr addr"
    and "\<And>v topo. ax_call A (routes v topo) = routes_router E Q enc v (state topo)"
    and "path = ''/sovd/'' @ rest" and "route_calls GET (CHR ''/'' # rest) = [(ComponentCapabilities, [i])]"
    and "map_of (component_entries (env_containers E) (state (case tb_topology b of
      None \<Rightarrow> ts_default_topology G | Some t \<Rightarrow> t))) i = Some c"
    and "component_name c = name"
  shows "responds A S build_tls routes (test_server_build A G b) (get_request path []) w
    (\<lambda>response. response_json response (\<lambda>json. json_at json ''id'' = JString i \<and>
       json_at json ''name'' = JString name))"
proof -
  let ?holds = "\<lambda>response. response_json response (\<lambda>json. json_at json ''id'' = JString i \<and>
     json_at json ''name'' = JString name)"
  obtain self where self: "test_server_build A G b = Some self"
    "sv_topology self = (case tb_topology b of None \<Rightarrow> ts_default_topology G | Some t \<Rightarrow> t)"
    and responds: "responds A S build_tls routes (Some self) (get_request path []) w ?holds \<longleftrightarrow>
      (case fst (ax_call A (routes (sv_vendor_info self) (sv_topology self))
          ((get_request path [])\<lparr>rp_identity := Some (), rp_path := CHR ''/'' # rest\<rparr>, [], None) w) of
         Inl _ \<Rightarrow> False | Inr response \<Rightarrow> ?holds response)"
    using test_server_responds [OF assms(1,4) _ assms(7), where p = "''/sovd''" and path = path and
        rest = rest and b = b and w = w and headers = "[]" and build_tls = build_tls and
        holds = ?holds] assms(5,6,9)
    by (auto simp: base_prefix_def normalize_base_def)
  show ?thesis
    using component_answers [OF assms(2,3) assms(11) assms(10), where 'e = 'e and enc = enc and
        v = "sv_vendor_info self" and p = path and headers = "[]" and x = "Some ()" and w = w]
    unfolding self(1) responds
    by (auto simp: self(2) assms(8,12) response_json_def success_status_def json_at_entries)
qed

context topology_containers
begin

lemma added_component_entry:
  "component_entries L (wg_state (run_ops L [AddComponent c] (topology_write (topology_state_new L)))) =
     [(component_id c, c)]"
  by (simp add: guard_defs topology_write_def Let_def)

end

lemma topology_lookup_test_passes:
  fixes A :: "('r, 'l, 'w, 'e, unit, string \<times> json option) routing_library"
  assumes "nesting_library A" and "query_laws Q" and "topology_containers (env_containers E)"
    and "ts_bind G ''127.0.0.1:0'' = Inr l" and "ts_uri_path G ''/sovd'' = Some ''/sovd''"
    and "so_tcp_addr S l = Inr addr"
    and "\<And>v topo. ax_call A (routes v topo) = routes_router E Q enc v topo"
  shows "test_topology_component_lookup A G (env_containers E) S build_tls routes w"
proof -
  let ?topo = "wg_state (run_ops (env_containers E) [AddComponent (component_new ''ECU''
    ''Engine Control Unit'')] (topology_write (topology_state_new (env_containers E))))"
  have "map_of (component_entries (env_containers E) ?topo) ''ECU'' =
      Some (component_new ''ECU'' ''Engine Control Unit'')"
    unfolding topology_containers.added_component_entry [OF assms(3)]
    by (simp add: component_builder_defs)
  then show ?thesis
    using component_test_responds [OF assms(1-4) _ assms(5,6), where b = "no_discovery\<lparr>tb_topology :=
        Some ?topo\<rparr>" and path = "''/sovd/v1/components/ECU''" and rest = "''v1/components/ECU''" and
        i = "''ECU''" and enc = enc and
        c = "component_new ''ECU'' ''Engine Control Unit''" and state = "\<lambda>topo. topo" and
        name = "''Engine Control Unit''" and routes = routes and build_tls = build_tls and w = w]
    by (simp add: test_topology_component_lookup_def test_server_builder_default_def assms(7)
        entity_route_calls component_builder_defs)
qed

lemma discovery_test_passes:
  fixes A :: "('r, 'l, 'w, 'e, unit, string \<times> json option) routing_library"
    and S :: "('tcp, 'unix, 'aio) socket_library" and E :: "('mc, 'ma, 'mr, 's, 'w, 'set) route_env"
  assumes "nesting_library A" and "query_laws Q" and "topology_containers (env_containers E)"
    and "ts_bind G ''127.0.0.1:0'' = Inr l" and "ts_uri_path G ''/sovd'' = Some ''/sovd''"
    and "so_tcp_addr S l = Inr addr"
    and "\<And>v topo. ax_call A (routes v topo) = routes_router E Q enc v topo"
    and "ti_state (ts_default_topology G) = topology_state_new (env_containers E)"
    and "\<And>stream. merged [stream] = stream" and "0 < n"
  shows "test_discovery_adds_component A G (env_containers E) sync merged n S build_tls routes w"
proof -
  let ?provider = "\<lparr> mdp_component = component_new ''discovered-ecu'' ''Discovered ECU'' \<rparr> ::
    'w mock_discovery_provider"
  let ?b = "test_server_builder_default\<lparr>tb_discovery := [?provider]\<rparr>"
  let ?state = "\<lambda>topo. ti_state (run_discovery (env_containers E) sync mock_discover [?provider]
    merged n topo)"
  obtain self where self: "test_server_build A G ?b = Some self"
    "sv_discovery_providers self = [?provider]"
    "sv_listener self = (Tcp l :: ('tcp, 'unix) listener)"
    by (rule test_server_built [where A = A and G = G and b = ?b, OF assms(4)])
      (simp_all add: test_server_builder_default_def assms(5))
  obtain m where "n = Suc m" using assms(10) by (cases n) simp_all
  then have "?state (ts_default_topology G) = wg_state (run_ops (env_containers E)
      [AddComponent (component_new ''discovered-ecu'' ''Discovered ECU'')]
      (topology_write (topology_state_new (env_containers E))))"
    by (simp add: run_discovery_def started_streams_def mock_discover_def List.map_filter_def
        assms(8,9) process_event_def diff_ops_def component_builder_defs Let_def)
  then have "map_of (component_entries (env_containers E) (?state (ts_default_topology G)))
      ''discovered-ecu'' = Some (component_new ''discovered-ecu'' ''Discovered ECU'')"
    by (simp only: topology_containers.added_component_entry [OF assms(3)])
      (simp add: component_builder_defs)
  then have "responds A S build_tls (\<lambda>v topo. routes v (?state topo)) (test_server_build A G ?b)
      (get_request ''/sovd/v1/components/discovered-ecu'' []) w
      (\<lambda>response. response_json response (\<lambda>json. json_at json ''id'' = JString ''discovered-ecu'' \<and>
         json_at json ''name'' = JString ''Discovered ECU''))"
    by - (rule component_test_responds [OF assms(1-4) _ assms(5,6), where enc = enc and state = ?state
          and rest = "''v1/components/discovered-ecu''" and
          c = "component_new ''discovered-ecu'' ''Discovered ECU''"],
      simp_all add: test_server_builder_default_def assms(7) entity_route_calls
        component_builder_defs)
  then show ?thesis
    unfolding test_discovery_adds_component_def Let_def self(1)
    by (simp add: self(2) component_builder_defs)
qed

end
