(* ===== verification/Spec2Isabelle.thy ===== *)
theory Spec2Isabelle
  imports Topology_Properties Provider_Properties Route_Properties Auth_Properties
    Server_Properties Client_Properties Gateway_Properties
    Running_Properties Remote_Properties Service_Properties Mcp_Properties Unit Mocks Logging
    Client_Example Example_Servers Programs Gateway_System
    Topology_Tests Provider_Tests Auth_Tests Model_Tests Route_Tests Mcp_Tests
    Client_Tests Server_Tests
begin

text \<open>
  OpenSOVD is a diagnostics stack for vehicles: a library that holds the topology of a vehicle
  (components, apps on components, areas), a server that exposes it with the data of its entities
  as a REST interface, authentication and authorization in front of it, a client, a gateway
  binary and an MCP server over the client.  This development models the Rust sources under
  src/ as functions and step relations, component by component, and proves what makes each
  component, and their composition, correct.  A Rust string is its list of bytes, a Result a sum
  with the error on the left, an asynchronous method the result it completes with, and a mutable
  world the calls may observe and change is threaded explicitly.  All definitions of the program
  are at the top level; locales state the interfaces to code that is not in the repository and
  the contracts between components, and each is interpreted.

  Theories and sources.

  Data model.  Prelude: results, collecting iterators, the seen-filter, decimal text.  Models
  (opensovd-models/src): the wire structs and enums, errors.  Wire: how they are serialized and
  read back, field by field, with round trips.  Data_Core (opensovd-core/src/data.rs): the
  DataProvider trait as a record of actions, its default methods.  Entities
  (opensovd-core/src/entity): references, components, apps, areas and their builders.  Unit
  (opensovd-extra/src/unit.rs): physical dimensions with 8-bit signed exponents and units with
  floating-point factors.

  Topology (opensovd-core/src/topology.rs).  Index_Containers: the insertion-ordered containers
  as parameters (locales ordered_map, ordered_set) and the secondary indexes built on them.
  Topology: TopologyState with its mutations and queries, the structural invariant topology_wf
  and the exactness of the indexes topology_exact.  Topology_Sessions: the write guard, its
  pending events, and the shared topology behind the lock and the broadcast channel as the step
  relation topology_step (locales topology_sync, shared_topology_laws).  Topology_Properties:
  subscribers can follow the topology by its events, relationship queries agree with scanning,
  guards are isolated and released, listings agree with lookups, calls change one entry; two
  lemmas show where the indexes go stale.

  Providers (opensovd-providers/src/data): resources, adapters, constants, the builder and the
  provider it builds, as an instance of the trait's contract (locale catalogue_provider).
  Provider_Properties: duplicates are rejected, access by id, filters, catalogues, read and
  write flags.  Mocks (opensovd-mocks/src/lib.rs): the topology the gateway serves with --mock,
  built from all of these.

  Server.  Http (opensovd-server/src/routes/mod.rs, routes/error.rs, schema.rs): URIs, percent
  encoding (locale percent_encoder), route errors and their responses.  Entity_Routes and
  Data_Routes (routes/entities, routes/version.rs, routes/data.rs): every handler and the route
  table.  Service: from a request target to its handler, its query and body, and the serialized
  answer (locale query_laws for the deserializer of query strings).  Route_Properties and
  Service_Properties: listed references resolve, errors hide internals, the route table is
  unambiguous, all 23 endpoints answer with their wire types.  Auth (opensovd-server/src/auth.rs)
  and Jwt_Rego (opensovd-extra/src/auth): the middleware and its token and policy backends
  (locale jwt_library).  Server (opensovd-server/src/server.rs, opensovd-core/src/discovery.rs):
  builder, layers, discovery task, serve (locale routing_library).  Tls
  (opensovd-server/src/tls.rs): configuration, and the listener with its bounded handshakes as
  the step relation tls_step (locale handshake_primitives_laws).  Auth_Properties,
  Server_Properties: no request reaches a route unauthenticated or unauthorized, only verified
  tokens are accepted, policies fail closed, requests pass all layers, discovery diffs are
  applied whole.

  Clients and binaries.  Client (opensovd-client/src): builder, requests, entity handles, unix
  connector.  Client_Properties: requests reach the handlers meant, outcomes.  Remote: the
  client connected to the service (locale client_link: the connection carries URIs and JSON
  faithfully), so that a remote call is the handler's call.  Gateway
  (opensovd-cli/gateway/src): arguments, CORS (locale cors_laws), choice of authentication,
  listener and topology.  Gateway_Properties: with a token secret everything is protected.
  Gateway_System: the routes as one service below the base path (locale nesting_library extends
  routing_library), so that a gateway is followed from its command line to the body of an
  answer.  Mcp (opensovd-cli/mcp/src/main.rs): tools, prompt and the topology resource, whose
  three concurrent requests are the step relation read_step.  Mcp_Properties: reading ends, and
  shows the topology whatever the interleaving.  Logging (opensovd-cli/lib/src): log lines and the
  fields of request spans, with the latency saturated at 64 bits.  Programs
  (opensovd-cli/lib/src/lib.rs, the main functions, opensovd-server/src/connect_info.rs, body.rs):
  tracing set-up, shutdown signals, exit codes, connection information, the opaque body.

  Running server (opensovd-core/src/topology.rs and opensovd-server/src/server.rs together).
  Running: request handlers, which read the topology under a read lock and may be suspended in
  a provider, and the discovery task, which writes it, as the interleaved steps
  server_step over a fair, first-in first-out lock (locales fair_lock_laws, server_lock).
  Running_Properties: every run refines a serial execution of the calls, every call is answered
  within a bounded number of steps while providers answer, a provider that does not answer holds
  up everything behind it, and subscribers stay in step.

  Examples (examples).  Text: the operations of std on lines and words.  Linux_Example: the
  component that reports the host, with the parser of os-release and its round trip; the
  arithmetic of f64 is a parameter (locale float_laws).  Client_Example: the printing client,
  connected to the service.  Example_Servers: the simple, mTLS, systemd and auth servers; the
  auth server accepts the token it prints (locale token_encoder).

  Unit tests.  Topology_Tests, Provider_Tests, Auth_Tests, Model_Tests, Route_Tests, Mcp_Tests
  translate the #[test] functions of the source files into boolean definitions over the model,
  each with a lemma that it holds, not for one implementation of the parameters but for all that
  meet the laws: the tests check the model against the expectations of the code's authors, and
  the laws against what the authors rely on.  Assertions holds what their assertions use.

  Integration tests.  Client_Tests: those of the client, over a connector that expects a request
  (locale mock_library) or a unix peer.  Server_Tests: those of the server, which build, serve
  and query it with and without authentication and with discovery.

  Parameters.  Code that is not in the repository is an argument: ordered containers, lock and
  channel, URI parsing and HTTP transport, JSON text and float text, percent encoding, routing
  and CORS layers, JWT verification and encoding, the policy engine, TLS primitives, the host
  library of the Linux example and its floating-point arithmetic.  What is relied on of
  them is stated in the locales named above, each interpreted on a concrete instance.  JSON
  values themselves are a datatype; a number is its text.

  Bounds.  No definition of the program needs fuel: all recursion is structural or by functions
  that terminate; collecting a body in a unit test counts its frames.
  Machine integers are words where the code's width matters (exponents, latencies, status codes
  in spans, expiry times); statuses of responses elsewhere are naturals below 600.  The TLS
  listener's bound on pending handshakes and the channel capacity of topology events are the
  code's constants.

  Not modelled: the parsing of command lines by clap (its results are the argument records),
  build scripts, the Debug texts of entities, JSON schema generation (a parameter where handlers
  answer schemas), the positional form in which serde also reads structs, the list of prompts
  that a macro generates, benchmarks, and what the integration tests check of real sockets.

  Limits.  A connection carries URIs and JSON faithfully instead of byte by byte, which is the
  documented behaviour of the libraries that do it.
\<close>

end
